(* ===== verification/JsPrelude.thy ===== *)
theory JsPrelude
  imports Main "HOL-Library.AList" "HOL-Library.Sublist"
begin

text \<open>
  The fragment of JavaScript that the ziraloop TypeScript sources use, shared by every
  component theory: JavaScript values with their truthiness, nullish coalescing and
  strict equality; strings with \<open>split\<close>, \<open>join\<close>, \<open>trim\<close>, \<open>startsWith\<close>; insertion-ordered
  dictionaries (\<open>Map\<close>, \<open>Record\<close>, \<open>FormData\<close>) and sets (\<open>Set\<close>); stable sorting by a
  numeric key. Two locales state the contracts the components rely on: a keyed store
  (what a lookup returns after an insert or a delete) and an invariant-preserving machine
  (what a reducer driven by a list of events keeps).

  Representation. A \<open>string\<close> is a list of 8-bit characters and stands for the UTF-8
  bytes of the JavaScript string, so concatenation, equality, splitting on an ASCII
  character and prefix tests are those of the source for all of Unicode. \<open>trim\<close>
  removes the ASCII white space only. Numbers are integers: every number field of
  the wire formats modelled here (sequence numbers, token counts, milliseconds, exit
  codes) is one. An \<open>undefined\<close> property and a missing one are the same value.
\<close>

named_theorems js_simps \<open>evaluation of the JavaScript operators\<close>
named_theorems dict_simps \<open>lookups in updated dictionaries and sets\<close>

section \<open>Values\<close>

datatype js =
    JUndefined
  | JNull
  | JBool bool
  | JNum int
  | JStr string
  | JArr "js list"
  | JObj "(string \<times> js) list"

fun truthy :: "js \<Rightarrow> bool" where
  "truthy JUndefined = False"
| "truthy JNull = False"
| "truthy (JBool b) = b"
| "truthy (JNum n) = (n \<noteq> 0)"
| "truthy (JStr s) = (s \<noteq> [])"
| "truthy (JArr _) = True"
| "truthy (JObj _) = True"

fun nullish :: "js \<Rightarrow> bool" where
  "nullish JUndefined = True"
| "nullish JNull = True"
| "nullish _ = False"

text \<open>\<open>a ?? b\<close> and \<open>a || b\<close>.\<close>

definition coalesce :: "js \<Rightarrow> js \<Rightarrow> js" where
  "coalesce a b = (if nullish a then b else a)"

definition js_or :: "js \<Rightarrow> js \<Rightarrow> js" where
  "js_or a b = (if truthy a then a else b)"

text \<open>
  Own property access. On an array or a primitive the names the sources read are not
  properties, so the result is \<open>undefined\<close>. On a nullish value JavaScript raises a
  TypeError; \<open>js_member\<close> shows that case, \<open>js_get\<close> is for places the code guards.
\<close>

fun js_get :: "js \<Rightarrow> string \<Rightarrow> js" where
  "js_get (JObj kvs) k = (case map_of kvs k of None \<Rightarrow> JUndefined | Some v \<Rightarrow> v)"
| "js_get _ k = JUndefined"

definition js_member :: "js \<Rightarrow> string \<Rightarrow> js option" where
  "js_member v k = (if nullish v then None else Some (js_get v k))"

definition js_has :: "js \<Rightarrow> string \<Rightarrow> bool" where
  "js_has v k = (case v of JObj kvs \<Rightarrow> k \<in> fst ` set kvs | _ \<Rightarrow> False)"

text \<open>
  Strict equality of values reached through different objects: two arrays or objects are
  equal only when they are the same reference, which values parsed from different
  pieces of text never are.
\<close>

fun strict_eq :: "js \<Rightarrow> js \<Rightarrow> bool" where
  "strict_eq JUndefined JUndefined = True"
| "strict_eq JNull JNull = True"
| "strict_eq (JBool a) (JBool b) = (a = b)"
| "strict_eq (JNum a) (JNum b) = (a = b)"
| "strict_eq (JStr a) (JStr b) = (a = b)"
| "strict_eq _ _ = False"

text \<open>\<open>typeof v === "object"\<close> holds of \<open>null\<close>, arrays and objects.\<close>

fun is_object :: "js \<Rightarrow> bool" where
  "is_object JNull = True"
| "is_object (JArr _) = True"
| "is_object (JObj _) = True"
| "is_object _ = False"

fun as_str :: "js \<Rightarrow> string option" where
  "as_str (JStr s) = Some s"
| "as_str _ = None"

fun as_num :: "js \<Rightarrow> int option" where
  "as_num (JNum n) = Some n"
| "as_num _ = None"

lemma coalesce_simps [js_simps, simp]:
  "coalesce JUndefined b = b" "coalesce JNull b = b"
  "coalesce (JStr s) b = JStr s" "coalesce (JNum n) b = JNum n"
  "coalesce (JBool c) b = JBool c" "coalesce (JObj m) b = JObj m" "coalesce (JArr a) b = JArr a"
  by (simp_all add: coalesce_def)

lemma js_or_truthy [js_simps]: "truthy a \<Longrightarrow> js_or a b = a"
  by (simp add: js_or_def)

lemma js_or_falsy [js_simps]: "\<not> truthy a \<Longrightarrow> js_or a b = b"
  by (simp add: js_or_def)

lemma truthy_not_nullish: "truthy v \<Longrightarrow> \<not> nullish v"
  by (cases v) auto

lemma strict_eq_sym: "strict_eq a b = strict_eq b a"
  by (cases a; cases b) auto

lemma strict_eq_imp_eq: "strict_eq a b \<Longrightarrow> a = b"
  by (cases a; cases b) auto

lemma strict_eq_JStr [simp]: "strict_eq (JStr s) v \<longleftrightarrow> v = JStr s"
  by (cases v) auto

lemma strict_eq_JStr2 [simp]: "strict_eq v (JStr s) \<longleftrightarrow> v = JStr s"
  by (cases v) auto

lemma as_str_Some [simp]: "as_str v = Some s \<longleftrightarrow> v = JStr s"
  by (cases v) auto

section \<open>Strings\<close>

definition starts_with :: "string \<Rightarrow> string \<Rightarrow> bool" where
  "starts_with p s = (take (length p) s = p)"

definition ends_with :: "string \<Rightarrow> string \<Rightarrow> bool" where
  "ends_with p s = starts_with (rev p) (rev s)"

fun js_split :: "char \<Rightarrow> string \<Rightarrow> string list" where
  "js_split c [] = [[]]"
| "js_split c (x # xs) =
     (if x = c then [] # js_split c xs
      else (case js_split c xs of [] \<Rightarrow> [[x]] | p # ps \<Rightarrow> (x # p) # ps))"

fun js_join :: "string \<Rightarrow> string list \<Rightarrow> string" where
  "js_join sep [] = []"
| "js_join sep [p] = p"
| "js_join sep (p # q # ps) = p @ sep @ js_join sep (q # ps)"

definition is_space :: "char \<Rightarrow> bool" where
  "is_space c = (c \<in> {CHR 0x09, CHR 0x0A, CHR 0x0B, CHR 0x0C, CHR 0x0D, CHR '' ''})"

definition trim_start :: "string \<Rightarrow> string" where
  "trim_start s = dropWhile is_space s"

definition trim_end :: "string \<Rightarrow> string" where
  "trim_end s = rev (dropWhile is_space (rev s))"

definition js_trim :: "string \<Rightarrow> string" where
  "js_trim s = trim_end (trim_start s)"

text \<open>\<open>s.includes(q)\<close>, \<open>s.indexOf(c)\<close> \<open>s.toLowerCase()\<close> and \<open>s.toUpperCase()\<close> (ASCII letters).\<close>

fun js_includes :: "string \<Rightarrow> string \<Rightarrow> bool" where
  "js_includes q [] = (q = [])"
| "js_includes q (x # xs) = (starts_with q (x # xs) \<or> js_includes q xs)"

fun index_of :: "'a \<Rightarrow> 'a list \<Rightarrow> int" where
  "index_of a [] = -1"
| "index_of a (x # xs) =
     (if x = a then 0 else (let i = index_of a xs in if i < 0 then -1 else i + 1))"

definition lower_char :: "char \<Rightarrow> char" where
  "lower_char c =
     (let n = of_char c :: nat in if 65 \<le> n \<and> n \<le> 90 then char_of (n + 32) else c)"

definition to_lower :: "string \<Rightarrow> string" where
  "to_lower s = map lower_char s"

definition upper_char :: "char \<Rightarrow> char" where
  "upper_char c = (let n = of_char c :: nat in if 97 \<le> n \<and> n \<le> 122 then char_of (n - 32) else c)"

definition to_upper :: "string \<Rightarrow> string" where
  "to_upper s = map upper_char s"

text \<open>Decimal notation of integers, as \<open>String(n)\<close> and template literals print them.\<close>

fun nat_digits :: "nat \<Rightarrow> string" where
  "nat_digits n =
     (if n < 10 then [char_of (48 + n)] else nat_digits (n div 10) @ [char_of (48 + n mod 10)])"

declare nat_digits.simps [simp del]

definition int_str :: "int \<Rightarrow> string" where
  "int_str n = (if n < 0 then CHR ''-'' # nat_digits (nat (- n)) else nat_digits (nat n))"

text \<open>\<open>String(v)\<close>.\<close>

fun js_string :: "js \<Rightarrow> string" where
  "js_string JUndefined = ''undefined''"
| "js_string JNull = ''null''"
| "js_string (JBool b) = (if b then ''true'' else ''false'')"
| "js_string (JNum n) = int_str n"
| "js_string (JStr s) = s"
| "js_string (JArr vs) = js_join '','' (map (\<lambda>v. if nullish v then [] else js_string v) vs)"
| "js_string (JObj _) = ''[object Object]''"

lemma digit_chars [js_simps]:
  "char_of (48::nat) = CHR ''0''"
  "char_of (49::nat) = CHR ''1''"
  "char_of (50::nat) = CHR ''2''"
  "char_of (51::nat) = CHR ''3''"
  "char_of (52::nat) = CHR ''4''"
  "char_of (53::nat) = CHR ''5''"
  "char_of (54::nat) = CHR ''6''"
  "char_of (55::nat) = CHR ''7''"
  "char_of (56::nat) = CHR ''8''"
  "char_of (57::nat) = CHR ''9''"
  by (simp_all add: char_of_def bit_0)

lemma js_split_nonempty [simp]: "js_split c s \<noteq> []"
  by (induction s) (auto split: list.splits)

lemma js_split_no_sep: "c \<notin> set s \<Longrightarrow> js_split c s = [s]"
  by (induction s) auto

lemma js_split_append:
  "c \<notin> set p \<Longrightarrow> js_split c (p @ c # s) = p # js_split c s"
  by (induction p) auto

lemma js_join_Cons: "ps \<noteq> [] \<Longrightarrow> js_join sep (p # ps) = p @ sep @ js_join sep ps"
  by (cases ps) auto

lemma join_split: "js_join [c] (js_split c s) = s"
proof (induction s)
  case Nil
  then show ?case by simp
next
  case (Cons x xs)
  show ?case
  proof (cases "x = c")
    case True
    then show ?thesis using Cons by (simp add: js_join_Cons)
  next
    case False
    obtain p ps where eq: "js_split c xs = p # ps"
      by (cases "js_split c xs") auto
    show ?thesis
      using Cons False eq by (cases ps) auto
  qed
qed

lemma split_parts_no_sep: "p \<in> set (js_split c s) \<Longrightarrow> c \<notin> set p"
  by (induction s arbitrary: p) (auto split: if_splits list.splits)

lemma split_join:
  "ps \<noteq> [] \<Longrightarrow> (\<And>p. p \<in> set ps \<Longrightarrow> c \<notin> set p) \<Longrightarrow> js_split c (js_join [c] ps) = ps"
proof (induction ps rule: induct_list012)
  case (2 p)
  then show ?case by (simp add: js_split_no_sep)
next
  case (3 p q ps)
  then show ?case by (simp add: js_split_append)
qed simp

lemma dropWhile_idem [simp]: "dropWhile P (dropWhile P xs) = dropWhile P xs"
  by (induction xs) auto

lemma trim_start_idem [simp]: "trim_start (trim_start s) = trim_start s"
  by (simp add: trim_start_def)

lemma trim_end_idem [simp]: "trim_end (trim_end s) = trim_end s"
  by (simp add: trim_end_def)

lemma trim_start_id: "(s = [] \<or> \<not> is_space (hd s)) \<Longrightarrow> trim_start s = s"
  by (cases s) (auto simp: trim_start_def)

lemma trim_end_id: "(s = [] \<or> \<not> is_space (last s)) \<Longrightarrow> trim_end s = s"
  by (cases s rule: rev_cases) (auto simp: trim_end_def)

lemma trim_end_prefix: "\<exists>w. s = trim_end s @ w"
proof -
  have "rev s = takeWhile is_space (rev s) @ dropWhile is_space (rev s)" by simp
  then have "s = rev (dropWhile is_space (rev s)) @ rev (takeWhile is_space (rev s))"
    by (metis rev_append rev_rev_ident)
  then show ?thesis by (auto simp: trim_end_def)
qed

lemma hd_trim_start: "trim_start s \<noteq> [] \<Longrightarrow> \<not> is_space (hd (trim_start s))"
  unfolding trim_start_def by (rule hd_dropWhile)

lemma js_trim_start_id: "trim_start (js_trim s) = js_trim s"
proof (cases "js_trim s")
  case Nil
  then show ?thesis by (simp add: trim_start_def)
next
  case (Cons c cs)
  obtain w where w: "trim_start s = js_trim s @ w"
    using trim_end_prefix by (auto simp: js_trim_def)
  then have "hd (js_trim s) = hd (trim_start s)" "trim_start s \<noteq> []"
    using Cons by simp_all
  then show ?thesis
    using hd_trim_start by (intro trim_start_id) auto
qed

lemma js_trim_idem [simp]: "js_trim (js_trim s) = js_trim s"
  using js_trim_start_id [of s] by (simp add: js_trim_def)

lemma set_js_trim: "set (js_trim s) \<subseteq> set s"
  by (auto simp: js_trim_def trim_end_def trim_start_def dest!: set_dropWhileD)

lemma starts_with_append [simp]: "starts_with p (p @ s)"
  by (simp add: starts_with_def)

lemma starts_with_prefix: "starts_with p s = prefix p s"
  by (metis starts_with_def append_eq_conv_conj append_take_drop_id prefix_def)

section \<open>Insertion-ordered dictionaries and sets\<close>

text \<open>
  \<open>Map\<close> and plain objects used as dictionaries: \<open>set\<close> on an existing key keeps its
  place, on a new key appends; \<open>delete\<close> removes. (Plain objects put keys that are
  canonical array indices first; the keys here are UUIDs, slugs and tool names.)
\<close>

type_synonym ('k, 'v) dict = "('k \<times> 'v) list"

abbreviation dict_get :: "('k, 'v) dict \<Rightarrow> 'k \<Rightarrow> 'v option" where
  "dict_get \<equiv> map_of"

abbreviation dict_set :: "'k \<Rightarrow> 'v \<Rightarrow> ('k, 'v) dict \<Rightarrow> ('k, 'v) dict" where
  "dict_set \<equiv> AList.update"

abbreviation dict_delete :: "'k \<Rightarrow> ('k, 'v) dict \<Rightarrow> ('k, 'v) dict" where
  "dict_delete \<equiv> AList.delete"

definition dict_keys :: "('k, 'v) dict \<Rightarrow> 'k list" where
  "dict_keys m = map fst m"

definition dict_ok :: "('k, 'v) dict \<Rightarrow> bool" where
  "dict_ok m = distinct (map fst m)"

definition dict_has :: "('k, 'v) dict \<Rightarrow> 'k \<Rightarrow> bool" where
  "dict_has m k = (map_of m k \<noteq> None)"

fun dict_of :: "('k \<times> 'v) list \<Rightarrow> ('k, 'v) dict \<Rightarrow> ('k, 'v) dict" where
  "dict_of [] m = m"
| "dict_of ((k, v) # kvs) m = dict_of kvs (dict_set k v m)"

text \<open>\<open>Set\<close>: the list of its elements in insertion order.\<close>

type_synonym 'a jsset = "'a list"

definition set_add :: "'a \<Rightarrow> 'a jsset \<Rightarrow> 'a jsset" where
  "set_add x s = (if x \<in> set s then s else s @ [x])"

definition set_remove :: "'a \<Rightarrow> 'a jsset \<Rightarrow> 'a jsset" where
  "set_remove x s = removeAll x s"

fun set_of :: "'a list \<Rightarrow> 'a jsset \<Rightarrow> 'a jsset" where
  "set_of [] s = s"
| "set_of (x # xs) s = set_of xs (set_add x s)"

lemma dict_get_set [dict_simps]: "dict_get (dict_set k v m) = (dict_get m)(k \<mapsto> v)"
  by (rule update_conv')

lemma dict_get_delete [dict_simps]: "dict_get (dict_delete k m) = (dict_get m)(k := None)"
  by (rule delete_conv')

lemma dict_ok_Nil [simp]: "dict_ok []"
  by (simp add: dict_ok_def)

lemma dict_ok_set: "dict_ok m \<Longrightarrow> dict_ok (dict_set k v m)"
  by (simp add: dict_ok_def distinct_update)

lemma dict_ok_delete: "dict_ok m \<Longrightarrow> dict_ok (dict_delete k m)"
  by (simp add: dict_ok_def distinct_delete)

lemma dict_has_iff: "dict_has m k \<longleftrightarrow> k \<in> fst ` set m"
  by (auto simp: dict_has_def map_of_eq_None_iff)

lemma set_dict_keys: "set (dict_keys m) = {k. dict_get m k \<noteq> None}"
  using dom_map_of_conv_image_fst [of m] by (simp add: dict_keys_def dom_def)

lemma dict_set_new: "k \<notin> fst ` set m \<Longrightarrow> dict_set k v m = m @ [(k, v)]"
  by (induction m) auto

lemma set_dict_set: "set (dict_set k v m) \<subseteq> insert (k, v) (set m)"
  by (induction m) auto

lemma set_dict_delete: "set (dict_delete k m) = {x \<in> set m. fst x \<noteq> k}"
  by (auto simp: AList.delete_eq)

lemma dict_of_append_ok:
  "distinct (map fst (m @ kvs)) \<Longrightarrow> dict_of kvs m = m @ kvs"
proof (induction kvs arbitrary: m)
  case (Cons kv kvs)
  obtain k v where kv: "kv = (k, v)" by (cases kv)
  from Cons.prems have "k \<notin> fst ` set m" by (auto simp: kv)
  then have "dict_of (kv # kvs) m = dict_of kvs (m @ [kv])"
    by (simp add: kv dict_set_new)
  also have "\<dots> = (m @ [kv]) @ kvs"
    using Cons.prems by (intro Cons.IH) (auto simp: kv)
  finally show ?case by simp
qed simp

text \<open>Filling a dictionary in a loop over distinct keys, with or without a guard.\<close>

lemma fold_dict_set:
  "distinct (map fst m @ map k xs) \<Longrightarrow>
   foldl (\<lambda>m x. if P x then dict_set (k x) (v x) m else m) m xs = m @ map (\<lambda>x. (k x, v x)) (filter P xs)"
proof (induction xs arbitrary: m)
  case (Cons x xs)
  then show ?case by (cases "P x") (auto simp: dict_set_new)
qed simp

lemma dict_of_id: "dict_ok m \<Longrightarrow> dict_of m [] = m"
  by (simp add: dict_ok_def dict_of_append_ok)

lemma dict_ok_of: "dict_ok m \<Longrightarrow> dict_ok (dict_of kvs m)"
  by (induction kvs m rule: dict_of.induct) (auto intro: dict_ok_set)

lemma dict_get_of: "dict_get (dict_of kvs m) k = (dict_get m ++ dict_get (rev kvs)) k"
  by (induction kvs m rule: dict_of.induct)
    (auto simp: dict_get_set map_add_def split: option.splits)

lemma set_set_add [dict_simps]: "set (set_add x s) = insert x (set s)"
  by (auto simp: set_add_def)

lemma set_set_remove [dict_simps]: "set (set_remove x s) = set s - {x}"
  by (simp add: set_remove_def)

lemma distinct_set_add: "distinct s \<Longrightarrow> distinct (set_add x s)"
  by (simp add: set_add_def)

lemma distinct_set_remove: "distinct s \<Longrightarrow> distinct (set_remove x s)"
  by (simp add: set_remove_def distinct_removeAll)

lemma set_set_of [dict_simps]: "set (set_of xs s) = set s \<union> set xs"
  by (induction xs s rule: set_of.induct) (auto simp: set_set_add)

lemma distinct_set_of: "distinct s \<Longrightarrow> distinct (set_of xs s)"
  by (induction xs s rule: set_of.induct) (auto simp: distinct_set_add)

lemma set_of_id: "distinct (s @ xs) \<Longrightarrow> set_of xs s = s @ xs"
  by (induction xs s rule: set_of.induct) (auto simp: set_add_def)

section \<open>Contracts\<close>

text \<open>
  A keyed store: what every component that keeps a \<open>Map\<close>, a \<open>Record\<close> or a \<open>Set\<close>
  relies on. \<open>keys\<close> is the iteration order. The lemmas are about the toggle idiom
  of the React state updaters, \<open>if (next.has(k)) next.delete(k) else next.set(k, v)\<close>.
\<close>

locale keyed_store =
  fixes get :: "'s \<Rightarrow> 'k \<Rightarrow> 'v option"
    and put :: "'k \<Rightarrow> 'v \<Rightarrow> 's \<Rightarrow> 's"
    and remove :: "'k \<Rightarrow> 's \<Rightarrow> 's"
    and keys :: "'s \<Rightarrow> 'k list"
    and ok :: "'s \<Rightarrow> bool"
  assumes get_put: "get (put k v s) = (get s)(k \<mapsto> v)"
    and get_remove: "get (remove k s) = (get s)(k := None)"
    and keys_dom: "set (keys s) = dom (get s)"
    and ok_distinct: "ok s \<Longrightarrow> distinct (keys s)"
    and ok_put: "ok s \<Longrightarrow> ok (put k v s)"
    and ok_remove: "ok s \<Longrightarrow> ok (remove k s)"
begin

lemma toggle_get:
  "get (if get s k \<noteq> None then remove k s else put k v s) =
   (get s)(k := (if get s k = None then Some v else None))"
  by (auto simp: get_put get_remove)

lemma toggle_ok: "ok s \<Longrightarrow> ok (if get s k \<noteq> None then remove k s else put k v s)"
  by (simp add: ok_put ok_remove)

lemma toggle_keys:
  "set (keys (if get s k \<noteq> None then remove k s else put k v s)) =
   (if k \<in> set (keys s) then set (keys s) - {k} else insert k (set (keys s)))"
  by (auto simp: keys_dom get_put get_remove split: if_splits)

lemma size_card: "ok s \<Longrightarrow> length (keys s) = card (dom (get s))"
  by (metis distinct_card keys_dom ok_distinct)

lemma removed_not_in: "k \<notin> set (keys (remove k s))"
  by (simp add: keys_dom get_remove)

end

interpretation jsmap: keyed_store dict_get dict_set dict_delete dict_keys dict_ok
proof unfold_locales
  show "set (dict_keys s) = dom (dict_get s)" for s :: "('k, 'v) dict"
    by (simp add: set_dict_keys dom_def)
qed (simp_all add: dict_simps dict_ok_set dict_ok_delete, simp add: dict_ok_def dict_keys_def)

definition set_get :: "'a jsset \<Rightarrow> 'a \<Rightarrow> unit option" where
  "set_get s x = (if x \<in> set s then Some () else None)"

interpretation jsset: keyed_store set_get "\<lambda>x _. set_add x" set_remove "\<lambda>s. s" distinct
  by unfold_locales
    (auto simp: set_get_def fun_eq_iff dict_simps distinct_set_add distinct_set_remove
      split: if_splits)

lemma set_get_None [simp]: "set_get s x = None \<longleftrightarrow> x \<notin> set s"
  by (simp add: set_get_def)

text \<open>
  A component driven by events keeps an invariant over every run when each single step
  keeps it.
\<close>

locale event_machine =
  fixes step :: "'s \<Rightarrow> 'e \<Rightarrow> 's"
    and inv :: "'s \<Rightarrow> bool"
  assumes step_inv: "inv s \<Longrightarrow> inv (step s e)"
begin

lemma run_inv: "inv s \<Longrightarrow> inv (foldl step s es)"
  by (induction es arbitrary: s) (simp_all add: step_inv)

lemma run_prefix_inv: "inv s \<Longrightarrow> inv (foldl step s (take n es))"
  by (rule run_inv)

end

text \<open>
  Refinement of an event machine: \<open>abs\<close> maps the concrete state to the abstract one and
  every concrete step simulates the abstract step.
\<close>

locale refined_machine = event_machine step inv
  for step :: "'s \<Rightarrow> 'e \<Rightarrow> 's" and inv :: "'s \<Rightarrow> bool" +
  fixes abs :: "'s \<Rightarrow> 'a"
    and astep :: "'a \<Rightarrow> 'e \<Rightarrow> 'a"
  assumes simulation: "inv s \<Longrightarrow> abs (step s e) = astep (abs s) e"
begin

lemma run_simulation: "inv s \<Longrightarrow> abs (foldl step s es) = foldl astep (abs s) es"
  by (induction es arbitrary: s) (simp_all add: simulation step_inv)

end

text \<open>
  An action behind a confirmation: the page remembers the item an event asks about, and its
  calls are for the item it remembers. Then nothing is done that was not asked for.
\<close>

locale confirmed_action =
  fixes step :: "'s \<Rightarrow> 'e \<Rightarrow> 's"
    and target :: "'s \<Rightarrow> 'i option"
    and calls :: "'s \<Rightarrow> 'i list"
    and asks :: "'e \<Rightarrow> 'i option"
  assumes target_step: "target (step s e) = Some i \<Longrightarrow> target s = Some i \<or> asks e = Some i"
    and calls_step: "i \<in> set (calls (step s e)) \<Longrightarrow> i \<in> set (calls s) \<or> target s = Some i"
begin

lemma run_target: "target (foldl step s es) = Some i \<Longrightarrow> target s = Some i \<or> Some i \<in> asks ` set es"
proof (induction es arbitrary: s)
  case (Cons e es)
  then show ?case using target_step [of s e i] by fastforce
qed simp

lemma run_calls:
  "i \<in> set (calls (foldl step s es)) \<Longrightarrow> i \<in> set (calls s) \<or> target s = Some i \<or> Some i \<in> asks ` set es"
proof (induction es arbitrary: s)
  case (Cons e es)
  then show ?case using target_step [of s e i] calls_step [of i s e] by fastforce
qed simp

lemma run_calls_asked:
  "calls s = [] \<Longrightarrow> target s = None \<Longrightarrow> Some ` set (calls (foldl step s es)) \<subseteq> asks ` set es"
  using run_calls [of _ s es] by auto

end

text \<open>An encoder with its decoder, and the composition of two of them.\<close>

locale codec =
  fixes enc :: "'a \<Rightarrow> 'b"
    and dec :: "'b \<Rightarrow> 'a option"
    and wf :: "'a \<Rightarrow> bool"
  assumes dec_enc: "wf x \<Longrightarrow> dec (enc x) = Some x"
begin

lemma enc_inject: "wf x \<Longrightarrow> wf y \<Longrightarrow> enc x = enc y \<longleftrightarrow> x = y"
  by (metis dec_enc option.inject)

end

locale codec_chain = inner: codec enc1 dec1 wf1 + outer: codec enc2 dec2 wf2
  for enc1 :: "'a \<Rightarrow> 'b" and dec1 :: "'b \<Rightarrow> 'a option" and wf1 :: "'a \<Rightarrow> bool"
    and enc2 :: "'b \<Rightarrow> 'c" and dec2 :: "'c \<Rightarrow> 'b option" and wf2 :: "'b \<Rightarrow> bool" +
  assumes enc_wf: "wf1 x \<Longrightarrow> wf2 (enc1 x)"
begin

lemma chain_dec_enc: "wf1 x \<Longrightarrow> Option.bind (dec2 (enc2 (enc1 x))) dec1 = Some x"
  by (simp add: inner.dec_enc outer.dec_enc enc_wf)

end

sublocale codec_chain \<subseteq> chain: codec "\<lambda>x. enc2 (enc1 x)" "\<lambda>z. Option.bind (dec2 z) dec1" wf1
  by unfold_locales (rule chain_dec_enc)

end
