(* ===== verification/JsonText.thy ===== *)
theory JsonText
  imports JsPrelude
begin

text \<open>
  \<open>JSON.stringify\<close> and \<open>JSON.parse\<close> on the values of the prelude, as the session cookie,
  the impersonation cookie, the proxy bodies, the event stream and the doubly encoded
  tool results use them. The printer writes no white space, as \<open>JSON.stringify(v)\<close>
  does, drops object members that are \<open>undefined\<close> and prints an \<open>undefined\<close> array
  element as \<open>null\<close>. The parser accepts white space, all escapes (a surrogate pair
  is one code point) and duplicate keys (the last one wins, at the place of the first);
  a number with a fraction or an exponent is outside the modelled numbers and is
  rejected. Main results: parsing never leaves more text than it was given, the fuel
  \<open>2 * length + 2\<close> is enough for every text, and parsing a printed value returns it
  (an interpretation of the codec contract).
\<close>

section \<open>Printing\<close>

definition hex_digit :: "nat \<Rightarrow> char" where
  "hex_digit n = (if n < 10 then char_of (48 + n) else char_of (87 + n))"

definition esc_char :: "char \<Rightarrow> string" where
  "esc_char c =
     (let n = of_char c :: nat in
      if c = CHR 0x22 then [CHR 0x5C, CHR 0x22]
      else if c = CHR 0x5C then [CHR 0x5C, CHR 0x5C]
      else if c = CHR 0x08 then [CHR 0x5C, CHR ''b'']
      else if c = CHR 0x09 then [CHR 0x5C, CHR ''t'']
      else if c = CHR 0x0A then [CHR 0x5C, CHR ''n'']
      else if c = CHR 0x0C then [CHR 0x5C, CHR ''f'']
      else if c = CHR 0x0D then [CHR 0x5C, CHR ''r'']
      else if n < 32 then
        [CHR 0x5C, CHR ''u'', CHR ''0'', CHR ''0'', hex_digit (n div 16), hex_digit (n mod 16)]
      else [c])"

definition print_str :: "string \<Rightarrow> string" where
  "print_str s = CHR 0x22 # concat (map esc_char s) @ [CHR 0x22]"

function json_print :: "js \<Rightarrow> string" where
  "json_print JUndefined = ''null''"
| "json_print JNull = ''null''"
| "json_print (JBool b) = (if b then ''true'' else ''false'')"
| "json_print (JNum n) = int_str n"
| "json_print (JStr s) = print_str s"
| "json_print (JArr vs) = ''['' @ js_join '','' (map json_print vs) @ '']''"
| "json_print (JObj kvs) =
     ''{'' @ js_join '',''
       (map (\<lambda>kv. print_str (fst kv) @ '':'' @ json_print (snd kv))
         (filter (\<lambda>kv. snd kv \<noteq> JUndefined) kvs)) @ ''}''"
  by pat_completeness auto
termination
proof (relation "measure size", goal_cases)
  case (3 kvs kv)
  then have "kv \<in> set kvs" by simp
  then have "size_prod (\<lambda>_. 0) size kv \<le> size_list (size_prod (\<lambda>_. 0) size) kvs"
    by (rule size_list_estimation') simp
  then show ?case by (cases kv) simp
qed (auto simp: less_Suc_eq_le size_list_estimation')

section \<open>Parsing\<close>

definition json_ws :: "char \<Rightarrow> bool" where
  "json_ws c = (c \<in> {CHR '' '', CHR 0x09, CHR 0x0A, CHR 0x0D})"

definition skip_ws :: "string \<Rightarrow> string" where
  "skip_ws s = dropWhile json_ws s"

definition hex_value :: "char \<Rightarrow> nat option" where
  "hex_value c =
     (let n = of_char c :: nat in
      if 48 \<le> n \<and> n \<le> 57 then Some (n - 48)
      else if 97 \<le> n \<and> n \<le> 102 then Some (n - 87)
      else if 65 \<le> n \<and> n \<le> 70 then Some (n - 55)
      else None)"

fun hex4 :: "string \<Rightarrow> (nat \<times> string) option" where
  "hex4 (a # b # c # d # r) =
     (case (hex_value a, hex_value b, hex_value c, hex_value d) of
        (Some w, Some x, Some y, Some z) \<Rightarrow> Some (((w * 16 + x) * 16 + y) * 16 + z, r)
      | _ \<Rightarrow> None)"
| "hex4 _ = None"

definition utf8 :: "nat \<Rightarrow> string" where
  "utf8 n =
     (if n < 128 then [char_of n]
      else if n < 2048 then [char_of (192 + n div 64), char_of (128 + n mod 64)]
      else if n < 65536 then
        [char_of (224 + n div 4096), char_of (128 + n div 64 mod 64), char_of (128 + n mod 64)]
      else [char_of (240 + n div 262144), char_of (128 + n div 4096 mod 64),
            char_of (128 + n div 64 mod 64), char_of (128 + n mod 64)])"

text \<open>The text after \<open>\u\<close>: four digits, and the second half of a surrogate pair.\<close>

definition u_escape :: "string \<Rightarrow> (string \<times> string) option" where
  "u_escape s =
     (case hex4 s of
        None \<Rightarrow> None
      | Some (n, r) \<Rightarrow>
          (if 55296 \<le> n \<and> n < 56320 \<and> starts_with [CHR 0x5C, CHR ''u''] r
           then (case hex4 (drop 2 r) of
                   Some (m, r2) \<Rightarrow>
                     (if 56320 \<le> m \<and> m < 57344
                      then Some (utf8 (65536 + (n - 55296) * 1024 + (m - 56320)), r2)
                      else Some (utf8 n, r))
                 | None \<Rightarrow> None)
           else Some (utf8 n, r)))"

definition unesc :: "char \<Rightarrow> char option" where
  "unesc c =
     (if c \<in> {CHR 0x22, CHR 0x5C, CHR ''/''} then Some c
      else if c = CHR ''b'' then Some (CHR 0x08)
      else if c = CHR ''t'' then Some (CHR 0x09)
      else if c = CHR ''n'' then Some (CHR 0x0A)
      else if c = CHR ''f'' then Some (CHR 0x0C)
      else if c = CHR ''r'' then Some (CHR 0x0D)
      else None)"

lemma hex4_length: "hex4 s = Some (n, r) \<Longrightarrow> length r < length s"
  by (induction s rule: hex4.induct) (auto split: option.splits)

lemma u_escape_length: "u_escape s = Some (b, r) \<Longrightarrow> length r < length s"
proof -
  assume "u_escape s = Some (b, r)"
  then obtain n r1 where h: "hex4 s = Some (n, r1)"
    and rest: "r = r1 \<or> (\<exists>m. hex4 (drop 2 r1) = Some (m, r))"
    by (auto simp: u_escape_def split: option.splits if_splits)
  from rest have "length r \<le> length r1"
    by (auto dest!: hex4_length)
  with hex4_length [OF h] show ?thesis by simp
qed

text \<open>The characters of a string literal after its opening quote.\<close>

function p_chars :: "string \<Rightarrow> (string \<times> string) option" where
  "p_chars [] = None"
| "p_chars (c # cs) =
     (if c = CHR 0x22 then Some ([], cs)
      else if c = CHR 0x5C then
        (case cs of
           [] \<Rightarrow> None
         | e # es \<Rightarrow>
             (if e = CHR ''u'' then
                (case u_escape es of
                   None \<Rightarrow> None
                 | Some (b, r) \<Rightarrow> map_option (\<lambda>(s, t). (b @ s, t)) (p_chars r))
              else
                (case unesc e of
                   None \<Rightarrow> None
                 | Some b \<Rightarrow> map_option (\<lambda>(s, t). (b # s, t)) (p_chars es))))
      else if (of_char c :: nat) < 32 then None
      else map_option (\<lambda>(s, t). (c # s, t)) (p_chars cs))"
  by pat_completeness auto
termination
  by (relation "measure length") (auto dest!: u_escape_length)

definition is_digit :: "char \<Rightarrow> bool" where
  "is_digit c = (48 \<le> (of_char c :: nat) \<and> (of_char c :: nat) \<le> 57)"

definition digits_value :: "string \<Rightarrow> nat" where
  "digits_value ds = foldl (\<lambda>n c. n * 10 + (of_char c - 48)) 0 ds"

definition p_nat :: "string \<Rightarrow> (nat \<times> string) option" where
  "p_nat s =
     (let ds = takeWhile is_digit s; r = dropWhile is_digit s in
      if ds = [] \<or> (hd ds = CHR ''0'' \<and> length ds \<noteq> 1) then None
      else if r \<noteq> [] \<and> hd r \<in> {CHR ''.'', CHR ''e'', CHR ''E''} then None
      else Some (digits_value ds, r))"

definition p_num :: "string \<Rightarrow> (js \<times> string) option" where
  "p_num s =
     (case s of
        [] \<Rightarrow> None
      | c # cs \<Rightarrow>
          (if c = CHR ''-'' then map_option (\<lambda>(n, r). (JNum (- int n), r)) (p_nat cs)
           else map_option (\<lambda>(n, r). (JNum (int n), r)) (p_nat s)))"

definition p_word :: "string \<Rightarrow> (js \<times> string) option" where
  "p_word s =
     (if starts_with ''true'' s then Some (JBool True, drop 4 s)
      else if starts_with ''false'' s then Some (JBool False, drop 5 s)
      else if starts_with ''null'' s then Some (JNull, drop 4 s)
      else p_num s)"

text \<open>White space and then the given character; a member's key with its colon.\<close>

definition expect :: "char \<Rightarrow> string \<Rightarrow> string option" where
  "expect c s = (case skip_ws s of [] \<Rightarrow> None | d # r \<Rightarrow> if d = c then Some r else None)"

definition p_key :: "string \<Rightarrow> (string \<times> string) option" where
  "p_key s =
     (case Option.bind (expect (CHR 0x22) s) p_chars of
        None \<Rightarrow> None
      | Some (k, r) \<Rightarrow> map_option (\<lambda>r1. (k, r1)) (expect (CHR '':'') r))"

definition p_scalar :: "string \<Rightarrow> (js \<times> string) option" where
  "p_scalar s =
     (case expect (CHR 0x22) s of
        Some cs \<Rightarrow> map_option (\<lambda>(t, r). (JStr t, r)) (p_chars cs)
      | None \<Rightarrow> p_word (skip_ws s))"

fun p_val :: "nat \<Rightarrow> string \<Rightarrow> (js \<times> string) option"
and p_elems :: "nat \<Rightarrow> string \<Rightarrow> (js list \<times> string) option"
and p_members :: "nat \<Rightarrow> string \<Rightarrow> ((string \<times> js) list \<times> string) option" where
  "p_val 0 s = None"
| "p_val (Suc f) s =
     (case expect (CHR ''['') s of
        Some cs \<Rightarrow>
          (case expect (CHR '']'') cs of
             Some r \<Rightarrow> Some (JArr [], r)
           | None \<Rightarrow> map_option (\<lambda>(vs, r). (JArr vs, r)) (p_elems f cs))
      | None \<Rightarrow>
          (case expect (CHR ''{'') s of
             Some cs \<Rightarrow>
               (case expect (CHR ''}'') cs of
                  Some r \<Rightarrow> Some (JObj [], r)
                | None \<Rightarrow> map_option (\<lambda>(kvs, r). (JObj (dict_of kvs []), r)) (p_members f cs))
           | None \<Rightarrow> p_scalar s))"
| "p_elems 0 s = None"
| "p_elems (Suc f) s =
     (case p_val f s of
        None \<Rightarrow> None
      | Some (v, r) \<Rightarrow>
          (case expect (CHR '','') r of
             Some r' \<Rightarrow> map_option (\<lambda>(vs, t). (v # vs, t)) (p_elems f r')
           | None \<Rightarrow> map_option (\<lambda>t. ([v], t)) (expect (CHR '']'') r)))"
| "p_members 0 s = None"
| "p_members (Suc f) s =
     (case p_key s of
        None \<Rightarrow> None
      | Some (k, r1) \<Rightarrow>
          (case p_val f r1 of
             None \<Rightarrow> None
           | Some (v, r2) \<Rightarrow>
               (case expect (CHR '','') r2 of
                  Some r3 \<Rightarrow> map_option (\<lambda>(kvs, t). ((k, v) # kvs, t)) (p_members f r3)
                | None \<Rightarrow> map_option (\<lambda>t. ([(k, v)], t)) (expect (CHR ''}'') r2))))"

definition json_parse :: "string \<Rightarrow> js option" where
  "json_parse s =
     (case p_val (2 * length s + 2) s of
        None \<Rightarrow> None
      | Some (v, r) \<Rightarrow> if skip_ws r = [] then Some v else None)"

section \<open>Parsing consumes text, and the fuel is enough\<close>

lemma skip_ws_length: "length (skip_ws s) \<le> length s"
  by (simp add: skip_ws_def length_dropWhile_le)

lemma skip_ws_Cons_length: "skip_ws s = c # cs \<Longrightarrow> length cs < length s"
  using skip_ws_length [of s] by simp

lemma p_chars_length: "p_chars s = Some (t, r) \<Longrightarrow> length r < length s"
  by (induction s arbitrary: t r rule: p_chars.induct)
    (fastforce dest!: u_escape_length split: if_splits option.splits list.splits)+

lemma p_nat_length:
  assumes "p_nat s = Some (n, r)"
  shows "length r < length s"
proof -
  from assms have "takeWhile is_digit s \<noteq> []" and r: "r = dropWhile is_digit s"
    by (auto simp: p_nat_def Let_def split: if_splits)
  then have "0 < length (takeWhile is_digit s)" by simp
  moreover have "length s = length (takeWhile is_digit s) + length r"
    unfolding r by (metis length_append takeWhile_dropWhile_id)
  ultimately show ?thesis by linarith
qed

lemma p_num_length: "p_num s = Some (v, r) \<Longrightarrow> length r < length s"
  by (fastforce simp: p_num_def dest: p_nat_length split: list.splits if_splits)

lemma starts_with_length: "starts_with p s \<Longrightarrow> length p \<le> length s"
  by (metis starts_with_def length_take min.cobounded1)

lemma p_word_length: "p_word s = Some (v, r) \<Longrightarrow> length r < length s"
  by (auto simp: p_word_def dest: p_num_length starts_with_length split: if_splits)

lemma expect_length: "expect c s = Some r \<Longrightarrow> length r < length s"
  by (auto simp: expect_def dest: skip_ws_Cons_length split: list.splits if_splits)

lemma p_key_length: "p_key s = Some (k, r) \<Longrightarrow> length r < length s"
  by (fastforce simp: p_key_def dest: expect_length p_chars_length
      split: option.splits bind_splits)

lemma p_scalar_length: "p_scalar s = Some (v, r) \<Longrightarrow> length r < length s"
  using skip_ws_length [of s]
  by (fastforce simp: p_scalar_def dest: expect_length p_chars_length p_word_length
      split: option.splits)

lemmas token_lengths = expect_length p_key_length p_scalar_length

lemma parse_consumes:
  "p_val f s = Some (v, r) \<Longrightarrow> length r < length s"
  "p_elems f s = Some (vs, r) \<Longrightarrow> length r < length s"
  "p_members f s = Some (kvs, r) \<Longrightarrow> length r < length s"
proof (induction f s and f s and f s arbitrary: v r and vs r and kvs r
    rule: p_val_p_elems_p_members.induct)
  case (2 f s)
  then show ?case
    by (auto dest!: token_lengths split: option.splits) (fastforce dest: less_trans)+
next
  case (4 f s)
  then show ?case
    by (auto dest!: token_lengths split: option.splits) (fastforce dest: less_trans)+
next
  case (6 f s)
  then show ?case
    by (auto dest!: token_lengths split: option.splits) (fastforce dest: less_trans)+
qed simp_all

text \<open>
  Any two amounts of fuel above twice the length give the same result, so the parser
  never fails for lack of fuel.
\<close>

lemma parse_fuel:
  "2 * length s < f \<Longrightarrow> 2 * length s < g \<Longrightarrow> p_val f s = p_val g s"
  "2 * length s + 1 < f \<Longrightarrow> 2 * length s + 1 < g \<Longrightarrow> p_elems f s = p_elems g s"
  "2 * length s + 1 < f \<Longrightarrow> 2 * length s + 1 < g \<Longrightarrow> p_members f s = p_members g s"
proof (induction f s and f s and f s arbitrary: g and g and g
    rule: p_val_p_elems_p_members.induct)
  case (2 f s)
  obtain g' where g: "g = Suc g'" using "2.prems" by (cases g) auto
  have "p_elems f cs = p_elems g' cs"
    if "expect (CHR ''['') s = Some cs" "expect (CHR '']'') cs = None" for cs
    using "2.IH"(2) [OF that] "2.prems" g expect_length [OF that(1)] by auto
  moreover have "p_members f cs = p_members g' cs"
    if "expect (CHR ''['') s = None" "expect (CHR ''{'') s = Some cs" "expect (CHR ''}'') cs = None" for cs
    using "2.IH"(1) [OF that] "2.prems" g expect_length [OF that(2)] by auto
  ultimately show ?case
    unfolding g by (auto split: option.splits)
next
  case (4 f s)
  obtain g' where g: "g = Suc g'" using "4.prems" by (cases g) auto
  have v: "p_val g' s = p_val f s" using "4.IH"(1) [of g'] "4.prems" g by auto
  have "p_elems f r' = p_elems g' r'"
    if "p_val f s = Some (v, r)" "expect (CHR '','') r = Some r'" for v r r'
    using "4.IH"(2) [OF that(1) refl that(2)] "4.prems" g parse_consumes(1) [OF that(1)]
      expect_length [OF that(2)] by auto
  note e = this
  show ?case
  proof (cases "p_val f s")
    case (Some w)
    then show ?thesis
      unfolding g p_elems.simps v using e [of "fst w" "snd w"]
      by (cases w; cases "expect (CHR '','') (snd w)") simp_all
  qed (simp add: g v)
next
  case (6 f s)
  obtain g' where g: "g = Suc g'" using "6.prems" by (cases g) auto
  have v: "p_val g' r1 = p_val f r1" if "p_key s = Some (k, r1)" for k r1
    using "6.IH"(1) [OF that refl, of g'] "6.prems" g p_key_length [OF that] by auto
  have "p_members f r3 = p_members g' r3"
    if "p_key s = Some (k, r1)" "p_val f r1 = Some (w, r2)" "expect (CHR '','') r2 = Some r3"
    for k r1 w r2 r3
    using "6.IH"(2) [OF that(1) refl that(2) refl that(3)] "6.prems" g p_key_length [OF that(1)]
      parse_consumes(1) [OF that(2)] expect_length [OF that(3)] by auto
  note m = this
  show ?case
  proof (cases "p_key s")
    case (Some k)
    have vk: "p_val g' (snd k) = p_val f (snd k)"
      using v [of "fst k" "snd k"] Some by simp
    show ?thesis
    proof (cases "p_val f (snd k)")
      case None
      then show ?thesis using Some vk by (cases k) (simp add: g)
    next
      case w: (Some w)
      then show ?thesis
        using Some vk m [of "fst k" "snd k" "fst w" "snd w"]
        by (cases k; cases w; cases "expect (CHR '','') (snd w)") (simp_all add: g)
    qed
  qed (simp add: g)
qed auto

section \<open>Parsing a printed value\<close>

fun wf_js :: "js \<Rightarrow> bool" where
  "wf_js JUndefined = False"
| "wf_js (JArr vs) = (\<forall>v \<in> set vs. wf_js v)"
| "wf_js (JObj kvs) = (distinct (map fst kvs) \<and> (\<forall>kv \<in> set kvs. wf_js (snd kv)))"
| "wf_js _ = True"

lemma expect_token [simp]:
  "\<not> json_ws d \<Longrightarrow> expect c (d # r) = (if d = c then Some r else None)"
  by (simp add: expect_def skip_ws_def)

lemma json_ws_tokens [simp]:
  "\<not> json_ws (CHR ''['')" "\<not> json_ws (CHR '']'')" "\<not> json_ws (CHR ''{'')" "\<not> json_ws (CHR ''}'')"
  "\<not> json_ws (CHR '','')" "\<not> json_ws (CHR '':'')" "\<not> json_ws (CHR 0x22)" "\<not> json_ws (CHR ''-'')"
  "\<not> json_ws (CHR ''t'')" "\<not> json_ws (CHR ''f'')" "\<not> json_ws (CHR ''n'')"
  by (simp_all add: json_ws_def)

lemma hex_value_digit: "d < 16 \<Longrightarrow> hex_value (hex_digit d) = Some d"
  by (auto simp: hex_value_def hex_digit_def Let_def)

lemma utf8_char: "(of_char c :: nat) < 128 \<Longrightarrow> utf8 (of_char c) = [c]"
  by (simp add: utf8_def)

lemma u_escape_char:
  assumes "(of_char c :: nat) = n" "n < 32"
  shows "u_escape (CHR ''0'' # CHR ''0'' # hex_digit (n div 16) # hex_digit (n mod 16) # r) =
         Some ([c], r)"
proof -
  have z: "hex_value (CHR ''0'') = Some 0" by (simp add: hex_value_def)
  have "hex4 (CHR ''0'' # CHR ''0'' # hex_digit (n div 16) # hex_digit (n mod 16) # r) = Some (n, r)"
    using assms(2) by (simp add: z hex_value_digit)
  then show ?thesis
    using assms utf8_char [of c] by (simp add: u_escape_def)
qed

lemma p_chars_esc: "p_chars (esc_char c @ r) = map_option (\<lambda>(s, t). (c # s, t)) (p_chars r)"
proof -
  define n where "n = (of_char c :: nat)"
  have not_ctrl: "c \<notin> {CHR 0x08, CHR 0x09, CHR 0x0A, CHR 0x0C, CHR 0x0D}" if "\<not> n < 32"
    using that by (auto simp: n_def)
  consider "c = CHR 0x22" | "c = CHR 0x5C" | "c = CHR 0x08" | "c = CHR 0x09" | "c = CHR 0x0A"
    | "c = CHR 0x0C" | "c = CHR 0x0D"
    | "c \<notin> {CHR 0x22, CHR 0x5C, CHR 0x08, CHR 0x09, CHR 0x0A, CHR 0x0C, CHR 0x0D}" "n < 32"
    | "c \<noteq> CHR 0x22" "c \<noteq> CHR 0x5C" "\<not> n < 32"
    by blast
  then show ?thesis
  proof cases
    case 8
    have "u_escape (CHR ''0'' # CHR ''0'' # hex_digit (n div 16) # hex_digit (n mod 16) # r) =
      Some ([c], r)"
      using 8 by (intro u_escape_char) (simp_all add: n_def)
    moreover have "esc_char c @ r =
      CHR 0x5C # CHR ''u'' # CHR ''0'' # CHR ''0'' # hex_digit (n div 16) # hex_digit (n mod 16) # r"
      using 8 by (simp add: esc_char_def Let_def n_def [symmetric])
    ultimately show ?thesis by simp
  next
    case 9
    then have "esc_char c = [c]"
      using not_ctrl [OF 9(3)] by (simp add: esc_char_def Let_def n_def)
    with 9 show ?thesis by (simp add: n_def)
  qed (simp_all add: esc_char_def unesc_def)
qed

lemma p_chars_print: "p_chars (concat (map esc_char s) @ CHR 0x22 # r) = Some (s, r)"
  by (induction s) (simp_all add: p_chars_esc)

definition num_end :: "string \<Rightarrow> bool" where
  "num_end r = (r = [] \<or> (\<not> is_digit (hd r) \<and> hd r \<notin> {CHR ''.'', CHR ''e'', CHR ''E''}))"

lemma nat_digits_digits: "\<forall>c \<in> set (nat_digits n). is_digit c"
  by (induction n rule: nat_digits.induct)
    (subst nat_digits.simps, auto simp: is_digit_def)

lemma nat_digits_nonempty [simp]: "nat_digits n \<noteq> []"
  by (subst nat_digits.simps) simp

lemma digits_value_snoc: "digits_value (ds @ [c]) = digits_value ds * 10 + (of_char c - 48)"
  by (simp add: digits_value_def)

lemma digits_value_nat_digits: "digits_value (nat_digits n) = n"
proof (induction n rule: nat_digits.induct)
  case (1 n)
  show ?case
  proof (cases "n < 10")
    case True
    then show ?thesis by (subst nat_digits.simps) (simp add: digits_value_def)
  next
    case False
    then show ?thesis
      using 1 by (subst nat_digits.simps) (simp add: digits_value_snoc)
  qed
qed

lemma nat_digits_head: "0 < n \<Longrightarrow> hd (nat_digits n) \<noteq> CHR ''0''"
proof (induction n rule: nat_digits.induct)
  case (1 n)
  show ?case
  proof (cases "n < 10")
    case True
    then have "(of_char (char_of (48 + n) :: char) :: nat) \<noteq> 48"
      using \<open>0 < n\<close> by simp
    then have "char_of (48 + n) \<noteq> CHR ''0''" by (auto simp del: of_char_of)
    with True show ?thesis by (subst nat_digits.simps) simp
  next
    case False
    then show ?thesis using 1 by (subst nat_digits.simps) simp
  qed
qed

lemma p_nat_print: "num_end r \<Longrightarrow> p_nat (nat_digits n @ r) = Some (n, r)"
proof -
  assume e: "num_end r"
  have r: "takeWhile is_digit r = []" "dropWhile is_digit r = r"
    using e by (cases r; simp add: num_end_def)+
  have "takeWhile is_digit (nat_digits n @ r) = nat_digits n"
    "dropWhile is_digit (nat_digits n @ r) = r"
    using nat_digits_digits [of n] r by (simp_all add: takeWhile_append dropWhile_append)
  moreover have "hd (nat_digits n) = CHR ''0'' \<longrightarrow> length (nat_digits n) = 1"
    using nat_digits_head [of n] by (cases "n = 0") (auto simp: nat_digits.simps [of 0])
  ultimately show ?thesis
    using e by (auto simp: p_nat_def num_end_def digits_value_nat_digits)
qed

lemma json_print_head:
  "wf_js v \<Longrightarrow> \<exists>c cs. json_print v = c # cs \<and> \<not> json_ws c \<and> c \<noteq> CHR '']'' \<and> c \<noteq> CHR ''}''"
proof (cases v)
  case (JNum n)
  have ws: "\<not> json_ws c \<and> c \<noteq> CHR '']'' \<and> c \<noteq> CHR ''}''" if "is_digit c" for c
    using that by (auto simp: is_digit_def json_ws_def)
  have "\<exists>c cs. nat_digits m = c # cs \<and> \<not> json_ws c \<and> c \<noteq> CHR '']'' \<and> c \<noteq> CHR ''}''" for m
    using ws nat_digits_digits [of m] by (cases "nat_digits m") auto
  then show ?thesis by (simp add: JNum int_str_def)
qed (auto simp: print_str_def)

lemma expect_digits:
  assumes "\<not> is_digit c"
  shows "expect c (nat_digits n @ r) = None"
proof -
  obtain d ds where d: "nat_digits n = d # ds" "is_digit d"
    using nat_digits_digits [of n] by (cases "nat_digits n") auto
  then have "\<not> json_ws d" by (auto simp: is_digit_def json_ws_def)
  then show ?thesis
    using d assms by auto
qed

lemma skip_ws_token [simp]: "\<not> json_ws d \<Longrightarrow> skip_ws (d # r) = d # r"
  by (simp add: skip_ws_def)

lemma skip_ws_digits [simp]: "skip_ws (nat_digits n @ r) = nat_digits n @ r"
proof -
  obtain d ds where d: "nat_digits n = d # ds" "is_digit d"
    using nat_digits_digits [of n] by (cases "nat_digits n") auto
  then have "\<not> json_ws d" by (auto simp: is_digit_def json_ws_def)
  with d show ?thesis by simp
qed

lemma p_word_print: "num_end r \<Longrightarrow> p_word (int_str n @ r) = Some (JNum n, r)"
proof -
  assume e: "num_end r"
  obtain d ds where d: "nat_digits (nat n) = d # ds" "is_digit d"
    using nat_digits_digits [of "nat n"] by (cases "nat_digits (nat n)") auto
  then have nd: "d \<noteq> CHR ''t''" "d \<noteq> CHR ''f''" "d \<noteq> CHR ''n''" "d \<noteq> CHR ''-''"
    by (auto simp: is_digit_def)
  show ?thesis
  proof (cases "n < 0")
    case True
    then show ?thesis
      using p_nat_print [OF e, of "nat (- n)"]
      by (simp add: p_word_def starts_with_def int_str_def p_num_def)
  next
    case False
    then show ?thesis
      using p_nat_print [OF e, of "nat n"] d nd
      by (simp add: p_word_def starts_with_def int_str_def p_num_def)
  qed
qed

text \<open>The separator or closing bracket after a value ends a number.\<close>

lemma num_end_tokens [simp]:
  "num_end []" "num_end (CHR '','' # r)" "num_end (CHR '']'' # r)" "num_end (CHR ''}'' # r)"
  by (simp_all add: num_end_def is_digit_def)

lemma p_scalar_int: "num_end r \<Longrightarrow> p_scalar (int_str n @ r) = Some (JNum n, r)"
  using p_word_print [of r n]
  by (auto simp: p_scalar_def int_str_def expect_digits is_digit_def)

lemma int_str_expect:
  "c \<in> {CHR ''['', CHR ''{''} \<Longrightarrow> expect c (int_str n @ r) = None"
  by (auto simp: int_str_def expect_digits is_digit_def)

lemma p_key_print: "p_key (print_str k @ CHR '':'' # r) = Some (k, r)"
  by (simp add: p_key_def print_str_def p_chars_print)

lemma p_elems_print:
  assumes "vs \<noteq> []"
    and "\<And>v f r. v \<in> set vs \<Longrightarrow> num_end r \<Longrightarrow> 2 * length (json_print v @ r) < f \<Longrightarrow>
           p_val f (json_print v @ r) = Some (v, r)"
    and "2 * length (js_join '','' (map json_print vs) @ CHR '']'' # r) + 1 < f"
  shows "p_elems f (js_join '','' (map json_print vs) @ CHR '']'' # r) = Some (vs, r)"
  using assms
proof (induction vs arbitrary: f rule: induct_list012)
  case (2 v)
  then obtain f' where "f = Suc f'" by (cases f) auto
  with 2 show ?case by simp
next
  case (3 v w vs)
  then obtain f' where f: "f = Suc f'" by (cases f) auto
  let ?rest = "js_join '','' (map json_print (w # vs)) @ CHR '']'' # r"
  have "p_val f' (json_print v @ CHR '','' # ?rest) = Some (v, CHR '','' # ?rest)"
    using "3.prems"(3) f by (intro "3.prems"(2)) auto
  moreover have "p_elems f' ?rest = Some (w # vs, r)"
    using "3.prems" f by (intro "3.IH"(2)) auto
  ultimately show ?case by (simp add: f)
qed simp

definition print_member :: "string \<times> js \<Rightarrow> string" where
  "print_member kv = print_str (fst kv) @ '':'' @ json_print (snd kv)"

lemma p_key_member: "p_key (print_member kv @ r) = Some (fst kv, json_print (snd kv) @ r)"
  using p_key_print [of "fst kv"] by (simp add: print_member_def)

lemma print_member_length:
  "length (print_member kv) = length (print_str (fst kv)) + 1 + length (json_print (snd kv))"
  by (simp add: print_member_def)

lemma p_members_print:
  assumes "kvs \<noteq> []"
    and "\<And>v f r. v \<in> snd ` set kvs \<Longrightarrow> num_end r \<Longrightarrow> 2 * length (json_print v @ r) < f \<Longrightarrow>
           p_val f (json_print v @ r) = Some (v, r)"
    and "2 * length (js_join '','' (map print_member kvs) @ CHR ''}'' # r) + 1 < f"
  shows "p_members f (js_join '','' (map print_member kvs) @ CHR ''}'' # r) = Some (kvs, r)"
  using assms
proof (induction kvs arbitrary: f rule: induct_list012)
  case (2 kv)
  then obtain f' where "f = Suc f'" by (cases f) auto
  with 2 show ?case by (cases kv) (simp add: p_key_member print_member_length)
next
  case (3 kv w kvs)
  then obtain f' where f: "f = Suc f'" by (cases f) auto
  let ?rest = "js_join '','' (map print_member (w # kvs)) @ CHR ''}'' # r"
  have "p_val f' (json_print (snd kv) @ CHR '','' # ?rest) = Some (snd kv, CHR '','' # ?rest)"
    using "3.prems"(3) f by (intro "3.prems"(2)) (auto simp: print_member_def [of kv])
  moreover have "p_members f' ?rest = Some (w # kvs, r)"
    using "3.prems" f by (intro "3.IH"(2)) auto
  ultimately show ?case
    by (cases kv) (simp add: f p_key_member)
qed simp

lemma p_val_print:
  "wf_js v \<Longrightarrow> num_end r \<Longrightarrow> 2 * length (json_print v @ r) < f \<Longrightarrow>
   p_val f (json_print v @ r) = Some (v, r)"
proof (induction v arbitrary: f r rule: json_print.induct)
  case (3 b)
  then show ?case
    by (cases f) (auto simp: p_scalar_def skip_ws_def p_word_def starts_with_def)
next
  case 2
  then show ?case
    by (cases f) (auto simp: p_scalar_def skip_ws_def p_word_def starts_with_def)
next
  case (4 n)
  then show ?case
    by (cases f) (auto simp: int_str_expect p_scalar_int)
next
  case (5 s)
  then show ?case
    by (cases f) (auto simp: print_str_def p_scalar_def p_chars_print)
next
  case (6 vs)
  then obtain f' where f: "f = Suc f'" by (cases f) auto
  show ?case
  proof (cases vs)
    case Nil
    then show ?thesis by (simp add: f)
  next
    case (Cons v vs')
    let ?body = "js_join '','' (map json_print vs) @ CHR '']'' # r"
    obtain c cs where c: "json_print v = c # cs" "\<not> json_ws c" "c \<noteq> CHR '']''"
      using json_print_head [of v] "6.prems"(1) Cons by auto
    then have "expect (CHR '']'') ?body = None"
      by (cases vs') (auto simp: Cons)
    moreover have "p_elems f' ?body = Some (vs, r)"
      using "6.prems" f Cons by (intro p_elems_print "6.IH") auto
    ultimately show ?thesis by (simp add: f)
  qed
next
  case (7 kvs)
  then obtain f' where f: "f = Suc f'" by (cases f) auto
  have all: "filter (\<lambda>kv. snd kv \<noteq> JUndefined) kvs = kvs"
    using "7.prems"(1) by (auto simp: filter_id_conv)
  have print: "json_print (JObj kvs) = ''{'' @ js_join '','' (map print_member kvs) @ ''}''"
    by (simp add: all print_member_def [abs_def])
  show ?case
  proof (cases kvs)
    case Nil
    then show ?thesis by (simp add: f)
  next
    case (Cons kv kvs')
    let ?body = "js_join '','' (map print_member kvs) @ CHR ''}'' # r"
    have "expect (CHR ''}'') ?body = None"
      by (cases kvs') (auto simp: Cons print_member_def print_str_def)
    moreover have "p_members f' ?body = Some (kvs, r)"
    proof (rule p_members_print)
      show "p_val f (json_print v @ r) = Some (v, r)"
        if "v \<in> snd ` set kvs" "num_end r" "2 * length (json_print v @ r) < f" for v f r
        using that "7.prems"(1) all by (auto intro!: "7.IH")
    qed (use "7.prems"(3) f Cons print in auto)
    moreover have "dict_of kvs [] = kvs"
      using "7.prems"(1) by (intro dict_of_id) (simp add: dict_ok_def)
    ultimately show ?thesis unfolding f print by simp
  qed
qed simp

lemma json_parse_print: "wf_js v \<Longrightarrow> json_parse (json_print v) = Some v"
  using p_val_print [of v "[]" "2 * length (json_print v) + 2"]
  by (simp add: json_parse_def skip_ws_def)

interpretation json: codec json_print json_parse wf_js
  by unfold_locales (rule json_parse_print)

lemma json_parse_Nil: "json_parse [] = None"
  by code_simp

lemma print_nonempty: "wf_js v \<Longrightarrow> json_print v \<noteq> []"
  using json_parse_print [of v] json_parse_Nil by auto

section \<open>Indented text\<close>

text \<open>\<open>JSON.stringify(v, null, 2)\<close>: members and elements on lines of their own.\<close>

definition json_indent :: "nat \<Rightarrow> string" where
  "json_indent n = CHR 0x0A # replicate (2 * n) (CHR '' '')"

function json_pretty :: "nat \<Rightarrow> js \<Rightarrow> string" where
  "json_pretty n (JArr vs) = (if vs = [] then ''[]''
     else ''['' @ json_indent (Suc n) @ js_join ('','' @ json_indent (Suc n)) (map (json_pretty (Suc n)) vs) @ json_indent n @ '']'')"
| "json_pretty n (JObj kvs) =
     (let ms = map (\<lambda>kv. print_str (fst kv) @ '': '' @ json_pretty (Suc n) (snd kv)) (filter (\<lambda>kv. snd kv \<noteq> JUndefined) kvs)
      in if ms = [] then ''{}'' else ''{'' @ json_indent (Suc n) @ js_join ('','' @ json_indent (Suc n)) ms @ json_indent n @ ''}'')"
| "json_pretty n JUndefined = ''null''"
| "json_pretty n JNull = ''null''"
| "json_pretty n (JBool b) = (if b then ''true'' else ''false'')"
| "json_pretty n (JNum k) = int_str k"
| "json_pretty n (JStr s) = print_str s"
  by pat_completeness auto
termination
proof (relation "measure (\<lambda>(n, v). size v)", goal_cases)
  case (3 n kvs kv)
  then have "kv \<in> set kvs" by simp
  then have "size_prod (\<lambda>_. 0) size kv \<le> size_list (size_prod (\<lambda>_. 0) size) kvs"
    by (rule size_list_estimation') simp
  then show ?case by (cases kv) simp
qed (auto simp: less_Suc_eq_le size_list_estimation')

end
