(* ===== verification/SessionStore.thy ===== *)
theory SessionStore
  imports JsonText
begin

text \<open>
  \<open>apps/web/lib/auth/session.ts\<close> and \<open>apps/admin/lib/auth/session.ts\<close>: the sealed
  session cookie. Base64 (\<open>btoa\<close>, \<open>atob\<close>) and \<open>encodeURIComponent\<close> are modelled and
  proved to invert; the Web Crypto calls (HKDF key derivation, AES-GCM) are the
  \<open>derive\<close>, \<open>seal\<close> and \<open>unseal\<close> fields of the environment record, and \<open>aead_ok\<close> is the
  documented law of AES-GCM the code relies on: decrypting under the same key and
  nonce returns the plaintext. A \<open>Uint8Array\<close> is a list of 8-bit characters. Strings
  being UTF-8, \<open>TextEncoder\<close> and \<open>TextDecoder\<close> are the identity. TypeScript casts of
  parsed JSON are taken at their word: a value without the declared fields is
  outside the model and reads as no session.
\<close>

type_synonym bytes = "char list"

section \<open>Base64\<close>

definition b64_char :: "nat \<Rightarrow> char" where
  "b64_char n =
     (if n < 26 then char_of (65 + n) else if n < 52 then char_of (71 + n)
      else if n < 62 then char_of (n - 4) else if n = 62 then CHR ''+'' else CHR ''/'')"

definition b64_value :: "char \<Rightarrow> nat option" where
  "b64_value c =
     (let n = of_char c :: nat in
      if 65 \<le> n \<and> n \<le> 90 then Some (n - 65)
      else if 97 \<le> n \<and> n \<le> 122 then Some (n - 71)
      else if 48 \<le> n \<and> n \<le> 57 then Some (n + 4)
      else if c = CHR ''+'' then Some 62
      else if c = CHR ''/'' then Some 63
      else None)"

fun b64_raw :: "bytes \<Rightarrow> string" where
  "b64_raw [] = []"
| "b64_raw [a] =
     (let x = of_char a :: nat in [b64_char (x div 4), b64_char (x mod 4 * 16)])"
| "b64_raw [a, b] =
     (let x = of_char a :: nat; y = of_char b :: nat in
      [b64_char (x div 4), b64_char (x mod 4 * 16 + y div 16), b64_char (y mod 16 * 4)])"
| "b64_raw (a # b # c # r) =
     (let x = of_char a :: nat; y = of_char b :: nat; z = of_char c :: nat in
      b64_char (x div 4) # b64_char (x mod 4 * 16 + y div 16)
        # b64_char (y mod 16 * 4 + z div 64) # b64_char (z mod 64) # b64_raw r)"

definition b64_pad :: "nat \<Rightarrow> string" where
  "b64_pad n = (if n mod 3 = 1 then ''=='' else if n mod 3 = 2 then ''='' else [])"

definition btoa :: "bytes \<Rightarrow> string" where
  "btoa bs = b64_raw bs @ b64_pad (length bs)"

fun b64_decode :: "string \<Rightarrow> bytes option" where
  "b64_decode [] = Some []"
| "b64_decode [a] = None"
| "b64_decode [a, b] =
     (case (b64_value a, b64_value b) of
        (Some w, Some x) \<Rightarrow> Some [char_of (w * 4 + x div 16)]
      | _ \<Rightarrow> None)"
| "b64_decode [a, b, c] =
     (case (b64_value a, b64_value b, b64_value c) of
        (Some w, Some x, Some y) \<Rightarrow>
          Some [char_of (w * 4 + x div 16), char_of (x mod 16 * 16 + y div 4)]
      | _ \<Rightarrow> None)"
| "b64_decode (a # b # c # d # r) =
     (case (b64_value a, b64_value b, b64_value c, b64_value d) of
        (Some w, Some x, Some y, Some z) \<Rightarrow>
          map_option (\<lambda>bs. char_of (w * 4 + x div 16) # char_of (x mod 16 * 16 + y div 4)
            # char_of (y mod 4 * 64 + z) # bs) (b64_decode r)
      | _ \<Rightarrow> None)"

text \<open>\<open>atob\<close> ignores ASCII white space and at most two padding characters.\<close>

definition strip_pad :: "string \<Rightarrow> string" where
  "strip_pad t =
     (if length t mod 4 = 0 then
        (if 2 \<le> length t \<and> drop (length t - 2) t = ''=='' then take (length t - 2) t
         else if 1 \<le> length t \<and> last t = CHR ''='' then butlast t
         else t)
      else t)"

definition b64_space :: "char \<Rightarrow> bool" where
  "b64_space c = (c \<in> {CHR 0x09, CHR 0x0A, CHR 0x0C, CHR 0x0D, CHR '' ''})"

definition atob :: "string \<Rightarrow> bytes option" where
  "atob s = b64_decode (strip_pad (filter (\<lambda>c. \<not> b64_space c) s))"

lemma b64_value_char: "n < 64 \<Longrightarrow> b64_value (b64_char n) = Some n"
  by (auto simp: b64_value_def b64_char_def Let_def take_bit_nat_eq_self)

lemma of_char_less [simp]: "(of_char c :: nat) < 256"
  by simp

lemma char_of_eqI: "n = of_char c \<Longrightarrow> char_of n = c"
  by simp

text \<open>The four sextets of three bytes, and the bytes back from them.\<close>

lemma sextets:
  fixes x y z :: nat
  assumes "x < 256" "y < 256" "z < 256"
  shows "x div 4 < 64" "x mod 4 * 16 + y div 16 < 64" "y mod 16 * 4 + z div 64 < 64"
    "x mod 4 * 16 < 64" "y mod 16 * 4 < 64"
    and "(x mod 4 * 16 + y div 16) div 16 = x mod 4"
    and "(x mod 4 * 16 + y div 16) mod 16 = y div 16"
    and "(y mod 16 * 4 + z div 64) div 4 = y mod 16"
    and "(y mod 16 * 4 + z div 64) mod 4 = z div 64"
proof -
  have q: "y div 16 < 16" "z div 64 < 4" "x mod 4 < 4" "y mod 16 < 16" using assms by auto
  show "x div 4 < 64" using assms(1) by auto
  show "x mod 4 * 16 + y div 16 < 64" "y mod 16 * 4 + z div 64 < 64"
    "x mod 4 * 16 < 64" "y mod 16 * 4 < 64"
    using q by linarith+
  show "(x mod 4 * 16 + y div 16) div 16 = x mod 4" "(x mod 4 * 16 + y div 16) mod 16 = y div 16"
    "(y mod 16 * 4 + z div 64) div 4 = y mod 16" "(y mod 16 * 4 + z div 64) mod 4 = z div 64"
    using q by simp_all
qed

lemma b64_decode_raw: "b64_decode (b64_raw bs) = Some bs"
proof (induction bs rule: b64_raw.induct)
  case (2 a)
  then show ?case
    using sextets(1,4) [OF of_char_less [of a] of_char_less [of a] of_char_less [of a]] by (simp add: Let_def b64_value_char)
next
  case (3 a b)
  then show ?case
    using sextets [OF of_char_less [of a] of_char_less [of b] of_char_less [of a]] sextets(5) [OF of_char_less [of a] of_char_less [of b] of_char_less [of a]]
    by (simp add: Let_def b64_value_char)
next
  case (4 a b c r)
  then show ?case
    using sextets [OF of_char_less [of a] of_char_less [of b] of_char_less [of c]] by (simp add: Let_def b64_value_char)
qed simp

lemma b64_char_plain:
  "n < 64 \<Longrightarrow> \<not> b64_space (b64_char n) \<and> b64_char n \<noteq> CHR 0x0B \<and> b64_char n \<noteq> CHR ''=''
     \<and> b64_char n \<noteq> CHR '';''"
  by (auto simp: b64_space_def b64_char_def take_bit_nat_eq_self
      dest!: arg_cong [where f = "of_char :: char \<Rightarrow> nat"])

lemma b64_raw_plain:
  "c \<in> set (b64_raw bs) \<Longrightarrow> \<not> b64_space c \<and> c \<noteq> CHR 0x0B \<and> c \<noteq> CHR ''='' \<and> c \<noteq> CHR '';''"
proof (induction bs rule: b64_raw.induct)
  case (4 x y z r)
  then show ?case
    using sextets(1-5) [OF of_char_less [of x] of_char_less [of y] of_char_less [of z]] by (auto simp: Let_def b64_char_plain)
next
  case (2 x)
  then show ?case
    using sextets(1,4) [OF of_char_less [of x] of_char_less [of x] of_char_less [of x]]
    by (auto simp: Let_def b64_char_plain)
next
  case (3 x y)
  then show ?case
    using sextets(1,2,5) [OF of_char_less [of x] of_char_less [of y] of_char_less [of y]]
    by (auto simp: Let_def b64_char_plain)
qed simp

lemma b64_raw_length:
  "length (b64_raw bs) mod 4 = (if length bs mod 3 = 0 then 0 else length bs mod 3 + 1)"
proof (induction bs rule: b64_raw.induct)
  case (4 a b c r)
  then show ?case by (simp add: Let_def)
qed (simp_all add: Let_def)

lemma strip_pad_btoa: "strip_pad (btoa bs) = b64_raw bs"
proof -
  note len = b64_raw_length [of bs]
  have m3: "length bs mod 3 < 3" by simp
  consider "length bs mod 3 = 0" | "length bs mod 3 = 1" | "length bs mod 3 = 2"
    using m3 by linarith
  then show ?thesis
  proof cases
    case 1
    have "last (b64_raw bs) \<noteq> CHR ''=''" if "b64_raw bs \<noteq> []"
      using that b64_raw_plain last_in_set by blast
    moreover have "drop (length (b64_raw bs) - 2) (b64_raw bs) \<noteq> ''==''"
    proof
      assume d: "drop (length (b64_raw bs) - 2) (b64_raw bs) = ''==''"
      then have "CHR ''='' \<in> set (b64_raw bs)"
        by (metis in_set_dropD list.set_intros(1))
      then show False using b64_raw_plain by blast
    qed
    ultimately show ?thesis
      using 1 by (cases "b64_raw bs = []") (auto simp: btoa_def b64_pad_def strip_pad_def)
  next
    case 2
    then have "length (b64_raw bs) mod 4 = 2" using len by simp
    then have "(length (b64_raw bs) + 2) mod 4 = 0" by presburger
    with 2 show ?thesis by (simp add: btoa_def b64_pad_def strip_pad_def)
  next
    case 3
    then have l3: "length (b64_raw bs) mod 4 = 3" using len by simp
    then have "(length (b64_raw bs) + 1) mod 4 = 0" "1 \<le> length (b64_raw bs)"
      by (presburger, cases "b64_raw bs") auto
    moreover have "drop (length (b64_raw bs) - 1) (b64_raw bs) \<noteq> ''=''"
    proof
      assume d: "drop (length (b64_raw bs) - 1) (b64_raw bs) = ''=''"
      then have "CHR ''='' \<in> set (b64_raw bs)"
        by (metis in_set_dropD list.set_intros(1))
      then show False using b64_raw_plain by blast
    qed
    ultimately show ?thesis
      using 3 by (simp add: btoa_def b64_pad_def strip_pad_def)
  qed
qed

lemma btoa_chars: "c \<in> set (btoa bs) \<Longrightarrow> \<not> b64_space c \<and> c \<noteq> CHR 0x0B \<and> c \<noteq> CHR '';''"
  using b64_raw_plain [of c bs]
  by (auto simp: btoa_def b64_pad_def b64_space_def split: if_splits)

lemma atob_btoa: "atob (btoa bs) = Some bs"
proof -
  have "filter (\<lambda>c. \<not> b64_space c) (btoa bs) = btoa bs"
    using btoa_chars by (auto simp: filter_id_conv)
  then show ?thesis by (simp add: atob_def strip_pad_btoa b64_decode_raw)
qed

interpretation base64: codec btoa atob "\<lambda>_. True"
  by unfold_locales (rule atob_btoa)

section \<open>Percent encoding\<close>

definition uri_plain :: "char \<Rightarrow> bool" where
  "uri_plain c =
     (let n = of_char c :: nat in
      (65 \<le> n \<and> n \<le> 90) \<or> (97 \<le> n \<and> n \<le> 122) \<or> (48 \<le> n \<and> n \<le> 57)
      \<or> c \<in> {CHR ''-'', CHR ''_'', CHR ''.'', CHR ''!'', CHR ''~'', CHR ''*'', CHR 0x27,
             CHR ''('', CHR '')''})"

definition upper_hex :: "nat \<Rightarrow> char" where
  "upper_hex n = (if n < 10 then char_of (48 + n) else char_of (55 + n))"

definition encode_uri :: "string \<Rightarrow> string" where
  "encode_uri s =
     concat (map (\<lambda>c. if uri_plain c then [c]
        else (let n = of_char c :: nat in [CHR ''%'', upper_hex (n div 16), upper_hex (n mod 16)])) s)"

text \<open>\<open>decodeURIComponent\<close> raises on a malformed escape: \<open>None\<close>.\<close>

fun decode_uri :: "string \<Rightarrow> string option" where
  "decode_uri [] = Some []"
| "decode_uri (c # cs) =
     (if c = CHR ''%'' then
        (case cs of
           a # b # r \<Rightarrow>
             (case (hex_value a, hex_value b) of
                (Some x, Some y) \<Rightarrow> map_option (\<lambda>s. char_of (x * 16 + y) # s) (decode_uri r)
              | _ \<Rightarrow> None)
         | _ \<Rightarrow> None)
      else map_option (\<lambda>s. c # s) (decode_uri cs))"

lemma hex_value_upper: "n < 16 \<Longrightarrow> hex_value (upper_hex n) = Some n"
  by (auto simp: hex_value_def upper_hex_def Let_def take_bit_nat_eq_self)

lemma decode_encode_uri: "decode_uri (encode_uri s) = Some s"
proof (induction s)
  case (Cons c s)
  define n where "n = (of_char c :: nat)"
  have n: "n < 256" by (simp add: n_def)
  then have h: "n div 16 < 16" "n mod 16 < 16" by auto
  have e: "encode_uri (c # s) =
    (if uri_plain c then [c] else [CHR ''%'', upper_hex (n div 16), upper_hex (n mod 16)])
      @ encode_uri s"
    by (simp add: encode_uri_def n_def Let_def)
  have "c \<noteq> CHR ''%''" if "uri_plain c"
    using that by (auto simp: uri_plain_def Let_def)
  then show ?case
    using h by (auto simp: e Cons hex_value_upper) (simp add: n_def)
qed (simp add: encode_uri_def)

lemma encode_uri_chars: "c \<in> set (encode_uri s) \<Longrightarrow> uri_plain c \<or> c = CHR ''%''"
proof -
  have hex: "uri_plain (upper_hex n)" if "n < 16" for n
    using that by (auto simp: uri_plain_def upper_hex_def Let_def take_bit_nat_eq_self)
  have "(of_char d :: nat) div 16 < 16" for d by (simp add: div_less_iff_less_mult)
  then show "c \<in> set (encode_uri s) \<Longrightarrow> uri_plain c \<or> c = CHR ''%''"
    using hex by (auto simp: encode_uri_def Let_def split: if_splits)
qed

interpretation uri: codec encode_uri decode_uri "\<lambda>_. True"
  by unfold_locales (rule decode_encode_uri)

section \<open>The session and its environment\<close>

record session_data =
  access_token :: string
  refresh_token :: string
  expires_at :: int

record impersonating_info =
  imp_user_id :: string
  imp_email :: string
  imp_name :: string

datatype session_error = SecretMissing

text \<open>
  What a request finds around it: the cookie name and the key derivation label of the
  application (web or admin), \<open>process.env.SESSION_SECRET\<close>, whether \<open>NODE_ENV\<close> is
  production, and the Web Crypto primitives.
\<close>

record session_env =
  cookie_name :: string
  hkdf_info :: string
  secret :: "string option"
  production :: bool
  derive :: "string \<Rightarrow> string \<Rightarrow> bytes"
  seal :: "bytes \<Rightarrow> bytes \<Rightarrow> bytes \<Rightarrow> bytes"
  unseal :: "bytes \<Rightarrow> bytes \<Rightarrow> bytes \<Rightarrow> bytes option"

text \<open>The documented law of AES-GCM.\<close>

definition aead_ok :: "session_env \<Rightarrow> bool" where
  "aead_ok env \<longleftrightarrow> (\<forall>k iv p. unseal env k iv (seal env k iv p) = Some p)"

definition web_cookie :: string where "web_cookie = ''__session''"
definition backup_cookie :: string where "backup_cookie = ''__session_backup''"
definition impersonating_cookie :: string where "impersonating_cookie = ''__impersonating''"
definition admin_cookie :: string where "admin_cookie = ''__zeus_session''"

definition max_age :: int where "max_age = 60 * 60 * 24 * 30"

definition web_env :: "session_env \<Rightarrow> session_env" where
  "web_env env = env\<lparr>cookie_name := web_cookie, hkdf_info := ''session''\<rparr>"

definition admin_env :: "session_env \<Rightarrow> session_env" where
  "admin_env env = env\<lparr>cookie_name := admin_cookie, hkdf_info := ''zeus-session''\<rparr>"

text \<open>\<open>getKey\<close>: the module-level cache is the second argument and the second result.\<close>

definition get_key :: "session_env \<Rightarrow> bytes option \<Rightarrow> (session_error + bytes) \<times> bytes option" where
  "get_key env cached =
     (case cached of
        Some k \<Rightarrow> (Inr k, cached)
      | None \<Rightarrow>
          (case secret env of
             None \<Rightarrow> (Inl SecretMissing, None)
           | Some s \<Rightarrow>
               (if s = [] then (Inl SecretMissing, None)
                else (let k = derive env (hkdf_info env) s in (Inr k, Some k)))))"

definition session_js :: "session_data \<Rightarrow> js" where
  "session_js d = JObj [(''access_token'', JStr (access_token d)),
     (''refresh_token'', JStr (refresh_token d)), (''expires_at'', JNum (expires_at d))]"

definition session_of_js :: "js \<Rightarrow> session_data option" where
  "session_of_js v =
     (case (js_get v ''access_token'', js_get v ''refresh_token'', js_get v ''expires_at'') of
        (JStr a, JStr r, JNum e) \<Rightarrow> Some \<lparr>access_token = a, refresh_token = r, expires_at = e\<rparr>
      | _ \<Rightarrow> None)"

text \<open>
  \<open>encrypt\<close> and \<open>decrypt\<close>, with the key the module has derived. The 12 random bytes
  of the nonce are an argument.
\<close>

definition encrypt :: "session_env \<Rightarrow> bytes option \<Rightarrow> bytes \<Rightarrow> session_data \<Rightarrow> session_error + string" where
  "encrypt env cached iv d =
     (case fst (get_key env cached) of
        Inl e \<Rightarrow> Inl e
      | Inr k \<Rightarrow> Inr (btoa (iv @ seal env k iv (json_print (session_js d)))))"

definition decrypt :: "session_env \<Rightarrow> bytes option \<Rightarrow> string \<Rightarrow> session_data option" where
  "decrypt env cached cookie =
     (case fst (get_key env cached) of
        Inl e \<Rightarrow> None
      | Inr k \<Rightarrow>
          (case atob cookie of
             None \<Rightarrow> None
           | Some buf \<Rightarrow>
               (case unseal env k (take 12 buf) (drop 12 buf) of
                  None \<Rightarrow> None
                | Some p \<Rightarrow> Option.bind (json_parse p) session_of_js)))"

section \<open>Cookies\<close>

definition secure_attr :: "session_env \<Rightarrow> string" where
  "secure_attr env = (if production env then ''; Secure'' else [])"

definition http_only_attrs :: string where
  "http_only_attrs = ''; HttpOnly; SameSite=Lax; Path=/; Max-Age=''"

definition create_session_cookie ::
  "session_env \<Rightarrow> bytes option \<Rightarrow> bytes \<Rightarrow> session_data \<Rightarrow> session_error + string" where
  "create_session_cookie env cached iv d =
     map_sum id (\<lambda>v. cookie_name env @ ''='' @ v @ http_only_attrs @ int_str max_age
       @ secure_attr env) (encrypt env cached iv d)"

definition clear_session_cookie :: "session_env \<Rightarrow> string" where
  "clear_session_cookie env = cookie_name env @ ''='' @ http_only_attrs @ ''0''"

text \<open>The \<open>name=value\<close> pairs of a Cookie header.\<close>

definition cookie_parts :: "string \<Rightarrow> string list" where
  "cookie_parts h = map js_trim (js_split (CHR '';'') h)"

definition is_session_part :: "session_env \<Rightarrow> string \<Rightarrow> bool" where
  "is_session_part env c = starts_with (cookie_name env @ ''='') c"

definition get_session_from_header ::
  "session_env \<Rightarrow> bytes option \<Rightarrow> string option \<Rightarrow> session_data option" where
  "get_session_from_header env cached h =
     (case h of
        None \<Rightarrow> None
      | Some header \<Rightarrow>
          (if header = [] then None
           else
             (case find (is_session_part env) (cookie_parts header) of
                None \<Rightarrow> None
              | Some m \<Rightarrow> decrypt env cached (drop (length (cookie_name env) + 1) m))))"

definition strip_session_cookie :: "session_env \<Rightarrow> string \<Rightarrow> string" where
  "strip_session_cookie env h =
     js_join ''; '' (filter (\<lambda>c. \<not> is_session_part env c) (cookie_parts h))"

text \<open>\<open>getSession\<close> and \<open>getBackupSession\<close> read the parsed cookies of the request.\<close>

definition read_cookie_session ::
  "session_env \<Rightarrow> bytes option \<Rightarrow> string \<Rightarrow> (string, string) dict \<Rightarrow> session_data option" where
  "read_cookie_session env cached name store =
     (case dict_get store name of
        None \<Rightarrow> None
      | Some v \<Rightarrow> if v = [] then None else decrypt env cached v)"

definition get_session ::
  "session_env \<Rightarrow> bytes option \<Rightarrow> (string, string) dict \<Rightarrow> session_data option" where
  "get_session env cached store = read_cookie_session env cached (cookie_name env) store"

definition get_backup_session ::
  "session_env \<Rightarrow> bytes option \<Rightarrow> (string, string) dict \<Rightarrow> session_data option" where
  "get_backup_session env cached store = read_cookie_session env cached backup_cookie store"

definition create_backup_session_cookie ::
  "session_env \<Rightarrow> bytes option \<Rightarrow> bytes \<Rightarrow> session_data \<Rightarrow> session_error + string" where
  "create_backup_session_cookie env cached iv d =
     map_sum id (\<lambda>v. backup_cookie @ ''='' @ v @ http_only_attrs @ int_str max_age
       @ secure_attr env) (encrypt env cached iv d)"

definition clear_backup_session_cookie :: string where
  "clear_backup_session_cookie = backup_cookie @ ''='' @ http_only_attrs @ ''0''"

definition impersonating_js :: "impersonating_info \<Rightarrow> js" where
  "impersonating_js i = JObj [(''userId'', JStr (imp_user_id i)), (''email'', JStr (imp_email i)),
     (''name'', JStr (imp_name i))]"

definition create_impersonating_cookie :: "session_env \<Rightarrow> impersonating_info \<Rightarrow> string" where
  "create_impersonating_cookie env i =
     impersonating_cookie @ ''='' @ encode_uri (json_print (impersonating_js i))
       @ ''; SameSite=Lax; Path=/; Max-Age='' @ int_str max_age @ secure_attr env"

definition clear_impersonating_cookie :: string where
  "clear_impersonating_cookie = impersonating_cookie @ ''=; SameSite=Lax; Path=/; Max-Age=0''"

section \<open>The key cache, sealing and the cookie header\<close>

definition key_cache_ok :: "session_env \<Rightarrow> bytes option \<Rightarrow> bool" where
  "key_cache_ok env cached \<longleftrightarrow>
     (case cached of
        None \<Rightarrow> True
      | Some k \<Rightarrow>
          (case secret env of None \<Rightarrow> False | Some s \<Rightarrow> s \<noteq> [] \<and> k = derive env (hkdf_info env) s))"

lemma key_cache_get:
  "key_cache_ok env cached \<Longrightarrow> fst (get_key env cached) = fst (get_key env None)"
  "key_cache_ok env cached \<Longrightarrow> key_cache_ok env (snd (get_key env cached))"
  by (auto simp: key_cache_ok_def get_key_def Let_def split: option.splits)

interpretation session_codec: codec session_js session_of_js "\<lambda>_. True"
  by unfold_locales (simp add: session_js_def session_of_js_def)

interpretation session_json: codec_chain session_js session_of_js "\<lambda>_. True" json_print json_parse wf_js
  by unfold_locales (auto simp: session_js_def)

definition impersonating_of_js :: "js \<Rightarrow> impersonating_info option" where
  "impersonating_of_js v =
     (case (js_get v ''userId'', js_get v ''email'', js_get v ''name'') of
        (JStr u, JStr e, JStr n) \<Rightarrow> Some \<lparr>imp_user_id = u, imp_email = e, imp_name = n\<rparr>
      | _ \<Rightarrow> None)"

interpretation impersonating_json:
  codec_chain impersonating_js impersonating_of_js "\<lambda>_. True" json_print json_parse wf_js
  by unfold_locales (auto simp: impersonating_js_def impersonating_of_js_def)

interpretation impersonating_value:
  codec_chain "\<lambda>i. json_print (impersonating_js i)" "\<lambda>z. Option.bind (json_parse z) impersonating_of_js"
    "\<lambda>_. True" encode_uri decode_uri "\<lambda>_. True"
  by unfold_locales

lemma decrypt_encrypt:
  assumes "aead_ok env" "length iv = 12" "key_cache_ok env c" "key_cache_ok env c'"
    and "encrypt env c iv d = Inr v"
  shows "decrypt env c' v = Some d"
proof -
  from assms(5) obtain k where k: "fst (get_key env c) = Inr k"
    and v: "v = btoa (iv @ seal env k iv (json_print (session_js d)))"
    by (auto simp: encrypt_def split: sum.splits)
  have k': "fst (get_key env c') = Inr k"
    using key_cache_get(1) [OF assms(3)] key_cache_get(1) [OF assms(4)] k by simp
  show ?thesis
    using assms(1,2) session_json.chain_dec_enc [of d]
    by (simp add: decrypt_def k' v atob_btoa aead_ok_def)
qed

lemma encrypt_chars:
  "encrypt env c iv d = Inr v \<Longrightarrow> x \<in> set v \<Longrightarrow> \<not> is_space x \<and> x \<noteq> CHR '';''"
  by (auto simp: encrypt_def is_space_def b64_space_def dest!: btoa_chars split: sum.splits)

text \<open>A cookie as it stands in a Cookie header: no separator in it, no white space around it.\<close>

definition plain_part :: "string \<Rightarrow> bool" where
  "plain_part c \<longleftrightarrow> CHR '';'' \<notin> set c \<and> js_trim c = c"

lemma plain_part_trim: "c \<in> set (cookie_parts h) \<Longrightarrow> plain_part c"
  using set_js_trim by (fastforce simp: cookie_parts_def plain_part_def dest: split_parts_no_sep)

lemma js_trim_space: "js_trim (CHR '' '' # c) = js_trim c"
  by (simp add: js_trim_def trim_start_def is_space_def)

lemma cookie_parts_join:
  "ps \<noteq> [] \<Longrightarrow> (\<And>p. p \<in> set ps \<Longrightarrow> plain_part p) \<Longrightarrow> cookie_parts (js_join ''; '' ps) = ps"
proof (induction ps rule: induct_list012)
  case (2 p)
  then show ?case by (simp add: cookie_parts_def plain_part_def js_split_no_sep)
next
  case (3 p q ps)
  have first: "js_split (CHR '';'') (CHR '' '' # s) =
      (CHR '' '' # hd (js_split (CHR '';'') s)) # tl (js_split (CHR '';'') s)" for s
    by (cases "js_split (CHR '';'') s") auto
  have skip: "cookie_parts (CHR '' '' # s) = cookie_parts s" for s
    by (cases "js_split (CHR '';'') s") (simp_all add: cookie_parts_def first js_trim_space)
  have "cookie_parts (js_join ''; '' (p # q # ps)) =
      js_trim p # cookie_parts (CHR '' '' # js_join ''; '' (q # ps))"
    using "3.prems" by (simp add: cookie_parts_def plain_part_def js_split_append)
  also have "\<dots> = p # q # ps"
    using 3 by (simp add: skip plain_part_def)
  finally show ?case .
qed simp

lemma cookie_parts_strip:
  "cookie_parts (strip_session_cookie env h) =
   (let ps = filter (\<lambda>c. \<not> is_session_part env c) (cookie_parts h) in if ps = [] then [[]] else ps)"
proof (cases "filter (\<lambda>c. \<not> is_session_part env c) (cookie_parts h) = []")
  case True
  then show ?thesis
    by (simp add: strip_session_cookie_def cookie_parts_def js_trim_def trim_start_def trim_end_def)
next
  case False
  then show ?thesis
    unfolding strip_session_cookie_def Let_def
    by (subst cookie_parts_join) (auto intro: plain_part_trim)
qed

lemma no_space_trim: "(\<And>c. c \<in> set s \<Longrightarrow> \<not> is_space c) \<Longrightarrow> js_trim s = s"
  by (cases "s = []") (simp_all add: js_trim_def trim_start_id trim_end_id)

text \<open>The pair of a created cookie survives the trip through a Cookie header.\<close>

lemma session_pair:
  assumes "create_session_cookie env c iv d = Inr sc"
    and "CHR '';'' \<notin> set (cookie_name env)" "\<And>x. x \<in> set (cookie_name env) \<Longrightarrow> \<not> is_space x"
  obtains v where "encrypt env c iv d = Inr v"
    and "hd (js_split (CHR '';'') sc) = cookie_name env @ ''='' @ v"
    and "plain_part (cookie_name env @ ''='' @ v)"
proof -
  from assms(1) obtain v where v: "encrypt env c iv d = Inr v"
    and sc: "sc = (cookie_name env @ ''='' @ v) @ CHR '';'' # tl http_only_attrs @ int_str max_age
      @ secure_attr env"
    by (auto simp: create_session_cookie_def http_only_attrs_def split: sum.splits)
      (cases "encrypt env c iv d"; auto)
  have nosep: "CHR '';'' \<notin> set (cookie_name env @ ''='' @ v)"
    using encrypt_chars [OF v] assms(2) by auto
  have "js_trim (cookie_name env @ ''='' @ v) = cookie_name env @ ''='' @ v"
    using encrypt_chars [OF v] assms(3) by (intro no_space_trim) (auto simp: is_space_def)
  then have "plain_part (cookie_name env @ ''='' @ v)"
    using nosep by (simp add: plain_part_def)
  moreover have "hd (js_split (CHR '';'') sc) = cookie_name env @ ''='' @ v"
    unfolding sc by (subst js_split_append [OF nosep]) simp
  ultimately show ?thesis using that v by blast
qed

section \<open>Properties\<close>

lemma find_append_skip: "(\<And>x. x \<in> set xs \<Longrightarrow> \<not> P x) \<Longrightarrow> find P (xs @ ys) = find P ys"
  by (induction xs) auto

lemma web_cookie_plain: "CHR '';'' \<notin> set web_cookie" "x \<in> set web_cookie \<Longrightarrow> \<not> is_space x"
  by (auto simp: web_cookie_def is_space_def)

lemma web_env_fields [simp]:
  "cookie_name (web_env env) = web_cookie" "secret (web_env env) = secret env"
  "seal (web_env env) = seal env" "unseal (web_env env) = unseal env"
  "derive (web_env env) = derive env" "aead_ok (web_env env) = aead_ok env"
  by (simp_all add: web_env_def aead_ok_def)

lemma read_session_header:
  assumes "aead_ok env" "length iv = 12"
    and "key_cache_ok (web_env env) c" "key_cache_ok (web_env env) c'"
    and "create_session_cookie (web_env env) c iv d = Inr sc"
    and "\<forall>p \<in> set pre. plain_part p \<and> \<not> is_session_part (web_env env) p"
    and "\<forall>p \<in> set post. plain_part p"
  shows "get_session_from_header (web_env env) c'
      (Some (js_join ''; '' (pre @ [hd (js_split (CHR '';'') sc)] @ post))) = Some d"
proof -
  obtain v where v: "encrypt (web_env env) c iv d = Inr v"
    and pair: "hd (js_split (CHR '';'') sc) = web_cookie @ ''='' @ v"
    and plain: "plain_part (web_cookie @ ''='' @ v)"
    using session_pair [OF assms(5)] web_cookie_plain by (metis web_env_fields(1))
  let ?ps = "pre @ [web_cookie @ ''='' @ v] @ post"
  have parts: "cookie_parts (js_join ''; '' ?ps) = ?ps"
    using assms(6,7) plain by (intro cookie_parts_join) auto
  have found: "find (is_session_part (web_env env)) ?ps = Some (web_cookie @ ''='' @ v)"
    using assms(6) starts_with_append [of "web_cookie @ ''=''" v]
    by (subst find_append_skip) (auto simp: is_session_part_def)
  have "?ps \<noteq> [[]]"
    by (auto simp: append_eq_Cons_conv)
  moreover have "cookie_parts [] = [[]]"
    by (simp add: cookie_parts_def js_trim_def trim_start_def trim_end_def)
  ultimately have "js_join ''; '' ?ps \<noteq> []"
    using parts by metis
  then show ?thesis
    using decrypt_encrypt [OF _ assms(2-4) v] assms(1) parts found
    by (simp add: get_session_from_header_def pair)
qed

text \<open>
  C1. The session cookie round trip: the cookie pair that \<open>createSessionCookie\<close> writes,
  sent back by the browser in a Cookie header among other cookies (none of them in front
  of it being a session cookie), is decrypted by \<open>getSessionFromHeader\<close> to the very
  session that was stored, whatever the state of the module's key cache.
\<close>

theorem session_cookie_roundtrip:
  assumes "aead_ok env" "length iv = 12"
    and "key_cache_ok (web_env env) c" "key_cache_ok (web_env env) c'"
    and "create_session_cookie (web_env env) c iv d = Inr sc"
    and "\<forall>p \<in> set pre. plain_part p \<and> \<not> is_session_part (web_env env) p"
    and "\<forall>p \<in> set post. plain_part p"
  shows "get_session_from_header (web_env env) c'
      (Some (js_join ''; '' (pre @ [hd (js_split (CHR '';'') sc)] @ post))) = Some d"
  using assms by (rule read_session_header)

text \<open>A small authenticated cipher on which the hypotheses hold.\<close>

definition demo_env :: session_env where
  "demo_env = \<lparr>cookie_name = [], hkdf_info = [], secret = Some ''s3cret'', production = True,
     derive = (\<lambda>info s. info @ s),
     seal = (\<lambda>k iv p. k @ iv @ p),
     unseal = (\<lambda>k iv c. if take (length (k @ iv)) c = k @ iv then Some (drop (length (k @ iv)) c)
       else None)\<rparr>"

definition demo_session :: session_data where
  "demo_session = \<lparr>access_token = ''at'', refresh_token = ''rt'', expires_at = 1700000000000\<rparr>"

lemma demo_aead [simp]: "aead_ok demo_env"
  by (simp add: aead_ok_def demo_env_def)

lemma session_cookie_roundtrip_witness:
  "get_session_from_header (web_env demo_env) None
     (Some (js_join ''; '' ([''theme=dark''] @ [hd (js_split (CHR '';'')
        (projr (create_session_cookie (web_env demo_env) None (replicate 12 (CHR ''i'')) demo_session)))]
        @ [''lang=en'']))) = Some demo_session"
proof (rule session_cookie_roundtrip)
  show "create_session_cookie (web_env demo_env) None (replicate 12 (CHR ''i'')) demo_session =
    Inr (projr (create_session_cookie (web_env demo_env) None (replicate 12 (CHR ''i'')) demo_session))"
    by (simp add: create_session_cookie_def encrypt_def get_key_def demo_env_def web_env_def Let_def)
qed (simp_all add: key_cache_ok_def plain_part_def is_session_part_def web_env_def web_cookie_def
    starts_with_def js_trim_def trim_start_def trim_end_def is_space_def)

lemma strip_session_cookie_hides:
  "get_session_from_header env cached (Some (strip_session_cookie env h)) = None"
proof -
  have "\<not> is_session_part env []"
    by (simp add: is_session_part_def starts_with_def)
  then have "find (is_session_part env) (cookie_parts (strip_session_cookie env h)) = None"
    by (auto simp: cookie_parts_strip Let_def find_None_iff)
  then show ?thesis by (simp add: get_session_from_header_def)
qed

text \<open>
  \<open>stripSessionCookie\<close> forwards every other cookie, in order, and nothing of the
  session: the header it returns has exactly the non-session cookies (or is empty), reads
  back as no session, and stripping it again changes nothing.
\<close>

theorem strip_session_cookie_sound:
  "cookie_parts (strip_session_cookie env h) =
     (let ps = filter (\<lambda>c. \<not> is_session_part env c) (cookie_parts h) in if ps = [] then [[]] else ps)
   \<and> get_session_from_header env cached (Some (strip_session_cookie env h)) = None
   \<and> strip_session_cookie env (strip_session_cookie env h) = strip_session_cookie env h"
proof -
  let ?ps = "filter (\<lambda>c. \<not> is_session_part env c) (cookie_parts h)"
  have empty: "\<not> is_session_part env []"
    by (simp add: is_session_part_def starts_with_def)
  have "strip_session_cookie env (strip_session_cookie env h) = js_join ''; '' ?ps"
    using empty
    by (simp add: strip_session_cookie_def [of env "strip_session_cookie env h"] cookie_parts_strip Let_def)
  also have "\<dots> = strip_session_cookie env h"
    by (simp add: strip_session_cookie_def)
  finally show ?thesis
    by (simp add: strip_session_cookie_hides cookie_parts_strip)
qed

definition demo_cookie_header :: "session_data \<Rightarrow> string" where
  "demo_cookie_header s = hd (js_split (CHR '';'')
     (projr (create_session_cookie (web_env demo_env) None (replicate 12 (CHR ''i'')) s)))"

lemma demo_cookie_header_read:
  "get_session_from_header (web_env demo_env) None (Some (demo_cookie_header s)) = Some s"
proof -
  have "create_session_cookie (web_env demo_env) None (replicate 12 (CHR ''i'')) s =
    Inr (projr (create_session_cookie (web_env demo_env) None (replicate 12 (CHR ''i'')) s))"
    by (simp add: create_session_cookie_def encrypt_def get_key_def demo_env_def web_env_def Let_def)
  from read_session_header [OF _ _ _ _ this, of None "[]" "[]"] show ?thesis
    by (simp add: demo_cookie_header_def key_cache_ok_def)
qed

end
