(* ===== verification/ProxyRoute.thy ===== *)
theory ProxyRoute
  imports SessionStore
begin

text \<open>
  \<open>apps/web/app/api/proxy/[...path]/route.ts\<close> and its admin twin: the request handler
  between the browser and the Go backend. The handler reads the sealed session, refreshes
  it when it is about to expire, forwards the request with the bearer token, refreshes and
  retries once on a 401, and turns the tokens of authentication responses into a cookie.

  Every \<open>fetch\<close> is a \<open>call\<close>; the backend is a function from the calls made so far and
  the next call to its reply, so any deterministic or adversarial server is an instance.
  A handler is a function on the log of calls that returns either the failure it rejects
  with or its result, and the extended log. \<open>inflight\<close> is the module-level
  \<open>refreshPromise\<close>: the outcome of a refresh some other request has under way at that
  moment, if any (theory RefreshLock models how it gets there). \<open>Date.now()\<close> is the
  clock, read at a point of the log. The two applications differ in the fields of
  \<open>proxy_cfg\<close>. URL parsing and logging are not modelled. A token that is not a string
  is kept as its JSON text, an \<open>expires_in\<close> that is not a number counts as missing.
\<close>

section \<open>Requests, responses, effects\<close>

type_synonym headers = "(string \<times> string) list"

text \<open>\<open>Headers.get\<close> joins the values of a name; names are lower case.\<close>

definition h_values :: "string \<Rightarrow> headers \<Rightarrow> string list" where
  "h_values n hs = map snd (filter (\<lambda>h. fst h = n) hs)"

definition h_get :: "string \<Rightarrow> headers \<Rightarrow> string option" where
  "h_get n hs = (if h_values n hs = [] then None else Some (js_join '', '' (h_values n hs)))"

fun h_set :: "string \<Rightarrow> string \<Rightarrow> headers \<Rightarrow> headers" where
  "h_set n v [] = [(n, v)]"
| "h_set n v ((k, w) # hs) =
     (if k = n then (n, v) # filter (\<lambda>h. fst h \<noteq> n) hs else (k, w) # h_set n v hs)"

definition h_append :: "string \<Rightarrow> string \<Rightarrow> headers \<Rightarrow> headers" where
  "h_append n v hs = hs @ [(n, v)]"

record request =
  rq_method :: string
  rq_path :: "string list"
  rq_query :: "(string \<times> string) list"
  rq_headers :: headers
  rq_cookies :: "(string, string) dict"
  rq_body :: string

record fetch_request =
  fq_url :: string
  fq_query :: "(string \<times> string) list"
  fq_method :: string
  fq_headers :: headers
  fq_body :: "string option"

datatype call = Refresh string | Forward fetch_request

record upstream_response =
  us_status :: int
  us_headers :: headers
  us_body :: string

datatype reply = NetError | Reply upstream_response

datatype body = JsonBody js | RawBody string

record response =
  rs_status :: int
  rs_headers :: headers
  rs_body :: body

datatype proxy_failure = FetchThrew | BadJson | TypeError | CookieFailed session_error | BodyConsumed

record proxy_cfg =
  auth_paths :: "string list"
  org_cookie :: "string option"
  catch_forward :: bool
  skip_headers :: "string list"
  catch_auth :: bool

record proxy_env =
  sess :: session_env
  key_cache :: "bytes option"
  nonce :: bytes
  api_url :: string
  backend :: "call list \<Rightarrow> call \<Rightarrow> reply"
  clock :: "call list \<Rightarrow> int"
  inflight :: "call list \<Rightarrow> (proxy_failure + session_data option) option"

definition web_cfg :: proxy_cfg where
  "web_cfg = \<lparr>auth_paths = [''oauth/exchange'', ''auth/login'', ''auth/register'', ''auth/refresh'',
       ''auth/otp/verify''],
     org_cookie = Some ''ziraloop_active_org'', catch_forward = True,
     skip_headers = [''transfer-encoding'', ''content-encoding'', ''content-length''],
     catch_auth = True\<rparr>"

definition admin_cfg :: proxy_cfg where
  "admin_cfg = \<lparr>auth_paths = [''auth/login'', ''auth/register'', ''auth/refresh''],
     org_cookie = None, catch_forward = False, skip_headers = [''transfer-encoding''],
     catch_auth = False\<rparr>"

definition logout_path :: string where "logout_path = ''auth/logout''"

definition us_ok :: "upstream_response \<Rightarrow> bool" where
  "us_ok r \<longleftrightarrow> 200 \<le> us_status r \<and> us_status r \<le> 299"

type_synonym 'a eff = "call list \<Rightarrow> (proxy_failure + 'a) \<times> call list"

definition eff_return :: "'a \<Rightarrow> 'a eff" where
  "eff_return a = (\<lambda>log. (Inr a, log))"

definition eff_lift :: "proxy_failure + 'a \<Rightarrow> 'a eff" where
  "eff_lift r = (\<lambda>log. (r, log))"

definition eff_bind :: "'a eff \<Rightarrow> ('a \<Rightarrow> 'b eff) \<Rightarrow> 'b eff" where
  "eff_bind m f = (\<lambda>log. case m log of (Inl e, l) \<Rightarrow> (Inl e, l) | (Inr a, l) \<Rightarrow> f a l)"

definition fetch :: "proxy_env \<Rightarrow> call \<Rightarrow> upstream_response eff" where
  "fetch env c = (\<lambda>log.
     (case backend env log c of NetError \<Rightarrow> Inl FetchThrew | Reply r \<Rightarrow> Inr r, log @ [c]))"

section \<open>Refreshing tokens\<close>

definition token_text :: "js \<Rightarrow> string" where
  "token_text v = (case v of JStr s \<Rightarrow> s | _ \<Rightarrow> json_print v)"

definition expires_in :: "js \<Rightarrow> int" where
  "expires_in data = (case js_get data ''expires_in'' of JNum n \<Rightarrow> n | _ \<Rightarrow> 900)"

text \<open>The session of a token response, or none when a token is missing or empty.\<close>

definition session_of_tokens :: "int \<Rightarrow> js \<Rightarrow> session_data option" where
  "session_of_tokens now data =
     (if \<not> truthy (js_get data ''access_token'') \<or> \<not> truthy (js_get data ''refresh_token'') then None
      else Some \<lparr>access_token = token_text (js_get data ''access_token''),
                 refresh_token = token_text (js_get data ''refresh_token''),
                 expires_at = now + expires_in data * 1000\<rparr>)"

definition refresh_tokens :: "proxy_env \<Rightarrow> string \<Rightarrow> session_data option eff" where
  "refresh_tokens env tok =
     eff_bind (fetch env (Refresh tok)) (\<lambda>res log.
       (if \<not> us_ok res then Inr None
        else
          (case json_parse (us_body res) of
             None \<Rightarrow> Inl BadJson
           | Some data \<Rightarrow>
               (if nullish data then Inl TypeError
                else Inr (session_of_tokens (clock env log) data))), log))"

definition safe_refresh :: "proxy_env \<Rightarrow> string \<Rightarrow> session_data option eff" where
  "safe_refresh env tok = (\<lambda>log.
     (case inflight env log of
        Some outcome \<Rightarrow> (outcome, log)
      | None \<Rightarrow> refresh_tokens env tok log))"

section \<open>The upstream request\<close>

definition copy_header :: "headers \<Rightarrow> string \<Rightarrow> headers \<Rightarrow> headers" where
  "copy_header src n hs =
     (case h_get n src of None \<Rightarrow> hs | Some v \<Rightarrow> if v = [] then hs else h_set n v hs)"

definition build_upstream_headers ::
  "proxy_cfg \<Rightarrow> session_env \<Rightarrow> request \<Rightarrow> session_data option \<Rightarrow> headers" where
  "build_upstream_headers cfg senv req session =
     (let safe = copy_header (rq_headers req) ''accept'' (copy_header (rq_headers req) ''content-type'' []);
          with_cookies =
            (case h_get ''cookie'' (rq_headers req) of
               None \<Rightarrow> safe
             | Some raw \<Rightarrow>
                 (if raw = [] then safe
                  else (let cleaned = strip_session_cookie senv raw in
                        if cleaned = [] then safe else h_set ''cookie'' cleaned safe)));
          with_auth =
            (case session of
               None \<Rightarrow> with_cookies
             | Some s \<Rightarrow> h_set ''authorization'' (''Bearer '' @ access_token s) with_cookies)
      in (case org_cookie cfg of
            None \<Rightarrow> with_auth
          | Some oc \<Rightarrow>
              (case dict_get (rq_cookies req) oc of
                 None \<Rightarrow> with_auth
               | Some v \<Rightarrow> if v = [] then with_auth else h_set ''x-org-id'' v with_auth)))"

definition api_path :: "request \<Rightarrow> string" where
  "api_path req = js_join ''/'' (rq_path req)"

definition forward ::
  "proxy_env \<Rightarrow> request \<Rightarrow> headers \<Rightarrow> string option \<Rightarrow> upstream_response eff" where
  "forward env req hs bdy =
     fetch env (Forward \<lparr>fq_url = api_url env @ ''/'' @ api_path req, fq_query = rq_query req,
       fq_method = rq_method req, fq_headers = hs, fq_body = bdy\<rparr>)"

definition request_body :: "request \<Rightarrow> string option" where
  "request_body req =
     (if rq_method req \<noteq> ''GET'' \<and> rq_method req \<noteq> ''HEAD'' then Some (rq_body req) else None)"

definition is_logout :: "request \<Rightarrow> bool" where
  "is_logout req \<longleftrightarrow> api_path req = logout_path \<and> rq_method req = ''POST''"

text \<open>
  Logout interception: the refresh token goes into the JSON body. An array keeps its
  text (a named property of an array is not serialised), a primitive is a TypeError.
\<close>

definition upstream_body ::
  "request \<Rightarrow> session_data option \<Rightarrow> proxy_failure + string option" where
  "upstream_body req session =
     (case session of
        None \<Rightarrow> Inr (request_body req)
      | Some s \<Rightarrow>
          (if \<not> is_logout req then Inr (request_body req)
           else
             (case (case request_body req of None \<Rightarrow> Some (JObj []) | Some b \<Rightarrow> json_parse b) of
                None \<Rightarrow> Inl BadJson
              | Some (JObj kvs) \<Rightarrow>
                  Inr (Some (json_print (JObj (dict_set ''refresh_token'' (JStr (refresh_token s)) kvs))))
              | Some (JArr vs) \<Rightarrow> Inr (Some (json_print (JArr vs)))
              | Some _ \<Rightarrow> Inl TypeError)))"

definition is_auth_path :: "proxy_cfg \<Rightarrow> request \<Rightarrow> bool" where
  "is_auth_path cfg req \<longleftrightarrow> api_path req \<in> set (auth_paths cfg)"

definition proactive_refresh ::
  "proxy_cfg \<Rightarrow> proxy_env \<Rightarrow> request \<Rightarrow> session_data option \<Rightarrow> session_data option eff" where
  "proactive_refresh cfg env req session = (\<lambda>log.
     (case session of
        None \<Rightarrow> (Inr None, log)
      | Some s \<Rightarrow>
          (if \<not> is_auth_path cfg req \<and> expires_at s - clock env log < 60000
           then eff_bind (safe_refresh env (refresh_token s))
                  (\<lambda>r. eff_return (case r of None \<Rightarrow> Some s | Some n \<Rightarrow> Some n)) log
           else (Inr (Some s), log))))"

text \<open>
  Forward; on a 401 refresh and retry once. The result is the response, the session used
  last and the session refreshed here; \<open>None\<close> is the caught network failure.
\<close>

record exchange =
  ex_upstream :: upstream_response
  ex_session :: "session_data option"
  ex_refreshed :: "session_data option"

definition try_forward ::
  "proxy_cfg \<Rightarrow> proxy_env \<Rightarrow> request \<Rightarrow> headers \<Rightarrow> string option \<Rightarrow> upstream_response option eff" where
  "try_forward cfg env req hs bdy = (\<lambda>log.
     (case forward env req hs bdy log of
        (Inr r, l) \<Rightarrow> (Inr (Some r), l)
      | (Inl e, l) \<Rightarrow> (if catch_forward cfg then Inr None else Inl e, l)))"

definition retry_on_401 ::
  "proxy_cfg \<Rightarrow> proxy_env \<Rightarrow> request \<Rightarrow> session_data option \<Rightarrow> upstream_response \<Rightarrow> exchange eff" where
  "retry_on_401 cfg env req session up =
     (case session of
        Some s \<Rightarrow>
          (if us_status up = 401 \<and> \<not> is_auth_path cfg req \<and> \<not> is_logout req
           then eff_bind (safe_refresh env (refresh_token s)) (\<lambda>r.
             (case r of
                None \<Rightarrow> eff_return \<lparr>ex_upstream = up, ex_session = session, ex_refreshed = None\<rparr>
              | Some n \<Rightarrow>
                  eff_bind (forward env req (build_upstream_headers cfg (sess env) req (Some n))
                      (request_body req))
                    (\<lambda>up2. eff_return
                      \<lparr>ex_upstream = up2, ex_session = Some n, ex_refreshed = Some n\<rparr>)))
           else eff_return \<lparr>ex_upstream = up, ex_session = session, ex_refreshed = None\<rparr>)
      | None \<Rightarrow> eff_return \<lparr>ex_upstream = up, ex_session = session, ex_refreshed = None\<rparr>)"

section \<open>The response\<close>

definition response_headers :: "proxy_cfg \<Rightarrow> headers \<Rightarrow> headers" where
  "response_headers cfg us =
     foldl (\<lambda>hs kv. if to_lower (fst kv) \<in> set (skip_headers cfg) then hs
       else h_set (to_lower (fst kv)) (snd kv) hs) [] us"

definition json_response :: "js \<Rightarrow> int \<Rightarrow> headers \<Rightarrow> response" where
  "json_response v st hs = \<lparr>rs_status = st, rs_headers = hs, rs_body = JsonBody v\<rparr>"

definition error_response :: "string \<Rightarrow> int \<Rightarrow> response" where
  "error_response msg st = json_response (JObj [(''error'', JStr msg)]) st []"

text \<open>The rest of an object without its token members.\<close>

definition strip_tokens :: "js \<Rightarrow> js" where
  "strip_tokens v =
     (case v of
        JObj kvs \<Rightarrow>
          JObj (dict_delete ''expires_in'' (dict_delete ''refresh_token'' (dict_delete ''access_token'' kvs)))
      | _ \<Rightarrow> JObj [])"

definition set_session_cookie :: "proxy_env \<Rightarrow> session_data \<Rightarrow> headers \<Rightarrow> proxy_failure + headers" where
  "set_session_cookie env s hs =
     (case create_session_cookie (sess env) (key_cache env) (nonce env) s of
        Inl e \<Rightarrow> Inl (CookieFailed e)
      | Inr c \<Rightarrow> Inr (h_append ''set-cookie'' c hs))"

text \<open>
  Authentication responses. \<open>upstream.json()\<close> consumes the body, so when the response
  carries no tokens the handler falls through to a \<open>NextResponse\<close> over a disturbed
  stream, which raises.
\<close>

definition auth_response :: "proxy_cfg \<Rightarrow> proxy_env \<Rightarrow> upstream_response \<Rightarrow> response eff" where
  "auth_response cfg env up = (\<lambda>log.
     (let failed = (\<lambda>e. if catch_auth cfg then Inr (error_response ''session_creation_failed'' 502) else Inl e)
      in (case json_parse (us_body up) of
            None \<Rightarrow> failed BadJson
          | Some data \<Rightarrow>
              (if nullish data then failed TypeError
               else
                 (case session_of_tokens (clock env log) data of
                    None \<Rightarrow> Inl BodyConsumed
                  | Some s \<Rightarrow>
                      (case set_session_cookie env s [] of
                         Inl e \<Rightarrow> failed e
                       | Inr hs \<Rightarrow> Inr (json_response (strip_tokens data) (us_status up) hs)))),
         log)))"

definition persist_session ::
  "proxy_cfg \<Rightarrow> proxy_env \<Rightarrow> request \<Rightarrow> exchange \<Rightarrow> headers \<Rightarrow> proxy_failure + headers" where
  "persist_session cfg env req x hs =
     (case ex_refreshed x of
        Some n \<Rightarrow> set_session_cookie env n hs
      | None \<Rightarrow>
          (case (ex_session x, h_get ''cookie'' (rq_headers req)) of
             (Some s, Some raw) \<Rightarrow>
               (if is_auth_path cfg req \<or> raw = [] then Inr hs
                else
                  (case get_session_from_header (sess env) (key_cache env) (Some raw) of
                     None \<Rightarrow> Inr hs
                   | Some original \<Rightarrow>
                       (if access_token original \<noteq> access_token s then set_session_cookie env s hs
                        else Inr hs)))
           | _ \<Rightarrow> Inr hs))"

definition clear_cookies :: "proxy_cfg \<Rightarrow> proxy_env \<Rightarrow> request \<Rightarrow> exchange \<Rightarrow> headers \<Rightarrow> headers" where
  "clear_cookies cfg env req x hs =
     (let hs1 = (if is_logout req \<and> us_ok (ex_upstream x)
                 then h_append ''set-cookie'' (clear_session_cookie (sess env)) hs else hs)
      in if us_status (ex_upstream x) = 401 \<and> ex_session x \<noteq> None \<and> ex_refreshed x = None
            \<and> \<not> is_auth_path cfg req
         then h_append ''set-cookie'' (clear_session_cookie (sess env)) hs1 else hs1)"

definition build_response ::
  "proxy_cfg \<Rightarrow> proxy_env \<Rightarrow> request \<Rightarrow> exchange \<Rightarrow> response eff" where
  "build_response cfg env req x =
     (if is_auth_path cfg req \<and> us_ok (ex_upstream x) then auth_response cfg env (ex_upstream x)
      else eff_lift (map_sum id
        (\<lambda>hs. \<lparr>rs_status = us_status (ex_upstream x), rs_headers = clear_cookies cfg env req x hs,
               rs_body = RawBody (us_body (ex_upstream x))\<rparr>)
        (persist_session cfg env req x (response_headers cfg (us_headers (ex_upstream x))))))"

definition handler :: "proxy_cfg \<Rightarrow> proxy_env \<Rightarrow> request \<Rightarrow> response eff" where
  "handler cfg env req =
     (let session = get_session_from_header (sess env) (key_cache env) (h_get ''cookie'' (rq_headers req))
      in eff_bind (eff_lift (upstream_body req session)) (\<lambda>bdy.
         eff_bind (proactive_refresh cfg env req session) (\<lambda>session'.
         eff_bind (try_forward cfg env req (build_upstream_headers cfg (sess env) req session') bdy) (\<lambda>r.
         (case r of
            None \<Rightarrow> eff_return (error_response ''upstream_unavailable'' 502)
          | Some up \<Rightarrow>
              eff_bind (retry_on_401 cfg env req session' up) (build_response cfg env req))))))"

definition web_handler :: "proxy_env \<Rightarrow> request \<Rightarrow> response eff" where
  "web_handler env = handler web_cfg (env\<lparr>sess := web_env (sess env)\<rparr>)"

definition admin_handler :: "proxy_env \<Rightarrow> request \<Rightarrow> response eff" where
  "admin_handler env = handler admin_cfg (env\<lparr>sess := admin_env (sess env)\<rparr>)"

section \<open>Headers\<close>

lemma h_values_set: "h_values m (h_set n v hs) = (if m = n then [v] else h_values m hs)"
  by (induction n v hs rule: h_set.induct) (auto simp: h_values_def filter_empty_conv intro!: arg_cong [where f = "map snd"] filter_cong)

lemma h_get_set: "h_get m (h_set n v hs) = (if m = n then Some v else h_get m hs)"
  by (simp add: h_get_def h_values_set)

lemma h_values_append [simp]:
  "h_values m (h_append n v hs) = h_values m hs @ (if n = m then [v] else [])"
  by (simp add: h_values_def h_append_def)

section \<open>Effects\<close>

named_theorems eff_simps \<open>running a handler on a log\<close>

lemma eff_return_run [eff_simps]: "eff_return a log = (Inr a, log)"
  by (simp add: eff_return_def)

lemma eff_lift_run [eff_simps]: "eff_lift r log = (r, log)"
  by (simp add: eff_lift_def)

lemma eff_bind_run [eff_simps]:
  "eff_bind m f log = (case m log of (Inl e, l) \<Rightarrow> (Inl e, l) | (Inr a, l) \<Rightarrow> f a l)"
  by (simp add: eff_bind_def)

lemma fetch_run [eff_simps]:
  "fetch env c log = (case backend env log c of NetError \<Rightarrow> Inl FetchThrew | Reply r \<Rightarrow> Inr r, log @ [c])"
  by (simp add: fetch_def)

text \<open>
  A step makes at most \<open>f\<close> forwards and \<open>r\<close> refreshes: the log it returns extends the
  one it got by so many calls. The bound composes along \<open>eff_bind\<close>.
\<close>

definition calls_within :: "nat \<Rightarrow> nat \<Rightarrow> call list \<Rightarrow> call list \<Rightarrow> bool" where
  "calls_within f r log log' \<longleftrightarrow>
     (\<exists>ext. log' = log @ ext \<and> length (filter (\<lambda>c. \<exists>q. c = Forward q) ext) \<le> f
        \<and> length (filter (\<lambda>c. \<exists>t. c = Refresh t) ext) \<le> r)"

definition bounded :: "nat \<Rightarrow> nat \<Rightarrow> 'a eff \<Rightarrow> bool" where
  "bounded f r m \<longleftrightarrow> (\<forall>log. calls_within f r log (snd (m log)))"

lemma calls_within_refl [simp]: "calls_within f r log log"
  by (simp add: calls_within_def)

lemma calls_within_trans:
  "calls_within f r a b \<Longrightarrow> calls_within f' r' b c \<Longrightarrow> calls_within (f + f') (r + r') a c"
  unfolding calls_within_def by (force intro: add_mono)

lemma calls_within_mono: "calls_within f r a b \<Longrightarrow> f \<le> f' \<Longrightarrow> r \<le> r' \<Longrightarrow> calls_within f' r' a b"
  unfolding calls_within_def by (elim exE conjE, intro exI conjI) (assumption | erule (1) le_trans)+

lemma bounded_mono: "bounded f r m \<Longrightarrow> f \<le> f' \<Longrightarrow> r \<le> r' \<Longrightarrow> bounded f' r' m"
  unfolding bounded_def using calls_within_mono by blast

lemma bounded_bind:
  assumes "bounded f r m" and "\<And>a. bounded f' r' (k a)"
  shows "bounded (f + f') (r + r') (eff_bind m k)"
  unfolding bounded_def
proof
  fix log
  obtain res l where m: "m log = (res, l)" by (cases "m log")
  then have first: "calls_within f r log l"
    using assms(1) unfolding bounded_def by (metis snd_conv)
  show "calls_within (f + f') (r + r') log (snd (eff_bind m k log))"
  proof (cases res)
    case (Inl e)
    then show ?thesis using calls_within_mono [OF first] by (simp add: eff_bind_run m)
  next
    case (Inr a)
    have "calls_within f' r' l (snd (k a l))"
      using assms(2) by (simp add: bounded_def)
    with first Inr show ?thesis
      by (simp add: eff_bind_run m calls_within_trans)
  qed
qed

lemma bounded_pure [simp]: "bounded f r (eff_return a)" "bounded f r (eff_lift x)"
  by (simp_all add: bounded_def eff_simps)

lemma bounded_fetch:
  "bounded 0 (Suc 0) (fetch env (Refresh t))" "bounded (Suc 0) 0 (fetch env (Forward q))"
  by (simp_all add: bounded_def calls_within_def eff_simps)

lemma bounded_safe_refresh: "bounded 0 (Suc 0) (safe_refresh env t)"
proof -
  have "bounded (0 + 0) (Suc 0 + 0) (refresh_tokens env t)"
    unfolding refresh_tokens_def
    by (rule bounded_bind [OF bounded_fetch(1)]) (simp add: bounded_def)
  then show ?thesis by (auto simp: bounded_def safe_refresh_def split: option.split)
qed

lemma bounded_forward: "bounded (Suc 0) 0 (forward env req hs b)"
  unfolding forward_def by (rule bounded_fetch)

lemma bounded_proactive: "bounded 0 (Suc 0) (proactive_refresh cfg env req session)"
proof -
  have "bounded (0 + 0) (Suc 0 + 0) (eff_bind (safe_refresh env t)
      (\<lambda>r. eff_return (case r of None \<Rightarrow> Some s | Some n \<Rightarrow> Some n)))" for t s
    by (rule bounded_bind [OF bounded_safe_refresh]) simp
  then show ?thesis
    by (auto simp: bounded_def proactive_refresh_def split: option.split)
qed

lemma bounded_try_forward: "bounded (Suc 0) 0 (try_forward cfg env req hs b)"
  unfolding bounded_def
proof
  fix log
  have "calls_within (Suc 0) 0 log (snd (forward env req hs b log))"
    using bounded_forward by (auto simp: bounded_def)
  then show "calls_within (Suc 0) 0 log (snd (try_forward cfg env req hs b log))"
    by (auto simp: try_forward_def split: prod.split sum.split)
qed

lemma bounded_retry: "bounded (Suc 0) (Suc 0) (retry_on_401 cfg env req session up)"
proof -
  have "bounded (0 + Suc 0) (Suc 0 + 0) (eff_bind (safe_refresh env t) (case_option (eff_return x)
      (\<lambda>n. eff_bind (forward env req (g n) b) (\<lambda>up2. eff_return (h n up2)))))"
    for t g b h and x :: exchange
  proof (rule bounded_bind [OF bounded_safe_refresh])
    fix r
    have "bounded (Suc 0 + 0) (0 + 0)
        (eff_bind (forward env req (g n) b) (\<lambda>up2. eff_return (h n up2)))" for n
      by (rule bounded_bind [OF bounded_forward]) simp
    then show "bounded (Suc 0) 0 (case r of None \<Rightarrow> eff_return x
        | Some n \<Rightarrow> eff_bind (forward env req (g n) b) (\<lambda>up2. eff_return (h n up2)))"
      by (cases r) simp_all
  qed
  then show ?thesis
    by (auto simp: retry_on_401_def split: option.split)
qed

lemma bounded_build: "bounded 0 0 (build_response cfg env req x)"
  by (simp add: bounded_def build_response_def auth_response_def eff_simps Let_def)

section \<open>Properties\<close>

lemma h_get_copy: "m \<noteq> n \<Longrightarrow> h_get m (copy_header src n hs) = h_get m hs"
  by (auto simp: copy_header_def h_get_set split: option.split)

lemma h_get_Nil [simp]: "h_get n [] = None"
  by (simp add: h_get_def h_values_def)

lemma upstream_auth_header:
  "h_get ''authorization'' (build_upstream_headers web_cfg senv req session) =
     map_option (\<lambda>s. ''Bearer '' @ access_token s) session"
  by (auto simp: build_upstream_headers_def web_cfg_def Let_def h_get_set h_get_copy split: option.split)

text \<open>
  C2. What the backend is sent: the bearer token of the session the handler holds and of
  no other source (a client's own Authorization header is never forwarded), and no
  session cookie.
\<close>

theorem upstream_headers_safe:
  "h_get ''authorization'' (build_upstream_headers web_cfg senv req session) =
     map_option (\<lambda>s. ''Bearer '' @ access_token s) session
   \<and> get_session_from_header senv cached
       (h_get ''cookie'' (build_upstream_headers web_cfg senv req session)) = None"
proof -
  let ?h = "build_upstream_headers web_cfg senv req session"
  have "h_get ''cookie'' ?h = None \<or> (\<exists>raw. h_get ''cookie'' ?h = Some (strip_session_cookie senv raw))"
    by (auto simp: build_upstream_headers_def Let_def h_get_set h_get_copy split: option.split)
  then show ?thesis
    using upstream_auth_header strip_session_cookie_hides by (auto simp: get_session_from_header_def)
qed

lemma handler_bounded: "bounded 2 2 (handler cfg env req)"
proof -
  have after: "bounded (Suc 0) (Suc 0) (case r of
      None \<Rightarrow> eff_return (error_response ''upstream_unavailable'' 502)
    | Some up \<Rightarrow> eff_bind (retry_on_401 cfg env req s up) (build_response cfg env req))" for r s
    using bounded_bind [OF bounded_retry bounded_build] by (cases r) simp_all
  have "bounded (0 + (0 + (Suc 0 + Suc 0))) (0 + (Suc 0 + (0 + Suc 0))) (handler cfg env req)"
    unfolding handler_def Let_def
    by (intro bounded_bind bounded_proactive bounded_pure bounded_try_forward after)
  then show ?thesis by (simp add: numeral_2_eq_2)
qed

text \<open>
  C6. The handler makes at most two forwards and two refreshes for a request (the retry
  happens once), whatever the backend answers, and never drops a call from the log.
\<close>

theorem handler_call_bound:
  "\<exists>ext. snd (handler cfg env req log) = log @ ext
     \<and> length (filter (\<lambda>c. \<exists>q. c = Forward q) ext) \<le> 2
     \<and> length (filter (\<lambda>c. \<exists>t. c = Refresh t) ext) \<le> 2"
  using handler_bounded [of cfg env req] by (auto simp: bounded_def calls_within_def)

lemma strip_tokens_fields:
  "js_get (strip_tokens v) ''access_token'' = JUndefined"
  "js_get (strip_tokens v) ''refresh_token'' = JUndefined"
  "js_get (strip_tokens v) ''expires_in'' = JUndefined"
  by (cases v; simp add: strip_tokens_def dict_simps)+

lemma auth_no_retry:
  "is_auth_path cfg req \<Longrightarrow> retry_on_401 cfg env req s up =
     eff_return \<lparr>ex_upstream = up, ex_session = s, ex_refreshed = None\<rparr>"
  "is_auth_path cfg req \<Longrightarrow> proactive_refresh cfg env req s = eff_return s"
  by (auto simp: retry_on_401_def proactive_refresh_def eff_return_def fun_eq_iff split: option.split)

lemma map_sum_Inr [eff_simps]: "map_sum id f r = Inr b \<longleftrightarrow> (\<exists>a. r = Inr a \<and> b = f a)"
  by (cases r) auto

lemma build_response_status:
  "build_response cfg env req x log = (Inr resp, log') \<Longrightarrow>
   \<not> (is_auth_path cfg req \<and> us_ok (ex_upstream x)) \<Longrightarrow> rs_status resp = us_status (ex_upstream x)"
  by (auto simp: build_response_def eff_simps)

lemma auth_response_safe:
  "auth_response cfg env up log = (Inr resp, log') \<Longrightarrow>
   rs_status resp = 502 \<or> (\<exists>data. rs_body resp = JsonBody (strip_tokens data))"
  by (auto simp: auth_response_def Let_def error_response_def json_response_def
      split: if_splits option.splits sum.splits)

text \<open>A success on an authentication path is one forward and the token handling of its answer.\<close>

lemma auth_success:
  assumes "is_auth_path cfg req"
    and "handler cfg env req log = (Inr resp, log')"
    and "200 \<le> rs_status resp" "rs_status resp \<le> 299"
  obtains q up where "backend env log (Forward q) = Reply up"
    and "auth_response cfg env up (log @ [Forward q]) = (Inr resp, log')"
proof -
  let ?s = "get_session_from_header (sess env) (key_cache env) (h_get ''cookie'' (rq_headers req))"
  let ?x = "\<lambda>up. \<lparr>ex_upstream = up, ex_session = ?s, ex_refreshed = None\<rparr>"
  obtain b where b: "upstream_body req ?s = Inr b"
    using assms(2) by (cases "upstream_body req ?s") (auto simp: handler_def Let_def eff_simps)
  define q where "q = \<lparr>fq_url = api_url env @ ''/'' @ api_path req, fq_query = rq_query req,
    fq_method = rq_method req, fq_headers = build_upstream_headers cfg (sess env) req ?s, fq_body = b\<rparr>"
  have run: "handler cfg env req log =
    (case backend env log (Forward q) of
       NetError \<Rightarrow> (if catch_forward cfg then (Inr (error_response ''upstream_unavailable'' 502), log @ [Forward q])
         else (Inl FetchThrew, log @ [Forward q]))
     | Reply up \<Rightarrow> build_response cfg env req (?x up) (log @ [Forward q]))"
    using b assms(1)
    by (simp add: handler_def Let_def eff_simps auth_no_retry try_forward_def forward_def q_def
        split: reply.split)
  obtain up where up: "backend env log (Forward q) = Reply up"
    using run assms(2,4)
    by (cases "backend env log (Forward q)") (auto simp: error_response_def json_response_def split: if_splits)
  have built: "build_response cfg env req (?x up) (log @ [Forward q]) = (Inr resp, log')"
    using run up assms(2) by simp
  have "us_ok up"
  proof (rule ccontr)
    assume no: "\<not> us_ok up"
    then have "rs_status resp = us_status up" using build_response_status [OF built] by simp
    with no show False using assms(3,4) by (simp add: us_ok_def)
  qed
  then show ?thesis
    using that [OF up] built assms(1) by (simp add: build_response_def)
qed

text \<open>
  C3. Tokens of an authentication response never reach the browser: every success status
  the handler returns on an authentication path comes with a JSON body that has no
  \<open>access_token\<close>, \<open>refresh_token\<close> or \<open>expires_in\<close> member.
\<close>

theorem auth_tokens_not_leaked:
  assumes "is_auth_path cfg req"
    and "handler cfg env req log = (Inr resp, log')"
    and "200 \<le> rs_status resp" "rs_status resp \<le> 299"
  shows "\<exists>v. rs_body resp = JsonBody v \<and> js_get v ''access_token'' = JUndefined
           \<and> js_get v ''refresh_token'' = JUndefined \<and> js_get v ''expires_in'' = JUndefined"
proof -
  obtain q up where "auth_response cfg env up (log @ [Forward q]) = (Inr resp, log')"
    using auth_success [OF assms] by blast
  from auth_response_safe [OF this] show ?thesis
    using assms(4) strip_tokens_fields by auto
qed

section \<open>A concrete deployment\<close>

definition demo_proxy :: "(call list \<Rightarrow> call \<Rightarrow> reply) \<Rightarrow> proxy_env" where
  "demo_proxy f = \<lparr>sess = web_env demo_env, key_cache = None, nonce = replicate 12 (CHR ''i''),
     api_url = ''https://api'', backend = f, clock = (\<lambda>_. 1000), inflight = (\<lambda>_. None)\<rparr>"

definition demo_request :: "string \<Rightarrow> string list \<Rightarrow> string \<Rightarrow> int \<Rightarrow> request" where
  "demo_request m path bdy expiry = \<lparr>rq_method = m, rq_path = path, rq_query = [],
     rq_headers = [(''cookie'', demo_cookie_header (demo_session\<lparr>expires_at := expiry\<rparr>))],
     rq_cookies = [], rq_body = bdy\<rparr>"

definition demo_reply :: "int \<Rightarrow> js \<Rightarrow> reply" where
  "demo_reply st v = Reply \<lparr>us_status = st, us_headers = [], us_body = json_print v\<rparr>"

definition demo_tokens :: js where
  "demo_tokens = JObj [(''access_token'', JStr ''at2''), (''refresh_token'', JStr ''rt2''),
     (''expires_in'', JNum 60), (''user'', JStr ''ann'')]"

lemma demo_fields [simp]:
  "sess (demo_proxy f) = web_env demo_env" "key_cache (demo_proxy f) = None"
  "nonce (demo_proxy f) = replicate 12 (CHR ''i'')" "backend (demo_proxy f) = f"
  "clock (demo_proxy f) log = 1000" "inflight (demo_proxy f) log = None"
  "rq_method (demo_request m path bdy t) = m" "rq_path (demo_request m path bdy t) = path"
  "rq_body (demo_request m path bdy t) = bdy"
  "h_get ''cookie'' (rq_headers (demo_request m path bdy t)) =
     Some (demo_cookie_header (demo_session\<lparr>expires_at := t\<rparr>))"
  by (simp_all add: demo_proxy_def demo_request_def h_get_def h_values_def)

lemma demo_paths [simp]:
  "is_auth_path cfg (demo_request m path bdy t) \<longleftrightarrow> js_join ''/'' path \<in> set (auth_paths cfg)"
  "is_logout (demo_request m path bdy t) \<longleftrightarrow> js_join ''/'' path = ''auth/logout'' \<and> m = ''POST''"
  by (simp_all add: is_auth_path_def is_logout_def api_path_def logout_path_def)

lemma demo_key_cache [simp]: "key_cache_ok e None"
  by (simp add: key_cache_ok_def)

definition demo_set_cookie :: "bytes \<Rightarrow> session_data \<Rightarrow> string" where
  "demo_set_cookie iv d = projr (create_session_cookie (web_env demo_env) None iv d)"

lemma demo_cookie [simp]:
  "create_session_cookie (web_env demo_env) None iv d = Inr (demo_set_cookie iv d)"
  by (simp add: demo_set_cookie_def create_session_cookie_def encrypt_def get_key_def demo_env_def web_env_def Let_def)

lemma demo_tokens_json [simp]: "json_parse (json_print demo_tokens) = Some demo_tokens"
  by (rule json_parse_print) (simp add: demo_tokens_def)

lemma demo_tokens_fields [simp]:
  "js_get demo_tokens ''access_token'' = JStr ''at2''"
  "js_get demo_tokens ''refresh_token'' = JStr ''rt2''"
  "js_get demo_tokens ''expires_in'' = JNum 60" "nullish demo_tokens = False"
  by (simp_all add: demo_tokens_def)

definition demo_login_response :: response where
  "demo_login_response = \<lparr>rs_status = 200,
     rs_headers = [(''set-cookie'', demo_set_cookie (replicate 12 (CHR ''i''))
         \<lparr>access_token = ''at2'', refresh_token = ''rt2'', expires_at = 61000\<rparr>)],
     rs_body = JsonBody (strip_tokens demo_tokens)\<rparr>"

lemma demo_auth: "is_auth_path web_cfg (demo_request ''POST'' [''auth'', ''login''] b t)"
  by (simp add: web_cfg_def)

lemma demo_login:
  "handler web_cfg (demo_proxy (\<lambda>_ _. demo_reply 200 demo_tokens))
     (demo_request ''POST'' [''auth'', ''login''] b t) log =
   (Inr demo_login_response,
    log @ [Forward \<lparr>fq_url = ''https://api/auth/login'', fq_query = [], fq_method = ''POST'',
      fq_headers = build_upstream_headers web_cfg (web_env demo_env)
        (demo_request ''POST'' [''auth'', ''login''] b t) (Some (demo_session\<lparr>expires_at := t\<rparr>)),
      fq_body = Some b\<rparr>])"
proof -
  have "api_url (demo_proxy f) = ''https://api''" "rq_query (demo_request m p b t) = []" for f m p
    by (simp_all add: demo_proxy_def demo_request_def)
  with demo_auth show ?thesis
    by (simp add: demo_login_response_def handler_def Let_def eff_simps auth_no_retry upstream_body_def try_forward_def
        forward_def build_response_def auth_response_def demo_reply_def us_ok_def request_body_def
        demo_cookie_header_read session_of_tokens_def token_text_def expires_in_def h_append_def
        set_session_cookie_def json_response_def api_path_def)
qed

lemma auth_tokens_not_leaked_witness:
  "\<exists>v. rs_body demo_login_response = JsonBody v \<and> js_get v ''access_token'' = JUndefined
     \<and> js_get v ''refresh_token'' = JUndefined \<and> js_get v ''expires_in'' = JUndefined"
  by (rule auth_tokens_not_leaked [OF demo_auth demo_login]) (simp_all add: demo_login_response_def)

text \<open>
  Logging in and coming back: the cookie set on a successful authentication response
  is read by the next request as a session with exactly the tokens the backend issued.
\<close>

theorem login_cookie_holds_tokens:
  assumes "aead_ok e" "sess env = web_env e" "length (nonce env) = 12"
    and "key_cache_ok (web_env e) (key_cache env)" "key_cache_ok (web_env e) later"
    and "is_auth_path cfg req" "handler cfg env req log = (Inr resp, log')"
    and "200 \<le> rs_status resp" "rs_status resp \<le> 299"
  shows "\<exists>q up data s sc. backend env log (Forward q) = Reply up \<and> json_parse (us_body up) = Some data
     \<and> h_values ''set-cookie'' (rs_headers resp) = [sc]
     \<and> get_session_from_header (sess env) later (Some (hd (js_split (CHR '';'') sc))) = Some s
     \<and> access_token s = token_text (js_get data ''access_token'')
     \<and> refresh_token s = token_text (js_get data ''refresh_token'')"
proof -
  obtain q up where up: "backend env log (Forward q) = Reply up"
    and auth: "auth_response cfg env up (log @ [Forward q]) = (Inr resp, log')"
    using auth_success [OF assms(6-9)] by blast
  have not502: "resp \<noteq> error_response msg 502" for msg
    using assms(9) by (auto simp: error_response_def json_response_def)
  obtain data s sc where data: "json_parse (us_body up) = Some data"
    and s: "session_of_tokens (clock env (log @ [Forward q])) data = Some s"
    and sc: "create_session_cookie (sess env) (key_cache env) (nonce env) s = Inr sc"
    and resp: "rs_headers resp = h_append ''set-cookie'' sc []"
    using auth not502
    by (auto simp: auth_response_def Let_def set_session_cookie_def json_response_def
        split: option.splits sum.splits if_splits)
  have "get_session_from_header (sess env) later (Some (hd (js_split (CHR '';'') sc))) = Some s"
    using read_session_header [OF assms(1,3,4,5), of s sc "[]" "[]"] sc assms(2) by simp
  moreover have "access_token s = token_text (js_get data ''access_token'')"
    "refresh_token s = token_text (js_get data ''refresh_token'')"
    using s by (auto simp: session_of_tokens_def split: if_splits)
  moreover have "h_values ''set-cookie'' (rs_headers resp) = [sc]"
    by (simp add: resp h_values_def h_append_def)
  ultimately show ?thesis using up data by blast
qed

lemma login_cookie_holds_tokens_witness:
  "\<exists>q up data s sc. backend (demo_proxy (\<lambda>_ _. demo_reply 200 demo_tokens)) [] (Forward q) = Reply up
     \<and> json_parse (us_body up) = Some data
     \<and> h_values ''set-cookie'' (rs_headers demo_login_response) = [sc]
     \<and> get_session_from_header (sess (demo_proxy (\<lambda>_ _. demo_reply 200 demo_tokens))) None
         (Some (hd (js_split (CHR '';'') sc))) = Some s
     \<and> access_token s = token_text (js_get data ''access_token'')
     \<and> refresh_token s = token_text (js_get data ''refresh_token'')"
  by (rule login_cookie_holds_tokens [OF demo_aead _ _ _ _ demo_auth demo_login])
    (simp_all add: demo_login_response_def)

text \<open>
  C8. An unauthorised session is dropped: when the backend answers 401 and the refresh is
  refused, the request is not retried and the browser gets the 401 with a final
  Set-Cookie that clears the session.
\<close>

theorem unauthorized_clears_session:
  assumes session: "get_session_from_header (sess env) (key_cache env) (h_get ''cookie'' (rq_headers req)) = Some s"
    and "\<not> is_auth_path cfg req" "\<not> is_logout req"
    and "expires_at s - clock env [] \<ge> 60000"
    and "\<forall>log. inflight env log = None"
    and "\<forall>log q. backend env log (Forward q) = Reply up" "us_status up = 401"
    and "\<forall>log t. backend env log (Refresh t) = Reply down" "\<not> us_ok down"
  shows "\<exists>resp q. handler cfg env req [] = (Inr resp, [Forward q, Refresh (refresh_token s)])
     \<and> rs_status resp = 401
     \<and> last (h_values ''set-cookie'' (rs_headers resp)) = clear_session_cookie (sess env)"
  using assms
  by (auto simp: handler_def Let_def eff_simps upstream_body_def proactive_refresh_def try_forward_def
      forward_def retry_on_401_def safe_refresh_def refresh_tokens_def build_response_def
      persist_session_def clear_cookies_def us_ok_def split: option.split)

lemma unauthorized_clears_session_witness:
  "\<exists>resp q. handler web_cfg (demo_proxy (\<lambda>_ _. demo_reply 401 JNull))
       (demo_request ''GET'' [''v1'', ''agents''] [] 900000) []
       = (Inr resp, [Forward q, Refresh (refresh_token (demo_session\<lparr>expires_at := 900000\<rparr>))])
     \<and> rs_status resp = 401
     \<and> last (h_values ''set-cookie'' (rs_headers resp))
       = clear_session_cookie (sess (demo_proxy (\<lambda>_ _. demo_reply 401 JNull)))"
  by (rule unauthorized_clears_session
      [where up = "\<lparr>us_status = 401, us_headers = [], us_body = json_print JNull\<rparr>"
        and down = "\<lparr>us_status = 401, us_headers = [], us_body = json_print JNull\<rparr>"])
    (simp_all add: demo_cookie_header_read web_cfg_def demo_reply_def us_ok_def)


definition demo_expiring :: "call list \<Rightarrow> call \<Rightarrow> reply" where
  "demo_expiring log c = (case c of
     Refresh t \<Rightarrow> demo_reply 200 demo_tokens
   | Forward q \<Rightarrow> demo_reply (if log = [] then 401 else 200) JNull)"


text \<open>
  Logging out with a session that is about to expire revokes the wrong token: the body
  is built before the proactive refresh, so the backend is asked to revoke the refresh
  token that the refresh has just replaced, and the new one stays valid.
\<close>

theorem logout_sends_stale_refresh_token:
  assumes "get_session_from_header (sess env) (key_cache env) (h_get ''cookie'' (rq_headers req)) = Some s"
    and "is_logout req" "expires_at s - clock env [] < 60000" "inflight env [] = None"
    and "backend env [] (Refresh (refresh_token s)) = Reply r" "us_ok r"
    and "json_parse (us_body r) = Some data" "truthy (js_get data ''access_token'')"
      "truthy (js_get data ''refresh_token'')"
    and "json_parse (rq_body req) = Some (JObj kvs)"
    and "\<forall>q t. backend env [Refresh t] (Forward q) = Reply up" "us_status up = 200"
  shows "\<exists>q. snd (handler web_cfg env req []) = [Refresh (refresh_token s), Forward q]
     \<and> fq_body q = Some (json_print (JObj (dict_set ''refresh_token'' (JStr (refresh_token s)) kvs)))
     \<and> h_get ''authorization'' (fq_headers q) = Some (''Bearer '' @ token_text (js_get data ''access_token''))"
proof -
  have path: "\<not> is_auth_path web_cfg req" "request_body req = Some (rq_body req)"
    using assms(2) by (auto simp: is_logout_def is_auth_path_def web_cfg_def logout_path_def request_body_def)
  have nn: "\<not> nullish data"
    using assms(8) by (cases data) auto
  show ?thesis
    using assms path nn upstream_auth_header
    by (simp add: handler_def Let_def eff_simps upstream_body_def proactive_refresh_def
        try_forward_def forward_def retry_on_401_def safe_refresh_def refresh_tokens_def
        session_of_tokens_def build_response_def)
qed

lemma logout_sends_stale_refresh_token_witness:
  "\<exists>q. snd (handler web_cfg (demo_proxy (\<lambda>_ _. demo_reply 200 demo_tokens))
       (demo_request ''POST'' [''auth'', ''logout''] (json_print (JObj [])) 2000) [])
       = [Refresh (refresh_token (demo_session\<lparr>expires_at := 2000\<rparr>)), Forward q]
     \<and> fq_body q = Some (json_print (JObj (dict_set ''refresh_token''
         (JStr (refresh_token (demo_session\<lparr>expires_at := 2000\<rparr>))) [])))
     \<and> h_get ''authorization'' (fq_headers q)
         = Some (''Bearer '' @ token_text (js_get demo_tokens ''access_token''))"
  by (rule logout_sends_stale_refresh_token
      [where up = "\<lparr>us_status = 200, us_headers = [], us_body = json_print demo_tokens\<rparr>"
        and r = "\<lparr>us_status = 200, us_headers = [], us_body = json_print demo_tokens\<rparr>"])
    (simp_all add: demo_cookie_header_read demo_reply_def us_ok_def json_parse_print del: json_print.simps)

text \<open>
  A rotation can be lost: when the proactive refresh succeeds and the forward then
  fails on the network, the handler answers 502 without any Set-Cookie, so the browser
  keeps the session whose refresh token the backend has just replaced.
\<close>

theorem failed_forward_drops_rotation:
  assumes "get_session_from_header (sess env) (key_cache env) (h_get ''cookie'' (rq_headers req)) = Some s"
    and "\<not> is_auth_path web_cfg req" "\<not> is_logout req"
    and "expires_at s - clock env [] < 60000" "inflight env [] = None"
    and "backend env [] (Refresh (refresh_token s)) = Reply r" "us_ok r"
    and "json_parse (us_body r) = Some data" "truthy (js_get data ''access_token'')"
      "truthy (js_get data ''refresh_token'')"
    and "\<forall>q. backend env [Refresh (refresh_token s)] (Forward q) = NetError"
  shows "\<exists>q. handler web_cfg env req [] =
       (Inr (error_response ''upstream_unavailable'' 502), [Refresh (refresh_token s), Forward q])
     \<and> h_get ''authorization'' (fq_headers q) = Some (''Bearer '' @ token_text (js_get data ''access_token''))
     \<and> rs_headers (error_response ''upstream_unavailable'' 502) = []"
proof -
  have nn: "\<not> nullish data"
    using assms(9) by (cases data) auto
  have "catch_forward web_cfg" by (simp add: web_cfg_def)
  with assms nn show ?thesis
    by (simp add: handler_def Let_def eff_simps upstream_body_def proactive_refresh_def
        try_forward_def forward_def safe_refresh_def refresh_tokens_def session_of_tokens_def
        error_response_def json_response_def upstream_auth_header)
qed

definition demo_offline :: "call list \<Rightarrow> call \<Rightarrow> reply" where
  "demo_offline log c = (case c of Refresh t \<Rightarrow> demo_reply 200 demo_tokens | Forward q \<Rightarrow> NetError)"

lemma failed_forward_drops_rotation_witness:
  "\<exists>q. handler web_cfg (demo_proxy demo_offline) (demo_request ''GET'' [''v1'', ''agents''] [] 2000) [] =
       (Inr (error_response ''upstream_unavailable'' 502),
        [Refresh (refresh_token (demo_session\<lparr>expires_at := 2000\<rparr>)), Forward q])
     \<and> h_get ''authorization'' (fq_headers q)
       = Some (''Bearer '' @ token_text (js_get demo_tokens ''access_token''))
     \<and> rs_headers (error_response ''upstream_unavailable'' 502) = []"
  by (rule failed_forward_drops_rotation
      [where r = "\<lparr>us_status = 200, us_headers = [], us_body = json_print demo_tokens\<rparr>"])
    (simp_all add: demo_cookie_header_read web_cfg_def demo_reply_def demo_offline_def us_ok_def)

lemma response_headers_values_aux:
  "h_values n (response_headers cfg us) =
     (let vs = map snd (filter (\<lambda>h. to_lower (fst h) = n) us)
      in if n \<in> set (skip_headers cfg) \<or> vs = [] then [] else [last vs])"
proof (induction us rule: rev_induct)
  case Nil
  then show ?case by (simp add: response_headers_def h_values_def)
next
  case (snoc h us)
  then show ?case
    by (auto simp: response_headers_def h_values_set Let_def)
qed

text \<open>
  What the browser sees of the upstream headers: nothing of the transport headers the
  configuration skips, and of every other name the last value only. For names that occur
  once this is a faithful copy; of several Set-Cookie headers all but the last are lost.
\<close>

theorem response_headers_values:
  "h_values n (response_headers cfg us) =
     (let vs = map snd (filter (\<lambda>h. to_lower (fst h) = n) us)
      in if n \<in> set (skip_headers cfg) \<or> vs = [] then [] else [last vs])"
  by (rule response_headers_values_aux)

text \<open>
  An authentication path that answers with success but without tokens makes the web
  handler reject: \<open>upstream.json()\<close> has consumed the body the fall-through then reuses.
\<close>

theorem auth_without_tokens_throws:
  assumes "is_auth_path web_cfg req" "\<not> is_logout req"
    and "\<forall>q. backend env log (Forward q) = Reply up" "us_ok up"
    and "json_parse (us_body up) = Some data" "\<not> nullish data"
    and "\<not> truthy (js_get data ''access_token'')"
  shows "fst (handler web_cfg env req log) = Inl BodyConsumed"
proof -
  have "upstream_body req s = Inr (request_body req)" for s
    using assms(2) by (simp add: upstream_body_def split: option.split)
  then show ?thesis
    using assms
    by (simp add: handler_def Let_def eff_simps auth_no_retry try_forward_def forward_def
        build_response_def auth_response_def session_of_tokens_def)
qed

lemma auth_without_tokens_throws_witness:
  "fst (handler web_cfg (demo_proxy (\<lambda>_ _. demo_reply 200 (JObj [])))
     (demo_request ''POST'' [''auth'', ''register''] [] 0) []) = Inl BodyConsumed"
  by (rule auth_without_tokens_throws
      [where up = "\<lparr>us_status = 200, us_headers = [], us_body = json_print (JObj [])\<rparr>" and data = "JObj []"])
    (simp_all add: web_cfg_def demo_reply_def us_ok_def json_parse_print del: json_print.simps)

end
