(* ===== verification/AuthRoutes.thy ===== *)
theory AuthRoutes
  imports ProxyRoute
begin

text \<open>
  The rest of authentication in \<open>apps/web\<close> and \<open>apps/admin\<close>: the impersonation routes
  (\<open>app/api/auth/impersonate\<close> and \<open>stop-impersonate\<close>), the stream token route
  (\<open>app/api/auth/stream-token\<close>), the two middlewares (\<open>middleware.ts\<close>) and the state of
  the client's provider (\<open>lib/auth/auth-context.tsx\<close>): the active organisation and the
  cookies the page can read. The routes use the requests, replies and effects of theory
  ProxyRoute. The browser's cookie jar is a dictionary; \<open>jar_set\<close> is what a Set-Cookie
  header does to it.
\<close>

section \<open>Impersonation\<close>

text \<open>
  The answer of the backend to an impersonation. The user's fields are strings in the
  backend's schema. \<open>iv2\<close> is the nonce of the second encryption.
\<close>

definition imp_of_user :: "js \<Rightarrow> impersonating_info" where
  "imp_of_user u = \<lparr>imp_user_id = token_text (js_get u ''id''), imp_email = token_text (js_get u ''email''),
     imp_name = token_text (js_get u ''name'')\<rparr>"

definition impersonated ::
  "proxy_env \<Rightarrow> bytes \<Rightarrow> session_data \<Rightarrow> upstream_response \<Rightarrow> response eff" where
  "impersonated env iv2 s up = (\<lambda>log.
     (if \<not> us_ok up then
        Inr (json_response
          (case json_parse (us_body up) of
             Some e \<Rightarrow> e | None \<Rightarrow> JObj [(''error'', JStr ''impersonation failed'')]) (us_status up) [])
      else
        (case json_parse (us_body up) of
           None \<Rightarrow> Inl BadJson
         | Some data \<Rightarrow>
             (if nullish data then Inl TypeError
              else
                (case session_of_tokens (clock env log) data of
                   None \<Rightarrow> Inr (error_response ''invalid response from server'' 502)
                 | Some n \<Rightarrow>
                     (case (create_backup_session_cookie (sess env) (key_cache env) (nonce env) s,
                            create_session_cookie (sess env) (key_cache env) iv2 n) of
                        (Inr backup, Inr cookie) \<Rightarrow>
                          (if nullish (js_get data ''user'') then Inl TypeError
                           else Inr (json_response (strip_tokens data) 200
                             [(''set-cookie'', backup), (''set-cookie'', cookie),
                              (''set-cookie'', create_impersonating_cookie (sess env)
                                 (imp_of_user (js_get data ''user'')))]))
                      | (Inl e, _) \<Rightarrow> Inl (CookieFailed e)
                      | (_, Inl e) \<Rightarrow> Inl (CookieFailed e))))),
      log))"

definition impersonate_route :: "proxy_env \<Rightarrow> bytes \<Rightarrow> request \<Rightarrow> response eff" where
  "impersonate_route env iv2 req =
     (case get_session (sess env) (key_cache env) (rq_cookies req) of
        None \<Rightarrow> eff_return (error_response ''unauthorized'' 401)
      | Some s \<Rightarrow>
          (case json_parse (rq_body req) of
             None \<Rightarrow> eff_lift (Inl BadJson)
           | Some b \<Rightarrow>
               (if nullish b then eff_lift (Inl TypeError)
                else if \<not> truthy (js_get b ''userId'')
                then eff_return (error_response ''userId is required'' 400)
                else
                  eff_bind (fetch env (Forward
                    \<lparr>fq_url = api_url env @ ''/admin/v1/users/'' @ token_text (js_get b ''userId'')
                       @ ''/impersonate'',
                     fq_query = [], fq_method = ''POST'',
                     fq_headers = [(''content-type'', ''application/json''),
                       (''authorization'', ''Bearer '' @ access_token s)],
                     fq_body = None\<rparr>))
                  (impersonated env iv2 s))))"

definition stop_impersonate_route :: "proxy_env \<Rightarrow> request \<Rightarrow> proxy_failure + response" where
  "stop_impersonate_route env req =
     (case get_backup_session (sess env) (key_cache env) (rq_cookies req) of
        None \<Rightarrow> Inr (error_response ''not impersonating'' 400)
      | Some s \<Rightarrow>
          map_sum id
            (\<lambda>hs. json_response (JObj [(''ok'', JBool True)]) 200
               (h_append ''set-cookie'' clear_impersonating_cookie
                 (h_append ''set-cookie'' clear_backup_session_cookie hs)))
            (set_session_cookie env s []))"

section \<open>Stream tokens\<close>

definition min_ttl :: int where "min_ttl = 5 * 60 * 1000"

definition stream_token_refresh :: "proxy_env \<Rightarrow> string \<Rightarrow> session_data option eff" where
  "stream_token_refresh env tok =
     eff_bind (fetch env (Refresh tok)) (\<lambda>res log.
       (if \<not> us_ok res then Inr None
        else
          (case json_parse (us_body res) of
             None \<Rightarrow> Inl BadJson
           | Some data \<Rightarrow>
               (if nullish data then Inl TypeError
                else Inr (session_of_tokens (clock env log) data))), log))"

definition stream_token_response :: "request \<Rightarrow> session_data \<Rightarrow> headers \<Rightarrow> response" where
  "stream_token_response req s hs =
     json_response
       (JObj [(''access_token'', JStr (access_token s)),
              (''org_id'', case dict_get (rq_cookies req) ''ziraloop_active_org'' of
                 None \<Rightarrow> JNull | Some o' \<Rightarrow> JStr o'),
              (''expires_at'', JNum (expires_at s))]) 200 hs"

definition stream_token_route :: "proxy_env \<Rightarrow> request \<Rightarrow> response eff" where
  "stream_token_route env req = (\<lambda>log.
     (case get_session_from_header (sess env) (key_cache env) (h_get ''cookie'' (rq_headers req)) of
        None \<Rightarrow> (Inr (error_response ''not_authenticated'' 401), log)
      | Some s \<Rightarrow>
          (if expires_at s - clock env log < min_ttl
           then eff_bind (stream_token_refresh env (refresh_token s)) (\<lambda>r. eff_lift
             (case r of
                None \<Rightarrow> Inr (error_response ''refresh_failed'' 401)
              | Some n \<Rightarrow> map_sum id (stream_token_response req n) (set_session_cookie env n []))) log
           else (Inr (stream_token_response req s []), log))))"

section \<open>The middlewares\<close>

datatype routing = Next | Redirect string

definition web_matcher :: "string \<Rightarrow> bool" where
  "web_matcher p \<longleftrightarrow> p = ''/w'' \<or> starts_with ''/w/'' p \<or> p = ''/auth''"

definition web_middleware :: "(string, string) dict \<Rightarrow> string \<Rightarrow> routing" where
  "web_middleware jar p =
     (let has = dict_has jar web_cookie in
      if starts_with ''/w'' p \<and> \<not> has then Redirect ''/auth''
      else if p = ''/auth'' \<and> has then Redirect ''/w''
      else Next)"

definition admin_matcher :: "string \<Rightarrow> bool" where
  "admin_matcher p \<longleftrightarrow> p = ''/'' \<or> p = ''/dashboard'' \<or> starts_with ''/dashboard/'' p \<or> p = ''/auth''"

definition admin_middleware :: "(string, string) dict \<Rightarrow> string \<Rightarrow> routing" where
  "admin_middleware jar p =
     (let has = dict_has jar admin_cookie in
      if starts_with ''/dashboard'' p \<and> \<not> has then Redirect ''/auth''
      else if p = ''/auth'' \<and> has then Redirect ''/dashboard''
      else if p = ''/'' then Redirect (if has then ''/dashboard'' else ''/auth'')
      else Next)"

text \<open>A page load: middleware runs on the paths its matcher names, redirects are followed.\<close>

fun navigate :: "(string \<Rightarrow> bool) \<Rightarrow> (string \<Rightarrow> routing) \<Rightarrow> nat \<Rightarrow> string \<Rightarrow> string option" where
  "navigate m mw 0 p = None"
| "navigate m mw (Suc n) p =
     (if \<not> m p then Some p
      else (case mw p of Next \<Rightarrow> Some p | Redirect q \<Rightarrow> navigate m mw n q))"

section \<open>Cookies in the browser\<close>

definition jar_set :: "string \<Rightarrow> (string, string) dict \<Rightarrow> (string, string) dict" where
  "jar_set sc jar =
     (let parts = js_split (CHR '';'') sc;
          name = takeWhile (\<lambda>c. c \<noteq> CHR ''='') (hd parts);
          v = drop (length name + 1) (hd parts)
      in if ''Max-Age=0'' \<in> set (map js_trim (tl parts)) then dict_delete name jar
         else dict_set name v jar)"

definition jar_receive :: "response \<Rightarrow> (string, string) dict \<Rightarrow> (string, string) dict" where
  "jar_receive resp jar = foldl (\<lambda>j sc. jar_set sc j) jar (h_values ''set-cookie'' (rs_headers resp))"

text \<open>\<open>document.cookie\<close> and the match of \<open>(?:^|; )NAME=([^;]+)\<close>.\<close>

definition document_cookie :: "(string, string) dict \<Rightarrow> string" where
  "document_cookie jar = js_join ''; '' (map (\<lambda>(n, v). n @ ''='' @ v) jar)"

definition match_here :: "string \<Rightarrow> string \<Rightarrow> string option" where
  "match_here name s =
     (if starts_with (name @ ''='') s \<and> takeWhile (\<lambda>c. c \<noteq> CHR '';'') (drop (length name + 1) s) \<noteq> []
      then Some (takeWhile (\<lambda>c. c \<noteq> CHR '';'') (drop (length name + 1) s)) else None)"

fun cookie_scan :: "string \<Rightarrow> string \<Rightarrow> string option" where
  "cookie_scan name [] = None"
| "cookie_scan name (c # cs) =
     (if starts_with ''; '' (c # cs)
      then (case match_here name (drop 1 cs) of Some v \<Rightarrow> Some v | None \<Rightarrow> cookie_scan name cs)
      else cookie_scan name cs)"

definition cookie_match :: "string \<Rightarrow> string \<Rightarrow> string option" where
  "cookie_match name s =
     (case match_here name s of Some v \<Rightarrow> Some v | None \<Rightarrow> cookie_scan name s)"

section \<open>The client's provider\<close>

datatype client_error = UriError

definition org_cookie_name :: string where "org_cookie_name = ''ziraloop_active_org''"

definition get_org_id_from_cookie :: "string \<Rightarrow> client_error + string option" where
  "get_org_id_from_cookie doc =
     (case cookie_match org_cookie_name doc of
        None \<Rightarrow> Inr None
      | Some v \<Rightarrow> (case decode_uri v of None \<Rightarrow> Inl UriError | Some i \<Rightarrow> Inr (Some i)))"

definition set_org_id_cookie :: "string \<Rightarrow> string" where
  "set_org_id_cookie i =
     org_cookie_name @ ''='' @ encode_uri i @ ''; path=/; max-age=31536000; samesite=lax''"

definition get_impersonating_info :: "string \<Rightarrow> impersonating_info option" where
  "get_impersonating_info doc =
     (case cookie_match impersonating_cookie doc of
        None \<Rightarrow> None
      | Some v \<Rightarrow> Option.bind (decode_uri v) (\<lambda>t. Option.bind (json_parse t) impersonating_of_js))"

record org =
  org_id :: "string option"
  org_label :: string

record org_state =
  active_org_id :: "string option"
  doc_jar :: "(string, string) dict"

definition active_org :: "org list \<Rightarrow> org_state \<Rightarrow> org option" where
  "active_org orgs st =
     (case find (\<lambda>o'. org_id o' \<noteq> None \<and> org_id o' = active_org_id st) orgs of
        Some o' \<Rightarrow> Some o'
      | None \<Rightarrow> (case orgs of [] \<Rightarrow> None | o' # _ \<Rightarrow> Some o'))"

definition choose_org :: "string \<Rightarrow> org_state \<Rightarrow> org_state" where
  "choose_org i st = \<lparr>active_org_id = Some i, doc_jar = jar_set (set_org_id_cookie i) (doc_jar st)\<rparr>"

definition set_active_org :: "org \<Rightarrow> org_state \<Rightarrow> org_state" where
  "set_active_org o' st =
     (case org_id o' of None \<Rightarrow> st | Some i \<Rightarrow> if i = [] then st else choose_org i st)"

definition sync_active_org :: "org list \<Rightarrow> org_state \<Rightarrow> org_state" where
  "sync_active_org orgs st =
     (case active_org orgs st of
        None \<Rightarrow> st
      | Some o' \<Rightarrow>
          (case org_id o' of
             None \<Rightarrow> st
           | Some i \<Rightarrow> if i = [] \<or> Some i = active_org_id st then st else choose_org i st))"

section \<open>What the browser keeps\<close>

lemma jar_set_pair:
  assumes "CHR '';'' \<notin> set n" "CHR ''='' \<notin> set n" "CHR '';'' \<notin> set v"
  shows "jar_set (n @ ''='' @ v @ CHR '';'' # rest) jar =
    (if ''Max-Age=0'' \<in> set (map js_trim (js_split (CHR '';'') rest)) then dict_delete n jar
     else dict_set n v jar)"
proof -
  have split: "js_split (CHR '';'') (n @ CHR ''='' # v @ CHR '';'' # rest) =
      (n @ CHR ''='' # v) # js_split (CHR '';'') rest"
    using js_split_append [of "CHR '';''" "n @ ''='' @ v" rest] assms by simp
  have "takeWhile (\<lambda>c. c \<noteq> CHR ''='') (n @ CHR ''='' # v) = n"
    using assms(2) by (induction n) auto
  then show ?thesis by (simp add: jar_set_def split Let_def)
qed

lemma cookie_names_plain:
  "CHR '';'' \<notin> set web_cookie" "CHR ''='' \<notin> set web_cookie"
  "CHR '';'' \<notin> set backup_cookie" "CHR ''='' \<notin> set backup_cookie"
  "CHR '';'' \<notin> set impersonating_cookie" "CHR ''='' \<notin> set impersonating_cookie"
  by (simp_all add: web_cookie_def backup_cookie_def impersonating_cookie_def)

lemma cookie_names_distinct:
  "web_cookie \<noteq> backup_cookie" "web_cookie \<noteq> impersonating_cookie" "backup_cookie \<noteq> impersonating_cookie"
  by (simp_all add: web_cookie_def backup_cookie_def impersonating_cookie_def)

definition keep_attrs :: "session_env \<Rightarrow> string" where
  "keep_attrs env = int_str max_age @ secure_attr env"

lemma max_age_text: "int_str max_age = ''2592000''"
  by (simp add: max_age_def int_str_def nat_digits.simps digit_chars)

lemma keep_attrs_kept:
  "''Max-Age=0'' \<notin> set (map js_trim (js_split (CHR '';'')
     ('' HttpOnly; SameSite=Lax; Path=/; Max-Age='' @ keep_attrs env)))"
  "''Max-Age=0'' \<notin> set (map js_trim (js_split (CHR '';'')
     ('' SameSite=Lax; Path=/; Max-Age='' @ keep_attrs env)))"
proof -
  have two: "keep_attrs env = ''2592000'' \<or> keep_attrs env = ''2592000; Secure''"
    by (simp add: keep_attrs_def secure_attr_def max_age_text)
  have parts:
    "map js_trim (js_split (CHR '';'') ('' HttpOnly; SameSite=Lax; Path=/; Max-Age='' @ ''2592000'')) =
      [''HttpOnly'', ''SameSite=Lax'', ''Path=/'', ''Max-Age=2592000'']"
    "map js_trim (js_split (CHR '';'') ('' HttpOnly; SameSite=Lax; Path=/; Max-Age='' @ ''2592000; Secure'')) =
      [''HttpOnly'', ''SameSite=Lax'', ''Path=/'', ''Max-Age=2592000'', ''Secure'']"
    "map js_trim (js_split (CHR '';'') ('' SameSite=Lax; Path=/; Max-Age='' @ ''2592000'')) =
      [''SameSite=Lax'', ''Path=/'', ''Max-Age=2592000'']"
    "map js_trim (js_split (CHR '';'') ('' SameSite=Lax; Path=/; Max-Age='' @ ''2592000; Secure'')) =
      [''SameSite=Lax'', ''Path=/'', ''Max-Age=2592000'', ''Secure'']"
    by (simp_all add: js_trim_def trim_start_def trim_end_def is_space_def)
  show "''Max-Age=0'' \<notin> set (map js_trim (js_split (CHR '';'')
      ('' HttpOnly; SameSite=Lax; Path=/; Max-Age='' @ keep_attrs env)))"
    by (rule disjE [OF two]; simp only: parts; simp)
  show "''Max-Age=0'' \<notin> set (map js_trim (js_split (CHR '';'')
      ('' SameSite=Lax; Path=/; Max-Age='' @ keep_attrs env)))"
    by (rule disjE [OF two]; simp only: parts; simp)
qed

lemma atob_Nil: "atob [] = Some []"
  by code_simp

lemma created_value:
  assumes "aead_ok env" "length iv = 12" "key_cache_ok env c" "encrypt env c iv d = Inr v"
  shows "v \<noteq> [] \<and> CHR '';'' \<notin> set v \<and> decrypt env c v = Some d"
proof (intro conjI)
  show "decrypt env c v = Some d" by (rule decrypt_encrypt [OF assms(1,2,3,3,4)])
  show "CHR '';'' \<notin> set v" using encrypt_chars [OF assms(4)] by auto
  show "v \<noteq> []"
  proof
    assume "v = []"
    with assms(4) obtain k where "btoa (iv @ seal env k iv (json_print (session_js d))) = []"
      by (auto simp: encrypt_def split: sum.splits)
    then have "iv @ seal env k iv (json_print (session_js d)) = []"
      using atob_btoa [of "iv @ seal env k iv (json_print (session_js d))"] atob_Nil by (metis option.inject)
    with assms(2) show False by simp
  qed
qed

text \<open>A sealed cookie of any of the two names, received and read back.\<close>

lemma jar_created:
  assumes "encrypt env c iv d = Inr v" "CHR '';'' \<notin> set n" "CHR ''='' \<notin> set n"
  shows "jar_set (n @ ''='' @ v @ http_only_attrs @ int_str max_age @ secure_attr env) jar = dict_set n v jar"
proof -
  have "CHR '';'' \<notin> set v" using encrypt_chars [OF assms(1)] by auto
  then have "jar_set (n @ ''='' @ v @ CHR '';'' # ('' HttpOnly; SameSite=Lax; Path=/; Max-Age='' @ keep_attrs env)) jar
      = dict_set n v jar"
    by (simp only: jar_set_pair [OF assms(2,3)] keep_attrs_kept if_False not_False_eq_True)
  then show ?thesis by (simp add: http_only_attrs_def keep_attrs_def)
qed

lemma jar_cleared:
  "jar_set clear_backup_session_cookie jar = dict_delete backup_cookie jar"
  "jar_set clear_impersonating_cookie jar = dict_delete impersonating_cookie jar"
proof -
  show "jar_set clear_backup_session_cookie jar = dict_delete backup_cookie jar"
    using jar_set_pair [OF cookie_names_plain(3,4), of "[]" "tl http_only_attrs @ ''0''" jar]
    by (simp add: clear_backup_session_cookie_def http_only_attrs_def)
      (simp add: js_trim_def trim_start_def trim_end_def is_space_def)
  show "jar_set clear_impersonating_cookie jar = dict_delete impersonating_cookie jar"
    using jar_set_pair [OF cookie_names_plain(5,6), of "[]" "'' SameSite=Lax; Path=/; Max-Age=0''" jar]
    by (simp add: clear_impersonating_cookie_def)
      (simp add: js_trim_def trim_start_def trim_end_def is_space_def)
qed

lemma jar_impersonating:
  "\<exists>v. jar_set (create_impersonating_cookie env i) jar = dict_set impersonating_cookie v jar
     \<and> v \<noteq> [] \<and> CHR '';'' \<notin> set v
     \<and> Option.bind (decode_uri v) (\<lambda>t. Option.bind (json_parse t) impersonating_of_js) = Some i"
proof (intro exI conjI)
  let ?v = "encode_uri (json_print (impersonating_js i))"
  have nosep: "CHR '';'' \<notin> set ?v"
    using encode_uri_chars by (fastforce simp: uri_plain_def)
  show "CHR '';'' \<notin> set ?v" by (rule nosep)
  show "jar_set (create_impersonating_cookie env i) jar = dict_set impersonating_cookie ?v jar"
  proof -
    have "jar_set (impersonating_cookie @ ''='' @ ?v @ CHR '';'' # ('' SameSite=Lax; Path=/; Max-Age='' @ keep_attrs env)) jar
        = dict_set impersonating_cookie ?v jar"
      by (simp only: jar_set_pair [OF cookie_names_plain(5,6) nosep] keep_attrs_kept if_False)
    then show ?thesis by (simp add: create_impersonating_cookie_def keep_attrs_def)
  qed
  show "Option.bind (decode_uri ?v) (\<lambda>t. Option.bind (json_parse t) impersonating_of_js) = Some i"
    using impersonating_value.chain_dec_enc [of i] by simp
  then show "?v \<noteq> []" by (auto simp: json_parse_Nil)
qed

section \<open>What the page reads\<close>

definition jar_plain :: "(string, string) dict \<Rightarrow> bool" where
  "jar_plain jar \<longleftrightarrow> dict_ok jar
     \<and> (\<forall>(n, v) \<in> set jar. CHR '';'' \<notin> set n \<and> CHR ''='' \<notin> set n \<and> CHR '';'' \<notin> set v)"

lemma cookie_scan_none: "CHR '';'' \<notin> set p \<Longrightarrow> cookie_scan name p = None"
  by (induction p) (auto simp: starts_with_def)

lemma cookie_scan_next:
  "CHR '';'' \<notin> set p \<Longrightarrow> cookie_scan name (p @ CHR '';'' # CHR '' '' # rest) = cookie_match name rest"
proof (induction p)
  case Nil
  have "cookie_scan name (CHR '' '' # rest) = cookie_scan name rest"
    by (simp add: starts_with_def)
  then show ?case by (simp add: starts_with_def cookie_match_def split: option.split)
qed (auto simp: starts_with_def)

lemma match_here_pair:
  assumes "CHR ''='' \<notin> set name" "CHR ''='' \<notin> set n" "CHR '';'' \<notin> set v"
    and "tail = [] \<or> (\<exists>t. tail = CHR '';'' # t)"
  shows "match_here name (n @ CHR ''='' # v @ tail) = (if name = n \<and> v \<noteq> [] then Some v else None)"
proof -
  have "starts_with (name @ ''='') (n @ CHR ''='' # v @ tail) \<longleftrightarrow> name = n"
  proof
    assume "starts_with (name @ ''='') (n @ CHR ''='' # v @ tail)"
    then obtain r where "n @ CHR ''='' # v @ tail = name @ CHR ''='' # r"
      by (metis append.assoc append_Cons append_Nil append_take_drop_id starts_with_def)
    then have "takeWhile (\<lambda>c. c \<noteq> CHR ''='') (n @ CHR ''='' # v @ tail) =
        takeWhile (\<lambda>c. c \<noteq> CHR ''='') (name @ CHR ''='' # r)" by simp
    moreover have "takeWhile (\<lambda>c. c \<noteq> CHR ''='') (m @ CHR ''='' # z) = m" if "CHR ''='' \<notin> set m" for m z
      using that by (induction m) auto
    ultimately show "name = n" using assms(1,2) by metis
  qed (simp add: starts_with_def)
  moreover have "takeWhile (\<lambda>c. c \<noteq> CHR '';'') (v @ tail) = v"
    using assms(3,4) by (induction v) auto
  ultimately show ?thesis
    by (auto simp: match_here_def)
qed

lemma document_cookie_match:
  "jar_plain jar \<Longrightarrow> CHR ''='' \<notin> set name \<Longrightarrow>
   cookie_match name (document_cookie jar) =
     (case dict_get jar name of None \<Rightarrow> None | Some v \<Rightarrow> if v = [] then None else Some v)"
proof (induction jar)
  case Nil
  then show ?case by (simp add: document_cookie_def cookie_match_def match_here_def starts_with_def)
next
  case (Cons nv jar)
  obtain n v where nv: "nv = (n, v)" by force
  have plain: "CHR '';'' \<notin> set n" "CHR ''='' \<notin> set n" "CHR '';'' \<notin> set v" "jar_plain jar"
    "n \<notin> set (dict_keys jar)"
    using Cons.prems(1) by (auto simp: jar_plain_def nv dict_ok_def dict_keys_def)
  have nosep: "CHR '';'' \<notin> set (n @ CHR ''='' # v)" using plain by simp
  show ?case
  proof (cases jar)
    case Nil
    then show ?thesis
      using match_here_pair [OF Cons.prems(2) plain(2,3), of "[]"] cookie_scan_none [OF nosep]
      by (auto simp: document_cookie_def nv cookie_match_def)
  next
    case (Cons a list)
    then have doc: "document_cookie (nv # jar) = n @ CHR ''='' # v @ CHR '';'' # CHR '' '' # document_cookie jar"
      by (simp add: document_cookie_def nv)
    have "cookie_match name (document_cookie (nv # jar)) =
        (if name = n \<and> v \<noteq> [] then Some v else cookie_match name (document_cookie jar))"
      using match_here_pair [OF Cons.prems(2) plain(2,3), of "CHR '';'' # CHR '' '' # document_cookie jar"]
        cookie_scan_next [OF nosep, of name "document_cookie jar"]
      by (simp add: doc cookie_match_def)
    moreover have "dict_get jar n = None"
      using plain(5) by (simp add: map_of_eq_None_iff dict_keys_def)
    ultimately show ?thesis
      using Cons.IH [OF plain(4) Cons.prems(2)] by (auto simp: nv)
  qed
qed

section \<open>The active organisation\<close>

text \<open>
  The provider starts with the id it finds in the cookie; whatever the page does, the
  cookie and the id stay equal.
\<close>

datatype org_event = ChooseOrg org | OrgsLoaded "org list"

definition org_step :: "org_state \<Rightarrow> org_event \<Rightarrow> org_state" where
  "org_step st e = (case e of ChooseOrg o' \<Rightarrow> set_active_org o' st | OrgsLoaded orgs \<Rightarrow> sync_active_org orgs st)"

definition org_inv :: "org_state \<Rightarrow> bool" where
  "org_inv st \<longleftrightarrow> jar_plain (doc_jar st)
     \<and> get_org_id_from_cookie (document_cookie (doc_jar st)) = Inr (active_org_id st)"

lemma org_name_plain:
  "CHR ''='' \<notin> set org_cookie_name" "CHR '';'' \<notin> set org_cookie_name"
  by (simp_all add: org_cookie_name_def)

lemma jar_set_org: "jar_set (set_org_id_cookie i) jar = dict_set org_cookie_name (encode_uri i) jar"
proof -
  have plain: "CHR '';'' \<notin> set (encode_uri i)"
    using encode_uri_chars by (fastforce simp: uri_plain_def)
  have parts: "map js_trim (js_split (CHR '';'') '' path=/; max-age=31536000; samesite=lax'') =
      [''path=/'', ''max-age=31536000'', ''samesite=lax'']"
    by (simp add: js_trim_def trim_start_def trim_end_def is_space_def)
  have kept: "''Max-Age=0'' \<notin> set (map js_trim (js_split (CHR '';'') '' path=/; max-age=31536000; samesite=lax''))"
    by (simp only: parts) simp
  have "jar_set (org_cookie_name @ ''='' @ encode_uri i @ CHR '';'' # '' path=/; max-age=31536000; samesite=lax'') jar
      = dict_set org_cookie_name (encode_uri i) jar"
    by (simp only: jar_set_pair [OF org_name_plain(2,1) plain] kept if_False)
  then show ?thesis by (simp add: set_org_id_cookie_def)
qed

lemma jar_plain_set:
  assumes "jar_plain jar" "CHR '';'' \<notin> set n" "CHR ''='' \<notin> set n" "CHR '';'' \<notin> set v"
  shows "jar_plain (dict_set n v jar)"
proof -
  show ?thesis
    using assms set_dict_set [of n v jar] by (fastforce simp: jar_plain_def dict_ok_set)
qed

lemma org_inv_choose: "org_inv st \<Longrightarrow> i \<noteq> [] \<Longrightarrow> org_inv (choose_org i st)"
proof -
  assume inv: "org_inv st" and i: "i \<noteq> []"
  have v: "CHR '';'' \<notin> set (encode_uri i)"
    using encode_uri_chars by (fastforce simp: uri_plain_def)
  have plain: "jar_plain (dict_set org_cookie_name (encode_uri i) (doc_jar st))"
    using inv org_name_plain v by (intro jar_plain_set) (auto simp: org_inv_def)
  have "encode_uri i \<noteq> []"
    using decode_encode_uri [of i] i by auto
  with plain show ?thesis
    by (simp add: org_inv_def choose_org_def jar_set_org get_org_id_from_cookie_def
        document_cookie_match [OF plain org_name_plain(1)] decode_encode_uri update_conv')
qed

lemma org_inv_step: "org_inv st \<Longrightarrow> org_inv (org_step st e)"
  by (auto simp: org_step_def set_active_org_def sync_active_org_def org_inv_choose
      split: org_event.split option.split)

interpretation org: event_machine org_step org_inv
  by unfold_locales (rule org_inv_step)

lemma find_active: "find (\<lambda>o'. org_id o' \<noteq> None \<and> org_id o' = Some i) (o1 # orgs) =
    (if org_id o1 = Some i then Some o1 else find (\<lambda>o'. org_id o' \<noteq> None \<and> org_id o' = Some i) orgs)"
  by auto

lemma active_org_None: "active_org orgs st = None \<longleftrightarrow> orgs = []"
  by (auto simp: active_org_def split: option.split list.split)

lemma active_org_member: "active_org orgs st = Some o' \<Longrightarrow> o' \<in> set orgs"
  by (auto simp: active_org_def find_Some_iff split: option.splits list.splits)

text \<open>
  The organisation shown, the id kept and the cookie the proxy reads agree: after any
  sequence of choices and loads that ends with loading organisations that all have an id,
  the active organisation is a member of the list, its id is the one kept, the page's
  cookie reads back as that id, and loading the same list again changes nothing.
\<close>

theorem active_org_consistent:
  assumes "org_inv st" "orgs \<noteq> []" "\<forall>o' \<in> set orgs. \<exists>i. org_id o' = Some i \<and> i \<noteq> []"
  shows "let st' = foldl org_step st (es @ [OrgsLoaded orgs]) in
     (\<exists>o' \<in> set orgs. active_org orgs st' = Some o' \<and> active_org_id st' = org_id o'
        \<and> get_org_id_from_cookie (document_cookie (doc_jar st')) = Inr (org_id o')
        \<and> org_step st' (OrgsLoaded orgs) = st')"
proof -
  let ?s = "foldl org_step st es"
  obtain o' where act: "active_org orgs ?s = Some o'"
    using assms(2) active_org_None by (cases "active_org orgs ?s") auto
  have member: "o' \<in> set orgs" by (rule active_org_member [OF act])
  then obtain i where i: "org_id o' = Some i" "i \<noteq> []" using assms(3) by blast
  let ?t = "sync_active_org orgs ?s"
  have inv: "org_inv ?t"
    using org.run_inv [OF assms(1), of "es @ [OrgsLoaded orgs]"] by (simp add: org_step_def)
  have id: "active_org_id ?t = Some i"
    using act i by (simp add: sync_active_org_def choose_org_def)
  obtain w where "find (\<lambda>o'. org_id o' \<noteq> None \<and> org_id o' = Some i) orgs = Some w"
    using member i(1) by (cases "find (\<lambda>o'. org_id o' \<noteq> None \<and> org_id o' = Some i) orgs")
      (auto simp: find_None_iff)
  then have act': "active_org orgs ?t = Some w" and "org_id w = Some i"
    using id by (simp add: active_org_def, auto simp: find_Some_iff)
  then have w: "active_org orgs ?t = Some w" "w \<in> set orgs" "org_id w = Some i"
    using active_org_member [OF act'] by simp_all
  have "sync_active_org orgs ?t = ?t"
    using w id by (simp add: sync_active_org_def [of orgs ?t])
  then show ?thesis
    using w id inv by (auto simp: Let_def org_step_def org_inv_def)
qed

definition demo_orgs :: "org list" where
  "demo_orgs = [\<lparr>org_id = Some ''o1'', org_label = ''One''\<rparr>, \<lparr>org_id = Some ''o2'', org_label = ''Two''\<rparr>]"

lemma demo_org_inv: "org_inv \<lparr>active_org_id = None, doc_jar = []\<rparr>"
  by (simp add: org_inv_def jar_plain_def document_cookie_def get_org_id_from_cookie_def cookie_match_def
      match_here_def starts_with_def org_cookie_name_def)

lemma active_org_consistent_witness:
  "let st' = foldl org_step \<lparr>active_org_id = None, doc_jar = []\<rparr>
       ([ChooseOrg \<lparr>org_id = Some ''gone'', org_label = []\<rparr>] @ [OrgsLoaded demo_orgs]) in
     (\<exists>o' \<in> set demo_orgs. active_org demo_orgs st' = Some o' \<and> active_org_id st' = org_id o'
        \<and> get_org_id_from_cookie (document_cookie (doc_jar st')) = Inr (org_id o')
        \<and> org_step st' (OrgsLoaded demo_orgs) = st')"
  by (rule active_org_consistent [OF demo_org_inv]) (simp_all add: demo_orgs_def)

section \<open>Page loads\<close>

lemma starts_with_shorter:
  assumes "starts_with (p @ q) s"
  shows "starts_with p s"
proof -
  have "take (length p) (take (length (p @ q)) s) = take (length p) (p @ q)"
    using assms by (simp add: starts_with_def)
  then show ?thesis by (simp add: starts_with_def)
qed

text \<open>
  C37. The middlewares never send a browser in circles: from any path a page load ends
  after at most one redirect, on a protected page only with a session cookie, on the sign-in
  page only without one.
\<close>

theorem middleware_settles:
  "navigate web_matcher (web_middleware jar) (Suc (Suc n)) p = Some
     (if \<not> web_matcher p then p
      else if dict_has jar web_cookie then (if p = ''/auth'' then ''/w'' else p)
      else ''/auth'')
   \<and> navigate admin_matcher (admin_middleware jar) (Suc (Suc n)) p = Some
     (if \<not> admin_matcher p then p
      else if dict_has jar admin_cookie then (if p = ''/auth'' \<or> p = ''/'' then ''/dashboard'' else p)
      else ''/auth'')"
proof -
  have w: "web_matcher p \<Longrightarrow> p \<noteq> ''/auth'' \<Longrightarrow> starts_with ''/w'' p"
    by (cases p; cases "tl p") (auto simp: web_matcher_def starts_with_def)
  have a: "admin_matcher p \<Longrightarrow> p \<noteq> ''/auth'' \<Longrightarrow> p \<noteq> ''/'' \<Longrightarrow> starts_with ''/dashboard'' p"
    using starts_with_shorter [of "''/dashboard''" "''/''" p]
    by (auto simp: admin_matcher_def) (simp_all add: starts_with_def)
  show ?thesis
    using w a
    by (auto simp: web_middleware_def admin_middleware_def Let_def web_matcher_def [of "''/auth''"]
        web_matcher_def [of "''/w''"] admin_matcher_def [of "''/auth''"] admin_matcher_def [of "''/dashboard''"]
        starts_with_def [of _ "''/auth''"] starts_with_def [of _ "''/w''"] starts_with_def [of _ "''/dashboard''"]
        starts_with_def [of _ "''/''"])
qed

text \<open>
  A cookie the server cannot open (an old secret, a truncated value) locks the browser
  out: the sign-in page redirects to the application because a cookie is present, the
  application's first call is answered with 401, and the answer does not clear the cookie.
\<close>

theorem unreadable_cookie_locks_out:
  assumes "dict_has jar web_cookie"
    and "get_session_from_header (sess env) (key_cache env) (h_get ''cookie'' (rq_headers req)) = None"
    and "rq_path req = [''auth'', ''me'']"
    and "\<forall>q. backend env [] (Forward q) = Reply up" "us_status up = 401"
    and "\<forall>h \<in> set (us_headers up). to_lower (fst h) \<noteq> ''set-cookie''"
  shows "navigate web_matcher (web_middleware jar) 2 ''/auth'' = Some ''/w''
     \<and> (\<exists>q resp. handler web_cfg env req [] = (Inr resp, [Forward q]) \<and> rs_status resp = 401
          \<and> h_values ''set-cookie'' (rs_headers resp) = [])"
proof
  show "navigate web_matcher (web_middleware jar) 2 ''/auth'' = Some ''/w''"
    using assms(1)
    by (simp add: numeral_2_eq_2 web_matcher_def web_middleware_def Let_def starts_with_def)
next
  have none: "filter (\<lambda>h. to_lower (fst h) = ''set-cookie'') (us_headers up) = []"
    using assms(6) by (simp add: filter_empty_conv)
  have hs: "h_values ''set-cookie'' (response_headers web_cfg (us_headers up)) = []"
    unfolding response_headers_values_aux by (simp add: none Let_def)
  have "\<not> is_auth_path web_cfg req" "\<not> is_logout req"
    by (simp_all add: is_auth_path_def is_logout_def api_path_def assms(3) web_cfg_def logout_path_def)
  then show "\<exists>q resp. handler web_cfg env req [] = (Inr resp, [Forward q]) \<and> rs_status resp = 401
          \<and> h_values ''set-cookie'' (rs_headers resp) = []"
    using assms hs
    by (simp add: handler_def Let_def eff_simps upstream_body_def proactive_refresh_def try_forward_def
        forward_def retry_on_401_def build_response_def persist_session_def clear_cookies_def)
qed

definition demo_garbage :: request where
  "demo_garbage = \<lparr>rq_method = ''GET'', rq_path = [''auth'', ''me''], rq_query = [],
     rq_headers = [(''cookie'', ''__session=!'')], rq_cookies = [(web_cookie, ''!'')], rq_body = []\<rparr>"

lemma demo_garbage_unreadable:
  "get_session_from_header (web_env demo_env) None (h_get ''cookie'' (rq_headers demo_garbage)) = None"
proof -
  have "atob ''!'' = None" by code_simp
  then show ?thesis
    by (simp add: demo_garbage_def h_get_def h_values_def get_session_from_header_def cookie_parts_def
        is_session_part_def web_env_def web_cookie_def starts_with_def decrypt_def demo_env_def get_key_def
        js_trim_def trim_start_def trim_end_def is_space_def Let_def)
qed

lemma unreadable_cookie_locks_out_witness:
  "navigate web_matcher (web_middleware (rq_cookies demo_garbage)) 2 ''/auth'' = Some ''/w''
     \<and> (\<exists>q resp. handler web_cfg (demo_proxy (\<lambda>_ _. demo_reply 401 JNull)) demo_garbage []
            = (Inr resp, [Forward q]) \<and> rs_status resp = 401
          \<and> h_values ''set-cookie'' (rs_headers resp) = [])"
  by (rule unreadable_cookie_locks_out
      [where up = "\<lparr>us_status = 401, us_headers = [], us_body = json_print JNull\<rparr>"])
    (simp_all add: demo_garbage_unreadable demo_reply_def, simp_all add: demo_garbage_def dict_has_def)

section \<open>The routes\<close>



lemma sealing_works:
  assumes "decrypt env c v = Some d" "aead_ok env" "length iv = 12" "key_cache_ok env c"
  obtains w where "encrypt env c iv d' = Inr w" "w \<noteq> []" "CHR '';'' \<notin> set w" "decrypt env c w = Some d'"
proof -
  obtain k where "fst (get_key env c) = Inr k"
    using assms(1) by (auto simp: decrypt_def split: sum.splits)
  then obtain w where w: "encrypt env c iv d' = Inr w" by (auto simp: encrypt_def)
  from created_value [OF assms(2-4) w] that w show ?thesis by blast
qed

lemma map_of_jar [simp]: "map_of (dict_set k v jar) k' = (if k' = k then Some v else map_of jar k')"
  by (simp add: update_conv')

text \<open>What the routes leave in the jar, in terms of the values they seal.\<close>

lemma impersonated_jar:
  assumes "sess env = web_env e"
    and "encrypt (web_env e) (key_cache env) (nonce env) s = Inr b"
    and "encrypt (web_env e) (key_cache env) iv2 n = Inr v"
  shows "\<exists>w. jar_receive (json_response body st [(''set-cookie'', projr (create_backup_session_cookie (sess env) (key_cache env) (nonce env) s)),
            (''set-cookie'', projr (create_session_cookie (sess env) (key_cache env) iv2 n)),
            (''set-cookie'', create_impersonating_cookie (sess env) i)]) jar
       = dict_set impersonating_cookie w (dict_set web_cookie v (dict_set backup_cookie b jar))
     \<and> w \<noteq> [] \<and> CHR '';'' \<notin> set w
     \<and> Option.bind (decode_uri w) (\<lambda>t. Option.bind (json_parse t) impersonating_of_js) = Some i"
proof -
  let ?j = "dict_set web_cookie v (dict_set backup_cookie b jar)"
  obtain w where w: "jar_set (create_impersonating_cookie (web_env e) i) ?j = dict_set impersonating_cookie w ?j"
      "w \<noteq> []" "CHR '';'' \<notin> set w"
      "Option.bind (decode_uri w) (\<lambda>t. Option.bind (json_parse t) impersonating_of_js) = Some i"
    using jar_impersonating [of "web_env e" i ?j] by blast
  have b: "jar_set (projr (create_backup_session_cookie (web_env e) (key_cache env) (nonce env) s)) jar
      = dict_set backup_cookie b jar"
    using jar_created [OF assms(2) cookie_names_plain(3,4)]
    by (simp add: create_backup_session_cookie_def assms(2))
  have v: "jar_set (projr (create_session_cookie (web_env e) (key_cache env) iv2 n)) j
      = dict_set web_cookie v j" for j
    using jar_created [OF assms(3) cookie_names_plain(1,2)]
    by (simp add: create_session_cookie_def assms(3))
  show ?thesis
    using w by (intro exI [of _ w]) (simp add: jar_receive_def json_response_def h_values_def assms(1) b v)
qed

lemma impersonate_forwards:
  assumes "get_session (sess env) (key_cache env) (rq_cookies req) = Some s"
    and "impersonate_route env iv2 req log = (Inr resp, log')" "rs_status resp = 200"
  shows "\<exists>up. impersonated env iv2 s up log' = (Inr resp, log')"
proof -
  obtain up l where up: "impersonated env iv2 s up l = (Inr resp, log')"
    using assms
    by (auto simp: impersonate_route_def eff_simps error_response_def json_response_def
        split: option.splits if_splits reply.splits)
  then have "l = log'" by (simp add: impersonated_def)
  with up show ?thesis by blast
qed


definition demo_seal :: "session_data \<Rightarrow> string" where
  "demo_seal d = projr (encrypt (web_env demo_env) None (replicate 12 (CHR ''i'')) d)"

lemma demo_sealed: "encrypt (web_env demo_env) None (replicate 12 (CHR ''i'')) d = Inr (demo_seal d)"
  by (simp add: demo_seal_def encrypt_def get_key_def demo_env_def web_env_def Let_def)

definition demo_imp_data :: js where
  "demo_imp_data = JObj [(''access_token'', JStr ''at2''), (''refresh_token'', JStr ''rt2''),
     (''user'', JObj [(''id'', JStr ''u1''), (''email'', JStr ''u@x''), (''name'', JStr ''Ann'')])]"

definition demo_imp_request :: request where
  "demo_imp_request = \<lparr>rq_method = ''POST'', rq_path = [], rq_query = [], rq_headers = [],
     rq_cookies = [(web_cookie, demo_seal demo_session)],
     rq_body = json_print (JObj [(''userId'', JStr ''u1'')])\<rparr>"

lemma demo_imp_session:
  "get_session (web_env demo_env) None (rq_cookies demo_imp_request) = Some demo_session"
  using created_value [OF _ _ _ demo_sealed [of demo_session]]
  by (simp add: get_session_def read_cookie_session_def demo_imp_request_def)

lemma demo_imp_json [simp]:
  "json_parse (json_print demo_imp_data) = Some demo_imp_data"
  "json_parse (json_print (JObj [(''userId'', JStr ''u1'')])) = Some (JObj [(''userId'', JStr ''u1'')])"
  by (rule json_parse_print, simp add: demo_imp_data_def)+

lemma demo_impersonates:
  "\<exists>resp l. impersonate_route (demo_proxy (\<lambda>_ _. demo_reply 200 demo_imp_data)) (replicate 12 (CHR ''i''))
     demo_imp_request [] = (Inr resp, l) \<and> rs_status resp = 200"
proof -
  have body: "rq_body demo_imp_request = json_print (JObj [(''userId'', JStr ''u1'')])"
    by (simp add: demo_imp_request_def del: json_print.simps)
  have fields: "js_get demo_imp_data ''access_token'' = JStr ''at2''"
    "js_get demo_imp_data ''refresh_token'' = JStr ''rt2''" "\<not> nullish demo_imp_data"
    "\<not> nullish (js_get demo_imp_data ''user'')"
    by (simp_all add: demo_imp_data_def)
  show ?thesis
    by (simp add: impersonate_route_def demo_imp_session body eff_simps impersonated_def demo_reply_def us_ok_def
        session_of_tokens_def fields create_backup_session_cookie_def demo_sealed json_response_def
        del: json_print.simps)
qed


end
