(* ===== verification/BrowserSession.thy ===== *)
theory BrowserSession
  imports AuthRoutes "HOL-Library.Sublist"
begin

text \<open>
  The session a browser holds, across the routes that write its cookies: the proxy handler,
  the impersonation routes and the stream token route. Abstractly a browser holds a session
  and, while impersonating, a backup; a step keeps them, adopts a session the backend just
  issued, drops the session, or swaps it with the backup. The theorem of this theory is that
  every response of the four routes, received into the cookie jar, is such a step.
\<close>

section \<open>The abstract session\<close>

record held =
  held_session :: "session_data option"
  held_backup :: "session_data option"

inductive session_spec :: "(session_data \<Rightarrow> bool) \<Rightarrow> held \<Rightarrow> held \<Rightarrow> bool" for fresh where
  keep: "session_spec fresh h h"
| adopt: "fresh n \<Longrightarrow> session_spec fresh h (h\<lparr>held_session := Some n\<rparr>)"
| clear: "session_spec fresh h (h\<lparr>held_session := None\<rparr>)"
| impersonate: "held_session h = Some s \<Longrightarrow> fresh n \<Longrightarrow>
    session_spec fresh h \<lparr>held_session = Some n, held_backup = Some s\<rparr>"
| stop: "held_backup h = Some s \<Longrightarrow> session_spec fresh h \<lparr>held_session = Some s, held_backup = None\<rparr>"

text \<open>What a browser holds was held before or is fresh.\<close>

definition holds :: "held \<Rightarrow> session_data \<Rightarrow> bool" where
  "holds h s \<longleftrightarrow> held_session h = Some s \<or> held_backup h = Some s"

lemma session_spec_holds: "session_spec fresh h h' \<Longrightarrow> holds h' s \<Longrightarrow> holds h s \<or> fresh s"
  by (induction rule: session_spec.induct) (auto simp: holds_def)

lemma session_spec_mono: "session_spec fresh h h' \<Longrightarrow> (\<And>s. fresh s \<Longrightarrow> fresh' s) \<Longrightarrow> session_spec fresh' h h'"
  by (induction rule: session_spec.induct) (auto intro: session_spec.intros)

section \<open>The cookie jar and the operations\<close>

definition held_of :: "proxy_env \<Rightarrow> (string, string) dict \<Rightarrow> held" where
  "held_of env jar = \<lparr>held_session = get_session (sess env) (key_cache env) jar,
     held_backup = get_backup_session (sess env) (key_cache env) jar\<rparr>"

text \<open>A session of tokens that a successful answer carried, to a call made between two logs.\<close>

definition issued :: "proxy_env \<Rightarrow> call list \<Rightarrow> call list \<Rightarrow> session_data \<Rightarrow> bool" where
  "issued env log log' n \<longleftrightarrow> (\<exists>l c up data. prefix log l \<and> prefix (l @ [c]) log' \<and> backend env l c = Reply up \<and> us_ok up
     \<and> json_parse (us_body up) = Some data \<and> session_of_tokens (clock env (l @ [c])) data = Some n)"

text \<open>
  The deployment: the web cookie, an authenticated cipher, a twelve byte nonce, no refresh
  of another request under way, and a backend that sets no cookies of its own.
\<close>

definition deployed :: "proxy_env \<Rightarrow> bool" where
  "deployed env \<longleftrightarrow> web_env (sess env) = sess env \<and> aead_ok (sess env) \<and> length (nonce env) = 12
     \<and> key_cache_ok (sess env) (key_cache env) \<and> (\<forall>log. inflight env log = None)
     \<and> (\<forall>l c up. backend env l c = Reply up \<longrightarrow> (\<forall>h \<in> set (us_headers up). to_lower (fst h) \<noteq> ''set-cookie''))"

datatype browser_op = ProxyCall request | ImpersonateCall request | StopCall request | TokenCall request

text \<open>\<open>iv\<close> is the nonce of the second cookie an impersonation seals. The browser sends its jar, as the parsed cookies and as the Cookie header.\<close>

definition from_browser :: "(string, string) dict \<Rightarrow> request \<Rightarrow> request" where
  "from_browser jar req = (let hs = filter (\<lambda>h. fst h \<noteq> ''cookie'') (rq_headers req) in
     req\<lparr>rq_cookies := jar, rq_headers := (if jar = [] then hs else hs @ [(''cookie'', document_cookie jar)])\<rparr>)"

definition run_op :: "proxy_env \<Rightarrow> bytes \<Rightarrow> (string, string) dict \<Rightarrow> browser_op \<Rightarrow> response eff" where
  "run_op env iv jar a = (case a of
       ProxyCall req \<Rightarrow> handler web_cfg env (from_browser jar req)
     | ImpersonateCall req \<Rightarrow> impersonate_route env iv (from_browser jar req)
     | StopCall req \<Rightarrow> eff_lift (stop_impersonate_route env (from_browser jar req))
     | TokenCall req \<Rightarrow> stream_token_route env (from_browser jar req))"

type_synonym browser = "(string, string) dict \<times> call list"

text \<open>A handler that throws answers without cookies.\<close>

definition browser_step :: "proxy_env \<Rightarrow> bytes \<Rightarrow> browser \<Rightarrow> browser_op \<Rightarrow> browser" where
  "browser_step env iv b a = (case run_op env iv (fst b) a (snd b) of
       (Inl e, log) \<Rightarrow> (fst b, log) | (Inr resp, log) \<Rightarrow> (jar_receive resp (fst b), log))"

section \<open>Logs and issued sessions\<close>

lemma issued_mono: "issued env b c n \<Longrightarrow> prefix a b \<Longrightarrow> prefix c d \<Longrightarrow> issued env a d n"
  unfolding issued_def by (meson prefix_order.trans)

lemma bounded_prefix: "bounded f r m \<Longrightarrow> prefix log (snd (m log))"
  by (auto simp: bounded_def calls_within_def prefix_def)

lemma refresh_issued:
  assumes "refresh_tokens env tok log = (Inr (Some n), log')"
  shows "issued env log log' n"
  using assms
  by (auto simp: refresh_tokens_def eff_simps issued_def split: reply.splits if_splits option.splits intro!: exI [of _ log])

lemma safe_refresh_issued:
  "inflight env log = None \<Longrightarrow> safe_refresh env tok log = (Inr (Some n), log') \<Longrightarrow> issued env log log' n"
  by (simp add: safe_refresh_def refresh_issued)

lemma proactive_issued:
  assumes "inflight env log = None" "proactive_refresh cfg env req s log = (Inr s', log')"
  shows "s' = s \<or> (\<exists>n. s' = Some n \<and> issued env log log' n)"
  using assms safe_refresh_issued [OF assms(1)]
  by (auto simp: proactive_refresh_def eff_simps split: option.splits if_splits prod.splits sum.splits)

lemma retry_issued:
  assumes "inflight env log = None" "retry_on_401 cfg env req s up log = (Inr x, log')"
  shows "case ex_refreshed x of None \<Rightarrow> ex_session x = s | Some n \<Rightarrow> issued env log log' n"
proof (cases "ex_refreshed x")
  case None
  then show ?thesis using assms(2)
    by (auto simp: retry_on_401_def eff_simps split: option.splits if_splits prod.splits sum.splits)
next
  case (Some n)
  then obtain t l up' where r: "safe_refresh env t log = (Inr (Some n), l)"
    and f: "forward env req (build_upstream_headers cfg (sess env) req (Some n)) (request_body req) l = (Inr up', log')"
    using assms(2)
    by (auto simp: retry_on_401_def eff_simps split: option.splits if_splits prod.splits sum.splits)
  have "prefix l log'" using bounded_prefix [OF bounded_forward, where log = l] f by (metis snd_conv)
  with Some show ?thesis
    using issued_mono [OF safe_refresh_issued [OF assms(1) r] prefix_order.refl] by simp
qed

section \<open>What a response does to the jar\<close>

definition wrote :: "proxy_env \<Rightarrow> session_data option \<Rightarrow> nat \<Rightarrow> response \<Rightarrow> bool" where
  "wrote env a k resp \<longleftrightarrow>
     h_values ''set-cookie'' (rs_headers resp) =
       (case a of None \<Rightarrow> [] | Some n \<Rightarrow> [projr (create_session_cookie (sess env) (key_cache env) (nonce env) n)])
         @ replicate k (clear_session_cookie (sess env))
     \<and> (case a of None \<Rightarrow> True | Some n \<Rightarrow> \<exists>v. encrypt (sess env) (key_cache env) (nonce env) n = Inr v)"

lemma deployed_cookie: "deployed env \<Longrightarrow> cookie_name (sess env) = web_cookie"
  unfolding deployed_def by (metis web_env_fields(1))

lemma jar_clear_session:
  "cookie_name e = web_cookie \<Longrightarrow> jar_set (clear_session_cookie e) jar = dict_delete web_cookie jar"
  using jar_set_pair [OF cookie_names_plain(1,2), of "[]" "tl http_only_attrs @ ''0''" jar]
  by (simp add: clear_session_cookie_def http_only_attrs_def)
    (simp add: js_trim_def trim_start_def trim_end_def is_space_def)

lemma jar_session:
  assumes "deployed env" "encrypt (sess env) (key_cache env) iv n = Inr v"
  shows "jar_set (projr (create_session_cookie (sess env) (key_cache env) iv n)) jar = dict_set web_cookie v jar"
  using jar_created [OF assms(2) cookie_names_plain(1,2)] deployed_cookie [OF assms(1)]
  by (simp add: create_session_cookie_def assms(2))

lemma held_of_set:
  assumes "deployed env" "length iv = 12" "encrypt (sess env) (key_cache env) iv n = Inr v"
  shows "held_of env (dict_set web_cookie v jar) = (held_of env jar)\<lparr>held_session := Some n\<rparr>"
  using created_value [OF _ assms(2) _ assms(3)] assms(1) cookie_names_distinct(1) deployed_cookie [OF assms(1)]
  by (simp add: held_of_def get_session_def get_backup_session_def read_cookie_session_def deployed_def)

lemma held_of_delete:
  assumes "deployed env"
  shows "held_of env (dict_delete web_cookie jar) = (held_of env jar)\<lparr>held_session := None\<rparr>"
  using cookie_names_distinct(1) deployed_cookie [OF assms]
  by (simp add: held_of_def get_session_def get_backup_session_def read_cookie_session_def delete_conv')

lemma jar_clears:
  assumes "deployed env"
  shows "held_of env (foldl (\<lambda>j sc. jar_set sc j) jar (replicate k (clear_session_cookie (sess env)))) =
     (if k = 0 then held_of env jar else (held_of env jar)\<lparr>held_session := None\<rparr>)"
  using deployed_cookie [OF assms]
  by (induction k arbitrary: jar) (simp_all add: jar_clear_session held_of_delete [OF assms])

lemma wrote_held:
  assumes "deployed env" "wrote env a k resp"
  shows "held_of env (jar_receive resp jar) = (held_of env jar)\<lparr>held_session :=
     (if 0 < k then None else case a of None \<Rightarrow> held_session (held_of env jar) | Some n \<Rightarrow> Some n)\<rparr>"
proof (cases a)
  case None
  then show ?thesis using assms(2) by (simp add: wrote_def jar_receive_def jar_clears [OF assms(1)])
next
  case (Some n)
  then obtain v where v: "encrypt (sess env) (key_cache env) (nonce env) n = Inr v" using assms(2) by (auto simp: wrote_def)
  have "length (nonce env) = 12" using assms(1) by (simp add: deployed_def)
  with Some v show ?thesis
    using assms(2) by (simp add: wrote_def jar_receive_def jar_clears [OF assms(1)] jar_session [OF assms(1) v] held_of_set [OF assms(1) _ v])
qed

lemma wrote_spec:
  assumes "deployed env" "wrote env a k resp" "a = None \<or> (\<exists>n. a = Some n \<and> fresh n)"
  shows "session_spec fresh (held_of env jar) (held_of env (jar_receive resp jar))"
  unfolding wrote_held [OF assms(1,2)]
  using assms(3) session_spec.intros(2,3) keep [of fresh "held_of env jar"] by auto

section \<open>The proxy handler\<close>

lemma quiet_headers:
  assumes "deployed env" "backend env l c = Reply up"
  shows "h_values ''set-cookie'' (response_headers cfg (us_headers up)) = []"
proof -
  have "filter (\<lambda>h. to_lower (fst h) = ''set-cookie'') (us_headers up) = []"
    using assms by (auto simp: deployed_def filter_empty_conv)
  then show ?thesis unfolding response_headers_values_aux by (simp add: Let_def)
qed

lemma set_session_cookie_wrote:
  "set_session_cookie env n hs = Inr hs' \<Longrightarrow>
     h_values ''set-cookie'' hs' = h_values ''set-cookie'' hs @ [projr (create_session_cookie (sess env) (key_cache env) (nonce env) n)]
     \<and> (\<exists>v. encrypt (sess env) (key_cache env) (nonce env) n = Inr v)"
  by (cases "encrypt (sess env) (key_cache env) (nonce env) n")
    (auto simp: set_session_cookie_def create_session_cookie_def)

lemma persist_wrote:
  assumes "persist_session cfg env req x hs = Inr hs'" "h_values ''set-cookie'' hs = []"
  obtains a where "h_values ''set-cookie'' hs' = (case a of None \<Rightarrow> [] | Some n \<Rightarrow> [projr (create_session_cookie (sess env) (key_cache env) (nonce env) n)])"
    and "case a of None \<Rightarrow> True | Some n \<Rightarrow> \<exists>v. encrypt (sess env) (key_cache env) (nonce env) n = Inr v"
    and "a = None \<or> a = ex_refreshed x \<or> ex_refreshed x = None \<and> a = ex_session x
      \<and> a \<noteq> get_session_from_header (sess env) (key_cache env) (h_get ''cookie'' (rq_headers req))"
proof (cases "hs' = hs")
  case True
  then show ?thesis using that [of None] assms(2) by simp
next
  case False
  then obtain n where n: "set_session_cookie env n hs = Inr hs'"
    and origin: "ex_refreshed x = Some n \<or> ex_refreshed x = None \<and> ex_session x = Some n
      \<and> Some n \<noteq> get_session_from_header (sess env) (key_cache env) (h_get ''cookie'' (rq_headers req))"
    using assms(1) by (auto simp: persist_session_def split: option.splits if_splits)
  show ?thesis
  proof (rule that [of "Some n"])
    show "Some n = None \<or> Some n = ex_refreshed x \<or> ex_refreshed x = None \<and> Some n = ex_session x
      \<and> Some n \<noteq> get_session_from_header (sess env) (key_cache env) (h_get ''cookie'' (rq_headers req))"
      using origin by metis
  qed (simp_all only: set_session_cookie_wrote [OF n] assms(2) option.case append_Nil)
qed

lemma optional_clears:
  "ys = xs @ (if P then [c] else []) @ (if Q then [c] else []) \<Longrightarrow> \<exists>k. ys = xs @ replicate k c \<and> (P \<longrightarrow> 0 < k)"
  by (intro exI [of _ "(if P then 1 else 0) + (if Q then 1 else 0)"]) (simp add: numeral_2_eq_2)

lemma clears_values:
  "\<exists>k. h_values ''set-cookie'' (clear_cookies cfg env req x hs) = h_values ''set-cookie'' hs @ replicate k (clear_session_cookie (sess env))
     \<and> (is_logout req \<and> us_ok (ex_upstream x) \<longrightarrow> 0 < k)"
  by (rule optional_clears [where Q = "us_status (ex_upstream x) = 401 \<and> ex_session x \<noteq> None \<and> ex_refreshed x = None
        \<and> \<not> is_auth_path cfg req"])
    (simp add: clear_cookies_def Let_def)

lemma build_wrote:
  assumes "deployed env" "build_response cfg env req x log = (Inr resp, log')" "\<exists>l c. backend env l c = Reply (ex_upstream x)"
    and "\<not> (is_auth_path cfg req \<and> us_ok (ex_upstream x))"
  obtains a k where "wrote env a k resp" "log' = log" "is_logout req \<and> us_ok (ex_upstream x) \<longrightarrow> 0 < k"
    and "a = None \<or> a = ex_refreshed x \<or> ex_refreshed x = None \<and> a = ex_session x
      \<and> a \<noteq> get_session_from_header (sess env) (key_cache env) (h_get ''cookie'' (rq_headers req))"
proof -
  obtain hs where hs: "persist_session cfg env req x (response_headers cfg (us_headers (ex_upstream x))) = Inr hs"
    and resp: "rs_headers resp = clear_cookies cfg env req x hs" and l: "log' = log"
    using assms(2,4) by (auto simp: build_response_def eff_simps)
  have "h_values ''set-cookie'' (response_headers cfg (us_headers (ex_upstream x))) = []"
    using assms(3) quiet_headers [OF assms(1)] by blast
  from persist_wrote [OF hs this] obtain a where a:
    "h_values ''set-cookie'' hs = (case a of None \<Rightarrow> [] | Some n \<Rightarrow> [projr (create_session_cookie (sess env) (key_cache env) (nonce env) n)])"
    "case a of None \<Rightarrow> True | Some n \<Rightarrow> \<exists>v. encrypt (sess env) (key_cache env) (nonce env) n = Inr v"
    "a = None \<or> a = ex_refreshed x \<or> ex_refreshed x = None \<and> a = ex_session x
      \<and> a \<noteq> get_session_from_header (sess env) (key_cache env) (h_get ''cookie'' (rq_headers req))" .
  obtain k where k: "h_values ''set-cookie'' (clear_cookies cfg env req x hs) = h_values ''set-cookie'' hs @ replicate k (clear_session_cookie (sess env))"
    "is_logout req \<and> us_ok (ex_upstream x) \<longrightarrow> 0 < k"
    using clears_values by blast
  have "wrote env a k resp" using a(1,2) k(1) resp by (simp add: wrote_def)
  then show ?thesis using that l a(3) k(2) by blast
qed

lemma auth_wrote:
  assumes "auth_response cfg env up log = (Inr resp, log')" "us_ok up"
    and "backend env l c = Reply up" "log = l @ [c]" "prefix log0 l"
  shows "log' = log \<and> (\<exists>a. wrote env a 0 resp \<and> (a = None \<or> (\<exists>n. a = Some n \<and> issued env log0 log n)))"
proof -
  have l: "log' = log" using assms(1) by (auto simp: auth_response_def Let_def)
  show ?thesis
  proof (cases "h_values ''set-cookie'' (rs_headers resp) = []")
    case True
    then have "wrote env None 0 resp" by (simp add: wrote_def)
    with l show ?thesis by blast
  next
    case False
    then obtain data n hs where n: "json_parse (us_body up) = Some data" "session_of_tokens (clock env log) data = Some n"
      and hs: "set_session_cookie env n [] = Inr hs" and resp: "rs_headers resp = hs"
      using assms(1)
      by (auto simp: auth_response_def Let_def error_response_def json_response_def h_values_def
          split: if_splits option.splits sum.splits)
    have "issued env log0 log n"
      using n assms(2-5) by (auto simp: issued_def)
    moreover have "wrote env (Some n) 0 resp"
      using set_session_cookie_wrote [OF hs] resp by (simp add: wrote_def h_values_def)
    ultimately show ?thesis using l by blast
  qed
qed

lemma retry_upstream:
  assumes "retry_on_401 cfg env req s up l = (Inr x, l')" "\<exists>l c. backend env l c = Reply up"
  shows "\<exists>l c. backend env l c = Reply (ex_upstream x)"
proof -
  have "ex_upstream x = up \<or> (\<exists>l q. backend env l (Forward q) = Reply (ex_upstream x))"
    using assms(1)
    by (auto simp: retry_on_401_def eff_simps forward_def split: option.splits if_splits prod.splits sum.splits reply.splits; blast)
  then show ?thesis using assms(2) by blast
qed

text \<open>The stages of a run that returns.\<close>

lemma handler_stages:
  assumes "handler cfg env req log = (Inr resp, log')"
  obtains s1 bdy l1 r l2 where
    "proactive_refresh cfg env req (get_session_from_header (sess env) (key_cache env) (h_get ''cookie'' (rq_headers req))) log = (Inr s1, l1)"
    "try_forward cfg env req (build_upstream_headers cfg (sess env) req s1) bdy l1 = (Inr r, l2)"
    "case r of None \<Rightarrow> resp = error_response ''upstream_unavailable'' 502 \<and> log' = l2
      | Some up \<Rightarrow> \<exists>x l3. retry_on_401 cfg env req s1 up l2 = (Inr x, l3) \<and> build_response cfg env req x l3 = (Inr resp, log')"
  using assms
  by (auto simp: handler_def Let_def eff_simps split: prod.splits sum.splits option.splits)

lemma try_forward_some:
  assumes "try_forward cfg env req hs b l = (Inr (Some up), l')"
  obtains q where "backend env l (Forward q) = Reply up" "l' = l @ [Forward q]"
  using assms by (auto simp: try_forward_def forward_def eff_simps split: reply.splits if_splits)

lemma logout_not_auth: "is_logout req \<Longrightarrow> \<not> is_auth_path web_cfg req"
  by (simp add: is_logout_def is_auth_path_def web_cfg_def logout_path_def)

lemma handler_wrote:
  assumes "deployed env" "handler web_cfg env req log = (Inr resp, log')"
  obtains a k where "wrote env a k resp" "a = None \<or> (\<exists>n. a = Some n \<and> issued env log log' n)"
    and "is_logout req \<and> 200 \<le> rs_status resp \<and> rs_status resp \<le> 299 \<longrightarrow> 0 < k"
proof -
  let ?s = "get_session_from_header (sess env) (key_cache env) (h_get ''cookie'' (rq_headers req))"
  have idle: "inflight env l = None" for l using assms(1) by (simp add: deployed_def)
  from handler_stages [OF assms(2)] obtain s1 bdy l1 r l2 where
    s1: "proactive_refresh web_cfg env req ?s log = (Inr s1, l1)"
    and fwd: "try_forward web_cfg env req (build_upstream_headers web_cfg (sess env) req s1) bdy l1 = (Inr r, l2)"
    and rest: "case r of None \<Rightarrow> resp = error_response ''upstream_unavailable'' 502 \<and> log' = l2
      | Some up \<Rightarrow> \<exists>x l3. retry_on_401 web_cfg env req s1 up l2 = (Inr x, l3) \<and> build_response web_cfg env req x l3 = (Inr resp, log')" .
  have p1: "prefix log l1" using bounded_prefix [OF bounded_proactive, where log = log] s1 by (metis snd_conv)
  show ?thesis
  proof (cases r)
    case None
    then have "wrote env None 0 resp" "rs_status resp = 502"
      using rest by (simp_all add: wrote_def error_response_def json_response_def h_values_def)
    then show ?thesis using that by force
  next
    case (Some up)
    then obtain x l3 where x: "retry_on_401 web_cfg env req s1 up l2 = (Inr x, l3)"
      and built: "build_response web_cfg env req x l3 = (Inr resp, log')"
      using rest by auto
    obtain q where q: "backend env l1 (Forward q) = Reply up" "l2 = l1 @ [Forward q]"
      using try_forward_some fwd Some by metis
    show ?thesis
    proof (cases "is_auth_path web_cfg req \<and> us_ok (ex_upstream x)")
      case True
      then have xs: "ex_upstream x = up" "l3 = l2" using x by (auto simp: auth_no_retry eff_simps)
      then have "auth_response web_cfg env up l2 = (Inr resp, log')" "us_ok up"
        using built True by (simp_all add: build_response_def)
      from auth_wrote [OF this q p1] show ?thesis
        using that [of _ 0] True logout_not_auth by blast
    next
      case False
      from build_wrote [OF assms(1) built retry_upstream [OF x] False] q(1)
      obtain a k where w: "wrote env a k resp" "log' = l3" "is_logout req \<and> us_ok (ex_upstream x) \<longrightarrow> 0 < k"
        and a: "a = None \<or> a = ex_refreshed x \<or> ex_refreshed x = None \<and> a = ex_session x \<and> a \<noteq> ?s"
        by blast
      have p2: "prefix log l2" "prefix l1 l3" "prefix l2 l3"
        using p1 q(2) bounded_prefix [OF bounded_retry, where log = l2] x by (metis prefixI prefix_order.trans snd_conv)+
      have fresh: "a = None \<or> (\<exists>n. a = Some n \<and> issued env log l3 n)"
      proof (cases "ex_refreshed x")
        case None
        then have "ex_session x = s1" using retry_issued [OF idle x] by simp
        with None a have "a = None \<or> a = s1 \<and> s1 \<noteq> ?s" by auto
        then show ?thesis
          using proactive_issued [OF idle s1] issued_mono [OF _ prefix_order.refl p2(2)] by auto
      next
        case (Some n)
        then have "issued env l2 l3 n" using retry_issued [OF idle x] by simp
        with a Some show ?thesis using issued_mono [OF _ p2(1) prefix_order.refl] by auto
      qed
      have "rs_status resp = us_status (ex_upstream x)" by (rule build_response_status [OF built False])
      then have "is_logout req \<and> 200 \<le> rs_status resp \<and> rs_status resp \<le> 299 \<longrightarrow> 0 < k"
        using w(3) by (simp add: us_ok_def)
      with that w(1,2) fresh show ?thesis by blast
    qed
  qed
qed

section \<open>The other routes\<close>

lemma no_cookies_keep: "h_values ''set-cookie'' (rs_headers resp) = [] \<Longrightarrow> jar_receive resp jar = jar"
  by (simp add: jar_receive_def)

lemma json_response_fields [simp]: "rs_headers (json_response v st hs) = hs" "rs_status (json_response v st hs) = st"
  by (simp_all add: json_response_def)

lemma error_response_headers [simp]: "rs_headers (error_response msg st) = []"
  by (simp add: error_response_def)

lemma h_values_empty [simp]: "h_values n [] = []"
  by (simp add: h_values_def)

lemma impersonated_success:
  assumes "impersonated env iv s up log = (Inr resp, log')" "h_values ''set-cookie'' (rs_headers resp) \<noteq> []"
  obtains data n b v where "us_ok up" "json_parse (us_body up) = Some data" "session_of_tokens (clock env log) data = Some n"
    and "encrypt (sess env) (key_cache env) (nonce env) s = Inr b" "encrypt (sess env) (key_cache env) iv n = Inr v"
    and "log' = log" and "resp = json_response (strip_tokens data) 200
       [(''set-cookie'', projr (create_backup_session_cookie (sess env) (key_cache env) (nonce env) s)),
        (''set-cookie'', projr (create_session_cookie (sess env) (key_cache env) iv n)),
        (''set-cookie'', create_impersonating_cookie (sess env) (imp_of_user (js_get data ''user'')))]"
proof -
  have ok: "us_ok up"
  proof (rule ccontr)
    assume "\<not> us_ok up"
    then have "h_values ''set-cookie'' (rs_headers resp) = []" using assms(1) by (auto simp: impersonated_def)
    with assms(2) show False by simp
  qed
  obtain data where data: "json_parse (us_body up) = Some data" "\<not> nullish data"
    using assms(1) ok by (auto simp: impersonated_def split: option.splits if_splits)
  obtain n where n: "session_of_tokens (clock env log) data = Some n"
    using assms ok data by (auto simp: impersonated_def split: option.splits)
  have run: "impersonated env iv s up log = ((case (create_backup_session_cookie (sess env) (key_cache env) (nonce env) s,
            create_session_cookie (sess env) (key_cache env) iv n) of
       (Inr backup, Inr cookie) \<Rightarrow>
         (if nullish (js_get data ''user'') then Inl TypeError
          else Inr (json_response (strip_tokens data) 200
            [(''set-cookie'', backup), (''set-cookie'', cookie),
             (''set-cookie'', create_impersonating_cookie (sess env) (imp_of_user (js_get data ''user'')))]))
     | (Inl e, _) \<Rightarrow> Inl (CookieFailed e) | (_, Inl e) \<Rightarrow> Inl (CookieFailed e)), log)"
    unfolding impersonated_def by (simp add: ok data n)
  obtain b where b: "encrypt (sess env) (key_cache env) (nonce env) s = Inr b"
    using assms(1) unfolding run
    by (cases "encrypt (sess env) (key_cache env) (nonce env) s") (simp_all add: create_backup_session_cookie_def)
  obtain v where v: "encrypt (sess env) (key_cache env) iv n = Inr v"
    using assms(1) unfolding run
    by (cases "encrypt (sess env) (key_cache env) iv n") (simp_all add: create_backup_session_cookie_def create_session_cookie_def b)
  have "log' = log \<and> resp = json_response (strip_tokens data) 200
       [(''set-cookie'', projr (create_backup_session_cookie (sess env) (key_cache env) (nonce env) s)),
        (''set-cookie'', projr (create_session_cookie (sess env) (key_cache env) iv n)),
        (''set-cookie'', create_impersonating_cookie (sess env) (imp_of_user (js_get data ''user'')))]"
    using assms(1) unfolding run
    by (simp add: create_backup_session_cookie_def create_session_cookie_def b v split: if_splits)
  then show ?thesis using that ok data(1) n b v by blast
qed

lemma held_of_impersonating:
  assumes "deployed env" "length iv = 12" "encrypt (sess env) (key_cache env) (nonce env) s = Inr b"
    and "encrypt (sess env) (key_cache env) iv n = Inr v"
  shows "held_of env (dict_set impersonating_cookie w (dict_set web_cookie v (dict_set backup_cookie b jar)))
    = \<lparr>held_session = Some n, held_backup = Some s\<rparr>"
  using created_value [OF _ _ _ assms(3)] created_value [OF _ assms(2) _ assms(4)] assms(1)
    cookie_names_distinct deployed_cookie [OF assms(1)]
  by (simp add: held_of_def get_session_def get_backup_session_def read_cookie_session_def deployed_def)

lemma impersonate_spec:
  assumes "deployed env" "length iv = 12" "impersonate_route env iv req log = (Inr resp, log')"
  shows "session_spec (issued env log log') (held_of env (rq_cookies req)) (held_of env (jar_receive resp (rq_cookies req)))"
proof (cases "h_values ''set-cookie'' (rs_headers resp) = []")
  case True
  then show ?thesis by (simp add: no_cookies_keep keep)
next
  case False
  then obtain s c up where s: "get_session (sess env) (key_cache env) (rq_cookies req) = Some s"
    and up: "backend env log c = Reply up" "impersonated env iv s up (log @ [c]) = (Inr resp, log')"
    using assms(3)
    by (auto simp: impersonate_route_def eff_simps split: option.splits if_splits reply.splits)
  obtain data n b v where r: "us_ok up" "json_parse (us_body up) = Some data" "session_of_tokens (clock env (log @ [c])) data = Some n"
    "encrypt (sess env) (key_cache env) (nonce env) s = Inr b" "encrypt (sess env) (key_cache env) iv n = Inr v" "log' = log @ [c]"
    and resp: "resp = json_response (strip_tokens data) 200
       [(''set-cookie'', projr (create_backup_session_cookie (sess env) (key_cache env) (nonce env) s)),
        (''set-cookie'', projr (create_session_cookie (sess env) (key_cache env) iv n)),
        (''set-cookie'', create_impersonating_cookie (sess env) (imp_of_user (js_get data ''user'')))]"
    by (rule impersonated_success [OF up(2) False])
  have web: "web_env (sess env) = sess env" using assms(1) by (simp add: deployed_def)
  obtain w where "jar_receive resp (rq_cookies req) =
      dict_set impersonating_cookie w (dict_set web_cookie v (dict_set backup_cookie b (rq_cookies req)))"
    using impersonated_jar [of env "sess env"] r(4,5) web unfolding resp by metis
  moreover have "issued env log log' n" unfolding issued_def using up(1) r(1-3,6) by blast
  ultimately show ?thesis
    using session_spec.impersonate [of "held_of env (rq_cookies req)" s "issued env log log'" n] s
    by (simp add: held_of_impersonating [OF assms(1,2) r(4,5)]) (simp add: held_of_def)
qed

lemma stop_run:
  assumes "deployed env" "get_backup_session (sess env) (key_cache env) (rq_cookies req) = Some s"
  obtains resp where "stop_impersonate_route env req = Inr resp"
    and "held_of env (jar_receive resp (rq_cookies req)) = \<lparr>held_session = Some s, held_backup = None\<rparr>"
proof -
  have len: "length (nonce env) = 12" and ok: "aead_ok (sess env)" "key_cache_ok (sess env) (key_cache env)"
    using assms(1) by (simp_all add: deployed_def)
  obtain v0 where "decrypt (sess env) (key_cache env) v0 = Some s"
    using assms(2) by (auto simp: get_backup_session_def read_cookie_session_def split: option.splits if_splits)
  then obtain b where b: "encrypt (sess env) (key_cache env) (nonce env) s = Inr b" "b \<noteq> []" "decrypt (sess env) (key_cache env) b = Some s"
    using sealing_works [OF _ ok(1) len ok(2)] by metis
  let ?resp = "json_response (JObj [(''ok'', JBool True)]) 200
    [(''set-cookie'', projr (create_session_cookie (sess env) (key_cache env) (nonce env) s)),
     (''set-cookie'', clear_backup_session_cookie), (''set-cookie'', clear_impersonating_cookie)]"
  have "stop_impersonate_route env req = Inr ?resp"
    by (simp add: stop_impersonate_route_def assms(2) set_session_cookie_def create_session_cookie_def b(1) h_append_def)
  moreover have "jar_receive ?resp jar = dict_delete impersonating_cookie (dict_delete backup_cookie (dict_set web_cookie b jar))" for jar
    by (simp add: jar_receive_def h_values_def jar_session [OF assms(1) b(1)] jar_cleared)
  then have "held_of env (jar_receive ?resp (rq_cookies req)) = \<lparr>held_session = Some s, held_backup = None\<rparr>"
    using b cookie_names_distinct deployed_cookie [OF assms(1)]
    by (simp add: held_of_def get_session_def get_backup_session_def read_cookie_session_def delete_conv')
  ultimately show ?thesis by (rule that)
qed

lemma stop_spec:
  assumes "deployed env" "stop_impersonate_route env req = Inr resp"
  shows "session_spec fresh (held_of env (rq_cookies req)) (held_of env (jar_receive resp (rq_cookies req)))"
proof (cases "get_backup_session (sess env) (key_cache env) (rq_cookies req)")
  case None
  then have "resp = error_response ''not impersonating'' 400" using assms(2) by (simp add: stop_impersonate_route_def)
  then show ?thesis by (simp add: no_cookies_keep keep)
next
  case (Some s)
  then have "held_of env (jar_receive resp (rq_cookies req)) = \<lparr>held_session = Some s, held_backup = None\<rparr>"
    using stop_run [OF assms(1) Some] assms(2) by (metis sum.inject(2))
  then show ?thesis using stop [of "held_of env (rq_cookies req)" s fresh] Some by (simp add: held_of_def)
qed

lemma token_spec:
  assumes "deployed env" "stream_token_route env req log = (Inr resp, log')"
  shows "session_spec (issued env log log') (held_of env jar) (held_of env (jar_receive resp jar))"
proof (cases "h_values ''set-cookie'' (rs_headers resp) = []")
  case True
  then show ?thesis by (simp add: no_cookies_keep keep)
next
  case False
  then obtain t n l hs where n: "stream_token_refresh env t log = (Inr (Some n), log')" "set_session_cookie env n [] = Inr hs"
    "resp = stream_token_response req n hs"
    using assms(2)
    by (auto simp: stream_token_route_def stream_token_response_def eff_simps split: option.splits if_splits prod.splits sum.splits)
  have "stream_token_refresh env t log = refresh_tokens env t log"
    by (simp add: stream_token_refresh_def refresh_tokens_def)
  then have "issued env log log' n" using n(1) refresh_issued by simp
  moreover have "wrote env (Some n) 0 resp"
    using set_session_cookie_wrote [OF n(2)] n(3) by (simp add: wrote_def stream_token_response_def)
  ultimately show ?thesis using wrote_spec [OF assms(1)] by blast
qed

section \<open>The session the handler acts with\<close>

definition jar_sendable :: "(string, string) dict \<Rightarrow> bool" where
  "jar_sendable jar \<longleftrightarrow> (\<forall>(n, v) \<in> set jar. plain_part (n @ ''='' @ v) \<and> CHR ''='' \<notin> set n \<and> v \<noteq> [])"

lemma name_prefix:
  "CHR ''='' \<notin> set m \<Longrightarrow> CHR ''='' \<notin> set n \<Longrightarrow> starts_with (m @ ''='') (n @ ''='' @ v) \<longleftrightarrow> m = n"
proof
  assume names: "CHR ''='' \<notin> set m" "CHR ''='' \<notin> set n" and "starts_with (m @ ''='') (n @ ''='' @ v)"
  then obtain r where "n @ CHR ''='' # v = m @ CHR ''='' # r"
    by (metis append.assoc append_Cons append_Nil append_take_drop_id starts_with_def)
  moreover have "takeWhile (\<lambda>c. c \<noteq> CHR ''='') (k @ CHR ''='' # z) = k" if "CHR ''='' \<notin> set k" for k z
    using that by (induction k) auto
  ultimately show "m = n" using names by metis
qed (simp add: starts_with_def)

lemma find_session_part:
  assumes "CHR ''='' \<notin> set (cookie_name e)" "jar_sendable jar"
  shows "find (is_session_part e) (map (\<lambda>(n, v). n @ ''='' @ v) jar)
    = map_option (\<lambda>v. cookie_name e @ ''='' @ v) (dict_get jar (cookie_name e))"
  using assms(2)
  by (induction jar) (auto simp: jar_sendable_def is_session_part_def name_prefix [OF assms(1), simplified])

text \<open>The Cookie header of a jar reads as the jar does: the handler acts with the session the browser holds.\<close>

lemma header_session:
  assumes "jar \<noteq> []" "jar_sendable jar" "CHR ''='' \<notin> set (cookie_name e)"
  shows "get_session_from_header e c (Some (document_cookie jar)) = get_session e c jar"
proof -
  have parts: "cookie_parts (document_cookie jar) = map (\<lambda>(n, v). n @ ''='' @ v) jar"
    unfolding document_cookie_def using assms(1,2) by (intro cookie_parts_join) (auto simp: jar_sendable_def)
  obtain n v js where "jar = (n, v) # js" using assms(1) by (cases jar) auto
  then have ne: "document_cookie jar \<noteq> []" by (cases js) (auto simp: document_cookie_def)
  have "dict_get jar (cookie_name e) \<noteq> Some []"
    using assms(2) by (auto simp: jar_sendable_def dest: map_of_SomeD)
  then show ?thesis
    using ne find_session_part [OF assms(3,2)]
    by (auto simp: get_session_from_header_def parts get_session_def read_cookie_session_def split: option.split)
qed

section \<open>Every response is a step of the abstract session\<close>

lemma from_browser_cookies [simp]: "rq_cookies (from_browser jar req) = jar" "rq_method (from_browser jar req) = rq_method req"
  "rq_path (from_browser jar req) = rq_path req" "rq_body (from_browser jar req) = rq_body req"
  by (simp_all add: from_browser_def Let_def)

lemma bounded_stream_token: "bounded 0 1 (stream_token_route env req)"
proof -
  have "bounded (0 + 0) (Suc 0 + 0) (stream_token_refresh env t)" for t
    unfolding stream_token_refresh_def by (rule bounded_bind [OF bounded_fetch(1)]) (simp add: bounded_def)
  then have "bounded (0 + 0 + 0) (Suc 0 + 0 + 0) (eff_bind (stream_token_refresh env t) (\<lambda>r. eff_lift (f r)))" for t and f :: "_ \<Rightarrow> proxy_failure + response"
    by (rule bounded_bind) simp
  then show ?thesis by (auto simp: bounded_def stream_token_route_def split: option.split)
qed

lemma bounded_impersonate: "bounded 1 0 (impersonate_route env iv req)"
proof -
  have "bounded (Suc 0 + 0) (0 + 0) (eff_bind (fetch env (Forward q)) (impersonated env iv s))" for q s
    by (rule bounded_bind [OF bounded_fetch(2)]) (simp add: bounded_def impersonated_def)
  then show ?thesis
    using bounded_pure [where f = 1 and r = 0] by (auto simp: impersonate_route_def split: option.split)
qed

lemma step_prefix: "prefix (snd b) (snd (browser_step env iv b a))"
proof -
  have "prefix (snd b) (snd (run_op env iv (fst b) a (snd b)))"
    using bounded_prefix [OF handler_bounded] bounded_prefix [OF bounded_impersonate]
      bounded_prefix [OF bounded_pure(2)] bounded_prefix [OF bounded_stream_token]
    by (cases a) (simp_all add: run_op_def)
  then show ?thesis by (auto simp: browser_step_def split: prod.split sum.split)
qed

lemma handler_spec:
  assumes "deployed env" "handler web_cfg env req log = (Inr resp, log')"
  shows "session_spec (issued env log log') (held_of env jar) (held_of env (jar_receive resp jar))"
  by (rule handler_wrote [OF assms]) (rule wrote_spec [OF assms(1)])

lemma step_spec:
  assumes "deployed env" "length iv = 12"
  shows "session_spec (issued env (snd b) (snd (browser_step env iv b a))) (held_of env (fst b)) (held_of env (fst (browser_step env iv b a)))"
proof (cases "run_op env iv (fst b) a (snd b)")
  case (Pair r log)
  show ?thesis
  proof (cases r)
    case (Inl e)
    with Pair show ?thesis by (simp add: browser_step_def keep)
  next
    case (Inr resp)
    have "session_spec (issued env (snd b) log) (held_of env (fst b)) (held_of env (jar_receive resp (fst b)))"
    proof (cases a)
      case (ProxyCall req)
      with Pair Inr show ?thesis by (simp add: run_op_def handler_spec [OF assms(1)])
    next
      case (ImpersonateCall req)
      with Pair Inr show ?thesis
        using impersonate_spec [OF assms, of "from_browser (fst b) req" "snd b" resp log] by (simp add: run_op_def)
    next
      case (StopCall req)
      with Pair Inr show ?thesis
        using stop_spec [OF assms(1), of "from_browser (fst b) req" resp] by (simp add: run_op_def eff_simps)
    next
      case (TokenCall req)
      with Pair Inr show ?thesis by (simp add: run_op_def token_spec [OF assms(1)])
    qed
    with Pair Inr show ?thesis by (simp add: browser_step_def)
  qed
qed


lemma demo_deployed: "deployed (demo_proxy (\<lambda>_ _. demo_reply 200 demo_tokens))"
proof -
  have "web_env (web_env demo_env) = web_env demo_env" by (simp add: web_env_def)
  then show ?thesis by (simp add: deployed_def demo_reply_def)
qed

lemma demo_headers: "rq_headers (demo_request m p b t) = [(''cookie'', demo_cookie_header (demo_session\<lparr>expires_at := t\<rparr>))]"
  by (simp add: demo_request_def)

text \<open>A first sign-in, from a browser without cookies.\<close>

lemma demo_first_login:
  "\<exists>q. handler web_cfg (demo_proxy (\<lambda>_ _. demo_reply 200 demo_tokens))
     (from_browser [] (demo_request ''POST'' [''auth'', ''login''] b t)) [] = (Inr demo_login_response, [Forward q])"
proof -
  let ?r = "from_browser [] (demo_request ''POST'' [''auth'', ''login''] b t)"
  have fields: "h_get ''cookie'' (rq_headers ?r) = None" "rq_method ?r = ''POST''" "rq_path ?r = [''auth'', ''login'']" "rq_body ?r = b"
    by (simp_all add: from_browser_def demo_headers h_get_def)
  then have "is_auth_path web_cfg ?r" by (simp add: is_auth_path_def api_path_def web_cfg_def)
  with fields show ?thesis
    by (simp add: demo_login_response_def handler_def Let_def eff_simps auth_no_retry upstream_body_def try_forward_def
        forward_def build_response_def auth_response_def demo_reply_def us_ok_def request_body_def get_session_from_header_def
        session_of_tokens_def token_text_def expires_in_def h_append_def
        set_session_cookie_def json_response_def api_path_def)
qed

definition demo_held :: session_data where
  "demo_held = \<lparr>access_token = ''at2'', refresh_token = ''rt2'', expires_at = 61000\<rparr>"

lemma demo_login_wrote: "wrote (demo_proxy (\<lambda>_ _. demo_reply 200 demo_tokens)) (Some demo_held) 0 demo_login_response"
  using demo_sealed [of demo_held]
  by (auto simp: wrote_def demo_login_response_def demo_held_def h_values_def)

lemma demo_login_holds:
  "holds (held_of (demo_proxy (\<lambda>_ _. demo_reply 200 demo_tokens)) (fst (foldl (browser_step (demo_proxy (\<lambda>_ _. demo_reply 200 demo_tokens))
     (replicate 12 (CHR ''j''))) ([], []) [ProxyCall (demo_request ''POST'' [''auth'', ''login''] b t)]))) demo_held"
proof -
  let ?e = "demo_proxy (\<lambda>_ _. demo_reply 200 demo_tokens)"
  obtain q where "handler web_cfg ?e (from_browser [] (demo_request ''POST'' [''auth'', ''login''] b t)) [] = (Inr demo_login_response, [Forward q])"
    using demo_first_login by blast
  then have "fst (foldl (browser_step ?e (replicate 12 (CHR ''j''))) ([], []) [ProxyCall (demo_request ''POST'' [''auth'', ''login''] b t)])
      = jar_receive demo_login_response []"
    by (simp add: browser_step_def run_op_def)
  then show ?thesis
    by (simp add: wrote_held [OF demo_deployed demo_login_wrote] holds_def)
qed


definition session_inv :: "proxy_env \<Rightarrow> bytes \<Rightarrow> browser \<Rightarrow> bool" where
  "session_inv env iv b \<longleftrightarrow> deployed env \<and> length iv = 12 \<and> (\<forall>s. holds (held_of env (fst b)) s \<longrightarrow> issued env [] (snd b) s)"

lemma session_inv_step: "session_inv env iv b \<Longrightarrow> session_inv env iv (browser_step env iv b a)"
  unfolding session_inv_def
  by (meson Nil_prefix issued_mono prefix_order.refl session_spec_holds step_prefix step_spec)

interpretation browser: event_machine "browser_step env iv" "session_inv env iv" for env iv
  by unfold_locales (rule session_inv_step)



text \<open>
  C11. Signing out while impersonating does not sign the operator out: the session cookie is
  cleared but the backup stays in the browser, and ending the impersonation afterwards
  installs the operator's session again.
\<close>

theorem logout_keeps_backup:
  assumes "deployed env" "is_logout (from_browser jar req)"
    and "handler web_cfg env (from_browser jar req) log = (Inr resp, log')" "200 \<le> rs_status resp" "rs_status resp \<le> 299"
    and "held_backup (held_of env jar) = Some admin"
  shows "held_of env (jar_receive resp jar) = \<lparr>held_session = None, held_backup = Some admin\<rparr>
     \<and> (\<exists>resp2. stop_impersonate_route env (from_browser (jar_receive resp jar) req2) = Inr resp2
          \<and> held_of env (jar_receive resp2 (jar_receive resp jar)) = \<lparr>held_session = Some admin, held_backup = None\<rparr>)"
proof -
  obtain a k where w: "wrote env a k resp" "0 < k"
    using handler_wrote [OF assms(1,3)] assms(2,4,5) by blast
  have out: "held_of env (jar_receive resp jar) = \<lparr>held_session = None, held_backup = Some admin\<rparr>"
    using wrote_held [OF assms(1) w(1), of jar] w(2) assms(6) by (cases "held_of env jar") simp
  then have "get_backup_session (sess env) (key_cache env) (rq_cookies (from_browser (jar_receive resp jar) req2)) = Some admin"
    by (simp add: held_of_def)
  from stop_run [OF assms(1) this] out show ?thesis by (metis from_browser_cookies(1))
qed

definition demo_operator_jar :: "(string, string) dict" where
  "demo_operator_jar = [(backup_cookie, demo_seal demo_session)]"

lemma demo_operator_held: "held_of (demo_proxy f) demo_operator_jar = \<lparr>held_session = None, held_backup = Some demo_session\<rparr>"
  using created_value [OF _ _ _ demo_sealed [of demo_session]] cookie_names_distinct
  by (simp add: held_of_def get_session_def get_backup_session_def read_cookie_session_def demo_operator_jar_def)

lemma demo_operator_sendable: "jar_sendable demo_operator_jar"
proof -
  have "js_trim (backup_cookie @ ''='' @ demo_seal demo_session) = backup_cookie @ ''='' @ demo_seal demo_session"
    using encrypt_chars [OF demo_sealed] by (intro no_space_trim) (auto simp: backup_cookie_def is_space_def)
  then show ?thesis
    using encrypt_chars [OF demo_sealed] created_value [OF _ _ _ demo_sealed [of demo_session]] cookie_names_plain(3,4)
    by (auto simp: jar_sendable_def demo_operator_jar_def plain_part_def)
qed

definition demo_logout :: request where
  "demo_logout = demo_request ''POST'' [''auth'', ''logout''] ''{}'' 0"

lemma demo_logout_run:
  "\<exists>q resp. handler web_cfg (demo_proxy (\<lambda>_ _. demo_reply 200 demo_tokens)) (from_browser demo_operator_jar demo_logout) []
     = (Inr resp, [Forward q]) \<and> rs_status resp = 200"
proof -
  let ?r = "from_browser demo_operator_jar demo_logout"
  have cookie: "h_get ''cookie'' (rq_headers ?r) = Some (document_cookie demo_operator_jar)"
    by (simp add: from_browser_def demo_headers demo_operator_jar_def h_get_def h_values_def demo_logout_def)
  have "get_session_from_header (web_env demo_env) None (Some (document_cookie demo_operator_jar)) = None"
    using header_session [OF _ demo_operator_sendable, of "web_env demo_env" None] cookie_names_plain(2) demo_operator_held
    by (simp add: demo_operator_jar_def held_of_def)
  moreover have "\<not> is_auth_path web_cfg ?r"
    by (simp add: is_auth_path_def api_path_def web_cfg_def demo_logout_def)
  ultimately show ?thesis
    using cookie
    by (simp add: handler_def Let_def eff_simps upstream_body_def proactive_refresh_def try_forward_def forward_def
        retry_on_401_def build_response_def persist_session_def demo_reply_def)
qed

lemma logout_keeps_backup_witness:
  "\<exists>resp. held_of (demo_proxy (\<lambda>_ _. demo_reply 200 demo_tokens)) (jar_receive resp demo_operator_jar)
       = \<lparr>held_session = None, held_backup = Some demo_session\<rparr>
     \<and> (\<exists>resp2. stop_impersonate_route (demo_proxy (\<lambda>_ _. demo_reply 200 demo_tokens))
            (from_browser (jar_receive resp demo_operator_jar) demo_logout) = Inr resp2
          \<and> held_of (demo_proxy (\<lambda>_ _. demo_reply 200 demo_tokens)) (jar_receive resp2 (jar_receive resp demo_operator_jar))
            = \<lparr>held_session = Some demo_session, held_backup = None\<rparr>)"
proof -
  obtain q resp where run: "handler web_cfg (demo_proxy (\<lambda>_ _. demo_reply 200 demo_tokens)) (from_browser demo_operator_jar demo_logout) []
     = (Inr resp, [Forward q])" "rs_status resp = 200"
    using demo_logout_run by blast
  have "is_logout (from_browser demo_operator_jar demo_logout)"
    by (simp add: is_logout_def api_path_def logout_path_def demo_logout_def)
  from logout_keeps_backup [OF demo_deployed this run(1), of demo_session demo_logout] run(2) show ?thesis
    by (intro exI [of _ resp]) (simp add: demo_operator_held)
qed

end
