(* ===== verification/AdminSession.thy ===== *)
theory AdminSession
  imports AuthRoutes
begin

text \<open>
  The admin application's \<open>lib/auth/session.ts\<close>: the same functions as the web
  application's under another cookie name and another key label, without the backup and
  impersonation cookies. The two applications can share a domain: neither reads nor strips
  the other's cookie.
\<close>

section \<open>The functions\<close>

definition admin_get_key :: "session_env \<Rightarrow> bytes option \<Rightarrow> (session_error + bytes) \<times> bytes option" where
  "admin_get_key env = get_key (admin_env env)"

definition admin_encrypt :: "session_env \<Rightarrow> bytes option \<Rightarrow> bytes \<Rightarrow> session_data \<Rightarrow> session_error + string" where
  "admin_encrypt env = encrypt (admin_env env)"

definition admin_decrypt :: "session_env \<Rightarrow> bytes option \<Rightarrow> string \<Rightarrow> session_data option" where
  "admin_decrypt env = decrypt (admin_env env)"

definition admin_get_session :: "session_env \<Rightarrow> bytes option \<Rightarrow> (string, string) dict \<Rightarrow> session_data option" where
  "admin_get_session env = get_session (admin_env env)"

definition admin_create_session_cookie :: "session_env \<Rightarrow> bytes option \<Rightarrow> bytes \<Rightarrow> session_data \<Rightarrow> session_error + string" where
  "admin_create_session_cookie env = create_session_cookie (admin_env env)"

definition admin_clear_session_cookie :: "session_env \<Rightarrow> string" where
  "admin_clear_session_cookie env = clear_session_cookie (admin_env env)"

definition admin_get_session_from_header :: "session_env \<Rightarrow> bytes option \<Rightarrow> string option \<Rightarrow> session_data option" where
  "admin_get_session_from_header env = get_session_from_header (admin_env env)"

definition admin_strip_session_cookie :: "session_env \<Rightarrow> string \<Rightarrow> string" where
  "admin_strip_session_cookie env = strip_session_cookie (admin_env env)"

lemmas admin_defs = admin_get_key_def admin_encrypt_def admin_decrypt_def admin_get_session_def
  admin_create_session_cookie_def admin_clear_session_cookie_def admin_get_session_from_header_def admin_strip_session_cookie_def

section \<open>Two applications on one domain\<close>

lemma admin_env_fields [simp]: "cookie_name (admin_env e) = admin_cookie"
  by (simp add: admin_env_def)

lemma other_part:
  "is_session_part (admin_env e) p \<Longrightarrow> \<not> is_session_part (web_env e') p"
  by (cases p rule: list.exhaust; cases "tl p"; cases "tl (tl p)")
    (auto simp: is_session_part_def starts_with_def web_cookie_def admin_cookie_def)

text \<open>The web reader does not see the admin cookie, wherever it stands in the header, and the other way round.\<close>

lemma find_filter_irrelevant: "(\<And>x. Q x \<Longrightarrow> \<not> P x) \<Longrightarrow> find P (filter (\<lambda>x. \<not> Q x) xs) = find P xs"
  by (induction xs) auto

lemma readers_separate:
  assumes "h \<noteq> []" "strip_session_cookie (admin_env e) h \<noteq> []"
  shows "get_session_from_header (web_env e) c (Some (strip_session_cookie (admin_env e) h)) = get_session_from_header (web_env e) c (Some h)"
proof -
  have "find (is_session_part (web_env e)) (cookie_parts (strip_session_cookie (admin_env e) h)) = find (is_session_part (web_env e)) (cookie_parts h)"
  proof (cases "filter (\<lambda>p. \<not> is_session_part (admin_env e) p) (cookie_parts h) = []")
    case True
    then show ?thesis using assms(2) by (simp add: strip_session_cookie_def)
  next
    case False
    then show ?thesis
      using find_filter_irrelevant [of "is_session_part (admin_env e)" "is_session_part (web_env e)" "cookie_parts h"] other_part
      by (simp add: cookie_parts_strip Let_def)
  qed
  then show ?thesis using assms by (simp add: get_session_from_header_def)
qed

end
