(* ===== verification/RefreshLock.thy ===== *)
theory RefreshLock
  imports ProxyRoute
begin

text \<open>
  The refresh lock of the web proxy (\<open>safeRefresh\<close> in
  \<open>apps/web/app/api/proxy/[...path]/route.ts\<close>): one module-level \<open>refreshPromise\<close> for
  all requests the process serves. Requests are numbered; \<open>tok i\<close> is the refresh token
  request \<open>i\<close> passes, \<open>server t\<close> what a refresh of \<open>t\<close> settles with. The machine has the
  two atomic steps JavaScript gives the code: the synchronous body of a call, which joins
  the promise in flight or starts one, and the settling of the promise, whose \<open>finally\<close>
  clears the variable before any waiting request resumes.
\<close>

type_synonym outcome = "proxy_failure + session_data option"

datatype phase = Running | Awaiting nat | Settled outcome

record lock_state =
  promise :: "nat option"
  phases :: "nat \<Rightarrow> phase"
  fetches :: "nat list"

definition lock_init :: lock_state where
  "lock_init = \<lparr>promise = None, phases = (\<lambda>_. Running), fetches = []\<rparr>"

definition lock_call :: "nat \<Rightarrow> lock_state \<Rightarrow> lock_state" where
  "lock_call i st =
     (case promise st of
        Some j \<Rightarrow> st\<lparr>phases := (phases st)(i := Awaiting j)\<rparr>
      | None \<Rightarrow> st\<lparr>promise := Some i, phases := (phases st)(i := Awaiting i), fetches := i # fetches st\<rparr>)"

definition lock_settle :: "nat \<Rightarrow> outcome \<Rightarrow> lock_state \<Rightarrow> lock_state" where
  "lock_settle j r st =
     st\<lparr>promise := None,
        phases := (\<lambda>i. if phases st i = Awaiting j then Settled r else phases st i)\<rparr>"

inductive lock_step :: "(nat \<Rightarrow> string) \<Rightarrow> (string \<Rightarrow> outcome) \<Rightarrow> lock_state \<Rightarrow> lock_state \<Rightarrow> bool"
  for tok server where
  call: "phases st i = Running \<Longrightarrow> lock_step tok server st (lock_call i st)"
| settle: "promise st = Some j \<Longrightarrow> lock_step tok server st (lock_settle j (server (tok j)) st)"

inductive_cases lock_stepE: "lock_step tok server st st'"

inductive lock_reach :: "(nat \<Rightarrow> string) \<Rightarrow> (string \<Rightarrow> outcome) \<Rightarrow> lock_state \<Rightarrow> bool" for tok server where
  init: "lock_reach tok server lock_init"
| step: "lock_reach tok server st \<Longrightarrow> lock_step tok server st st' \<Longrightarrow> lock_reach tok server st'"

text \<open>
  The invariant: whoever waits, waits for the promise in flight; its owner waits for
  itself; no request fetches twice; a request that fetched has the outcome for its own
  token, one that joined has the outcome for the token of a request that fetched.
\<close>

definition lock_inv :: "(nat \<Rightarrow> string) \<Rightarrow> (string \<Rightarrow> outcome) \<Rightarrow> lock_state \<Rightarrow> bool" where
  "lock_inv tok server st \<longleftrightarrow>
     (\<forall>i j. phases st i = Awaiting j \<longrightarrow> promise st = Some j)
     \<and> (\<forall>j. promise st = Some j \<longrightarrow> phases st j = Awaiting j \<and> j \<in> set (fetches st))
     \<and> distinct (fetches st)
     \<and> (\<forall>j \<in> set (fetches st). phases st j = Awaiting j \<or> phases st j = Settled (server (tok j)))
     \<and> (\<forall>i r. phases st i = Settled r \<longrightarrow> (\<exists>j \<in> set (fetches st). r = server (tok j)))"

lemma lock_invD:
  assumes "lock_inv tok server st"
  shows "\<And>i j. phases st i = Awaiting j \<Longrightarrow> promise st = Some j"
    and "\<And>j. promise st = Some j \<Longrightarrow> phases st j = Awaiting j"
    and "\<And>j. promise st = Some j \<Longrightarrow> j \<in> set (fetches st)"
    and "distinct (fetches st)"
    and "\<And>j. j \<in> set (fetches st) \<Longrightarrow> phases st j = Awaiting j \<or> phases st j = Settled (server (tok j))"
    and "\<And>i r. phases st i = Settled r \<Longrightarrow> \<exists>j \<in> set (fetches st). r = server (tok j)"
proof -
  note parts = assms [unfolded lock_inv_def]
  show "\<And>i j. phases st i = Awaiting j \<Longrightarrow> promise st = Some j"
    using parts [THEN conjunct1] by blast
  show "\<And>j. promise st = Some j \<Longrightarrow> phases st j = Awaiting j"
    "\<And>j. promise st = Some j \<Longrightarrow> j \<in> set (fetches st)"
    using parts [THEN conjunct2, THEN conjunct1] by blast+
  show "distinct (fetches st)"
    by (rule parts [THEN conjunct2, THEN conjunct2, THEN conjunct1])
  show "\<And>j. j \<in> set (fetches st) \<Longrightarrow> phases st j = Awaiting j \<or> phases st j = Settled (server (tok j))"
    using parts [THEN conjunct2, THEN conjunct2, THEN conjunct2, THEN conjunct1] by blast
  show "\<And>i r. phases st i = Settled r \<Longrightarrow> \<exists>j \<in> set (fetches st). r = server (tok j)"
    using parts [THEN conjunct2, THEN conjunct2, THEN conjunct2, THEN conjunct2] by blast
qed

lemma lock_inv_init: "lock_inv tok server lock_init"
  by (simp add: lock_inv_def lock_init_def)

lemma lock_inv_call:
  assumes inv: "lock_inv tok server st" and run: "phases st i = Running"
  shows "lock_inv tok server (lock_call i st)"
proof -
  have new: "i \<notin> set (fetches st)" using lock_invD(5) [OF inv, of i] run by auto
  show ?thesis
  proof (cases "promise st")
    case None
    have none: "phases st k \<noteq> Awaiting j" for k j using lock_invD(1) [OF inv, of k j] None by auto
    show ?thesis
      unfolding lock_inv_def
      using none new lock_invD(4) [OF inv]
      by (auto simp: lock_call_def None dest: lock_invD(5,6) [OF inv])
  next
    case (Some p)
    have p: "phases st p = Awaiting p" "p \<in> set (fetches st)" "p \<noteq> i"
      using lock_invD(2,3) [OF inv Some] run by auto
    show ?thesis
      unfolding lock_inv_def
      using p new lock_invD(4) [OF inv]
      by (auto simp: lock_call_def Some dest: lock_invD(1) [OF inv] lock_invD(5,6) [OF inv])
  qed
qed

lemma lock_inv_settle:
  assumes inv: "lock_inv tok server st" and p: "promise st = Some j"
  shows "lock_inv tok server (lock_settle j (server (tok j)) st)"
proof -
  have all: "k = j" if "phases st i = Awaiting k" for i k
    using lock_invD(1) [OF inv that] p by simp
  show ?thesis
    unfolding lock_inv_def
    using lock_invD(2,3) [OF inv p] lock_invD(4) [OF inv]
    by (auto simp: lock_settle_def dest: all lock_invD(6) [OF inv] lock_invD(5) [OF inv] split: if_splits)
qed

lemma lock_inv_reach: "lock_reach tok server st \<Longrightarrow> lock_inv tok server st"
proof (induction rule: lock_reach.induct)
  case (step st st')
  then show ?case by (auto elim!: lock_stepE intro: lock_inv_call lock_inv_settle)
qed (rule lock_inv_init)


lemma lock_demo_reach: "lock_reach tok server (lock_call 1 (lock_call 0 lock_init))"
  by (intro lock_reach.step [OF lock_reach.step [OF lock_reach.init lock_step.call] lock_step.call])
    (simp_all add: lock_init_def lock_call_def)


text \<open>
  The lock ignores whose token it refreshes: a second request, whatever its own
  refresh token, can end up with the session that the refresh of the first request's token
  produced, without any refresh of its own token ever being sent.
\<close>

theorem refresh_lock_crosstalk:
  "\<exists>st. lock_reach tok server st \<and> phases st 1 = Settled (server (tok 0)) \<and> fetches st = [0]"
proof -
  let ?st = "lock_call 1 (lock_call 0 lock_init)"
  have "lock_reach tok server (lock_settle 0 (server (tok 0)) ?st)"
    by (rule lock_reach.step [OF lock_demo_reach lock_step.settle])
      (simp add: lock_init_def lock_call_def)
  moreover have "phases (lock_settle 0 (server (tok 0)) ?st) 1 = Settled (server (tok 0))
      \<and> fetches (lock_settle 0 (server (tok 0)) ?st) = [0]"
    by (simp add: lock_settle_def lock_init_def lock_call_def)
  ultimately show ?thesis by blast
qed

text \<open>
  C38. What that does to the second user: a request whose session is about to expire and
  that joins a refresh which yields the session of somebody else is forwarded with the
  other user's bearer token, and the answer installs the other user's session as the
  browser's cookie.
\<close>

theorem foreign_refresh_installed:
  assumes session: "h_get ''cookie'' (rq_headers req) = Some raw" "raw \<noteq> []"
      "get_session_from_header (sess env) (key_cache env) (Some raw) = Some s"
    and "\<not> is_auth_path web_cfg req" "\<not> is_logout req"
    and "expires_at s - clock env [] < 60000"
    and "inflight env [] = Some (Inr (Some other))" "access_token other \<noteq> access_token s"
    and "\<forall>q. backend env [] (Forward q) = Reply up" "us_status up \<noteq> 401"
    and "create_session_cookie (sess env) (key_cache env) (nonce env) other = Inr sc"
  shows "\<exists>q resp. handler web_cfg env req [] = (Inr resp, [Forward q])
     \<and> h_get ''authorization'' (fq_headers q) = Some (''Bearer '' @ access_token other)
     \<and> rs_body resp = RawBody (us_body up)
     \<and> sc \<in> set (h_values ''set-cookie'' (rs_headers resp))"
  using assms
  by (simp add: handler_def Let_def eff_simps upstream_body_def proactive_refresh_def safe_refresh_def
      try_forward_def forward_def retry_on_401_def build_response_def persist_session_def
      set_session_cookie_def clear_cookies_def upstream_auth_header)

definition demo_other :: session_data where
  "demo_other = \<lparr>access_token = ''bob'', refresh_token = ''bob-rt'', expires_at = 900000\<rparr>"

definition demo_joined :: proxy_env where
  "demo_joined = (demo_proxy (\<lambda>_ _. demo_reply 200 JNull))\<lparr>inflight := (\<lambda>_. Some (Inr (Some demo_other)))\<rparr>"

lemma demo_header_nonempty: "demo_cookie_header s \<noteq> []"
  using demo_cookie_header_read [of s] by (auto simp: get_session_from_header_def)

lemma foreign_refresh_installed_witness:
  "\<exists>q resp. handler web_cfg demo_joined (demo_request ''GET'' [''v1'', ''agents''] [] 2000) []
       = (Inr resp, [Forward q])
     \<and> h_get ''authorization'' (fq_headers q) = Some (''Bearer '' @ access_token demo_other)
     \<and> rs_body resp = RawBody (us_body \<lparr>us_status = 200, us_headers = [], us_body = json_print JNull\<rparr>)
     \<and> demo_set_cookie (replicate 12 (CHR ''i'')) demo_other \<in> set (h_values ''set-cookie'' (rs_headers resp))"
  by (rule foreign_refresh_installed
      [where up = "\<lparr>us_status = 200, us_headers = [], us_body = json_print JNull\<rparr>"
        and s = "demo_session\<lparr>expires_at := 2000\<rparr>"
        and raw = "demo_cookie_header (demo_session\<lparr>expires_at := 2000\<rparr>)"])
    (simp_all add: demo_joined_def demo_cookie_header_read web_cfg_def demo_reply_def demo_other_def
      demo_header_nonempty, simp add: demo_session_def)

end
