(* ===== verification/ConnectWidget.thy ===== *)
theory ConnectWidget
  imports JsPrelude
begin

text \<open>
  \<open>packages/frontend/src/connect.ts\<close>: the embeddable connect widget. The state is the
  object's fields together with the part of the page they act on: the body's overflow
  style, the widget's iframes in the body and the message listeners on the window. The
  application's callbacks are absent, or observe their call (recorded in \<open>calls\<close>), or
  observe it and close the widget, as the integration guides do. The origin of the base
  URL and its own query parameters are what the platform's URL parser says; styles other
  than the page's overflow are not modelled.
\<close>

section \<open>State\<close>

datatype handler = Absent | Observes | Closes

record connect_options =
  session_token :: string
  screen :: "string option"
  provider_id :: "string option"
  integration_id :: "string option"
  preview :: bool
  on_success :: handler
  on_integration_success :: handler
  on_resource_selection :: handler
  on_error_cb :: handler
  on_close :: handler
  on_event :: handler

record connect_config =
  base_origin :: string
  base_params :: "(string, string) dict"
  theme :: string

datatype connect_error = AlreadyOpen | SessionTokenMissing

record widget =
  iframe :: "(string, string) dict option"
  listener :: bool
  options :: "connect_options option"
  previous_overflow :: string
  overflow :: string
  frames :: nat
  listeners :: nat
  calls :: "(string \<times> js) list"

definition new_widget :: "string \<Rightarrow> widget" where
  "new_widget ov = \<lparr>iframe = None, listener = False, options = None, previous_overflow = [],
     overflow = ov, frames = 0, listeners = 0, calls = []\<rparr>"

definition is_open :: "widget \<Rightarrow> bool" where
  "is_open w \<longleftrightarrow> iframe w \<noteq> None"

section \<open>Operations\<close>

definition set_param :: "string \<Rightarrow> string option \<Rightarrow> (string, string) dict \<Rightarrow> (string, string) dict" where
  "set_param k v ps = (case v of None \<Rightarrow> ps | Some x \<Rightarrow> if x = [] then ps else dict_set k x ps)"

definition frame_params :: "connect_config \<Rightarrow> connect_options \<Rightarrow> (string, string) dict" where
  "frame_params cfg o' =
     (let ps = set_param ''integrationId'' (integration_id o')
         (set_param ''providerId'' (provider_id o')
           (set_param ''screen'' (screen o')
             (dict_set ''theme'' (theme cfg) (dict_set ''session'' (session_token o') (base_params cfg)))))
      in if preview o' then dict_set ''preview'' ''true'' ps else ps)"

definition open_widget :: "connect_config \<Rightarrow> connect_options \<Rightarrow> widget \<Rightarrow> connect_error + widget" where
  "open_widget cfg o' w =
     (if is_open w then Inl AlreadyOpen
      else if session_token o' = [] then Inl SessionTokenMissing
      else Inr (w\<lparr>options := Some o', previous_overflow := overflow w, overflow := ''hidden'',
                  frames := frames w + 1, iframe := Some (frame_params cfg o'),
                  listener := True, listeners := listeners w + 1\<rparr>))"

definition close_widget :: "widget \<Rightarrow> widget" where
  "close_widget w =
     (let w1 = (if listener w then w\<lparr>listeners := listeners w - 1, listener := False\<rparr> else w);
          w2 = (if iframe w1 \<noteq> None then w1\<lparr>frames := frames w1 - 1, iframe := None\<rparr> else w1)
      in w2\<lparr>overflow := previous_overflow w2, options := None\<rparr>)"

definition call_handler :: "string \<Rightarrow> handler \<Rightarrow> js \<Rightarrow> widget \<Rightarrow> widget" where
  "call_handler name h payload w =
     (case h of
        Absent \<Rightarrow> w
      | Observes \<Rightarrow> w\<lparr>calls := calls w @ [(name, payload)]\<rparr>
      | Closes \<Rightarrow> close_widget (w\<lparr>calls := calls w @ [(name, payload)]\<rparr>))"

definition call_option :: "string \<Rightarrow> (connect_options \<Rightarrow> handler) \<Rightarrow> js \<Rightarrow> widget \<Rightarrow> widget" where
  "call_option name field payload w =
     (case options w of None \<Rightarrow> w | Some o' \<Rightarrow> call_handler name (field o') payload w)"

text \<open>The recognised events; \<open>None\<close> is the switch's default.\<close>

definition dispatch :: "js \<Rightarrow> widget \<Rightarrow> widget option" where
  "dispatch data w =
     (let ty = js_get data ''type''; p = js_get data ''payload'' in
      if ty = JStr ''success'' then Some (call_option ''onSuccess'' on_success p w)
      else if ty = JStr ''integration_success''
      then Some (call_option ''onIntegrationSuccess'' on_integration_success p w)
      else if ty = JStr ''resource_selection''
      then Some (call_option ''onResourceSelection'' on_resource_selection p w)
      else if ty = JStr ''error'' then Some (call_option ''onError'' on_error_cb p w)
      else if ty = JStr ''close''
      then (let h = (case options w of None \<Rightarrow> Absent | Some o' \<Rightarrow> on_close o')
            in Some (call_handler ''onClose'' h JUndefined (close_widget w)))
      else None)"

definition receive :: "connect_config \<Rightarrow> string \<Rightarrow> js \<Rightarrow> widget \<Rightarrow> widget" where
  "receive cfg origin data w =
     (if \<not> listener w \<or> origin \<noteq> base_origin cfg then w
      else if \<not> is_object data \<or> data = JNull \<or> \<not> truthy (js_get data ''type'') then w
      else
        (case dispatch data w of
           None \<Rightarrow> w
         | Some w' \<Rightarrow> call_option ''onEvent'' on_event data w'))"

section \<open>The invariant\<close>

datatype widget_event = Open connect_options | Close | Message string js

definition widget_step :: "connect_config \<Rightarrow> widget \<Rightarrow> widget_event \<Rightarrow> widget" where
  "widget_step cfg w e =
     (case e of
        Open o' \<Rightarrow> (case open_widget cfg o' w of Inl _ \<Rightarrow> w | Inr w' \<Rightarrow> w')
      | Close \<Rightarrow> close_widget w
      | Message origin data \<Rightarrow> receive cfg origin data w)"

text \<open>
  The three fields agree, and the page holds one frame and one listener while the widget is
  open and none otherwise.
\<close>

definition widget_inv :: "widget \<Rightarrow> bool" where
  "widget_inv w \<longleftrightarrow>
     (is_open w \<longleftrightarrow> listener w) \<and> (is_open w \<longleftrightarrow> options w \<noteq> None)
     \<and> frames w = (if is_open w then 1 else 0) \<and> listeners w = (if is_open w then 1 else 0)
     \<and> (is_open w \<longrightarrow> overflow w = ''hidden'')"

lemma close_inv: "widget_inv w \<Longrightarrow> widget_inv (close_widget w)"
  by (auto simp: widget_inv_def close_widget_def is_open_def Let_def)

lemma close_closed [simp]: "\<not> is_open (close_widget w)" "options (close_widget w) = None"
  by (simp_all add: is_open_def close_widget_def Let_def)

lemma open_inv: "widget_inv w \<Longrightarrow> open_widget cfg o' w = Inr w' \<Longrightarrow> widget_inv w'"
  by (auto simp: widget_inv_def open_widget_def is_open_def split: if_splits)

lemma calls_inv [simp]: "widget_inv (w\<lparr>calls := c\<rparr>) \<longleftrightarrow> widget_inv w"
  by (simp add: widget_inv_def is_open_def)

lemma call_handler_inv: "widget_inv w \<Longrightarrow> widget_inv (call_handler n h p w)"
  by (simp add: call_handler_def close_inv split: handler.split)

lemma call_option_inv: "widget_inv w \<Longrightarrow> widget_inv (call_option n f p w)"
  by (simp add: call_option_def call_handler_inv split: option.split)

lemma receive_inv: "widget_inv w \<Longrightarrow> widget_inv (receive cfg origin data w)"
  by (auto simp: receive_def dispatch_def Let_def call_option_inv call_handler_inv close_inv split: option.splits if_splits)

lemma widget_inv_step: "widget_inv w \<Longrightarrow> widget_inv (widget_step cfg w e)"
  by (simp add: widget_step_def close_inv receive_inv open_inv split: widget_event.split sum.split)

interpretation connect: event_machine "widget_step cfg" widget_inv
  by unfold_locales (rule widget_inv_step)

lemma widget_inv_new: "widget_inv (new_widget ov)"
  by (simp add: widget_inv_def new_widget_def is_open_def)

section \<open>Properties\<close>

definition demo_options :: connect_options where
  "demo_options = \<lparr>session_token = ''tok'', screen = None, provider_id = Some ''github'',
     integration_id = None, preview = True, on_success = Observes, on_integration_success = Absent,
     on_resource_selection = Absent, on_error_cb = Observes, on_close = Observes, on_event = Observes\<rparr>"

definition demo_config :: connect_config where
  "demo_config = \<lparr>base_origin = ''https://connect'', base_params = [], theme = ''system''\<rparr>"

definition demo_widget :: widget where
  "demo_widget = projr (open_widget demo_config demo_options (new_widget ''auto''))"


text \<open>
  Opening is guarded and reversible: a second open and an open without a token are
  refused; an accepted one puts the token and the theme into the frame's address, and
  closing afterwards gives the page back as it was.
\<close>

theorem open_close_restores:
  assumes "widget_inv w"
  shows "(case open_widget cfg o' w of
       Inl AlreadyOpen \<Rightarrow> is_open w
     | Inl SessionTokenMissing \<Rightarrow> \<not> is_open w \<and> session_token o' = []
     | Inr w' \<Rightarrow> \<not> is_open w \<and> open_widget cfg o2 w' = Inl AlreadyOpen
         \<and> dict_get (frame_params cfg o') ''session'' = Some (session_token o')
         \<and> dict_get (frame_params cfg o') ''theme'' = Some (theme cfg)
         \<and> (let c = close_widget w' in
              overflow c = overflow w \<and> frames c = frames w \<and> listeners c = listeners w \<and> \<not> is_open c))"
proof -
  have params: "dict_get (frame_params cfg o') ''session'' = Some (session_token o')"
    "dict_get (frame_params cfg o') ''theme'' = Some (theme cfg)"
    by (simp_all add: frame_params_def set_param_def Let_def update_conv' split: option.split)
  show ?thesis
    using assms
    by (simp add: open_widget_def params is_open_def [of "widget.iframe_update _ _"] close_widget_def Let_def
        widget_inv_def) (simp add: is_open_def)
qed

lemma open_close_restores_witness:
  "(case open_widget demo_config demo_options (new_widget ''auto'') of
       Inl AlreadyOpen \<Rightarrow> is_open (new_widget ''auto'')
     | Inl SessionTokenMissing \<Rightarrow> \<not> is_open (new_widget ''auto'') \<and> session_token demo_options = []
     | Inr w' \<Rightarrow> \<not> is_open (new_widget ''auto'') \<and> open_widget demo_config demo_options w' = Inl AlreadyOpen
         \<and> dict_get (frame_params demo_config demo_options) ''session'' = Some (session_token demo_options)
         \<and> dict_get (frame_params demo_config demo_options) ''theme'' = Some (theme demo_config)
         \<and> (let c = close_widget w' in
              overflow c = overflow (new_widget ''auto'') \<and> frames c = frames (new_widget ''auto'')
              \<and> listeners c = listeners (new_widget ''auto'') \<and> \<not> is_open c))"
  by (rule open_close_restores) (rule widget_inv_new)

text \<open>
  Messages from another origin, or that are not a recognised event object, change
  nothing and reach no callback.
\<close>

theorem foreign_message_ignored:
  assumes "origin \<noteq> base_origin cfg \<or> \<not> listener w
     \<or> js_get data ''type'' \<notin> JStr ` {''success'', ''integration_success'', ''resource_selection'', ''error'', ''close''}"
  shows "receive cfg origin data w = w"
  using assms by (auto simp: receive_def dispatch_def Let_def)

lemma foreign_message_ignored_witness:
  "receive demo_config ''https://evil'' (JObj [(''type'', JStr ''success'')]) demo_widget = demo_widget"
  by (rule foreign_message_ignored) (simp add: demo_config_def)

text \<open>
  Every recognised event but one reaches its own callback and then \<open>onEvent\<close>; a close
  message reaches \<open>onClose\<close> only, because closing has already dropped the options.
\<close>

theorem close_event_skips_on_event:
  assumes "options w = Some o'" "listener w" "on_event o' = Observes"
    and "on_success o' = Observes" "on_error_cb o' = Observes" "on_close o' = Observes"
  shows "calls (receive cfg (base_origin cfg) (JObj [(''type'', JStr ''success''), (''payload'', p)]) w)
       = calls w @ [(''onSuccess'', p), (''onEvent'', JObj [(''type'', JStr ''success''), (''payload'', p)])]
     \<and> calls (receive cfg (base_origin cfg) (JObj [(''type'', JStr ''error''), (''payload'', p)]) w)
       = calls w @ [(''onError'', p), (''onEvent'', JObj [(''type'', JStr ''error''), (''payload'', p)])]
     \<and> calls (receive cfg (base_origin cfg) (JObj [(''type'', JStr ''close'')]) w)
       = calls w @ [(''onClose'', JUndefined)]"
proof -
  have "calls (close_widget w) = calls w" by (simp add: close_widget_def Let_def)
  then show ?thesis
    using assms
    by (simp add: receive_def dispatch_def Let_def call_option_def call_handler_def)
qed

lemma close_event_skips_on_event_witness:
  "calls (receive demo_config (base_origin demo_config)
       (JObj [(''type'', JStr ''success''), (''payload'', JNull)]) demo_widget)
       = calls demo_widget @ [(''onSuccess'', JNull), (''onEvent'', JObj [(''type'', JStr ''success''), (''payload'', JNull)])]
     \<and> calls (receive demo_config (base_origin demo_config)
       (JObj [(''type'', JStr ''error''), (''payload'', JNull)]) demo_widget)
       = calls demo_widget @ [(''onError'', JNull), (''onEvent'', JObj [(''type'', JStr ''error''), (''payload'', JNull)])]
     \<and> calls (receive demo_config (base_origin demo_config) (JObj [(''type'', JStr ''close'')]) demo_widget)
       = calls demo_widget @ [(''onClose'', JUndefined)]"
  by (rule close_event_skips_on_event [where o' = demo_options])
    (simp_all add: demo_widget_def demo_options_def open_widget_def is_open_def new_widget_def)

text \<open>
  Closing is not a no-op on a closed widget: it writes back the overflow saved by the
  last opening over whatever the page has set since, for a fresh widget the empty style.
\<close>

theorem close_when_closed_overwrites:
  "overflow (close_widget (new_widget ov)) = []
   \<and> (case open_widget cfg o' (new_widget ov) of
        Inl _ \<Rightarrow> session_token o' = []
      | Inr w \<Rightarrow> overflow (close_widget ((close_widget w)\<lparr>overflow := later\<rparr>)) = ov)"
  by (simp add: close_widget_def new_widget_def open_widget_def is_open_def Let_def)

end
