(* ===== verification/AuthPages.thy ===== *)
theory AuthPages
  imports AuthRoutes
begin

text \<open>
  The pages that sign a user in and switch users: the one-time-code page of the web app
  (\<open>apps/web/app/auth/page.tsx\<close>), the password page of the admin app
  (\<open>apps/admin/app/auth/page.tsx\<close>), the impersonation dialog with its debounced search, the
  workspace dialog, and the client side of the auth context's calls. A page is a state and
  one operation per handler or callback; a \<open>useMutation\<close> is the closure of its latest
  \<open>mutate\<close> call, which is the one whose callbacks run. Requests are recorded in order.
\<close>

section \<open>Error messages and the button\<close>

definition extract_error_message :: "js \<Rightarrow> string \<Rightarrow> string" where
  "extract_error_message error fallback =
     (if truthy error \<and> is_object error \<and> js_has error ''error''
      then (case js_get error ''error'' of JStr m \<Rightarrow> if m \<noteq> [] then m else fallback | _ \<Rightarrow> fallback)
      else fallback)"

text \<open>
  \<open>Button\<close> computes \<open>disabled = loading || props.disabled\<close> and then spreads the
  properties over it, so a \<open>disabled\<close> property, when one is passed, replaces the result.
\<close>

definition button_disabled :: "bool option \<Rightarrow> bool \<Rightarrow> bool" where
  "button_disabled disabled_prop loading = (case disabled_prop of
       Some d \<Rightarrow> d | None \<Rightarrow> loading)"

section \<open>One-time codes\<close>

datatype auth_step = Buttons | EmailStep | CodeStep

datatype otp_call = OtpRequest string | OtpVerify string string

record otp_state =
  ap_step :: auth_step
  ap_email :: string
  ap_code :: string
  resend_timer :: int
  otp_pending :: "auth_step option"
  verify_pending :: bool
  ap_replaced :: "string option"
  ap_toasts :: "string list"
  otp_calls :: "otp_call list"

definition resend_cooldown :: int where "resend_cooldown = 60"

definition otp_init :: otp_state where
  "otp_init = \<lparr>ap_step = Buttons, ap_email = [], ap_code = [], resend_timer = 0, otp_pending = None,
     verify_pending = False, ap_replaced = None, ap_toasts = [], otp_calls = []\<rparr>"

text \<open>The effect on \<open>resendTimer\<close>, once a second.\<close>

definition otp_tick :: "otp_state \<Rightarrow> otp_state" where
  "otp_tick st = (if resend_timer st \<le> 0 then st else st\<lparr>resend_timer := resend_timer st - 1\<rparr>)"

definition request_otp :: "otp_state \<Rightarrow> otp_state" where
  "request_otp st = st\<lparr>otp_pending := Some (ap_step st), otp_calls := otp_calls st @ [OtpRequest (ap_email st)]\<rparr>"

definition otp_sent :: "otp_state \<Rightarrow> otp_state" where
  "otp_sent st = (case otp_pending st of
       None \<Rightarrow> st
     | Some s \<Rightarrow>
         (let st' = st\<lparr>otp_pending := None, resend_timer := resend_cooldown\<rparr>
          in if s = EmailStep then st'\<lparr>ap_step := CodeStep, ap_code := []\<rparr> else st'))"

definition otp_failed :: "js \<Rightarrow> otp_state \<Rightarrow> otp_state" where
  "otp_failed err st = (if otp_pending st = None then st else
     st\<lparr>otp_pending := None, ap_toasts := ap_toasts st @ [extract_error_message err ''Failed to send code'']\<rparr>)"

definition email_submit :: "otp_state \<Rightarrow> otp_state" where
  "email_submit st = (if js_trim (ap_email st) = [] then st else request_otp st)"

definition handle_verify :: "string \<Rightarrow> otp_state \<Rightarrow> otp_state" where
  "handle_verify v st =
     (let st' = st\<lparr>ap_code := v\<rparr> in
      if length v < 6 then st'
      else st'\<lparr>verify_pending := True, otp_calls := otp_calls st @ [OtpVerify (ap_email st) v]\<rparr>)"

definition otp_verified :: "otp_state \<Rightarrow> otp_state" where
  "otp_verified st = (if verify_pending st then st\<lparr>verify_pending := False, ap_replaced := Some ''/w''\<rparr> else st)"

definition verify_failed :: "js \<Rightarrow> otp_state \<Rightarrow> otp_state" where
  "verify_failed err st = (if verify_pending st then
     st\<lparr>verify_pending := False, ap_code := [],
        ap_toasts := ap_toasts st @ [extract_error_message err ''Invalid or expired code'']\<rparr> else st)"

text \<open>
  What the page offers in each step: an event that is not on the page, or whose control is
  disabled, changes nothing.
\<close>

datatype otp_event =
    ContinueWithEmail | EditEmail string | SubmitEmail | AllOptions
  | TypeCode string | Resend | DifferentEmail
  | Second | OtpSent | OtpFailed js | Verified | VerifyFailed js

definition otp_step :: "otp_state \<Rightarrow> otp_event \<Rightarrow> otp_state" where
  "otp_step st e = (case e of
       ContinueWithEmail \<Rightarrow> if ap_step st = Buttons then st\<lparr>ap_step := EmailStep\<rparr> else st
     | EditEmail m \<Rightarrow> if ap_step st = EmailStep then st\<lparr>ap_email := m\<rparr> else st
     | SubmitEmail \<Rightarrow> if ap_step st = EmailStep \<and> \<not> button_disabled None (otp_pending st \<noteq> None) then email_submit st else st
     | AllOptions \<Rightarrow> if ap_step st = EmailStep then st\<lparr>ap_step := Buttons\<rparr> else st
     | TypeCode v \<Rightarrow> if ap_step st = CodeStep \<and> \<not> verify_pending st then handle_verify v st else st
     | Resend \<Rightarrow> if ap_step st = CodeStep \<and> resend_timer st \<le> 0 \<and> otp_pending st = None then request_otp st else st
     | DifferentEmail \<Rightarrow> if ap_step st = CodeStep then st\<lparr>ap_step := EmailStep, ap_code := []\<rparr> else st
     | Second \<Rightarrow> otp_tick st
     | OtpSent \<Rightarrow> otp_sent st
     | OtpFailed err \<Rightarrow> otp_failed err st
     | Verified \<Rightarrow> otp_verified st
     | VerifyFailed err \<Rightarrow> verify_failed err st)"

fun call_ok :: "otp_call \<Rightarrow> bool" where
  "call_ok (OtpRequest e) = True"
| "call_ok (OtpVerify e v) = (6 \<le> length v)"

fun is_request :: "otp_call \<Rightarrow> bool" where
  "is_request (OtpRequest e) = True"
| "is_request (OtpVerify e v) = False"

definition verify_calls :: "otp_state \<Rightarrow> otp_call list" where
  "verify_calls st = filter (\<lambda>c. \<not> is_request c) (otp_calls st)"

text \<open>No verification before a request, none with a short code, and the timer's range.\<close>

definition otp_inv :: "otp_state \<Rightarrow> bool" where
  "otp_inv st \<longleftrightarrow> resend_timer st \<in> {0..resend_cooldown}
     \<and> list_all call_ok (otp_calls st)
     \<and> (otp_calls st = [] \<longrightarrow> ap_step st \<noteq> CodeStep \<and> otp_pending st = None)
     \<and> (otp_calls st \<noteq> [] \<longrightarrow> is_request (hd (otp_calls st)))
     \<and> (verify_calls st = [] \<longrightarrow> \<not> verify_pending st \<and> ap_replaced st = None)"

lemma otp_inv_init: "otp_inv otp_init"
  by (simp add: otp_inv_def otp_init_def resend_cooldown_def verify_calls_def)

lemma otp_inv_step: "otp_inv st \<Longrightarrow> otp_inv (otp_step st e)"
  by (cases e)
    (auto simp: otp_inv_def otp_step_def otp_tick_def request_otp_def otp_sent_def otp_failed_def email_submit_def
      handle_verify_def otp_verified_def verify_failed_def Let_def verify_calls_def resend_cooldown_def hd_append
      split: option.splits)

interpretation otp: event_machine otp_step otp_inv
  by unfold_locales (rule otp_inv_step)

text \<open>
  The sign-in page is safe under every order of clicks and answers: the first call is a
  request for a code, every code sent for verification has at least six characters, the
  code step is shown and the user is let in only after the corresponding calls, and the
  resend timer stays between zero and sixty seconds.
\<close>

theorem otp_page_safe:
  "let st = foldl otp_step otp_init es in
     0 \<le> resend_timer st \<and> resend_timer st \<le> 60 \<and> list_all call_ok (otp_calls st)
     \<and> list_all is_request (take 1 (otp_calls st))
     \<and> (if otp_calls st = [] then ap_step st = Buttons \<or> ap_step st = EmailStep else True)
     \<and> (if verify_calls st = [] then ap_replaced st = None else True)"
proof -
  have "otp_inv (foldl otp_step otp_init es)" by (rule otp.run_inv [OF otp_inv_init])
  then show ?thesis
    by (cases "otp_calls (foldl otp_step otp_init es)"; cases "ap_step (foldl otp_step otp_init es)")
      (auto simp: otp_inv_def resend_cooldown_def Let_def)
qed

lemma ticks:
  "0 \<le> resend_timer st \<Longrightarrow> foldl otp_step st (replicate n Second) = st\<lparr>resend_timer := max 0 (resend_timer st - int n)\<rparr>"
proof (induction n arbitrary: st)
  case (Suc n)
  then show ?case by (cases "resend_timer st = 0") (simp_all add: otp_step_def otp_tick_def max_def)
qed simp

text \<open>
  A code can be sent again, but not too soon: on the code step, \<open>n\<close> seconds after the timer
  showed \<open>t\<close>, pressing resend sends a request exactly when \<open>t \<le> n\<close>; so at most sixty seconds
  after any request the user can ask for another.
\<close>

theorem resend_after_cooldown:
  assumes "ap_step st = CodeStep" "otp_pending st = None" "0 \<le> resend_timer st"
  shows "otp_calls (otp_step (foldl otp_step st (replicate n Second)) Resend) =
     otp_calls st @ (if resend_timer st \<le> int n then [OtpRequest (ap_email st)] else [])"
  using assms by (simp add: ticks otp_step_def request_otp_def)

definition demo_code_page :: otp_state where
  "demo_code_page = foldl otp_step otp_init [ContinueWithEmail, EditEmail ''ann@x.io'', SubmitEmail, OtpSent]"

theorem resend_after_cooldown_witness:
  "otp_calls (otp_step (foldl otp_step demo_code_page (replicate 60 Second)) Resend) =
     otp_calls demo_code_page @ (if resend_timer demo_code_page \<le> int 60 then [OtpRequest (ap_email demo_code_page)] else [])"
  by (rule resend_after_cooldown)
    (simp_all add: demo_code_page_def otp_init_def otp_step_def email_submit_def request_otp_def otp_sent_def
      button_disabled_def js_trim_def trim_start_def trim_end_def is_space_def resend_cooldown_def Let_def)

text \<open>
  The address is not fixed by the request: edited while the request is under way, the code
  step verifies a code for the new address, which no code was sent to.
\<close>

lemma edited_address_verified:
  "otp_calls (foldl otp_step otp_init
     [ContinueWithEmail, EditEmail ''a@x.io'', SubmitEmail, EditEmail ''b@x.io'', OtpSent, TypeCode ''123456''])
   = [OtpRequest ''a@x.io'', OtpVerify ''b@x.io'' ''123456'']"
  by (simp add: otp_init_def otp_step_def email_submit_def request_otp_def otp_sent_def handle_verify_def
      button_disabled_def js_trim_def trim_start_def trim_end_def is_space_def Let_def)

section \<open>The admin's sign-in page\<close>

datatype login_mode = Login | Register

datatype login_call = LoginCall string string | RegisterCall string string string

record login_state =
  lg_mode :: login_mode
  lg_name :: string
  lg_email :: string
  lg_password :: string
  lg_error :: string
  lg_pending :: "login_mode option"
  lg_replaced :: "string option"
  lg_calls :: "login_call list"

definition login_init :: login_state where
  "login_init = \<lparr>lg_mode = Login, lg_name = [], lg_email = [], lg_password = [], lg_error = [],
     lg_pending = None, lg_replaced = None, lg_calls = []\<rparr>"

definition login_submit :: "login_state \<Rightarrow> login_state" where
  "login_submit st =
     st\<lparr>lg_error := [], lg_pending := Some (lg_mode st),
        lg_calls := lg_calls st @ [case lg_mode st of
          Register \<Rightarrow> RegisterCall (lg_name st) (lg_email st) (lg_password st)
        | Login \<Rightarrow> LoginCall (lg_email st) (lg_password st)]\<rparr>"

definition login_succeeded :: "login_state \<Rightarrow> login_state" where
  "login_succeeded st = (if lg_pending st = None then st else st\<lparr>lg_pending := None, lg_replaced := Some ''/dashboard''\<rparr>)"

definition login_failed :: "login_state \<Rightarrow> login_state" where
  "login_failed st = (case lg_pending st of
       None \<Rightarrow> st
     | Some Register \<Rightarrow> st\<lparr>lg_pending := None, lg_error := ''Registration failed''\<rparr>
     | Some Login \<Rightarrow> st\<lparr>lg_pending := None, lg_error := ''Invalid credentials''\<rparr>)"

definition switch_mode :: "login_state \<Rightarrow> login_state" where
  "switch_mode st = st\<lparr>lg_mode := (if lg_mode st = Login then Register else Login), lg_error := []\<rparr>"

lemma switch_mode_twice: "lg_error (switch_mode st) = []" "switch_mode (switch_mode st) = st\<lparr>lg_error := []\<rparr>"
  by (cases "lg_mode st"; simp add: switch_mode_def)+

text \<open>A late failure is shown under the other form when the mode was switched meanwhile.\<close>

lemma late_failure_in_other_mode:
  "lg_error (login_failed (switch_mode (login_submit login_init))) = ''Invalid credentials''
     \<and> lg_mode (login_failed (switch_mode (login_submit login_init))) = Register"
  by (simp add: login_failed_def switch_mode_def login_submit_def login_init_def)

section \<open>The impersonation dialog\<close>

record user_row =
  us_id :: string
  us_email :: string
  us_name :: string

text \<open>
  \<open>su_timer\<close> is the search text the pending debounce timer was set for, \<open>su_flight\<close> the
  searches that were sent and not answered, oldest first: clearing the timer does not
  abort a request.
\<close>

record search_state =
  su_text :: string
  su_results :: "user_row list"
  su_searching :: bool
  su_impersonating :: "string option"
  su_timer :: "string option"
  su_flight :: "string list"
  su_sent :: "string list"

definition search_closed :: "search_state \<Rightarrow> search_state" where
  "search_closed st = st\<lparr>su_text := [], su_results := [], su_searching := False, su_impersonating := None, su_timer := None\<rparr>"

definition search_typed :: "string \<Rightarrow> search_state \<Rightarrow> search_state" where
  "search_typed t st =
     (if js_trim t = [] then st\<lparr>su_text := t, su_timer := None, su_results := [], su_searching := False\<rparr>
      else st\<lparr>su_text := t, su_searching := True, su_timer := Some t\<rparr>)"

definition search_url :: "string \<Rightarrow> string" where
  "search_url t = ''/api/proxy/admin/v1/users?search='' @ encode_uri (js_trim t) @ ''&limit=10''"

definition search_fire :: "search_state \<Rightarrow> search_state" where
  "search_fire st = (case su_timer st of
       None \<Rightarrow> st
     | Some t \<Rightarrow> st\<lparr>su_timer := None, su_flight := su_flight st @ [search_url t], su_sent := su_sent st @ [search_url t]\<rparr>)"

text \<open>The answer to the \<open>n\<close>-th search in flight: rows, an error status, or a failed fetch.\<close>

definition search_answer :: "nat \<Rightarrow> user_row list option \<Rightarrow> search_state \<Rightarrow> search_state" where
  "search_answer n rows st =
     (if n < length (su_flight st)
      then st\<lparr>su_flight := take n (su_flight st) @ drop (Suc n) (su_flight st), su_searching := False,
              su_results := (case rows of Some rs \<Rightarrow> rs | None \<Rightarrow> su_results st)\<rparr>
      else st)"

definition impersonate_click :: "string \<Rightarrow> search_state \<Rightarrow> search_state" where
  "impersonate_click i st = (if su_impersonating st = None then st\<lparr>su_impersonating := Some i\<rparr> else st)"

definition impersonate_failed :: "search_state \<Rightarrow> search_state" where
  "impersonate_failed st = st\<lparr>su_impersonating := None\<rparr>"

definition search_init :: search_state where
  "search_init = \<lparr>su_text = [], su_results = [], su_searching = False, su_impersonating = None,
     su_timer = None, su_flight = [], su_sent = []\<rparr>"

text \<open>
  Typing is debounced: however fast a search text is typed, one request is sent, for the
  last text, trimmed and encoded, and none when that text is blank.
\<close>

theorem search_debounced:
  "su_sent (search_fire (search_typed t (foldl (\<lambda>s x. search_typed x s) st ts))) =
     su_sent st @ (if js_trim t = [] then [] else [search_url t])"
proof -
  have "su_sent (foldl (\<lambda>s x. search_typed x s) st ts) = su_sent st" for st
    by (induction ts arbitrary: st) (simp_all add: search_typed_def)
  then show ?thesis by (simp add: search_typed_def search_fire_def)
qed

text \<open>Answers are not matched with the text: a slow answer to an old search replaces the rows.\<close>

lemma stale_answer_shown:
  "su_results (search_answer 0 (Some old) (search_answer 1 (Some new)
      (search_fire (search_typed ''bob'' (search_fire (search_typed ''ann'' search_init)))))) = old"
  by (simp add: search_answer_def search_fire_def search_typed_def search_init_def js_trim_def trim_start_def trim_end_def
      is_space_def)

section \<open>Calls of the auth context\<close>

text \<open>
  \<open>impersonate\<close> and \<open>stopImpersonating\<close>: a failed response becomes an error with the body's
  message, a body that is no JSON the default, a body that is \<open>null\<close> a TypeError, and a
  success reloads the page.
\<close>

datatype client_outcome = Reloaded | Threw string | ThrewTypeError

definition read_failure :: "string \<Rightarrow> string \<Rightarrow> client_outcome" where
  "read_failure fallback body = (case json_parse body of
       None \<Rightarrow> Threw fallback
     | Some v \<Rightarrow> (case js_member v ''error'' of
         None \<Rightarrow> ThrewTypeError
       | Some e \<Rightarrow> Threw (js_string (coalesce e (JStr fallback)))))"

definition context_impersonate :: "int \<Rightarrow> string \<Rightarrow> client_outcome" where
  "context_impersonate status body =
     (if 200 \<le> status \<and> status < 300 then Reloaded else read_failure ''impersonation failed'' body)"

definition context_stop_impersonating :: "int \<Rightarrow> string \<Rightarrow> client_outcome" where
  "context_stop_impersonating status body =
     (if 200 \<le> status \<and> status < 300 then Reloaded else read_failure ''failed to stop impersonating'' body)"

definition add_org :: "org \<Rightarrow> org_state \<Rightarrow> org_state" where
  "add_org o' st = (case org_id o' of None \<Rightarrow> st | Some i \<Rightarrow> if i = [] then st else choose_org i st)"

lemma add_org_chooses: "add_org o' st = set_active_org o' st"
  by (simp add: add_org_def set_active_org_def)

text \<open>The redirect of the provider when the session is not accepted, once.\<close>

definition provider_redirect :: "bool \<Rightarrow> bool \<Rightarrow> bool \<times> string option" where
  "provider_redirect is_error redirected =
     (if is_error \<and> \<not> redirected then (True, Some ''/auth'') else (redirected, None))"

section \<open>A new workspace\<close>

record workspace_state =
  ws_name :: string
  ws_loading :: bool
  ws_open :: bool
  ws_orgs :: org_state

definition workspace_request :: "string \<Rightarrow> js option" where
  "workspace_request name = (if js_trim name = [] then None else Some (JObj [(''name'', JStr (js_trim name))]))"

definition workspace_created :: "(js + string) \<Rightarrow> workspace_state \<Rightarrow> workspace_state" where
  "workspace_created answer st = (case answer of
       Inl _ \<Rightarrow> st\<lparr>ws_loading := False\<rparr>
     | Inr i \<Rightarrow> st\<lparr>ws_orgs := add_org \<lparr>org_id = Some i, org_label = ws_name st\<rparr> (ws_orgs st),
                  ws_name := [], ws_loading := False, ws_open := False\<rparr>)"

lemma created_workspace_active:
  "i \<noteq> [] \<Longrightarrow> active_org_id (ws_orgs (workspace_created (Inr i) st)) = Some i \<and> ws_open (workspace_created (Inr i) st) = False"
  by (simp add: workspace_created_def add_org_def choose_org_def)

end
