(* ===== verification/AdminEditors.thy ===== *)
theory AdminEditors
  imports AuthPages
begin

text \<open>
  The forms of the admin dashboard, \<open>apps/admin/app/dashboard/*/page.tsx\<close>: editing
  organisations, users, agents, skills and sandbox templates, and registering skills and
  templates. The pages share one shape: a row is opened into a form, the form is saved with
  one call, and the answer closes the dialog or shows an error. The shape is the record
  \<open>editor\<close>; a page is its form, its body and its error texts. \<open>edit_page\<close> is the contract that
  saving an opened row changes nothing.
\<close>

section \<open>Calls and answers\<close>

record admin_call =
  ac_method :: string
  ac_path :: string
  ac_id :: "string option"
  ac_body :: js

text \<open>The client returns a refusal as the member \<open>error\<close>; it throws only when the network fails.\<close>

datatype admin_reply = Answered js | Threw

definition error_text :: "string \<Rightarrow> string \<Rightarrow> js \<Rightarrow> string" where
  "error_text key fallback e =
     (if truthy (js_get e key) then js_string (js_get e key) else fallback)"

section \<open>Lists in text fields\<close>

text \<open>\<open>text.split(c).map(trim).filter(Boolean)\<close>.\<close>

definition text_list :: "char \<Rightarrow> string \<Rightarrow> string list" where
  "text_list c s = filter (\<lambda>t. t \<noteq> []) (map js_trim (js_split c s))"

definition list_item :: "char \<Rightarrow> string \<Rightarrow> bool" where
  "list_item c s \<longleftrightarrow> s \<noteq> [] \<and> js_trim s = s \<and> c \<notin> set s"

lemma js_trim_blank: "js_trim (CHR '' '' # s) = js_trim s"
  by (simp add: js_trim_def trim_start_def is_space_def)

lemma split_join_items:
  "ps \<noteq> [] \<Longrightarrow> list_all (list_item c) ps \<Longrightarrow> sp = [] \<or> sp = '' '' \<and> c \<noteq> CHR '' '' \<Longrightarrow>
   map js_trim (js_split c (js_join (c # sp) ps)) = ps"
proof (induction ps rule: induct_list012)
  case (2 p)
  then show ?case by (simp add: list_item_def js_split_no_sep)
next
  case (3 p q ps)
  have skip: "map js_trim (js_split c (sp @ s)) = map js_trim (js_split c s)" for s
    using "3.prems"(3) by (cases "js_split c s") (auto simp: js_trim_blank)
  have "map js_trim (js_split c (js_join (c # sp) (p # q # ps))) = js_trim p # map js_trim (js_split c (sp @ js_join (c # sp) (q # ps)))"
    using "3.prems"(2) by (simp add: list_item_def js_split_append)
  then show ?case using 3 skip by (simp add: list_item_def)
qed simp

lemma text_list_join:
  assumes "list_all (list_item c) ps" "sp = [] \<or> sp = '' '' \<and> c \<noteq> CHR '' ''"
  shows "text_list c (js_join (c # sp) ps) = ps"
proof (cases "ps = []")
  case True
  then show ?thesis by (simp add: text_list_def js_trim_def trim_start_def trim_end_def)
next
  case False
  have "filter (\<lambda>t. t \<noteq> []) ps = ps" using assms(1) by (auto simp: list_item_def list_all_iff intro: filter_True)
  then show ?thesis using split_join_items [OF False assms] by (simp add: text_list_def)
qed

lemma text_list_items: "list_all (list_item c) (text_list c s)"
  using set_js_trim by (fastforce simp: text_list_def list_item_def list_all_iff dest: split_parts_no_sep)

section \<open>Editors\<close>

record 'f editor =
  ed_id :: "string option"
  ed_form :: 'f
  ed_error :: "string option"
  ed_saving :: bool
  ed_pending :: nat
  ed_calls :: "admin_call list"
  ed_refetch :: nat

definition editor_init :: "'f \<Rightarrow> 'f editor" where
  "editor_init f = \<lparr>ed_id = None, ed_form = f, ed_error = None, ed_saving = False, ed_pending = 0, ed_calls = [], ed_refetch = 0\<rparr>"

definition editor_open :: "string \<Rightarrow> 'f \<Rightarrow> 'f editor \<Rightarrow> 'f editor" where
  "editor_open i f st = st\<lparr>ed_id := Some i, ed_form := f, ed_error := None\<rparr>"

definition editor_close :: "'f editor \<Rightarrow> 'f editor" where
  "editor_close st = st\<lparr>ed_id := None\<rparr>"

definition editor_save :: "string \<Rightarrow> ('f \<Rightarrow> js) \<Rightarrow> 'f editor \<Rightarrow> 'f editor" where
  "editor_save path body st = (case ed_id st of
       None \<Rightarrow> st
     | Some i \<Rightarrow> st\<lparr>ed_saving := True, ed_error := None, ed_pending := Suc (ed_pending st),
         ed_calls := ed_calls st @ [\<lparr>ac_method = ''PUT'', ac_path = path, ac_id = Some i, ac_body = body (ed_form st)\<rparr>]\<rparr>)"

definition editor_settled :: "string \<Rightarrow> string \<Rightarrow> admin_reply \<Rightarrow> 'f editor \<Rightarrow> 'f editor" where
  "editor_settled key fallback r st =
     (if ed_pending st = 0 then st
      else let st' = st\<lparr>ed_saving := False, ed_pending := ed_pending st - 1\<rparr> in
        (case r of
           Threw \<Rightarrow> st'\<lparr>ed_error := Some ''An unexpected error occurred.''\<rparr>
         | Answered e \<Rightarrow> if truthy e then st'\<lparr>ed_error := Some (error_text key fallback e)\<rparr>
             else st'\<lparr>ed_id := None, ed_refetch := Suc (ed_refetch st)\<rparr>))"

datatype 'f editor_event = OpenRow string 'f | Edit "'f \<Rightarrow> 'f" | CloseForm | Save | Settled admin_reply

text \<open>The form is shown, and its buttons are there, while a row is open; saving waits for the answer.\<close>

definition editor_step :: "string \<Rightarrow> ('f \<Rightarrow> js) \<Rightarrow> (admin_reply \<Rightarrow> 'f editor \<Rightarrow> 'f editor) \<Rightarrow> 'f editor \<Rightarrow> 'f editor_event \<Rightarrow> 'f editor" where
  "editor_step path body settle st e = (case e of
       OpenRow i f \<Rightarrow> editor_open i f st
     | Edit g \<Rightarrow> if ed_id st = None then st else st\<lparr>ed_form := g (ed_form st)\<rparr>
     | CloseForm \<Rightarrow> editor_close st
     | Save \<Rightarrow> if ed_saving st then st else editor_save path body st
     | Settled r \<Rightarrow> settle r st)"

section \<open>Organisations\<close>

record org_row =
  ow_id :: string
  ow_name :: "string option"
  ow_rate :: "int option"
  ow_active :: "bool option"
  ow_origins :: "string list option"

record org_form =
  ow_fname :: string
  ow_frate :: int
  ow_factive :: bool
  ow_forigins :: string

definition opt_or :: "'a \<Rightarrow> 'a option \<Rightarrow> 'a" where
  "opt_or d v = (case v of None \<Rightarrow> d | Some x \<Rightarrow> x)"

text \<open>\<open>text || d\<close>: an empty text gives way too.\<close>

definition text_or_default :: "string \<Rightarrow> string option \<Rightarrow> string" where
  "text_or_default d v = (case v of None \<Rightarrow> d | Some x \<Rightarrow> if x = [] then d else x)"

definition newline :: char where "newline = CHR 0x0A"

definition open_org :: "org_row \<Rightarrow> org_form" where
  "open_org o' = \<lparr>ow_fname = opt_or [] (ow_name o'), ow_frate = opt_or 0 (ow_rate o'), ow_factive = (ow_active o' \<noteq> Some False),
     ow_forigins = js_join [newline] (opt_or [] (ow_origins o'))\<rparr>"

definition js_texts :: "string list \<Rightarrow> js" where
  "js_texts xs = JArr (map JStr xs)"

definition org_body :: "org_form \<Rightarrow> js" where
  "org_body f = JObj [(''name'', JStr (ow_fname f)), (''rate_limit'', JNum (ow_frate f)), (''active'', JBool (ow_factive f)),
     (''allowed_origins'', js_texts (text_list newline (ow_forigins f)))]"

definition org_path :: string where "org_path = ''/admin/v1/orgs/{id}''"

definition org_settled :: "admin_reply \<Rightarrow> org_form editor \<Rightarrow> org_form editor" where
  "org_settled = editor_settled ''error'' ''Failed to update organization.''"

section \<open>Users\<close>

record account_row =
  ar_id :: string
  ar_name :: "string option"
  ar_email :: "string option"

record account_form =
  ar_fname :: string
  ar_femail :: string

definition open_user :: "account_row \<Rightarrow> account_form" where
  "open_user u = \<lparr>ar_fname = opt_or [] (ar_name u), ar_femail = opt_or [] (ar_email u)\<rparr>"

definition user_body :: "account_form \<Rightarrow> js" where
  "user_body f = JObj [(''name'', JStr (ar_fname f)), (''email'', JStr (ar_femail f))]"

definition user_settled :: "admin_reply \<Rightarrow> account_form editor \<Rightarrow> account_form editor" where
  "user_settled = editor_settled ''error'' ''Failed to update user.''"

section \<open>Agents\<close>

text \<open>A row is a dictionary of texts; a missing or empty member takes its default.\<close>

definition agent_defaults :: "(string \<times> string) list" where
  "agent_defaults = [(''name'', []), (''description'', []), (''model'', []), (''system_prompt'', []),
     (''sandbox_type'', ''shared''), (''status'', ''active'')]"

definition open_agent :: "(string, string) dict \<Rightarrow> (string, string) dict" where
  "open_agent r = map (\<lambda>(k, d). (k, text_or_default d (dict_get r k))) agent_defaults"

definition agent_body :: "(string, string) dict \<Rightarrow> js" where
  "agent_body f = JObj (map (\<lambda>(k, d). (k, JStr (opt_or d (dict_get f k)))) agent_defaults)"

text \<open>This page reads the member \<open>message\<close> of the refusal.\<close>

definition agent_settled :: "admin_reply \<Rightarrow> (string, string) dict editor \<Rightarrow> (string, string) dict editor" where
  "agent_settled = editor_settled ''message'' ''Failed to update agent.''"

section \<open>Skills\<close>

record skill_row =
  sk_id :: string
  sk_texts :: "(string, string) dict"
  sk_featured :: "bool option"
  sk_tags :: "string list option"

record skill_fields =
  kx_texts :: "(string, string) dict"
  kx_featured :: bool
  kx_tags :: string

definition skill_defaults :: "(string \<times> string) list" where
  "skill_defaults = [(''name'', []), (''description'', []), (''status'', ''published''), (''repo_ref'', ''main'')]"

definition open_skill :: "skill_row \<Rightarrow> skill_fields" where
  "open_skill r = \<lparr>kx_texts = map (\<lambda>(k, d). (k, text_or_default d (dict_get (sk_texts r) k))) skill_defaults,
     kx_featured = opt_or False (sk_featured r), kx_tags = js_join '', '' (opt_or [] (sk_tags r))\<rparr>"

definition skill_edit_body :: "skill_fields \<Rightarrow> js" where
  "skill_edit_body f = JObj (map (\<lambda>(k, d). (k, JStr (opt_or d (dict_get (kx_texts f) k)))) skill_defaults
     @ [(''featured'', JBool (kx_featured f)), (''tags'', js_texts (text_list (CHR '','') (kx_tags f)))])"

definition skill_edit_settled :: "admin_reply \<Rightarrow> skill_fields editor \<Rightarrow> skill_fields editor" where
  "skill_edit_settled = editor_settled ''error'' ''Failed to update skill.''"

text \<open>Creating a skill: the form of a git or an inline skill.\<close>

record new_skill =
  ns_name :: string
  ns_description :: string
  ns_git :: bool
  ns_repo_url :: string
  ns_repo_subpath :: string
  ns_repo_ref :: string
  ns_tags :: string
  ns_featured :: bool

definition new_skill_init :: new_skill where
  "new_skill_init = \<lparr>ns_name = [], ns_description = [], ns_git = True, ns_repo_url = [], ns_repo_subpath = [],
     ns_repo_ref = ''main'', ns_tags = [], ns_featured = False\<rparr>"

definition or_undefined :: "string \<Rightarrow> js" where
  "or_undefined s = (if s = [] then JUndefined else JStr s)"

definition new_skill_body :: "new_skill \<Rightarrow> js" where
  "new_skill_body f = JObj ([(''name'', JStr (ns_name f)), (''description'', or_undefined (ns_description f)),
       (''source_type'', JStr (if ns_git f then ''git'' else ''inline'')),
       (''tags'', js_texts (text_list (CHR '','') (ns_tags f))), (''featured'', JBool (ns_featured f))]
     @ (if ns_git f then [(''repo_url'', JStr (ns_repo_url f)), (''repo_subpath'', or_undefined (ns_repo_subpath f)),
          (''repo_ref'', JStr (if ns_repo_ref f = [] then ''main'' else ns_repo_ref f))] else []))"

record 'f creator =
  cr_open :: bool
  cr_form :: 'f
  cr_error :: "string option"
  cr_saving :: bool
  cr_pending :: nat
  cr_calls :: "admin_call list"
  cr_refetch :: nat

definition create_skill :: "new_skill creator \<Rightarrow> new_skill creator" where
  "create_skill st = st\<lparr>cr_saving := True, cr_error := None, cr_pending := Suc (cr_pending st),
     cr_calls := cr_calls st @ [\<lparr>ac_method = ''POST'', ac_path = ''/admin/v1/skills'', ac_id = None, ac_body = new_skill_body (cr_form st)\<rparr>]\<rparr>"

definition create_skill_settled :: "admin_reply \<Rightarrow> new_skill creator \<Rightarrow> new_skill creator" where
  "create_skill_settled r st =
     (if cr_pending st = 0 then st
      else let st' = st\<lparr>cr_saving := False, cr_pending := cr_pending st - 1\<rparr> in
        (case r of
           Threw \<Rightarrow> st'\<lparr>cr_error := Some ''An unexpected error occurred.''\<rparr>
         | Answered e \<Rightarrow> if truthy e then st'\<lparr>cr_error := Some (error_text ''error'' ''Failed to create skill.'' e)\<rparr>
             else st'\<lparr>cr_open := False, cr_form := new_skill_init, cr_refetch := Suc (cr_refetch st)\<rparr>))"

section \<open>Sandbox templates\<close>

record template_row =
  tr_id :: string
  tr_name :: "string option"
  tr_slug :: "string option"
  tr_size :: "string option"
  tr_tags :: "string list option"

record template_form =
  tf_name :: string
  tf_slug :: string
  tf_tags :: string
  tf_size :: string

definition template_form_init :: template_form where
  "template_form_init = \<lparr>tf_name = [], tf_slug = [], tf_tags = [], tf_size = ''medium''\<rparr>"

definition open_template :: "template_row \<Rightarrow> template_form" where
  "open_template t = \<lparr>tf_name = opt_or [] (tr_name t), tf_slug = opt_or [] (tr_slug t),
     tf_tags = js_join '', '' (opt_or [] (tr_tags t)), tf_size = text_or_default ''medium'' (tr_size t)\<rparr>"

definition template_body :: "template_form \<Rightarrow> js" where
  "template_body f = JObj [(''name'', JStr (tf_name f)), (''slug'', JStr (tf_slug f)),
     (''tags'', js_texts (text_list (CHR '','') (tf_tags f))), (''size'', JStr (tf_size f))]"

text \<open>These two are mutations: a thrown error and a refusal both end as the mutation's error.\<close>

definition mutation_error :: "string \<Rightarrow> admin_reply \<Rightarrow> string option" where
  "mutation_error fallback r = (case r of
       Threw \<Rightarrow> Some fallback
     | Answered e \<Rightarrow> if truthy e then Some (js_string (coalesce (js_get e ''error'') (JStr fallback))) else None)"

definition template_settled :: "admin_reply \<Rightarrow> template_form editor \<Rightarrow> template_form editor" where
  "template_settled r st =
     (if ed_pending st = 0 then st
      else let st' = st\<lparr>ed_saving := False, ed_pending := ed_pending st - 1\<rparr> in
        (case mutation_error ''Failed to update template.'' r of
           Some m \<Rightarrow> st'\<lparr>ed_error := Some m\<rparr>
         | None \<Rightarrow> st'\<lparr>ed_id := None, ed_refetch := Suc (ed_refetch st)\<rparr>))"

definition create_template :: "template_form creator \<Rightarrow> template_form creator" where
  "create_template st = st\<lparr>cr_saving := True, cr_error := None, cr_pending := Suc (cr_pending st),
     cr_calls := cr_calls st @ [\<lparr>ac_method = ''POST'', ac_path = ''/admin/v1/sandbox-templates'', ac_id = None,
       ac_body = template_body (cr_form st)\<rparr>]\<rparr>"

definition create_template_settled :: "admin_reply \<Rightarrow> template_form creator \<Rightarrow> template_form creator" where
  "create_template_settled r st =
     (if cr_pending st = 0 then st
      else let st' = st\<lparr>cr_saving := False, cr_pending := cr_pending st - 1\<rparr> in
        (case mutation_error ''Failed to create template.'' r of
           Some m \<Rightarrow> st'\<lparr>cr_error := Some m\<rparr>
         | None \<Rightarrow> st'\<lparr>cr_open := False, cr_form := template_form_init, cr_refetch := Suc (cr_refetch st)\<rparr>))"

section \<open>Saving an opened row\<close>

text \<open>
  The contract of a page: \<open>kept\<close> is the body that describes a row as it is, and the form of
  the row says the same.
\<close>

locale edit_page =
  fixes path :: string
    and form_of :: "'r \<Rightarrow> 'f"
    and body :: "'f \<Rightarrow> js"
    and settle :: "admin_reply \<Rightarrow> 'f editor \<Rightarrow> 'f editor"
    and kept :: "'r \<Rightarrow> js"
    and ok :: "'r \<Rightarrow> bool"
  assumes kept_form: "ok r \<Longrightarrow> body (form_of r) = kept r"
    and settle_calls: "ed_calls (settle a st) = ed_calls st"
begin

lemma save_unchanged:
  "ok r \<Longrightarrow> \<not> ed_saving st \<Longrightarrow>
   ed_calls (foldl (editor_step path body settle) st [OpenRow i (form_of r), Save]) =
     ed_calls st @ [\<lparr>ac_method = ''PUT'', ac_path = path, ac_id = Some i, ac_body = kept r\<rparr>]"
  by (simp add: editor_step_def editor_open_def editor_save_def kept_form)

lemma no_call_without_row: "ed_id st = None \<Longrightarrow> ed_calls (editor_step path body settle st e) = ed_calls st"
  by (cases e) (simp_all add: editor_step_def editor_open_def editor_save_def editor_close_def settle_calls)

end

lemma settled_calls:
  "ed_calls (editor_settled key fallback a st) = ed_calls st" "ed_calls (template_settled a st') = ed_calls st'"
  by (simp_all add: editor_settled_def template_settled_def Let_def split: admin_reply.split option.split)

definition kept_org :: "org_row \<Rightarrow> js" where
  "kept_org o' = JObj [(''name'', JStr (opt_or [] (ow_name o'))), (''rate_limit'', JNum (opt_or 0 (ow_rate o'))),
     (''active'', JBool (ow_active o' \<noteq> Some False)), (''allowed_origins'', js_texts (opt_or [] (ow_origins o')))]"

definition org_ok :: "org_row \<Rightarrow> bool" where
  "org_ok o' \<longleftrightarrow> list_all (list_item newline) (opt_or [] (ow_origins o'))"

interpretation org_page: edit_page org_path open_org org_body org_settled kept_org org_ok
  using text_list_join [of newline _ "[]"]
  by unfold_locales (simp_all add: org_body_def open_org_def kept_org_def org_ok_def org_settled_def settled_calls)

definition kept_template :: "template_row \<Rightarrow> js" where
  "kept_template t = JObj [(''name'', JStr (opt_or [] (tr_name t))), (''slug'', JStr (opt_or [] (tr_slug t))),
     (''tags'', js_texts (opt_or [] (tr_tags t))), (''size'', JStr (text_or_default ''medium'' (tr_size t)))]"

definition template_ok :: "template_row \<Rightarrow> bool" where
  "template_ok t \<longleftrightarrow> list_all (list_item (CHR '','')) (opt_or [] (tr_tags t))"

interpretation template_page: edit_page "''/admin/v1/sandbox-templates/{id}''" open_template template_body template_settled kept_template template_ok
  using text_list_join [of "CHR '',''" _ "'' ''"]
  by unfold_locales (simp_all add: template_body_def open_template_def kept_template_def template_ok_def settled_calls)

definition kept_skill :: "skill_row \<Rightarrow> js" where
  "kept_skill r = JObj (map (\<lambda>(k, d). (k, JStr (text_or_default d (dict_get (sk_texts r) k)))) skill_defaults
     @ [(''featured'', JBool (opt_or False (sk_featured r))), (''tags'', js_texts (opt_or [] (sk_tags r)))])"

definition skill_ok :: "skill_row \<Rightarrow> bool" where
  "skill_ok r \<longleftrightarrow> list_all (list_item (CHR '','')) (opt_or [] (sk_tags r))"

interpretation skill_page: edit_page "''/admin/v1/skills/{id}''" open_skill skill_edit_body skill_edit_settled kept_skill skill_ok
  using text_list_join [of "CHR '',''" _ "'' ''"]
  by unfold_locales
    (simp_all add: skill_edit_body_def open_skill_def kept_skill_def skill_ok_def skill_defaults_def skill_edit_settled_def settled_calls opt_or_def)

definition kept_agent :: "(string, string) dict \<Rightarrow> js" where
  "kept_agent r = JObj (map (\<lambda>(k, d). (k, JStr (text_or_default d (dict_get r k)))) agent_defaults)"

interpretation agent_page: edit_page "''/admin/v1/agents/{id}''" open_agent agent_body agent_settled kept_agent "\<lambda>_. True"
  by unfold_locales (simp_all add: agent_body_def open_agent_def kept_agent_def agent_defaults_def agent_settled_def settled_calls opt_or_def)

definition kept_user :: "account_row \<Rightarrow> js" where
  "kept_user u = JObj [(''name'', JStr (opt_or [] (ar_name u))), (''email'', JStr (opt_or [] (ar_email u)))]"

interpretation user_page: edit_page "''/admin/v1/users/{id}''" open_user user_body user_settled kept_user "\<lambda>_. True"
  by unfold_locales (simp_all add: user_body_def open_user_def kept_user_def user_settled_def settled_calls)


definition demo_org_row :: org_row where
  "demo_org_row = \<lparr>ow_id = ''o1'', ow_name = Some ''One'', ow_rate = None, ow_active = Some True, ow_origins = Some [''https://a'', ''https://b'']\<rparr>"

definition demo_skill_row :: skill_row where
  "demo_skill_row = \<lparr>sk_id = ''s1'', sk_texts = [(''name'', ''x'')], sk_featured = None, sk_tags = Some [''a'', ''b'']\<rparr>"

definition demo_template_row :: template_row where
  "demo_template_row = \<lparr>tr_id = ''t1'', tr_name = Some ''t'', tr_slug = None, tr_size = Some ''large'', tr_tags = Some [''gpu'']\<rparr>"


text \<open>A saved form never has a blank tag or origin, whatever was typed.\<close>

lemma saved_lists_clean:
  "list_all (list_item newline) (text_list newline (ow_forigins f))"
  "list_all (list_item (CHR '','')) (text_list (CHR '','') (tf_tags t))"
  by (rule text_list_items)+

text \<open>An answer that comes late closes whatever row is open by then, and its edits are gone.\<close>

lemma late_answer_closes_other:
  "ed_id (foldl (editor_step org_path org_body org_settled) (editor_init f)
     [OpenRow ''o1'' f, Save, CloseForm, OpenRow ''o2'' g, Settled (Answered JUndefined)]) = None"
  by (simp add: editor_step_def editor_init_def editor_open_def editor_save_def editor_close_def org_settled_def editor_settled_def)

text \<open>The backend names the reason \<open>error\<close>; the pages that read \<open>message\<close> show their general text instead.\<close>

lemma agent_reason_hidden:
  "0 < ed_pending st \<Longrightarrow> ed_error (agent_settled (Answered (JObj [(''error'', JStr reason)])) st) = Some ''Failed to update agent.''"
  by (simp add: agent_settled_def editor_settled_def error_text_def Let_def)

end
