(* ===== verification/AdminIntegrations.thy ===== *)
theory AdminIntegrations
  imports AdminEditors
begin

text \<open>
  Platform integrations, \<open>apps/admin/app/dashboard/in-integrations/page.tsx\<close>: choosing a
  provider, its credential fields by authentication mode, and creating, editing and deleting
  an integration.
\<close>

section \<open>Authentication modes\<close>

definition oauth_modes :: "string list" where
  "oauth_modes = [''OAUTH2'', ''OAUTH1'', ''TBA'']"

definition no_cred_modes :: "string list" where
  "no_cred_modes = [''BASIC'', ''API_KEY'', ''NONE'', ''JWT'', ''SIGNATURE'', ''TWO_STEP'']"

definition needs_oauth_fields :: "string \<Rightarrow> bool" where
  "needs_oauth_fields m \<longleftrightarrow> to_upper m \<in> set oauth_modes"

definition needs_app_fields :: "string \<Rightarrow> bool" where
  "needs_app_fields m \<longleftrightarrow> to_upper m = ''APP''"

definition needs_custom_fields :: "string \<Rightarrow> bool" where
  "needs_custom_fields m \<longleftrightarrow> to_upper m = ''CUSTOM''"

definition needs_install_plugin_fields :: "string \<Rightarrow> bool" where
  "needs_install_plugin_fields m \<longleftrightarrow> to_upper m = ''INSTALL_PLUGIN''"

definition needs_no_credentials :: "string \<Rightarrow> bool" where
  "needs_no_credentials m \<longleftrightarrow> to_upper m \<in> set no_cred_modes"

definition badge_variant :: "string \<Rightarrow> string" where
  "badge_variant m = (if to_upper m \<in> set oauth_modes then ''default''
     else if to_upper m = ''APP'' \<or> to_upper m = ''CUSTOM'' then ''secondary'' else ''outline'')"

text \<open>The keys of the fields that are shown.\<close>

definition credential_fields :: "string \<Rightarrow> string list" where
  "credential_fields m =
     (if needs_no_credentials m then []
      else if needs_oauth_fields m then [''client_id'', ''client_secret'']
      else if needs_app_fields m then [''app_id'', ''app_link'', ''private_key'']
      else if needs_install_plugin_fields m then [''app_link'']
      else if needs_custom_fields m then [''client_id'', ''client_secret'', ''app_id'', ''app_link'', ''private_key'']
      else [])"

definition set_credential :: "string \<Rightarrow> string \<Rightarrow> (string, string) dict \<Rightarrow> (string, string) dict" where
  "set_credential k v creds = dict_set k v creds"

section \<open>Creating\<close>

record provider =
  pv_name :: string
  pv_display :: string
  pv_mode :: string

record create_integration =
  ci_open :: bool
  ci_step :: nat
  ci_search :: string
  ci_provider :: "provider option"
  ci_name :: string
  ci_creds :: "(string, string) dict"
  ci_meta :: string
  ci_error :: "string option"
  ci_saving :: bool
  ci_pending :: nat
  ci_calls :: "admin_call list"
  ci_refetch :: nat

definition filtered_providers :: "provider list \<Rightarrow> string \<Rightarrow> provider list" where
  "filtered_providers ps search =
     (if js_trim search = [] then ps
      else let q = to_lower search in
        filter (\<lambda>p. js_includes q (to_lower (pv_name p)) \<or> js_includes q (to_lower (pv_display p))) ps)"

definition open_create_dialog :: "create_integration \<Rightarrow> create_integration" where
  "open_create_dialog st = st\<lparr>ci_step := 1, ci_provider := None, ci_search := [], ci_name := [], ci_creds := [],
     ci_meta := [], ci_error := None, ci_open := True\<rparr>"

definition select_provider :: "provider \<Rightarrow> create_integration \<Rightarrow> create_integration" where
  "select_provider p st = st\<lparr>ci_provider := Some p, ci_name := pv_display p, ci_creds := [(''type'', pv_mode p)],
     ci_step := 2, ci_error := None\<rparr>"

definition create_back :: "create_integration \<Rightarrow> create_integration" where
  "create_back st = st\<lparr>ci_step := 1, ci_provider := None, ci_error := None\<rparr>"

definition creds_js :: "(string, string) dict \<Rightarrow> js" where
  "creds_js c = JObj (map (\<lambda>(k, v). (k, JStr v)) c)"

text \<open>An absent meta text is no meta; a text that is not JSON stops the call.\<close>

definition meta_value :: "string \<Rightarrow> js option" where
  "meta_value s = (if js_trim s = [] then Some JUndefined else json_parse s)"

definition create_creds :: "provider \<Rightarrow> (string, string) dict \<Rightarrow> (string, string) dict option" where
  "create_creds p creds =
     (if needs_no_credentials (pv_mode p) then None
      else Some (if dict_get creds ''type'' = None \<or> dict_get creds ''type'' = Some []
             then dict_set ''type'' (pv_mode p) creds else creds))"

definition create_body_of :: "provider \<Rightarrow> js \<Rightarrow> create_integration \<Rightarrow> js" where
  "create_body_of p m st = JObj ([(''provider'', JStr (pv_name p)), (''display_name'', JStr (ci_name st))]
     @ (case create_creds p (ci_creds st) of None \<Rightarrow> [] | Some c \<Rightarrow> [(''credentials'', creds_js c)]) @ [(''meta'', m)])"

definition create_integration_click :: "create_integration \<Rightarrow> create_integration" where
  "create_integration_click st = (case ci_provider st of
       None \<Rightarrow> st
     | Some p \<Rightarrow> (case meta_value (ci_meta st) of
         None \<Rightarrow> st\<lparr>ci_saving := False, ci_error := Some ''Meta must be valid JSON.''\<rparr>
       | Some m \<Rightarrow> st\<lparr>ci_saving := True, ci_error := None, ci_pending := Suc (ci_pending st), ci_calls := ci_calls st @
           [\<lparr>ac_method = ''POST'', ac_path = ''/admin/v1/in-integrations'', ac_id = None, ac_body = create_body_of p m st\<rparr>]\<rparr>))"

definition create_integration_settled :: "admin_reply \<Rightarrow> create_integration \<Rightarrow> create_integration" where
  "create_integration_settled r st =
     (if ci_pending st = 0 then st
      else let st' = st\<lparr>ci_saving := False, ci_pending := ci_pending st - 1\<rparr> in
        (case r of
           Threw \<Rightarrow> st'\<lparr>ci_error := Some ''An unexpected error occurred.''\<rparr>
         | Answered e \<Rightarrow> if truthy e then st'\<lparr>ci_error := Some (error_text ''message'' ''Failed to create integration.'' e)\<rparr>
             else st'\<lparr>ci_open := False, ci_refetch := Suc (ci_refetch st)\<rparr>))"

datatype new_integration_event = OpenCreate | Search string | Pick provider | SetName string | SetCred string string | SetMeta string
  | BackClick | CreateClick | CloseCreate | CreateSettled admin_reply

text \<open>Which controls are there depends on the step; the credential fields on the provider's mode.\<close>

definition new_integration_step :: "create_integration \<Rightarrow> new_integration_event \<Rightarrow> create_integration" where
  "new_integration_step st e = (case e of
       OpenCreate \<Rightarrow> open_create_dialog st
     | Search s \<Rightarrow> if ci_step st = 1 then st\<lparr>ci_search := s\<rparr> else st
     | Pick p \<Rightarrow> if ci_open st \<and> ci_step st = 1 then select_provider p st else st
     | SetName n \<Rightarrow> if ci_step st = 2 then st\<lparr>ci_name := n\<rparr> else st
     | SetCred k v \<Rightarrow> (case ci_provider st of
         Some p \<Rightarrow> if ci_step st = 2 \<and> k \<in> set (credential_fields (pv_mode p)) then st\<lparr>ci_creds := set_credential k v (ci_creds st)\<rparr> else st
       | None \<Rightarrow> st)
     | SetMeta m \<Rightarrow> if ci_step st = 2 then st\<lparr>ci_meta := m\<rparr> else st
     | BackClick \<Rightarrow> if ci_step st = 2 then create_back st else st
     | CreateClick \<Rightarrow> if ci_step st = 2 \<and> \<not> ci_saving st then create_integration_click st else st
     | CloseCreate \<Rightarrow> st\<lparr>ci_open := False\<rparr>
     | CreateSettled r \<Rightarrow> create_integration_settled r st)"

section \<open>Editing\<close>

record platform_integration =
  pi_id :: "string option"
  pi_name :: "string option"
  pi_meta :: "js option"
  pi_nango :: js

definition get_auth_mode :: "platform_integration \<Rightarrow> string" where
  "get_auth_mode i = (if truthy (pi_nango i) \<and> is_object (pi_nango i) \<and> js_has (pi_nango i) ''auth_mode''
     then js_string (js_get (pi_nango i) ''auth_mode'') else ''--'')"

record edit_integration =
  ei_integration :: "platform_integration option"
  ei_name :: string
  ei_meta :: string
  ei_creds :: "(string, string) dict"
  ei_error :: "string option"
  ei_saving :: bool
  ei_pending :: nat
  ei_calls :: "admin_call list"
  ei_refetch :: nat

definition open_edit_dialog :: "platform_integration \<Rightarrow> edit_integration \<Rightarrow> edit_integration" where
  "open_edit_dialog i st = st\<lparr>ei_integration := Some i, ei_name := opt_or [] (pi_name i),
     ei_meta := (case pi_meta i of None \<Rightarrow> [] | Some m \<Rightarrow> if truthy m then json_pretty 0 m else []),
     ei_creds := [(''type'', get_auth_mode i)], ei_error := None\<rparr>"

definition has_credentials :: "(string, string) dict \<Rightarrow> bool" where
  "has_credentials c \<longleftrightarrow> list_ex (\<lambda>kv. js_trim (snd kv) \<noteq> []) c"

definition edit_body_of :: "js \<Rightarrow> edit_integration \<Rightarrow> js" where
  "edit_body_of m st = JObj ([(''display_name'', JStr (ei_name st)), (''meta'', m)]
     @ (if has_credentials (ei_creds st) then [(''credentials'', creds_js (ei_creds st))] else []))"

definition edit_integration_click :: "edit_integration \<Rightarrow> edit_integration" where
  "edit_integration_click st = (case Option.bind (ei_integration st) pi_id of
       None \<Rightarrow> st
     | Some i \<Rightarrow> if i = [] then st else (case meta_value (ei_meta st) of
         None \<Rightarrow> st\<lparr>ei_saving := False, ei_error := Some ''Meta must be valid JSON.''\<rparr>
       | Some m \<Rightarrow> st\<lparr>ei_saving := True, ei_error := None, ei_pending := Suc (ei_pending st), ei_calls := ei_calls st @
           [\<lparr>ac_method = ''PUT'', ac_path = ''/admin/v1/in-integrations/{id}'', ac_id = Some i, ac_body = edit_body_of m st\<rparr>]\<rparr>))"

definition edit_integration_settled :: "admin_reply \<Rightarrow> edit_integration \<Rightarrow> edit_integration" where
  "edit_integration_settled r st =
     (if ei_pending st = 0 then st
      else let st' = st\<lparr>ei_saving := False, ei_pending := ei_pending st - 1\<rparr> in
        (case r of
           Threw \<Rightarrow> st'\<lparr>ei_error := Some ''An unexpected error occurred.''\<rparr>
         | Answered e \<Rightarrow> if truthy e then st'\<lparr>ei_error := Some (error_text ''message'' ''Failed to update integration.'' e)\<rparr>
             else st'\<lparr>ei_integration := None, ei_refetch := Suc (ei_refetch st)\<rparr>))"

datatype integration_event = OpenEdit platform_integration | EditName string | EditMeta string | EditCred string string
  | SaveClick | CloseEdit | EditSettled admin_reply

definition edit_step :: "edit_integration \<Rightarrow> integration_event \<Rightarrow> edit_integration" where
  "edit_step st e = (case e of
       OpenEdit i \<Rightarrow> open_edit_dialog i st
     | EditName n \<Rightarrow> st\<lparr>ei_name := n\<rparr>
     | EditMeta m \<Rightarrow> st\<lparr>ei_meta := m\<rparr>
     | EditCred k v \<Rightarrow> (case ei_integration st of
         Some i \<Rightarrow> if k \<in> set (credential_fields (get_auth_mode i)) then st\<lparr>ei_creds := set_credential k v (ei_creds st)\<rparr> else st
       | None \<Rightarrow> st)
     | SaveClick \<Rightarrow> if ei_saving st then st else edit_integration_click st
     | CloseEdit \<Rightarrow> st\<lparr>ei_integration := None\<rparr>
     | EditSettled r \<Rightarrow> edit_integration_settled r st)"

section \<open>Properties\<close>

definition new_integration_init :: create_integration where
  "new_integration_init = \<lparr>ci_open = False, ci_step = 1, ci_search = [], ci_provider = None, ci_name = [], ci_creds = [], ci_meta = [],
     ci_error = None, ci_saving = False, ci_pending = 0, ci_calls = [], ci_refetch = 0\<rparr>"

definition creds_for :: "provider \<Rightarrow> (string, string) dict \<Rightarrow> bool" where
  "creds_for p c \<longleftrightarrow> dict_get c ''type'' = Some (pv_mode p) \<and> set (dict_keys c) \<subseteq> insert ''type'' (set (credential_fields (pv_mode p)))"

definition integration_call_ok :: "admin_call \<Rightarrow> bool" where
  "integration_call_ok c \<longleftrightarrow> (\<exists>p. js_get (ac_body c) ''provider'' = JStr (pv_name p)
     \<and> (if needs_no_credentials (pv_mode p) then js_get (ac_body c) ''credentials'' = JUndefined
        else \<exists>cr. js_get (ac_body c) ''credentials'' = creds_js cr \<and> creds_for p cr))"

definition new_integration_inv :: "create_integration \<Rightarrow> bool" where
  "new_integration_inv st \<longleftrightarrow> list_all integration_call_ok (ci_calls st)
     \<and> (case ci_provider st of None \<Rightarrow> True | Some p \<Rightarrow> creds_for p (ci_creds st))"

lemma type_not_field: "''type'' \<notin> set (credential_fields m)"
  by (simp add: credential_fields_def)

lemma keys_dict_set: "set (dict_keys (dict_set k v c)) \<subseteq> insert k (set (dict_keys c))"
  using set_dict_set [of k v c] by (fastforce simp: dict_keys_def)

lemma creds_for_set: "creds_for p c \<Longrightarrow> k \<in> set (credential_fields (pv_mode p)) \<Longrightarrow> creds_for p (set_credential k v c)"
  using type_not_field [of "pv_mode p"] keys_dict_set [of k v c]
  by (auto simp: creds_for_def set_credential_def update_conv')

lemma creds_for_type: "creds_for p c \<Longrightarrow> creds_for p (dict_set ''type'' (pv_mode p) c)"
  using keys_dict_set [of "''type''" "pv_mode p" c] by (auto simp: creds_for_def update_conv')

lemma create_creds_for:
  "creds_for p c \<Longrightarrow> \<not> needs_no_credentials (pv_mode p) \<Longrightarrow> \<exists>cr. create_creds p c = Some cr \<and> creds_for p cr"
  using creds_for_type by (simp add: create_creds_def)

lemma create_body_ok:
  assumes "creds_for p (ci_creds st)"
  shows "integration_call_ok \<lparr>ac_method = x, ac_path = y, ac_id = z, ac_body = create_body_of p m st\<rparr>"
proof (cases "needs_no_credentials (pv_mode p)")
  case True
  then have "create_creds p (ci_creds st) = None" by (simp add: create_creds_def)
  then show ?thesis using True by (auto simp: integration_call_ok_def create_body_of_def)
next
  case False
  then obtain cr where "create_creds p (ci_creds st) = Some cr" "creds_for p cr" using create_creds_for [OF assms] by blast
  then show ?thesis using False by (auto simp: integration_call_ok_def create_body_of_def intro!: exI [of _ p])
qed

lemma create_inv_click: "new_integration_inv st \<Longrightarrow> new_integration_inv (create_integration_click st)"
  using create_body_ok by (auto simp: new_integration_inv_def create_integration_click_def split: option.splits)

lemma create_settled_fields [simp]:
  "ci_calls (create_integration_settled r st) = ci_calls st" "ci_provider (create_integration_settled r st) = ci_provider st"
  "ci_creds (create_integration_settled r st) = ci_creds st"
  by (simp_all add: create_integration_settled_def Let_def split: admin_reply.split)

lemma new_integration_inv_step: "new_integration_inv st \<Longrightarrow> new_integration_inv (new_integration_step st e)"
proof (cases e)
  case (SetCred k v)
  then show "new_integration_inv st \<Longrightarrow> ?thesis"
    by (auto simp: new_integration_step_def new_integration_inv_def creds_for_set split: option.splits)
next
  case CreateClick
  then show "new_integration_inv st \<Longrightarrow> ?thesis" using create_inv_click by (simp add: new_integration_step_def)
next
  case (Pick p)
  then show "new_integration_inv st \<Longrightarrow> ?thesis"
    by (simp add: new_integration_step_def select_provider_def new_integration_inv_def creds_for_def dict_keys_def)
qed (auto simp: new_integration_step_def new_integration_inv_def open_create_dialog_def create_back_def split: option.splits)

interpretation create_page: event_machine new_integration_step new_integration_inv
  by unfold_locales (rule new_integration_inv_step)


text \<open>
  Renaming an integration always sends credentials: the dialog says that fields left empty
  keep their values, but the type it stores beside them is never empty, so the call carries
  credentials of that type and nothing else. The backend requires
  the secrets with credentials of an OAuth mode, so such an integration cannot be renamed without
  entering them again.
\<close>

theorem rename_sends_credentials:
  assumes "pi_id i = Some x" "x \<noteq> []" "js_trim (get_auth_mode i) \<noteq> []" "pi_meta i = None" "\<not> ei_saving st"
  shows "ei_calls (foldl edit_step st [OpenEdit i, EditName n, SaveClick]) = ei_calls st @
     [\<lparr>ac_method = ''PUT'', ac_path = ''/admin/v1/in-integrations/{id}'', ac_id = Some x,
       ac_body = JObj [(''display_name'', JStr n), (''meta'', JUndefined),
         (''credentials'', JObj [(''type'', JStr (get_auth_mode i))])]\<rparr>]"
  using assms
  by (simp add: edit_step_def open_edit_dialog_def edit_integration_click_def meta_value_def edit_body_of_def has_credentials_def
      creds_js_def js_trim_def trim_start_def trim_end_def)

definition demo_platform :: platform_integration where
  "demo_platform = \<lparr>pi_id = Some ''i1'', pi_name = Some ''GitHub'', pi_meta = None, pi_nango = JObj [(''auth_mode'', JStr ''OAUTH2'')]\<rparr>"

definition demo_edit :: edit_integration where
  "demo_edit = \<lparr>ei_integration = None, ei_name = [], ei_meta = [], ei_creds = [], ei_error = None, ei_saving = False, ei_pending = 0,
     ei_calls = [], ei_refetch = 0\<rparr>"

theorem rename_sends_credentials_witness:
  "ei_calls (foldl edit_step demo_edit [OpenEdit demo_platform, EditName ''Git'', SaveClick]) = ei_calls demo_edit @
     [\<lparr>ac_method = ''PUT'', ac_path = ''/admin/v1/in-integrations/{id}'', ac_id = Some ''i1'',
       ac_body = JObj [(''display_name'', JStr ''Git''), (''meta'', JUndefined),
         (''credentials'', JObj [(''type'', JStr (get_auth_mode demo_platform))])]\<rparr>]"
  by (rule rename_sends_credentials)
    (simp_all add: demo_platform_def demo_edit_def get_auth_mode_def js_trim_def trim_start_def trim_end_def is_space_def)

end
