(* ===== verification/AdminLists.thy ===== *)
theory AdminLists
  imports AdminIntegrations
begin

text \<open>
  The lists of the admin dashboard, \<open>apps/admin/app/dashboard/*/page.tsx\<close>: the query each
  filter sends, the debounced search, the actions on rows and their confirmations, and the
  small tables of \<open>components/admin\<close>. A query is the list of its parameters.
\<close>

section \<open>Queries\<close>

type_synonym query = "(string \<times> js) list"

definition when_set :: "bool \<Rightarrow> string \<Rightarrow> string \<Rightarrow> query" where
  "when_set b k v = (if b then [(k, JStr v)] else [])"

definition nonblank :: "string \<Rightarrow> bool" where
  "nonblank s \<longleftrightarrow> js_trim s \<noteq> []"

datatype user_tab = AllUsers | ConfirmedUsers | UnconfirmedUsers | BannedUsers

definition users_query :: "user_tab \<Rightarrow> string \<Rightarrow> query" where
  "users_query t s = [(''limit'', JNum 50)] @ when_set (nonblank s) ''search'' (js_trim s)
     @ (case t of AllUsers \<Rightarrow> [] | ConfirmedUsers \<Rightarrow> [(''confirmed'', JStr ''true'')]
        | UnconfirmedUsers \<Rightarrow> [(''confirmed'', JStr ''false'')] | BannedUsers \<Rightarrow> [(''banned'', JStr ''true'')])"

datatype org_tab = AllOrgs | ActiveOrgs | InactiveOrgs

definition orgs_query :: "org_tab \<Rightarrow> string \<Rightarrow> query" where
  "orgs_query t s = [(''limit'', JNum 50)] @ when_set (nonblank s) ''search'' (js_trim s)
     @ (case t of AllOrgs \<Rightarrow> [] | ActiveOrgs \<Rightarrow> [(''active'', JStr ''true'')] | InactiveOrgs \<Rightarrow> [(''active'', JStr ''false'')])"

definition revoked_param :: "string \<Rightarrow> string option" where
  "revoked_param tab = (if tab = ''active'' then Some ''false'' else if tab = ''revoked'' then Some ''true'' else None)"

definition revoked_query :: "string \<Rightarrow> query" where
  "revoked_query tab = (case revoked_param tab of None \<Rightarrow> [] | Some v \<Rightarrow> [(''revoked'', JStr v)])"

definition credentials_query :: "string \<Rightarrow> string \<Rightarrow> string \<Rightarrow> query" where
  "credentials_query tab org provider = when_set (org \<noteq> []) ''org_id'' org @ when_set (provider \<noteq> []) ''provider_id'' provider
     @ revoked_query tab @ [(''limit'', JNum 50)]"

definition api_keys_query :: "string \<Rightarrow> string \<Rightarrow> query" where
  "api_keys_query tab org = when_set (org \<noteq> []) ''org_id'' org @ revoked_query tab @ [(''limit'', JNum 50)]"

definition tokens_query :: "string \<Rightarrow> string \<Rightarrow> query" where
  "tokens_query tab org = when_set (org \<noteq> []) ''org_id'' org @ revoked_query tab @ [(''limit'', JNum 50)]"

definition agents_query :: "string \<Rightarrow> string \<Rightarrow> query" where
  "agents_query status org = when_set (status \<noteq> ''all'') ''status'' status @ when_set (nonblank org) ''org_id'' (js_trim org)"

definition sandboxes_query :: "string \<Rightarrow> string \<Rightarrow> query" where
  "sandboxes_query status org = when_set (status \<noteq> ''all'') ''status'' status @ when_set (nonblank org) ''org_id'' (js_trim org)"

definition conversations_query :: "string \<Rightarrow> string \<Rightarrow> string \<Rightarrow> query" where
  "conversations_query status org agent = when_set (status \<noteq> ''all'') ''status'' status @ when_set (nonblank org) ''org_id'' (js_trim org)
     @ when_set (nonblank agent) ''agent_id'' (js_trim agent)"

definition skills_query :: "string \<Rightarrow> string \<Rightarrow> string \<Rightarrow> query" where
  "skills_query status scope search = when_set (status \<noteq> ''all'') ''status'' status @ when_set (scope = ''global'') ''scope'' ''global''
     @ when_set (nonblank search) ''q'' (js_trim search)"

definition templates_query :: "string \<Rightarrow> string \<Rightarrow> string \<Rightarrow> query" where
  "templates_query status scope org = when_set (status \<noteq> ''all'') ''build_status'' status
     @ (if scope = ''public'' then [(''scope'', JStr ''public'')] else when_set (nonblank org) ''org_id'' (js_trim org))"

definition generations_stats_query :: "string \<Rightarrow> query" where
  "generations_stats_query org = [(''org_id'', or_undefined org)]"

definition generations_query :: "string \<Rightarrow> string \<Rightarrow> string \<Rightarrow> query" where
  "generations_query org provider model = [(''org_id'', or_undefined org), (''provider_id'', or_undefined provider), (''model'', or_undefined model)]"

definition audit_query :: "string \<Rightarrow> string \<Rightarrow> query" where
  "audit_query org action = [(''org_id'', or_undefined org), (''action'', or_undefined action)]"

definition admin_audit_query :: "string \<Rightarrow> string \<Rightarrow> query" where
  "admin_audit_query resource action = when_set (resource \<noteq> [] \<and> resource \<noteq> ''all'') ''resource'' resource
     @ when_set (action \<noteq> []) ''action'' action @ [(''limit'', JNum 100)]"

definition domains_query :: "string \<Rightarrow> string \<Rightarrow> query" where
  "domains_query tab org = [(''org_id'', or_undefined org),
     (''verified'', if tab = ''all'' then JUndefined else JStr (if tab = ''verified'' then ''true'' else ''false''))]"

section \<open>The debounced search\<close>

record search_box =
  sx_text :: string
  sx_debounced :: string
  sx_timer :: "string option"

definition search_change :: "string \<Rightarrow> search_box \<Rightarrow> search_box" where
  "search_change v st = st\<lparr>sx_text := v, sx_timer := Some v\<rparr>"

definition search_timeout :: "search_box \<Rightarrow> search_box" where
  "search_timeout st = (case sx_timer st of None \<Rightarrow> st | Some v \<Rightarrow> st\<lparr>sx_debounced := v, sx_timer := None\<rparr>)"

definition box_step :: "search_box \<Rightarrow> string option \<Rightarrow> search_box" where
  "box_step st e = (case e of Some v \<Rightarrow> search_change v st | None \<Rightarrow> search_timeout st)"

definition box_inv :: "search_box \<Rightarrow> bool" where
  "box_inv st \<longleftrightarrow> (case sx_timer st of None \<Rightarrow> sx_debounced st = sx_text st | Some v \<Rightarrow> v = sx_text st)"

interpretation box: event_machine box_step box_inv
  by unfold_locales (auto simp: box_step_def box_inv_def search_change_def search_timeout_def split: option.splits)

text \<open>When the typing pauses the query is the text in the box.\<close>

lemma search_catches_up:
  "sx_debounced (search_timeout (foldl box_step \<lparr>sx_text = [], sx_debounced = [], sx_timer = None\<rparr> es))
     = sx_text (foldl box_step \<lparr>sx_text = [], sx_debounced = [], sx_timer = None\<rparr> es)"
  using box.run_inv [of "\<lparr>sx_text = [], sx_debounced = [], sx_timer = None\<rparr>" es]
  by (auto simp: box_inv_def search_timeout_def split: option.splits)

section \<open>Users\<close>

datatype user_action = Ban string | Unban string | ConfirmEmail string | DeleteUser string

record users_page =
  up_mutating :: "string option"
  up_ban :: "string option"
  up_reason :: string
  up_delete :: "string option"
  up_pending :: "user_action list"
  up_calls :: "user_action list"
  up_refetch :: nat

definition users_init :: users_page where
  "users_init = \<lparr>up_mutating = None, up_ban = None, up_reason = [], up_delete = None, up_pending = [], up_calls = [], up_refetch = 0\<rparr>"

fun user_target :: "user_action \<Rightarrow> string" where
  "user_target (Ban i) = i" | "user_target (Unban i) = i" | "user_target (ConfirmEmail i) = i" | "user_target (DeleteUser i) = i"

definition post_row :: "string \<Rightarrow> string \<Rightarrow> admin_call" where
  "post_row path i = \<lparr>ac_method = ''POST'', ac_path = path, ac_id = Some i, ac_body = JUndefined\<rparr>"

definition delete_row :: "string \<Rightarrow> string \<Rightarrow> admin_call" where
  "delete_row path i = \<lparr>ac_method = ''DELETE'', ac_path = path, ac_id = Some i, ac_body = JUndefined\<rparr>"

fun user_request :: "user_action \<Rightarrow> admin_call" where
  "user_request (Ban i) = post_row ''/admin/v1/users/{id}/ban'' i"
| "user_request (Unban i) = post_row ''/admin/v1/users/{id}/unban'' i"
| "user_request (ConfirmEmail i) = post_row ''/admin/v1/users/{id}/confirm-email'' i"
| "user_request (DeleteUser i) = delete_row ''/admin/v1/users/{id}'' i"

definition user_start :: "user_action \<Rightarrow> users_page \<Rightarrow> users_page" where
  "user_start a st = st\<lparr>up_mutating := Some (user_target a), up_pending := up_pending st @ [a], up_calls := up_calls st @ [a]\<rparr>"

definition handle_ban :: "users_page \<Rightarrow> users_page" where
  "handle_ban st = (case up_ban st of None \<Rightarrow> st | Some i \<Rightarrow> user_start (Ban i) st)"

definition handle_unban :: "string \<Rightarrow> users_page \<Rightarrow> users_page" where
  "handle_unban i st = user_start (Unban i) st"

definition handle_confirm_email :: "string \<Rightarrow> users_page \<Rightarrow> users_page" where
  "handle_confirm_email i st = user_start (ConfirmEmail i) st"

definition handle_delete_user :: "users_page \<Rightarrow> users_page" where
  "handle_delete_user st = (case up_delete st of None \<Rightarrow> st | Some i \<Rightarrow> user_start (DeleteUser i) st)"

text \<open>The \<open>finally\<close> of the handlers: whatever came back, the row is free and the dialog closed.\<close>

definition user_finally :: "user_action \<Rightarrow> users_page \<Rightarrow> users_page" where
  "user_finally a st = (let st' = st\<lparr>up_mutating := None\<rparr> in
     (case a of Ban i \<Rightarrow> st'\<lparr>up_ban := None, up_reason := []\<rparr> | DeleteUser i \<Rightarrow> st'\<lparr>up_delete := None\<rparr> | _ \<Rightarrow> st'))"

definition user_action_settled :: "nat \<Rightarrow> admin_reply \<Rightarrow> users_page \<Rightarrow> users_page" where
  "user_action_settled k r st =
     (if k < length (up_pending st)
      then user_finally (up_pending st ! k) (st\<lparr>up_pending := take k (up_pending st) @ drop (Suc k) (up_pending st),
         up_refetch := up_refetch st + (case r of Threw \<Rightarrow> 0 | Answered e \<Rightarrow> 1)\<rparr>)
      else st)"

definition row_busy :: "string option \<Rightarrow> string \<Rightarrow> bool" where
  "row_busy mutating i \<longleftrightarrow> mutating = Some i"

datatype users_event = AskBan string | TypeReason string | CloseBan | BanClick | UnbanClick string | ConfirmClick string
  | AskDeleteUser string | CloseDelete | DeleteClick | ActionSettled nat admin_reply

definition users_step :: "users_page \<Rightarrow> users_event \<Rightarrow> users_page" where
  "users_step st e = (case e of
       AskBan i \<Rightarrow> if row_busy (up_mutating st) i then st else st\<lparr>up_ban := Some i\<rparr>
     | TypeReason s \<Rightarrow> st\<lparr>up_reason := s\<rparr>
     | CloseBan \<Rightarrow> st\<lparr>up_ban := None, up_reason := []\<rparr>
     | BanClick \<Rightarrow> if up_mutating st \<noteq> None \<and> up_mutating st = up_ban st then st else handle_ban st
     | UnbanClick i \<Rightarrow> if row_busy (up_mutating st) i then st else handle_unban i st
     | ConfirmClick i \<Rightarrow> if row_busy (up_mutating st) i then st else handle_confirm_email i st
     | AskDeleteUser i \<Rightarrow> if row_busy (up_mutating st) i then st else st\<lparr>up_delete := Some i\<rparr>
     | CloseDelete \<Rightarrow> st\<lparr>up_delete := None\<rparr>
     | DeleteClick \<Rightarrow> if up_mutating st \<noteq> None \<and> up_mutating st = up_delete st then st else handle_delete_user st
     | ActionSettled k r \<Rightarrow> user_action_settled k r st)"

lemmas users_ops = users_step_def handle_ban_def handle_unban_def handle_confirm_email_def handle_delete_user_def user_start_def

fun banned :: "user_action \<Rightarrow> string option" where "banned (Ban i) = Some i" | "banned _ = None"
fun deleted :: "user_action \<Rightarrow> string option" where "deleted (DeleteUser i) = Some i" | "deleted _ = None"
fun asks_ban :: "users_event \<Rightarrow> string option" where "asks_ban (AskBan i) = Some i" | "asks_ban _ = None"
fun asks_user_delete :: "users_event \<Rightarrow> string option" where "asks_user_delete (AskDeleteUser i) = Some i" | "asks_user_delete _ = None"

lemma user_settled_calls [simp]: "up_calls (user_action_settled k r st) = up_calls st"
  by (cases "up_pending st ! k") (simp_all add: user_action_settled_def user_finally_def)

lemma user_settled_dialogs:
  "up_ban (user_action_settled k r st) = Some i \<Longrightarrow> up_ban st = Some i"
  "up_delete (user_action_settled k r st) = Some i \<Longrightarrow> up_delete st = Some i"
  by (cases "up_pending st ! k"; simp add: user_action_settled_def user_finally_def split: if_splits)+

lemma users_step_ban: "up_ban (users_step st e) = Some i \<Longrightarrow> up_ban st = Some i \<or> asks_ban e = Some i"
proof (cases e)
  case (ActionSettled k r)
  then show "up_ban (users_step st e) = Some i \<Longrightarrow> ?thesis"
    using user_settled_dialogs(1) [of k r st i] by (simp add: users_step_def)
qed (auto simp: users_ops split: if_splits option.splits)

lemma users_step_delete: "up_delete (users_step st e) = Some i \<Longrightarrow> up_delete st = Some i \<or> asks_user_delete e = Some i"
proof (cases e)
  case (ActionSettled k r)
  then show "up_delete (users_step st e) = Some i \<Longrightarrow> ?thesis"
    using user_settled_dialogs(2) [of k r st i] by (simp add: users_step_def)
qed (auto simp: users_ops split: if_splits option.splits)

lemma users_step_calls:
  "a \<in> set (up_calls (users_step st e)) \<Longrightarrow> a \<in> set (up_calls st) \<or> (\<exists>i. a = Ban i \<and> up_ban st = Some i)
     \<or> (\<exists>i. a = DeleteUser i \<and> up_delete st = Some i) \<or> banned a = None \<and> deleted a = None"
  by (cases e; cases "up_ban st"; cases "up_delete st"; auto simp: users_ops split: if_splits)

lemma in_map_filter: "i \<in> set (List.map_filter f xs) \<longleftrightarrow> (\<exists>a \<in> set xs. f a = Some i)"
  by (induction xs) (auto simp: List.map_filter_simps split: option.splits)

interpretation ban_user: confirmed_action users_step up_ban "\<lambda>st. List.map_filter banned (up_calls st)" asks_ban
proof
  show "up_ban (users_step st e) = Some i \<Longrightarrow> up_ban st = Some i \<or> asks_ban e = Some i" for st e i
    by (rule users_step_ban)
  show "i \<in> set (List.map_filter banned (up_calls (users_step st e))) \<Longrightarrow>
      i \<in> set (List.map_filter banned (up_calls st)) \<or> up_ban st = Some i" for st e i
    using users_step_calls [of _ st e] by (fastforce simp: in_map_filter)
qed

interpretation delete_user: confirmed_action users_step up_delete "\<lambda>st. List.map_filter deleted (up_calls st)" asks_user_delete
proof
  show "up_delete (users_step st e) = Some i \<Longrightarrow> up_delete st = Some i \<or> asks_user_delete e = Some i" for st e i
    by (rule users_step_delete)
  show "i \<in> set (List.map_filter deleted (up_calls (users_step st e))) \<Longrightarrow>
      i \<in> set (List.map_filter deleted (up_calls st)) \<or> up_delete st = Some i" for st e i
    using users_step_calls [of _ st e] by (fastforce simp: in_map_filter)
qed

text \<open>
  C33. In any use of the users page, only accounts are banned or deleted that the operator asked
  to ban or delete, and whatever reason was typed, no ban call carries one.
\<close>

theorem user_actions_asked:
  "let st = foldl users_step users_init es in
     Some ` set (List.map_filter banned (up_calls st)) \<subseteq> asks_ban ` set es
     \<and> Some ` set (List.map_filter deleted (up_calls st)) \<subseteq> asks_user_delete ` set es
     \<and> list_all (\<lambda>a. ac_body (user_request a) = JUndefined) (up_calls st)"
proof -
  have "ac_body (user_request a) = JUndefined" for a by (cases a) (simp_all add: post_row_def delete_row_def)
  then show ?thesis
    using ban_user.run_calls_asked [of users_init es] delete_user.run_calls_asked [of users_init es]
    by (simp add: users_init_def Let_def map_filter_def list_all_iff)
qed

text \<open>A refused action ends as a successful one does.\<close>

lemma refusal_looks_done: "user_action_settled k (Answered e) st = user_action_settled k (Answered JUndefined) st"
  by (simp add: user_action_settled_def)

section \<open>Organisations\<close>

datatype org_action = Activate string | Deactivate string | DeleteOrg string

record orgs_page =
  op_mutating :: "string option"
  op_detail :: "string option"
  op_delete :: "string option"
  op_pending :: "org_action list"
  op_calls :: "org_action list"
  op_refetch :: nat

fun org_target :: "org_action \<Rightarrow> string" where
  "org_target (Activate i) = i" | "org_target (Deactivate i) = i" | "org_target (DeleteOrg i) = i"

fun org_action_request :: "org_action \<Rightarrow> admin_call" where
  "org_action_request (Activate i) = post_row ''/admin/v1/orgs/{id}/activate'' i"
| "org_action_request (Deactivate i) = post_row ''/admin/v1/orgs/{id}/deactivate'' i"
| "org_action_request (DeleteOrg i) = delete_row ''/admin/v1/orgs/{id}'' i"

definition org_start :: "org_action \<Rightarrow> orgs_page \<Rightarrow> orgs_page" where
  "org_start a st = st\<lparr>op_mutating := Some (org_target a), op_pending := op_pending st @ [a], op_calls := op_calls st @ [a]\<rparr>"

definition handle_activate :: "string \<Rightarrow> orgs_page \<Rightarrow> orgs_page" where
  "handle_activate i st = org_start (Activate i) st"

definition handle_deactivate :: "string \<Rightarrow> orgs_page \<Rightarrow> orgs_page" where
  "handle_deactivate i st = org_start (Deactivate i) st"

definition handle_delete_org :: "orgs_page \<Rightarrow> orgs_page" where
  "handle_delete_org st = (case op_delete st of None \<Rightarrow> st | Some i \<Rightarrow> org_start (DeleteOrg i) st)"

definition org_action_settled :: "nat \<Rightarrow> admin_reply \<Rightarrow> orgs_page \<Rightarrow> orgs_page" where
  "org_action_settled k r st =
     (if k < length (op_pending st)
      then (let st' = st\<lparr>op_mutating := None, op_pending := take k (op_pending st) @ drop (Suc k) (op_pending st),
              op_refetch := op_refetch st + (case r of Threw \<Rightarrow> 0 | Answered e \<Rightarrow> 1)\<rparr>
            in case op_pending st ! k of DeleteOrg i \<Rightarrow> st'\<lparr>op_delete := None\<rparr> | _ \<Rightarrow> st')
      else st)"

datatype orgs_event = ShowOrg string | CloseOrg | ActivateClick string | DeactivateClick string | AskDeleteOrg string
  | CancelDeleteOrg | DeleteOrgClick | OrgSettled nat admin_reply

definition orgs_step :: "orgs_page \<Rightarrow> orgs_event \<Rightarrow> orgs_page" where
  "orgs_step st e = (case e of
       ShowOrg i \<Rightarrow> st\<lparr>op_detail := Some i\<rparr> | CloseOrg \<Rightarrow> st\<lparr>op_detail := None\<rparr>
     | ActivateClick i \<Rightarrow> if row_busy (op_mutating st) i then st else handle_activate i st
     | DeactivateClick i \<Rightarrow> if row_busy (op_mutating st) i then st else handle_deactivate i st
     | AskDeleteOrg i \<Rightarrow> if row_busy (op_mutating st) i then st else st\<lparr>op_delete := Some i\<rparr>
     | CancelDeleteOrg \<Rightarrow> st\<lparr>op_delete := None\<rparr>
     | DeleteOrgClick \<Rightarrow> if op_mutating st \<noteq> None \<and> op_mutating st = op_delete st then st else handle_delete_org st
     | OrgSettled k r \<Rightarrow> org_action_settled k r st)"

lemmas orgs_ops = orgs_step_def handle_activate_def handle_deactivate_def handle_delete_org_def org_start_def

fun org_deleted :: "org_action \<Rightarrow> string option" where "org_deleted (DeleteOrg i) = Some i" | "org_deleted _ = None"
fun asks_org_delete :: "orgs_event \<Rightarrow> string option" where "asks_org_delete (AskDeleteOrg i) = Some i" | "asks_org_delete _ = None"

lemma org_settled_fields:
  "op_calls (org_action_settled k r st) = op_calls st"
  "op_delete (org_action_settled k r st) = Some i \<Longrightarrow> op_delete st = Some i"
  by (cases "op_pending st ! k"; simp add: org_action_settled_def Let_def split: if_splits)+

lemma orgs_step_delete: "op_delete (orgs_step st e) = Some i \<Longrightarrow> op_delete st = Some i \<or> asks_org_delete e = Some i"
proof (cases e)
  case (OrgSettled k r)
  then show "op_delete (orgs_step st e) = Some i \<Longrightarrow> ?thesis"
    using org_settled_fields(2) [of k r st i] by (simp add: orgs_step_def)
qed (auto simp: orgs_ops split: if_splits option.splits)

lemma orgs_step_calls:
  "a \<in> set (op_calls (orgs_step st e)) \<Longrightarrow> a \<in> set (op_calls st) \<or> (\<exists>i. a = DeleteOrg i \<and> op_delete st = Some i) \<or> org_deleted a = None"
  by (cases e; cases "op_delete st"; auto simp: orgs_ops org_settled_fields(1) split: if_splits)

interpretation delete_org: confirmed_action orgs_step op_delete "\<lambda>st. List.map_filter org_deleted (op_calls st)" asks_org_delete
proof
  show "op_delete (orgs_step st e) = Some i \<Longrightarrow> op_delete st = Some i \<or> asks_org_delete e = Some i" for st e i
    by (rule orgs_step_delete)
  show "i \<in> set (List.map_filter org_deleted (op_calls (orgs_step st e))) \<Longrightarrow>
      i \<in> set (List.map_filter org_deleted (op_calls st)) \<or> op_delete st = Some i" for st e i
    using orgs_step_calls [of _ st e] by (fastforce simp: in_map_filter)
qed

text \<open>One variable holds the busy row: the answer for one row frees another whose call is under way.\<close>

lemma other_row_freed:
  "op_mutating (foldl orgs_step \<lparr>op_mutating = None, op_detail = None, op_delete = None, op_pending = [], op_calls = [], op_refetch = 0\<rparr>
     [ActivateClick ''a'', DeactivateClick ''b'', OrgSettled 0 (Answered JUndefined)]) = None"
  by (simp add: orgs_ops org_action_settled_def row_busy_def)

section \<open>Revoking and removing rows\<close>

text \<open>Credentials, API keys and tokens are revoked alike, integrations removed alike.\<close>

record revoke_page =
  rv_revoking :: "string option"
  rv_pending :: "string list"
  rv_calls :: "admin_call list"
  rv_refetch :: nat

definition revoke_start :: "admin_call \<Rightarrow> string \<Rightarrow> revoke_page \<Rightarrow> revoke_page" where
  "revoke_start c i st = st\<lparr>rv_revoking := Some i, rv_pending := rv_pending st @ [i], rv_calls := rv_calls st @ [c]\<rparr>"

definition revoke_credential :: "string \<Rightarrow> revoke_page \<Rightarrow> revoke_page" where
  "revoke_credential i = revoke_start (post_row ''/admin/v1/credentials/{id}/revoke'' i) i"

definition revoke_api_key :: "string \<Rightarrow> revoke_page \<Rightarrow> revoke_page" where
  "revoke_api_key i = revoke_start (post_row ''/admin/v1/api-keys/{id}/revoke'' i) i"

definition revoke_token :: "string \<Rightarrow> revoke_page \<Rightarrow> revoke_page" where
  "revoke_token i = revoke_start (post_row ''/admin/v1/tokens/{id}/revoke'' i) i"

definition delete_integration :: "string \<Rightarrow> revoke_page \<Rightarrow> revoke_page" where
  "delete_integration i = revoke_start (delete_row ''/admin/v1/in-integrations/{id}'' i) i"

definition row_action_settled :: "nat \<Rightarrow> admin_reply \<Rightarrow> revoke_page \<Rightarrow> revoke_page" where
  "row_action_settled k r st =
     (if k < length (rv_pending st)
      then st\<lparr>rv_revoking := None, rv_pending := take k (rv_pending st) @ drop (Suc k) (rv_pending st),
        rv_refetch := rv_refetch st + (case r of Threw \<Rightarrow> 0 | Answered e \<Rightarrow> 1)\<rparr>
      else st)"

section \<open>Confirmed actions without a guard\<close>

text \<open>
  Agents, sandboxes, conversations, skills and templates await the call without \<open>try\<close>: a
  failed network leaves the dialog as it is, any answer closes it.
\<close>

datatype agent_action = ArchiveAgent string | DeleteAgent string
datatype sandbox_action = StopSandbox string | DeleteSandbox string | Cleanup

record 'a confirm_page =
  cf_asked :: "'a option"
  cf_pending :: nat
  cf_calls :: "admin_call list"
  cf_refetch :: nat

fun agent_request :: "agent_action \<Rightarrow> admin_call" where
  "agent_request (ArchiveAgent i) = post_row ''/admin/v1/agents/{id}/archive'' i"
| "agent_request (DeleteAgent i) = delete_row ''/admin/v1/agents/{id}'' i"

fun sandbox_request :: "sandbox_action \<Rightarrow> admin_call" where
  "sandbox_request (StopSandbox i) = post_row ''/admin/v1/sandboxes/{id}/stop'' i"
| "sandbox_request (DeleteSandbox i) = delete_row ''/admin/v1/sandboxes/{id}'' i"
| "sandbox_request Cleanup = \<lparr>ac_method = ''POST'', ac_path = ''/admin/v1/sandboxes/cleanup'', ac_id = None, ac_body = JUndefined\<rparr>"

definition end_conversation :: "string \<Rightarrow> admin_call" where
  "end_conversation i = delete_row ''/admin/v1/conversations/{id}'' i"

definition delete_skill :: "string \<Rightarrow> admin_call" where
  "delete_skill i = delete_row ''/admin/v1/skills/{id}'' i"

definition delete_domain :: "string \<Rightarrow> admin_call" where
  "delete_domain i = delete_row ''/admin/v1/custom-domains/{id}'' i"

definition delete_storage :: "string \<Rightarrow> admin_call" where
  "delete_storage i = delete_row ''/admin/v1/workspace-storage/{id}'' i"

definition confirm_click :: "('a \<Rightarrow> admin_call) \<Rightarrow> 'a confirm_page \<Rightarrow> 'a confirm_page" where
  "confirm_click request st = (case cf_asked st of
       None \<Rightarrow> st | Some a \<Rightarrow> st\<lparr>cf_calls := cf_calls st @ [request a], cf_pending := Suc (cf_pending st)\<rparr>)"

definition confirm_settled :: "admin_reply \<Rightarrow> 'a confirm_page \<Rightarrow> 'a confirm_page" where
  "confirm_settled r st = (if cf_pending st = 0 then st
     else (case r of
         Threw \<Rightarrow> st\<lparr>cf_pending := cf_pending st - 1\<rparr>
       | Answered e \<Rightarrow> st\<lparr>cf_pending := cf_pending st - 1, cf_asked := None, cf_refetch := Suc (cf_refetch st)\<rparr>))"

section \<open>Small tables\<close>

definition admin_sections :: "(string \<times> string) list" where
  "admin_sections = [(''Dashboard'', ''/dashboard''), (''Users'', ''/dashboard/users''), (''Organizations'', ''/dashboard/orgs''),
     (''Credentials'', ''/dashboard/credentials''), (''API Keys'', ''/dashboard/api-keys''), (''Tokens'', ''/dashboard/tokens''),
     (''Agents'', ''/dashboard/agents''), (''Skills'', ''/dashboard/skills''), (''Sandboxes'', ''/dashboard/sandboxes''),
     (''Templates'', ''/dashboard/sandbox-templates''), (''Conversations'', ''/dashboard/conversations''), (''Forge Runs'', ''/dashboard/forge-runs''),
     (''Platform Integrations'', ''/dashboard/in-integrations''), (''Generations'', ''/dashboard/generations''),
     (''Audit Log'', ''/dashboard/audit''), (''Admin Audit'', ''/dashboard/admin-audit''),
     (''Custom Domains'', ''/dashboard/custom-domains''), (''Workspace Storage'', ''/dashboard/workspace-storage'')]"

definition item_active :: "string \<Rightarrow> string \<Rightarrow> bool" where
  "item_active pathname href \<longleftrightarrow> (if href = ''/dashboard'' then pathname = ''/dashboard'' else starts_with href pathname)"

text \<open>On each of its pages exactly that entry of the menu is active.\<close>

lemma one_item_active:
  "list_all (\<lambda>p. filter (\<lambda>x. item_active (snd p) (snd x)) admin_sections = [p]) admin_sections"
  by (simp add: admin_sections_def item_active_def starts_with_def)

definition status_variants :: "(string \<times> string) list" where
  "status_variants = [(''active'', ''default''), (''running'', ''default''), (''ready'', ''default''), (''verified'', ''default''),
     (''completed'', ''secondary''), (''stopped'', ''outline''), (''archived'', ''outline''), (''ended'', ''outline''),
     (''pending'', ''secondary''), (''building'', ''secondary''), (''error'', ''destructive''), (''failed'', ''destructive''),
     (''cancelled'', ''outline''), (''revoked'', ''destructive''), (''banned'', ''destructive'')]"

definition status_badge_variant :: "string \<Rightarrow> string" where
  "status_badge_variant status = opt_or ''outline'' (map_of status_variants status)"

definition method_variant :: "string \<Rightarrow> string" where
  "method_variant m = (if m = ''POST'' then ''default'' else if m = ''PUT'' then ''secondary''
     else if m = ''DELETE'' then ''destructive'' else ''outline'')"

definition code_variant :: "int \<Rightarrow> string" where
  "code_variant c = (if 200 \<le> c \<and> c < 300 then ''default'' else if 400 \<le> c \<and> c < 500 then ''secondary''
     else if 500 \<le> c then ''destructive'' else ''outline'')"

text \<open>Ages, from a difference in milliseconds; the date itself after a month.\<close>

datatype age = OnDate | DaysAgo int | HoursAgo int | MinutesAgo int | JustNow

definition age_label :: "int \<Rightarrow> age" where
  "age_label diff = (let seconds = diff div 1000; minutes = seconds div 60; hours = minutes div 60; days = hours div 24 in
     if 30 < days then OnDate else if 0 < days then DaysAgo days else if 0 < hours then HoursAgo hours
     else if 0 < minutes then MinutesAgo minutes else JustNow)"

lemma div_bounds:
  fixes x k :: int
  assumes "0 < k" shows "(x div k) * k \<le> x \<and> x < (x div k + 1) * k"
proof -
  have "x = x div k * k + x mod k" by simp
  moreover have "0 \<le> x mod k" "x mod k < k" using assms by simp_all
  ultimately show ?thesis unfolding distrib_right mult_1 by linarith
qed

lemma age_label_units:
  "age_label diff = (if 30 < diff div 86400000 then OnDate
     else if 0 < diff div 86400000 then DaysAgo (diff div 86400000)
     else if 0 < diff div 3600000 then HoursAgo (diff div 3600000)
     else if 0 < diff div 60000 then MinutesAgo (diff div 60000) else JustNow)"
  by (simp add: age_label_def Let_def flip: zdiv_zmult2_eq)

lemma age_label_bounds:
  "case age_label diff of
     OnDate \<Rightarrow> 31 * 86400000 \<le> diff
   | DaysAgo d \<Rightarrow> 1 \<le> d \<and> d \<le> 30 \<and> d * 86400000 \<le> diff \<and> diff < (d + 1) * 86400000
   | HoursAgo h \<Rightarrow> 1 \<le> h \<and> h \<le> 23 \<and> h * 3600000 \<le> diff \<and> diff < (h + 1) * 3600000
   | MinutesAgo m \<Rightarrow> 1 \<le> m \<and> m \<le> 59 \<and> m * 60000 \<le> diff \<and> diff < (m + 1) * 60000
   | JustNow \<Rightarrow> diff < 60000"
proof -
  have d: "(diff div 86400000) * 86400000 \<le> diff \<and> diff < (diff div 86400000 + 1) * 86400000"
    by (rule div_bounds) simp
  have h: "(diff div 3600000) * 3600000 \<le> diff \<and> diff < (diff div 3600000 + 1) * 3600000"
    by (rule div_bounds) simp
  have m: "(diff div 60000) * 60000 \<le> diff \<and> diff < (diff div 60000 + 1) * 60000"
    by (rule div_bounds) simp
  show ?thesis using d h m unfolding age_label_units by (simp split: if_split)
qed

end
