(* ===== verification/ConversationEvents.thy ===== *)
theory ConversationEvents
  imports JsonText "HOL-Library.Multiset"
begin

text \<open>
  \<open>apps/web/app/w/agents/[id]/_lib/conversation-events.ts\<close>: from the backend's event log
  of a conversation to the list of items the page shows. Events are typed by the API
  schema except for \<open>data\<close>, which the code casts and reads without checks; it is kept
  as the JavaScript value it is, and so is every item field the code copies from it.
  The switch of \<open>buildTimeline\<close> is \<open>timeline_step\<close>: at most one item per event and the
  new set of consumed tool ids. Locale-dependent time and token formatting is not
  modelled.
\<close>

section \<open>Events and items\<close>

record raw_event =
  re_id :: "string option"
  re_event_id :: "string option"
  re_type :: "string option"
  re_time :: "string option"
  re_created :: "string option"
  re_seq :: "int option"
  re_data :: js

record conv_event =
  ev_id :: string
  ev_event_id :: string
  ev_type :: string
  ev_time :: string
  ev_seq :: int
  ev_data :: js

datatype response_status = Streaming | Completed

datatype tool_status = Running | Success | Failed

record tool_card =
  tc_id :: string
  tc_time :: string
  tc_name :: js
  tc_args :: js
  tc_status :: tool_status
  tc_result :: js
  tc_duration :: js
  tc_subtitle :: "string option"
  tc_meta :: "string list option"

datatype timeline_item =
    ConversationCreated string string
  | MessageReceived string string js
  | AgentResponse string string js js js js response_status
  | ToolCall tool_card
  | TurnSummary string string js js js js js js
  | DoneItem string string

fun item_id :: "timeline_item \<Rightarrow> string" where
  "item_id (ConversationCreated i _) = i"
| "item_id (MessageReceived i _ _) = i"
| "item_id (AgentResponse i _ _ _ _ _ _) = i"
| "item_id (ToolCall c) = tc_id c"
| "item_id (TurnSummary i _ _ _ _ _ _ _) = i"
| "item_id (DoneItem i _) = i"

section \<open>Payloads\<close>

record bash_result =
  br_output :: string
  br_exit :: int
  br_timed_out :: bool

record read_result =
  rr_content :: string
  rr_total :: int
  rr_read :: int
  rr_truncated :: bool

text \<open>The loop over at most three layers of JSON text; \<open>None\<close> is the parser's exception.\<close>

fun parse_layers :: "nat \<Rightarrow> js \<Rightarrow> js option" where
  "parse_layers 0 v = Some v"
| "parse_layers (Suc n) (JStr s) =
     (case json_parse s of None \<Rightarrow> None | Some v \<Rightarrow> parse_layers n v)"
| "parse_layers (Suc n) v = Some v"

definition parse_double_encoded_object :: "js \<Rightarrow> js option" where
  "parse_double_encoded_object raw =
     (if \<not> truthy raw then None
      else
        (case parse_layers 3 raw of
           None \<Rightarrow> None
         | Some v \<Rightarrow> if truthy v \<and> is_object v then Some v else None))"

definition text_field :: "js \<Rightarrow> string \<Rightarrow> string" where
  "text_field v k = (case js_get v k of JStr s \<Rightarrow> s | x \<Rightarrow> js_string (coalesce x (JStr [])))"

definition num_field :: "js \<Rightarrow> string \<Rightarrow> int" where
  "num_field v k = (case js_get v k of JNum n \<Rightarrow> n | _ \<Rightarrow> 0)"

definition parse_bash_result :: "js \<Rightarrow> bash_result option" where
  "parse_bash_result raw =
     (case parse_double_encoded_object raw of
        None \<Rightarrow> None
      | Some v \<Rightarrow>
          (if \<not> js_has v ''output'' then None
           else Some \<lparr>br_output = text_field v ''output'', br_exit = num_field v ''exit_code'',
                      br_timed_out = truthy (js_get v ''timed_out'')\<rparr>))"

definition parse_read_result :: "js \<Rightarrow> read_result option" where
  "parse_read_result raw =
     (case parse_double_encoded_object raw of
        None \<Rightarrow> None
      | Some v \<Rightarrow>
          (if \<not> js_has v ''content'' then None
           else Some \<lparr>rr_content = text_field v ''content'', rr_total = num_field v ''total_lines'',
                      rr_read = num_field v ''lines_read'', rr_truncated = truthy (js_get v ''truncated'')\<rparr>))"

definition is_digit :: "char \<Rightarrow> bool" where
  "is_digit c \<longleftrightarrow> c \<in> set ''0123456789''"

text \<open>\<open>replace(/^\s*\d+:\s?/, "")\<close>.\<close>

definition strip_line_number :: "string \<Rightarrow> string" where
  "strip_line_number l =
     (let r = dropWhile is_space l; d = takeWhile is_digit r in
      (case dropWhile is_digit r of
         c # t \<Rightarrow>
           (if d \<noteq> [] \<and> c = CHR '':''
            then (case t of [] \<Rightarrow> [] | x # u \<Rightarrow> if is_space x then u else t) else l)
       | [] \<Rightarrow> l))"

fun first_line :: "string list \<Rightarrow> string" where
  "first_line [] = []"
| "first_line (l # ls) =
     (let stripped = js_trim (strip_line_number l) in
      if stripped \<noteq> [] then stripped else first_line ls)"

definition first_content_line :: "string \<Rightarrow> string" where
  "first_content_line content = first_line (js_split (CHR 0x0A) content)"

definition is_bash_tool :: "js \<Rightarrow> bool" where
  "is_bash_tool name \<longleftrightarrow> name = JStr ''bash'' \<or> name = JStr ''Bash''"

definition extract_basename :: "string \<Rightarrow> string" where
  "extract_basename path =
     (if path = [] then []
      else
        (let trimmed = rev (dropWhile (\<lambda>c. c = CHR ''/'') (rev path))
         in rev (takeWhile (\<lambda>c. c \<noteq> CHR ''/'') (rev trimmed))))"

definition format_tool_name :: "js \<Rightarrow> js \<Rightarrow> js" where
  "format_tool_name name args =
     (if name = JStr ''Read''
      then
        (let path = (case js_get args ''file_path'' of JStr p \<Rightarrow> p | _ \<Rightarrow> []);
             base = extract_basename path
         in if base \<noteq> [] then JStr (''Reading file: '' @ base) else name)
      else name)"

definition format_bash_result :: "bash_result \<Rightarrow> string" where
  "format_bash_result r =
     (let ls = (if br_timed_out r then [''[timed out]''] else [])
             @ (if br_exit r \<noteq> 0 then [''[exit '' @ int_str (br_exit r) @ '']''] else []);
          out = (if br_output r \<noteq> [] then br_output r else ''(no output)'')
      in if ls \<noteq> [] then js_join '' '' ls @ [CHR 0x0A, CHR 0x0A] @ out else out)"

section \<open>Normalisation\<close>

definition normalize_event :: "raw_event \<Rightarrow> conv_event option" where
  "normalize_event e =
     (case (re_id e, re_type e, re_seq e) of
        (Some i, Some t, Some n) \<Rightarrow>
          (if i = [] \<or> t = [] then None
           else Some \<lparr>ev_id = i,
             ev_event_id = (case re_event_id e of None \<Rightarrow> [] | Some x \<Rightarrow> x),
             ev_type = t,
             ev_time = (case re_time e of Some x \<Rightarrow> x
               | None \<Rightarrow> (case re_created e of Some x \<Rightarrow> x | None \<Rightarrow> [])),
             ev_seq = n, ev_data = coalesce (re_data e) (JObj [])\<rparr>)
      | _ \<Rightarrow> None)"

definition normalize_events :: "raw_event list \<Rightarrow> conv_event list" where
  "normalize_events raws = sort_key ev_seq (List.map_filter normalize_event raws)"

section \<open>The timeline\<close>

definition find_completion :: "conv_event list \<Rightarrow> js \<Rightarrow> conv_event option" where
  "find_completion evs tid =
     find (\<lambda>e. ev_type e = ''tool_call_completed'' \<and> strict_eq (js_get (ev_data e) ''id'') tid) evs"

definition bash_outcome :: "js \<Rightarrow> tool_status \<times> js" where
  "bash_outcome data =
     (case parse_bash_result (js_get data ''result'') of
        Some r \<Rightarrow>
          (if br_timed_out r \<or> br_exit r \<noteq> 0 \<or> truthy (js_get data ''is_error'') then Failed else Success,
           JStr (format_bash_result r))
      | None \<Rightarrow>
          (if truthy (js_get data ''is_error'') then Failed else Success, js_get data ''result''))"

definition bash_tool_call_item :: "conv_event \<Rightarrow> conv_event \<Rightarrow> tool_card" where
  "bash_tool_call_item started completed =
     \<lparr>tc_id = ev_id started, tc_time = ev_time started, tc_name = JStr ''bash'',
      tc_args = coalesce (js_get (ev_data started) ''arguments'') (JObj []),
      tc_status = fst (bash_outcome (ev_data completed)), tc_result = snd (bash_outcome (ev_data completed)),
      tc_duration = js_get (ev_data completed) ''duration_ms'', tc_subtitle = None, tc_meta = None\<rparr>"

definition tool_call_item :: "conv_event \<Rightarrow> conv_event \<Rightarrow> tool_card" where
  "tool_call_item started completed =
     (let sd = ev_data started; cd = ev_data completed;
          raw_name = coalesce (js_get sd ''name'') (js_get cd ''tool_name'')
      in if is_bash_tool raw_name then bash_tool_call_item started completed
         else
           (let args = coalesce (js_get sd ''arguments'') (JObj []);
                failed = truthy (js_get cd ''is_error'');
                base = \<lparr>tc_id = ev_id started, tc_time = ev_time started,
                  tc_name = format_tool_name raw_name args, tc_args = args,
                  tc_status = (if failed then Failed else Success),
                  tc_result = js_get cd ''result'', tc_duration = js_get cd ''duration_ms'',
                  tc_subtitle = None, tc_meta = None\<rparr>
            in if raw_name = JStr ''Read'' \<and> \<not> failed
               then
                 (case parse_read_result (js_get cd ''result'') of
                    None \<Rightarrow> base
                  | Some r \<Rightarrow>
                      base\<lparr>tc_result := JStr (rr_content r),
                        tc_subtitle := Some (first_content_line (rr_content r)),
                        tc_meta := Some
                          ((if rr_total r > 0 then [int_str (rr_total r) @ '' lines''] else [])
                           @ (if rr_truncated r then [''truncated''] else []))\<rparr>)
               else base))"

definition running_item :: "conv_event \<Rightarrow> tool_card" where
  "running_item started =
     (let args = coalesce (js_get (ev_data started) ''arguments'') (JObj []) in
      \<lparr>tc_id = ev_id started, tc_time = ev_time started,
       tc_name = format_tool_name (js_get (ev_data started) ''name'') args, tc_args = args,
       tc_status = Running, tc_result = JUndefined, tc_duration = JUndefined,
       tc_subtitle = None, tc_meta = None\<rparr>)"

definition orphan_completed_item :: "conv_event \<Rightarrow> tool_card" where
  "orphan_completed_item e =
     (let d = ev_data e in
      if is_bash_tool (js_get d ''tool_name'')
      then \<lparr>tc_id = ev_id e, tc_time = ev_time e, tc_name = JStr ''bash'', tc_args = JObj [],
        tc_status = fst (bash_outcome d), tc_result = snd (bash_outcome d),
        tc_duration = js_get d ''duration_ms'', tc_subtitle = None, tc_meta = None\<rparr>
      else \<lparr>tc_id = ev_id e, tc_time = ev_time e, tc_name = js_get d ''tool_name'', tc_args = JObj [],
        tc_status = (if truthy (js_get d ''is_error'') then Failed else Success),
        tc_result = js_get d ''result'', tc_duration = js_get d ''duration_ms'',
        tc_subtitle = None, tc_meta = None\<rparr>)"

text \<open>The first pass: message ids of the completed responses.\<close>

definition completed_responses :: "conv_event list \<Rightarrow> js list" where
  "completed_responses evs =
     foldl (\<lambda>s e. if ev_type e = ''response_completed'' \<and> truthy (js_get (ev_data e) ''message_id'')
       then set_add (js_get (ev_data e) ''message_id'') s else s) [] evs"

definition timeline_step ::
  "conv_event list \<Rightarrow> js list \<Rightarrow> js list \<Rightarrow> conv_event \<Rightarrow> timeline_item option \<times> js list" where
  "timeline_step evs responses consumed e =
     (let d = ev_data e; i = ev_id e; t = ev_time e in
      if ev_type e = ''conversation_created'' then (Some (ConversationCreated i t), consumed)
      else if ev_type e = ''message_received''
        then (Some (MessageReceived i t (coalesce (js_get d ''content'') (JStr []))), consumed)
      else if ev_type e = ''response_started''
        then (if js_get d ''message_id'' \<in> set responses then (None, consumed)
              else (Some (AgentResponse i t (JStr []) JUndefined JUndefined JUndefined Streaming), consumed))
      else if ev_type e = ''response_completed''
        then (Some (AgentResponse i t (coalesce (js_get d ''full_response'') (JStr [])) (js_get d ''model'')
                (js_get d ''input_tokens'') (js_get d ''output_tokens'') Completed), consumed)
      else if ev_type e = ''tool_call_started''
        then (case find_completion evs (js_get d ''id'') of
                Some c \<Rightarrow> (Some (ToolCall (tool_call_item e c)), set_add (js_get d ''id'') consumed)
              | None \<Rightarrow> (Some (ToolCall (running_item e)), consumed))
      else if ev_type e = ''tool_call_completed''
        then (if js_get d ''id'' \<in> set consumed then (None, consumed)
              else (Some (ToolCall (orphan_completed_item e)), consumed))
      else if ev_type e = ''turn_completed''
        then (Some (TurnSummary i t (js_get d ''turn_number'') (js_get d ''model'') (js_get d ''input_tokens'')
                (js_get d ''output_tokens'') (js_get d ''cumulative_input_tokens'')
                (js_get d ''cumulative_output_tokens'')), consumed)
      else if ev_type e = ''done'' then (Some (DoneItem i t), consumed)
      else (None, consumed))"

fun timeline_loop :: "conv_event list \<Rightarrow> js list \<Rightarrow> js list \<Rightarrow> conv_event list \<Rightarrow> timeline_item list" where
  "timeline_loop evs responses consumed [] = []"
| "timeline_loop evs responses consumed (e # es) =
     (case timeline_step evs responses consumed e of
        (None, consumed') \<Rightarrow> timeline_loop evs responses consumed' es
      | (Some i, consumed') \<Rightarrow> i # timeline_loop evs responses consumed' es)"

definition build_timeline :: "conv_event list \<Rightarrow> timeline_item list" where
  "build_timeline evs = timeline_loop evs (completed_responses evs) [] evs"

section \<open>Lemmas\<close>

definition tool_started :: "conv_event \<Rightarrow> bool" where
  "tool_started e \<longleftrightarrow> ev_type e = ''tool_call_started''"

definition tool_completed :: "conv_event \<Rightarrow> bool" where
  "tool_completed e \<longleftrightarrow> ev_type e = ''tool_call_completed''"

definition tool_id :: "conv_event \<Rightarrow> js" where
  "tool_id e = js_get (ev_data e) ''id''"

fun is_card :: "timeline_item \<Rightarrow> bool" where
  "is_card (ToolCall _) = True"
| "is_card _ = False"

text \<open>Every completion comes after a start with the same id.\<close>

fun tools_ordered :: "js list \<Rightarrow> conv_event list \<Rightarrow> bool" where
  "tools_ordered seen [] = True"
| "tools_ordered seen (e # es) =
     (if tool_started e then tools_ordered (tool_id e # seen) es
      else if tool_completed e
      then list_ex (\<lambda>x. strict_eq x (tool_id e)) seen \<and> tools_ordered seen es
      else tools_ordered seen es)"

definition tool_card_of :: "conv_event list \<Rightarrow> conv_event \<Rightarrow> tool_card" where
  "tool_card_of evs e =
     (case find_completion evs (tool_id e) of Some c \<Rightarrow> tool_call_item e c | None \<Rightarrow> running_item e)"

lemma card_ids [simp]:
  "tc_id (tool_call_item e c) = ev_id e" "tc_id (running_item e) = ev_id e"
  "tc_id (orphan_completed_item e) = ev_id e" "tc_id (tool_card_of evs e) = ev_id e"
proof -
  show a: "tc_id (tool_call_item e c) = ev_id e" for c
    by (simp add: tool_call_item_def bash_tool_call_item_def Let_def split: option.split)
  show b: "tc_id (running_item e) = ev_id e" "tc_id (orphan_completed_item e) = ev_id e"
    by (simp_all add: running_item_def orphan_completed_item_def Let_def)
  show "tc_id (tool_card_of evs e) = ev_id e"
    by (simp add: tool_card_of_def a b split: option.split)
qed

text \<open>What the switch does, by kind of event.\<close>

lemma step_started:
  "tool_started e \<Longrightarrow> timeline_step evs r c e =
     (Some (ToolCall (tool_card_of evs e)),
      if find_completion evs (tool_id e) = None then c else set_add (tool_id e) c)"
  by (simp add: timeline_step_def tool_started_def tool_card_of_def tool_id_def Let_def split: option.split)

lemma step_completed:
  "tool_completed e \<Longrightarrow> timeline_step evs r c e =
     (if tool_id e \<in> set c then None else Some (ToolCall (orphan_completed_item e)), c)"
  by (simp add: timeline_step_def tool_completed_def tool_id_def Let_def)

lemma step_other:
  "\<not> tool_started e \<Longrightarrow> \<not> tool_completed e \<Longrightarrow> timeline_step evs r c e = (fst (timeline_step [] r [] e), c)"
  by (simp add: timeline_step_def tool_started_def tool_completed_def Let_def)

lemma step_other_not_card:
  "\<not> tool_started e \<Longrightarrow> \<not> tool_completed e \<Longrightarrow> fst (timeline_step evs r c e) = Some i \<Longrightarrow> \<not> is_card i"
  by (auto simp: timeline_step_def tool_started_def tool_completed_def Let_def split: if_splits)

lemma step_item_id: "fst (timeline_step evs r c e) = Some i \<Longrightarrow> item_id i = ev_id e"
  by (auto simp: timeline_step_def Let_def split: if_splits option.splits)

lemma loop_Cons:
  "timeline_loop evs r c (e # es) =
     (case fst (timeline_step evs r c e) of None \<Rightarrow> [] | Some i \<Rightarrow> [i])
     @ timeline_loop evs r (snd (timeline_step evs r c e)) es"
  by (simp split: prod.split option.split)

lemma loop_subseq: "subseq (map item_id (timeline_loop evs r c es)) (map ev_id es)"
proof (induction es arbitrary: c)
  case (Cons e es)
  show ?case
  proof (cases "fst (timeline_step evs r c e)")
    case None
    then show ?thesis using Cons [of "snd (timeline_step evs r c e)"]
      by (auto simp: loop_Cons simp del: timeline_loop.simps)
  next
    case (Some i)
    then show ?thesis using Cons [of "snd (timeline_step evs r c e)"] step_item_id [OF Some]
      by (auto simp: loop_Cons simp del: timeline_loop.simps)
  qed
qed simp

text \<open>
  On an ordered log the loop never shows an orphan: what it emits is one item per event
  that is not a completion, with the cards given by \<open>tool_card_of\<close>.
\<close>

definition emitted :: "conv_event list \<Rightarrow> js list \<Rightarrow> conv_event \<Rightarrow> timeline_item option" where
  "emitted evs r e =
     (if tool_started e then Some (ToolCall (tool_card_of evs e))
      else if tool_completed e then None
      else fst (timeline_step [] r [] e))"

lemma loop_ordered:
  assumes "tools_ordered seen es" "set es \<subseteq> set evs"
    and "\<And>x. x \<in> set seen \<Longrightarrow> find_completion evs x \<noteq> None \<Longrightarrow> x \<in> set c"
  shows "timeline_loop evs r c es = List.map_filter (emitted evs r) es"
  using assms
proof (induction es arbitrary: seen c)
  case Nil
  then show ?case by (simp add: map_filter_simps)
next
  case (Cons e es)
  consider (started) "tool_started e" | (completed) "\<not> tool_started e" "tool_completed e"
    | (other) "\<not> tool_started e" "\<not> tool_completed e" by blast
  then show ?case
  proof cases
    case started
    let ?c = "if find_completion evs (tool_id e) = None then c else set_add (tool_id e) c"
    have "timeline_loop evs r ?c es = List.map_filter (emitted evs r) es"
      using Cons.prems started by (intro Cons.IH [of "tool_id e # seen"]) (auto simp: set_set_add)
    then show ?thesis
      using started by (simp add: loop_Cons step_started map_filter_simps emitted_def [of evs r e] del: timeline_loop.simps)
  next
    case completed
    obtain x where x: "x \<in> set seen" "strict_eq x (tool_id e)"
      using Cons.prems(1) completed by (auto simp: list_ex_iff)
    have "find_completion evs x \<noteq> None"
      using Cons.prems(2) completed x(2)
      by (auto simp: find_completion_def find_None_iff tool_completed_def tool_id_def strict_eq_sym)
    then have "tool_id e \<in> set c"
      using Cons.prems(3) [OF x(1)] strict_eq_imp_eq [OF x(2)] by simp
    moreover have "timeline_loop evs r c es = List.map_filter (emitted evs r) es"
      using Cons.prems completed by (intro Cons.IH [of seen]) auto
    ultimately show ?thesis
      using completed by (simp add: loop_Cons step_completed map_filter_simps emitted_def [of evs r e] del: timeline_loop.simps)
  next
    case other
    have "timeline_loop evs r c es = List.map_filter (emitted evs r) es"
      using Cons.prems other by (intro Cons.IH [of seen]) auto
    then show ?thesis
      using step_other [OF other, of evs r c] other
      by (simp add: loop_Cons map_filter_simps emitted_def [of evs r e] del: timeline_loop.simps split: option.split)
  qed
qed

lemma build_ordered:
  "tools_ordered [] evs \<Longrightarrow> build_timeline evs = List.map_filter (emitted evs (completed_responses evs)) evs"
  unfolding build_timeline_def by (rule loop_ordered) auto

lemma set_completed_responses:
  "set (completed_responses evs) =
     {m. \<exists>e \<in> set evs. ev_type e = ''response_completed'' \<and> m = js_get (ev_data e) ''message_id'' \<and> truthy m}"
proof -
  have "set (foldl (\<lambda>s e. if ev_type e = ''response_completed'' \<and> truthy (js_get (ev_data e) ''message_id'')
      then set_add (js_get (ev_data e) ''message_id'') s else s) s evs) = set s \<union>
      {m. \<exists>e \<in> set evs. ev_type e = ''response_completed'' \<and> m = js_get (ev_data e) ''message_id'' \<and> truthy m}" for s
    by (induction evs arbitrary: s) (auto simp: set_set_add)
  from this [of "[]"] show ?thesis by (simp add: completed_responses_def)
qed

section \<open>Properties\<close>

text \<open>
  Normalising sorts by sequence number, keeps exactly the events that have an id, a
  type and a number, and keeps the backend's order among equal numbers.
\<close>

theorem normalize_sorted_stable:
  "sorted (map ev_seq (normalize_events raws))
   \<and> mset (normalize_events raws) = mset (List.map_filter normalize_event raws)
   \<and> filter (\<lambda>e. ev_seq e = n) (normalize_events raws)
     = filter (\<lambda>e. ev_seq e = n) (List.map_filter normalize_event raws)"
  by (simp add: normalize_events_def sort_key_stable)

text \<open>
  C13. The timeline is chronological and never shows an event twice: the ids of its items
  are a subsequence of the ids of the events.
\<close>

theorem timeline_chronological:
  "subseq (map item_id (build_timeline evs)) (map ev_id evs)"
  unfolding build_timeline_def by (rule loop_subseq)

text \<open>
  C12. One card per tool call: in a log where completions follow their starts, the tool
  cards are exactly those of the started events in order, each resolved by the first
  completion with its id and running while there is none.
\<close>

theorem one_card_per_tool_call:
  assumes "tools_ordered [] evs"
  shows "filter is_card (build_timeline evs) =
     map (\<lambda>e. ToolCall (case find_completion evs (tool_id e) of
        Some c \<Rightarrow> tool_call_item e c | None \<Rightarrow> running_item e)) (filter tool_started evs)"
proof -
  have "filter is_card (List.map_filter (emitted evs r) es) =
      map (\<lambda>e. ToolCall (tool_card_of evs e)) (filter tool_started es)" for r es
    by (induction es) (auto simp: map_filter_simps emitted_def step_other_not_card split: option.split)
  then show ?thesis
    using build_ordered [OF assms] by (simp add: tool_card_of_def)
qed

definition tool_event :: "string \<Rightarrow> string \<Rightarrow> string \<Rightarrow> conv_event" where
  "tool_event ty i tid = \<lparr>ev_id = i, ev_event_id = i, ev_type = ty, ev_time = [], ev_seq = 0,
     ev_data = JObj [(''id'', JStr tid), (''name'', JStr ''grep''), (''tool_name'', JStr ''grep'')]\<rparr>"

lemma one_card_per_tool_call_witness:
  "filter is_card (build_timeline [tool_event ''tool_call_started'' ''a'' ''t1'',
       tool_event ''tool_call_started'' ''b'' ''t2'', tool_event ''tool_call_completed'' ''c'' ''t1'']) =
     map (\<lambda>e. ToolCall (case find_completion [tool_event ''tool_call_started'' ''a'' ''t1'',
         tool_event ''tool_call_started'' ''b'' ''t2'', tool_event ''tool_call_completed'' ''c'' ''t1''] (tool_id e) of
        Some c \<Rightarrow> tool_call_item e c | None \<Rightarrow> running_item e))
       [tool_event ''tool_call_started'' ''a'' ''t1'', tool_event ''tool_call_started'' ''b'' ''t2'']"
proof -
  let ?evs = "[tool_event ''tool_call_started'' ''a'' ''t1'', tool_event ''tool_call_started'' ''b'' ''t2'',
    tool_event ''tool_call_completed'' ''c'' ''t1'']"
  have "tools_ordered [] ?evs"
    by (simp add: tool_event_def tool_started_def tool_completed_def tool_id_def)
  from one_card_per_tool_call [OF this] show ?thesis
    by (simp add: tool_event_def tool_started_def)
qed

text \<open>
  A result arriving resolves its card in place: appending a completion to an ordered
  log adds and removes no item, moves none, and changes nothing but tool cards.
\<close>

theorem completion_resolves_in_place:
  assumes "tools_ordered [] evs" "tools_ordered [] (evs @ [c])" "tool_completed c"
  shows "map item_id (build_timeline (evs @ [c])) = map item_id (build_timeline evs)
     \<and> filter (\<lambda>i. \<not> is_card i) (build_timeline (evs @ [c]))
       = filter (\<lambda>i. \<not> is_card i) (build_timeline evs)"
proof -
  have r: "completed_responses (evs @ [c]) = completed_responses evs"
    using assms(3) by (simp add: completed_responses_def tool_completed_def)
  have ids: "map item_id (List.map_filter (emitted xs r) es) = map item_id (List.map_filter (emitted ys r) es)"
    for xs ys r es
    by (induction es) (auto simp: map_filter_simps emitted_def split: option.split)
  have plain: "filter (\<lambda>i. \<not> is_card i) (List.map_filter (emitted xs r) es) =
      filter (\<lambda>i. \<not> is_card i) (List.map_filter (emitted ys r) es)" for xs ys r es
    by (induction es) (auto simp: map_filter_simps emitted_def split: option.split)
  have gone: "emitted xs r c = None" for xs r
    using assms(3) by (simp add: emitted_def tool_started_def tool_completed_def)
  have app: "List.map_filter f (es @ [c]) = List.map_filter f es @ (case f c of None \<Rightarrow> [] | Some i \<Rightarrow> [i])"
    for f :: "conv_event \<Rightarrow> timeline_item option" and es
    by (induction es) (auto simp: map_filter_simps split: option.split)
  show ?thesis
    unfolding build_ordered [OF assms(1)] build_ordered [OF assms(2)] r app gone
    using ids plain by simp
qed

lemma completion_resolves_in_place_witness:
  "map item_id (build_timeline ([tool_event ''tool_call_started'' ''a'' ''t1''] @ [tool_event ''tool_call_completed'' ''c'' ''t1'']))
       = map item_id (build_timeline [tool_event ''tool_call_started'' ''a'' ''t1''])
     \<and> filter (\<lambda>i. \<not> is_card i) (build_timeline ([tool_event ''tool_call_started'' ''a'' ''t1'']
         @ [tool_event ''tool_call_completed'' ''c'' ''t1'']))
       = filter (\<lambda>i. \<not> is_card i) (build_timeline [tool_event ''tool_call_started'' ''a'' ''t1''])"
  by (rule completion_resolves_in_place)
    (simp_all add: tool_event_def tool_started_def tool_completed_def tool_id_def)

text \<open>
  A streaming bubble is shown exactly for the responses that have started and not
  completed.
\<close>

theorem streaming_iff_incomplete:
  "(\<exists>x m a b. AgentResponse i t x m a b Streaming \<in> set (build_timeline evs)) \<longleftrightarrow>
   (\<exists>e \<in> set evs. ev_type e = ''response_started'' \<and> ev_id e = i \<and> ev_time e = t
      \<and> \<not> (\<exists>c \<in> set evs. ev_type c = ''response_completed''
            \<and> js_get (ev_data c) ''message_id'' = js_get (ev_data e) ''message_id''
            \<and> truthy (js_get (ev_data c) ''message_id'')))"
proof -
  have step: "fst (timeline_step xs r c e) = Some (AgentResponse i t x m a b Streaming) \<longleftrightarrow>
      ev_type e = ''response_started'' \<and> ev_id e = i \<and> ev_time e = t
      \<and> js_get (ev_data e) ''message_id'' \<notin> set r
      \<and> x = JStr [] \<and> m = JUndefined \<and> a = JUndefined \<and> b = JUndefined" for xs r c e x m a b
    by (auto simp: timeline_step_def Let_def split: option.split)
  have loop: "AgentResponse i t x m a b Streaming \<in> set (timeline_loop xs r c es) \<longleftrightarrow>
      (\<exists>e \<in> set es. ev_type e = ''response_started'' \<and> ev_id e = i \<and> ev_time e = t
        \<and> js_get (ev_data e) ''message_id'' \<notin> set r)
      \<and> x = JStr [] \<and> m = JUndefined \<and> a = JUndefined \<and> b = JUndefined" for xs r c es x m a b
  proof (induction es arbitrary: c)
    case (Cons e es)
    show ?case
      using Cons [of "snd (timeline_step xs r c e)"] step [of xs r c e x m a b]
      by (cases "fst (timeline_step xs r c e)") (auto simp: loop_Cons simp del: timeline_loop.simps)
  qed simp
  show ?thesis
    unfolding build_timeline_def loop set_completed_responses by fastforce
qed

text \<open>
  The documented merge fails out of order: a completion that is logged before its
  start, and a start logged twice, each give two cards for one tool call.
\<close>

theorem misordered_log_duplicates_card:
  "length (filter is_card (build_timeline
     [tool_event ''tool_call_completed'' i tid, tool_event ''tool_call_started'' j tid])) = 2
   \<and> length (filter is_card (build_timeline
     [tool_event ''tool_call_started'' i tid, tool_event ''tool_call_started'' j tid,
      tool_event ''tool_call_completed'' k tid])) = 2"
  by (simp add: build_timeline_def timeline_step_def tool_event_def find_completion_def Let_def set_add_def)

text \<open>
  Bash results survive the bridge's double encoding: whatever the output, exit code and
  flags, the card is failed exactly when the command timed out, exited non-zero or the
  tool reported an error, and its text is the formatted output, which ends with the
  command's own output.
\<close>

theorem bash_outcome_double_encoded:
  "bash_outcome (JObj [(''result'', JStr (json_print (JStr (json_print (JObj
       [(''output'', JStr out), (''exit_code'', JNum x), (''timed_out'', JBool b)]))))), (''is_error'', JBool err)])
   = (if \<not> b \<and> x = 0 \<and> \<not> err then Success else Failed,
      JStr (format_bash_result \<lparr>br_output = out, br_exit = x, br_timed_out = b\<rparr>))
   \<and> (\<exists>pre. format_bash_result \<lparr>br_output = out, br_exit = x, br_timed_out = b\<rparr>
        = pre @ (if out = [] then ''(no output)'' else out))"
proof
  let ?o = "JObj [(''output'', JStr out), (''exit_code'', JNum x), (''timed_out'', JBool b)]"
  have inner: "json_parse (json_print ?o) = Some ?o" by (rule json_parse_print) simp
  have outer: "json_parse (json_print (JStr s)) = Some (JStr s)" for s by (rule json_parse_print) simp
  have "parse_double_encoded_object (JStr (json_print (JStr (json_print ?o)))) = Some ?o"
    using inner outer print_nonempty [of "JStr (json_print ?o)"]
    by (simp add: parse_double_encoded_object_def numeral_3_eq_3 del: json_print.simps)
  then have "parse_bash_result (JStr (json_print (JStr (json_print ?o)))) =
      Some \<lparr>br_output = out, br_exit = x, br_timed_out = b\<rparr>"
    by (simp add: parse_bash_result_def js_has_def text_field_def num_field_def del: json_print.simps)
  then show "bash_outcome (JObj [(''result'', JStr (json_print (JStr (json_print ?o)))), (''is_error'', JBool err)])
     = (if \<not> b \<and> x = 0 \<and> \<not> err then Success else Failed,
        JStr (format_bash_result \<lparr>br_output = out, br_exit = x, br_timed_out = b\<rparr>))"
    by (simp add: bash_outcome_def del: json_print.simps)
next
  show "\<exists>pre. format_bash_result \<lparr>br_output = out, br_exit = x, br_timed_out = b\<rparr>
        = pre @ (if out = [] then ''(no output)'' else out)"
    by (auto simp: format_bash_result_def Let_def)
qed

end
