(* ===== verification/ConversationStream.thy ===== *)
theory ConversationStream
  imports ConversationEvents
begin

text \<open>
  \<open>apps/web/hooks/use-conversation-stream.ts\<close>: the state of a live conversation and what
  each server-sent event does to it, the reset on a new connection and the send path of
  the run panel; and the title and status the conversation page derives from a timeline
  (\<open>conversations/[conversationId]/page.tsx\<close>). An exception inside \<open>onmessage\<close> goes,
  by the contract of fetch-event-source, to \<open>onerror\<close>, which ends the stream. A content
  that is not a string is kept as its text.
\<close>

section \<open>State\<close>

datatype role = UserRole | AgentRole | ErrorRole

record stream_message =
  sm_id :: js
  sm_role :: role
  sm_content :: string
  sm_message_id :: js
  sm_time :: js
  sm_model :: js
  sm_input :: js
  sm_output :: js

record token_stats =
  ts_input :: js
  ts_output :: js
  ts_model :: js
  ts_turn :: js

record stream_state =
  connected :: bool
  stream_error :: "string option"
  messages :: "stream_message list"
  is_streaming :: bool
  stats :: token_stats
  streaming_ref :: js

definition no_stats :: token_stats where
  "no_stats = \<lparr>ts_input = JNum 0, ts_output = JNum 0, ts_model = JUndefined, ts_turn = JUndefined\<rparr>"

definition new_message :: "js \<Rightarrow> role \<Rightarrow> string \<Rightarrow> js \<Rightarrow> js \<Rightarrow> stream_message" where
  "new_message i r c mid t = \<lparr>sm_id = i, sm_role = r, sm_content = c, sm_message_id = mid, sm_time = t,
     sm_model = JUndefined, sm_input = JUndefined, sm_output = JUndefined\<rparr>"

section \<open>Events\<close>

record sse_event =
  se_type :: string
  se_data :: js
  se_time :: js
  se_id :: js

fun find_last_index :: "('a \<Rightarrow> bool) \<Rightarrow> 'a list \<Rightarrow> nat option" where
  "find_last_index P [] = None"
| "find_last_index P (x # xs) =
     (case find_last_index P xs of
        Some i \<Rightarrow> Some (Suc i)
      | None \<Rightarrow> if P x then Some 0 else None)"

definition agent_message :: "js \<Rightarrow> stream_message \<Rightarrow> bool" where
  "agent_message mid m \<longleftrightarrow> sm_role m = AgentRole \<and> strict_eq (sm_message_id m) mid"

definition update_agent ::
  "js \<Rightarrow> (stream_message \<Rightarrow> stream_message) \<Rightarrow> stream_message list \<Rightarrow> stream_message list" where
  "update_agent mid f ms =
     (case find_last_index (agent_message mid) ms of None \<Rightarrow> ms | Some i \<Rightarrow> ms[i := f (ms ! i)])"

definition append_delta :: "js \<Rightarrow> stream_message \<Rightarrow> stream_message" where
  "append_delta d m = m\<lparr>sm_content := sm_content m @ js_string d\<rparr>"

definition complete_message :: "js \<Rightarrow> stream_message \<Rightarrow> stream_message" where
  "complete_message data m =
     m\<lparr>sm_content := (if sm_content m \<noteq> [] then sm_content m
         else if truthy (js_get data ''full_response'') then js_string (js_get data ''full_response'') else []),
       sm_input := js_get data ''input_tokens'', sm_output := js_get data ''output_tokens'',
       sm_model := js_get data ''model''\<rparr>"

definition stop_streaming :: "stream_state \<Rightarrow> stream_state" where
  "stop_streaming st = st\<lparr>streaming_ref := JNull, is_streaming := False\<rparr>"

text \<open>The switch of \<open>onmessage\<close>.\<close>

definition stream_step :: "stream_state \<Rightarrow> sse_event \<Rightarrow> stream_state" where
  "stream_step st e =
     (let d = se_data e; mid = js_get d ''message_id'' in
      if se_type e = ''message_received'' then
        (if truthy (js_get d ''content'')
         then st\<lparr>messages := messages st @
           [new_message (se_id e) UserRole (js_string (js_get d ''content'')) JUndefined (se_time e)]\<rparr>
         else st)
      else if se_type e = ''response_started'' then
        st\<lparr>streaming_ref := mid, is_streaming := True,
           messages := messages st @ [new_message (se_id e) AgentRole [] mid (se_time e)]\<rparr>
      else if se_type e = ''response_chunk'' then
        (if truthy (js_get d ''delta'')
         then st\<lparr>messages := update_agent mid (append_delta (js_get d ''delta'')) (messages st)\<rparr>
         else st)
      else if se_type e = ''response_completed'' then
        stop_streaming (st\<lparr>messages := update_agent mid (complete_message d) (messages st)\<rparr>)
      else if se_type e = ''turn_completed'' then
        st\<lparr>stats := \<lparr>ts_input = coalesce (js_get d ''cumulative_input_tokens'') (JNum 0),
             ts_output = coalesce (js_get d ''cumulative_output_tokens'') (JNum 0),
             ts_model = js_get d ''model'', ts_turn = js_get d ''turn_number''\<rparr>\<rparr>
      else if se_type e = ''agent_error'' then
        stop_streaming (st\<lparr>messages := messages st @
          [new_message (se_id e) ErrorRole
             (js_string (coalesce (js_get d ''message'') (JStr ''An unknown error occurred'')))
             JUndefined (se_time e)]\<rparr>)
      else if se_type e = ''done'' then stop_streaming st
      else st)"

text \<open>
  \<open>onmessage\<close> on the text of an event: an empty or unparsable text is skipped; \<open>None\<close> is
  the TypeError of reading a property of a nullish value.
\<close>

definition reads_data :: "string \<Rightarrow> bool" where
  "reads_data ty \<longleftrightarrow> ty \<in> {''message_received'', ''response_started'', ''response_chunk'',
     ''response_completed'', ''turn_completed'', ''agent_error''}"

definition on_message :: "string \<Rightarrow> stream_state \<Rightarrow> stream_state option" where
  "on_message text st =
     (if text = [] then Some st
      else
        (case json_parse text of
           None \<Rightarrow> Some st
         | Some p \<Rightarrow>
             (if nullish p then None
              else
                (case js_get p ''event_type'' of
                   JStr ty \<Rightarrow>
                     (if reads_data ty \<and> nullish (js_get p ''data'') then None
                      else Some (stream_step st
                        \<lparr>se_type = ty, se_data = js_get p ''data'', se_time = js_get p ''timestamp'',
                         se_id = js_get p ''event_id''\<rparr>))
                 | _ \<Rightarrow> Some st))))"

section \<open>The connection\<close>

text \<open>
  \<open>aborted\<close> is the abort signal of the connection's controller: an aborted stream reports
  no error.
\<close>

datatype stream_signal = Opened int | Text string | Failed_with string | Closed

definition on_error :: "bool \<Rightarrow> string \<Rightarrow> stream_state \<Rightarrow> stream_state" where
  "on_error aborted msg st = (if aborted then st else st\<lparr>stream_error := Some msg\<rparr>)"

definition on_signal :: "bool \<Rightarrow> stream_state \<Rightarrow> stream_signal \<Rightarrow> stream_state" where
  "on_signal aborted st s =
     (case s of
        Opened status \<Rightarrow>
          (if 200 \<le> status \<and> status \<le> 299 then st\<lparr>connected := True\<rparr>
           else on_error aborted (''Stream open failed: '' @ int_str status)
             (st\<lparr>stream_error := Some (''Stream failed: '' @ int_str status)\<rparr>))
      | Text t \<Rightarrow>
          (case on_message t st of
             Some st' \<Rightarrow> st'
           | None \<Rightarrow> on_error aborted ''TypeError'' st)
      | Failed_with msg \<Rightarrow> on_error aborted msg st
      | Closed \<Rightarrow> st\<lparr>connected := False, is_streaming := False\<rparr>)"

text \<open>The effect that runs when the conversation or the stream token changes.\<close>

definition connect_effect :: "string option \<Rightarrow> string option \<Rightarrow> stream_state \<Rightarrow> stream_state" where
  "connect_effect conversation token st =
     (case (conversation, token) of
        (Some c, Some t) \<Rightarrow>
          (if c = [] then st\<lparr>connected := False\<rparr>
           else st\<lparr>stream_error := None, messages := [], stats := no_stats, is_streaming := False,
                streaming_ref := JNull\<rparr>)
      | _ \<Rightarrow> st\<lparr>connected := False\<rparr>)"

definition add_user_message :: "int \<Rightarrow> string \<Rightarrow> string \<Rightarrow> stream_state \<Rightarrow> stream_state" where
  "add_user_message now stamp content st =
     st\<lparr>messages := messages st @
       [new_message (JStr (''user-'' @ int_str now)) UserRole content JUndefined (JStr stamp)]\<rparr>"

section \<open>The conversation page\<close>

definition strip_hashes :: "string \<Rightarrow> string" where
  "strip_hashes l =
     (if takeWhile (\<lambda>c. c = CHR ''#'') l = [] then l
      else dropWhile is_space (dropWhile (\<lambda>c. c = CHR ''#'') l))"

text \<open>A \<open>slice(0, 80)\<close> of the title counts characters of the model's string.\<close>

fun is_message :: "timeline_item \<Rightarrow> bool" where
  "is_message (MessageReceived _ _ _) = True"
| "is_message _ = False"

definition derive_title :: "timeline_item list \<Rightarrow> string \<Rightarrow> string" where
  "derive_title items fallback =
     (case find is_message items of
        Some (MessageReceived _ _ content) \<Rightarrow>
          (let first = (case find (\<lambda>l. js_trim l \<noteq> []) (js_split (CHR 0x0A) (js_string content)) of
                          Some l \<Rightarrow> l | None \<Rightarrow> []);
               cleaned = js_trim (strip_hashes first)
           in if cleaned \<noteq> [] then take 80 cleaned else fallback)
      | _ \<Rightarrow> fallback)"

datatype conversation_status = Active | Ended

definition derive_status :: "timeline_item list \<Rightarrow> conversation_status" where
  "derive_status items =
     (if items = [] then Active
      else
        (case last items of
           DoneItem _ _ \<Rightarrow> Ended
         | AgentResponse _ _ _ _ _ _ Completed \<Rightarrow> Ended
         | _ \<Rightarrow> Active))"

section \<open>The last index\<close>

lemma last_index_Some: "find_last_index P xs = Some i \<Longrightarrow> i < length xs \<and> P (xs ! i)"
  by (induction xs arbitrary: i) (auto split: option.splits if_splits)

lemma last_index_append:
  "find_last_index P (xs @ [x]) = (if P x then Some (length xs) else find_last_index P xs)"
  by (induction xs) (auto split: option.splits)

lemma last_index_map: "find_last_index P xs = find_last_index (\<lambda>b. b) (map P xs)"
  by (induction xs) (auto split: option.splits)

lemma last_index_cong: "map P xs = map Q ys \<Longrightarrow> find_last_index P xs = find_last_index Q ys"
  using last_index_map by metis

definition keeps_key :: "(stream_message \<Rightarrow> stream_message) \<Rightarrow> bool" where
  "keeps_key f \<longleftrightarrow> (\<forall>m. sm_id (f m) = sm_id m \<and> sm_role (f m) = sm_role m \<and> sm_message_id (f m) = sm_message_id m)"

lemma keeps_key_updates [simp]: "keeps_key (append_delta d)" "keeps_key (complete_message d)"
  by (simp_all add: keeps_key_def append_delta_def complete_message_def)

lemma map_update_agent:
  assumes "keeps_key f" "\<And>m. g (f m) = g m"
  shows "map g (update_agent mid f ms) = map g ms"
  using assms(2)
  by (auto simp: update_agent_def map_update intro!: list_update_same_conv [THEN iffD2]
      dest: last_index_Some split: option.split)

section \<open>Refinement: what each response says\<close>

text \<open>
  The abstract state maps a message id to the text of its response; the concrete one is a
  list of messages updated at an index. Ids compare by strict equality.
\<close>

definition transcript :: "stream_state \<Rightarrow> js \<Rightarrow> string option" where
  "transcript st k =
     map_option (\<lambda>i. sm_content (messages st ! i)) (find_last_index (agent_message k) (messages st))"

definition transcript_step :: "(js \<Rightarrow> string option) \<Rightarrow> sse_event \<Rightarrow> js \<Rightarrow> string option" where
  "transcript_step m e k =
     (let d = se_data e in
      if \<not> strict_eq (js_get d ''message_id'') k then m k
      else if se_type e = ''response_started'' then Some []
      else if se_type e = ''response_chunk''
      then map_option (\<lambda>c. c @ (if truthy (js_get d ''delta'') then js_string (js_get d ''delta'') else [])) (m k)
      else if se_type e = ''response_completed''
      then map_option (\<lambda>c. if c \<noteq> [] then c
             else if truthy (js_get d ''full_response'') then js_string (js_get d ''full_response'') else []) (m k)
      else m k)"

definition message_keys :: "stream_message list \<Rightarrow> (role \<times> js) list" where
  "message_keys ms = map (\<lambda>m. (sm_role m, sm_message_id m)) ms"

text \<open>While streaming, the message the reference names is in the list.\<close>

definition stream_inv :: "stream_state \<Rightarrow> bool" where
  "stream_inv st \<longleftrightarrow>
     (is_streaming st \<longrightarrow> (AgentRole, streaming_ref st) \<in> set (message_keys (messages st)))"

lemma transcript_append:
  "transcript (st\<lparr>messages := messages st @ [m]\<rparr>) k =
     (if agent_message k m then Some (sm_content m) else transcript st k)"
  by (auto simp: transcript_def last_index_append nth_append dest: last_index_Some split: option.split)
    (cases "find_last_index (agent_message k) (messages st)"; auto dest: last_index_Some)

lemma strict_eq_trans: "strict_eq a b \<Longrightarrow> strict_eq a c = strict_eq b c"
  by (metis strict_eq_imp_eq)

lemma transcript_update:
  assumes "keeps_key f" "\<And>m. sm_content (f m) = g (sm_content m)"
  shows "transcript (st\<lparr>messages := update_agent mid f (messages st)\<rparr>) k =
     (if strict_eq mid k then map_option g (transcript st k) else transcript st k)"
proof -
  have same: "find_last_index (agent_message k) (update_agent mid f (messages st)) =
      find_last_index (agent_message k) (messages st)"
    using assms(1)
    by (intro last_index_cong map_update_agent) (auto simp: keeps_key_def agent_message_def)
  show ?thesis
  proof (cases "find_last_index (agent_message k) (messages st)")
    case None
    then show ?thesis using same by (simp add: transcript_def)
  next
    case (Some i)
    have i: "i < length (messages st)" "agent_message k (messages st ! i)"
      using last_index_Some [OF Some] by auto
    show ?thesis
    proof (cases "strict_eq mid k")
      case True
      then have "mid = k" by (rule strict_eq_imp_eq)
      then show ?thesis
        using Some same i True assms(2) by (simp add: transcript_def update_agent_def)
    next
      case False
      have "j \<noteq> i" if j: "find_last_index (agent_message mid) (messages st) = Some j" for j
      proof
        assume "j = i"
        then have "strict_eq (sm_message_id (messages st ! i)) mid"
          using last_index_Some [OF j] by (simp add: agent_message_def)
        then have "sm_message_id (messages st ! i) = mid" by (rule strict_eq_imp_eq)
        with i(2) False show False by (simp add: agent_message_def)
      qed
      then show ?thesis
        using Some same False by (auto simp: transcript_def update_agent_def split: option.split)
    qed
  qed
qed

lemma transcript_other: "messages st' = messages st \<Longrightarrow> transcript st' = transcript st"
  by (simp add: transcript_def fun_eq_iff)

lemma transcript_stop [simp]: "transcript (stop_streaming st) = transcript st"
  by (rule transcript_other) (simp add: stop_streaming_def)

lemma transcript_simulation: "transcript (stream_step st e) = transcript_step (transcript st) e"
proof
  fix k
  let ?mid = "js_get (se_data e) ''message_id''"
  consider (started) "se_type e = ''response_started''" | (chunk) "se_type e = ''response_chunk''"
    | (completed) "se_type e = ''response_completed''"
    | (other) "se_type e \<noteq> ''response_started''" "se_type e \<noteq> ''response_chunk''" "se_type e \<noteq> ''response_completed''"
    by blast
  then show "transcript (stream_step st e) k = transcript_step (transcript st) e k"
  proof cases
    case started
    have "transcript (stream_step st e) =
        transcript (st\<lparr>messages := messages st @ [new_message (se_id e) AgentRole [] ?mid (se_time e)]\<rparr>)"
      by (rule transcript_other) (simp add: stream_step_def started Let_def)
    then show ?thesis
      by (simp add: transcript_append transcript_step_def started agent_message_def new_message_def Let_def)
  next
    case chunk
    have "sm_content (append_delta d m) = sm_content m @ js_string d" for d m
      by (simp add: append_delta_def)
    from transcript_update [OF keeps_key_updates(1) this] show ?thesis
      by (cases "transcript st k") (simp_all add: stream_step_def transcript_step_def chunk Let_def)
  next
    case completed
    let ?d = "se_data e"
    have "sm_content (complete_message ?d m) = (\<lambda>c. if c \<noteq> [] then c
        else if truthy (js_get ?d ''full_response'') then js_string (js_get ?d ''full_response'') else [])
        (sm_content m)" for m
      by (simp add: complete_message_def)
    from transcript_update [of "complete_message ?d", OF keeps_key_updates(2) this] show ?thesis
      by (simp add: stream_step_def transcript_step_def completed Let_def)
  next
    case other
    then have rhs: "transcript_step (transcript st) e k = transcript st k"
      by (simp add: transcript_step_def Let_def)
    have "transcript (st\<lparr>messages := messages st @ [new_message i r c JUndefined t]\<rparr>) k = transcript st k"
      if "r \<noteq> AgentRole" for i r c t
      using that by (simp add: transcript_append agent_message_def new_message_def)
    then show ?thesis
      unfolding rhs
      using other by (auto simp: stream_step_def Let_def intro!: fun_cong [OF transcript_other])
  qed
qed

lemma message_keys_update [simp]:
  "message_keys (update_agent mid (append_delta d) ms) = message_keys ms"
  "message_keys (update_agent mid (complete_message d) ms) = message_keys ms"
  unfolding message_keys_def
  by (rule map_update_agent; simp add: append_delta_def complete_message_def)+

lemma message_keys_append [simp]:
  "message_keys (ms @ [m]) = message_keys ms @ [(sm_role m, sm_message_id m)]"
  by (simp add: message_keys_def)

lemma stream_inv_step: "stream_inv st \<Longrightarrow> stream_inv (stream_step st e)"
  by (simp add: stream_step_def Let_def stream_inv_def stop_streaming_def new_message_def)

interpretation stream: refined_machine stream_step stream_inv transcript transcript_step
  by unfold_locales (simp_all add: stream_inv_step transcript_simulation)

section \<open>Properties\<close>

definition chunk_text :: "string \<Rightarrow> sse_event \<Rightarrow> string" where
  "chunk_text mid e =
     (let d = se_data e in
      if se_type e = ''response_chunk'' \<and> js_get d ''message_id'' = JStr mid \<and> truthy (js_get d ''delta'')
      then js_string (js_get d ''delta'') else [])"

definition settles :: "string \<Rightarrow> sse_event \<Rightarrow> bool" where
  "settles mid e \<longleftrightarrow> (se_type e = ''response_started'' \<or> se_type e = ''response_completed'')
     \<and> js_get (se_data e) ''message_id'' = JStr mid"

lemma transcript_chunks:
  "\<not> list_ex (settles mid) es \<Longrightarrow> m (JStr mid) = Some c \<Longrightarrow>
   foldl transcript_step m es (JStr mid) = Some (c @ concat (map (chunk_text mid) es))"
proof (induction es arbitrary: m c)
  case (Cons e es)
  have "transcript_step m e (JStr mid) = Some (c @ chunk_text mid e)"
    using Cons.prems by (auto simp: transcript_step_def chunk_text_def settles_def Let_def)
  then show ?case using Cons.IH [of "transcript_step m e" "c @ chunk_text mid e"] Cons.prems by simp
qed simp

text \<open>
  C14. Chunks add up: after a response has started, whatever other events are interleaved
  (other responses included), the text shown for it is the concatenation of its deltas in
  the order they arrived, until it is started again or completed.
\<close>

theorem chunks_concatenate:
  assumes "stream_inv st"
    and "se_type e = ''response_started''" "js_get (se_data e) ''message_id'' = JStr mid"
    and "\<not> list_ex (settles mid) es"
  shows "transcript (foldl stream_step st (e # es)) (JStr mid) = Some (concat (map (chunk_text mid) es))"
proof -
  have "transcript_step (transcript st) e (JStr mid) = Some []"
    using assms(2,3) by (simp add: transcript_step_def Let_def)
  then show ?thesis
    using stream.run_simulation [OF assms(1), of "e # es"] transcript_chunks [OF assms(4)] by simp
qed

definition stream_event :: "string \<Rightarrow> string \<Rightarrow> (string \<times> js) list \<Rightarrow> sse_event" where
  "stream_event ty mid kvs = \<lparr>se_type = ty, se_data = JObj ((''message_id'', JStr mid) # kvs),
     se_time = JNull, se_id = JNull\<rparr>"

definition stream_start :: stream_state where
  "stream_start = \<lparr>connected = False, stream_error = None, messages = [], is_streaming = False,
     stats = no_stats, streaming_ref = JNull\<rparr>"

lemma chunks_concatenate_witness:
  "transcript (foldl stream_step stream_start (stream_event ''response_started'' ''m1'' [] #
      [stream_event ''response_chunk'' ''m1'' [(''delta'', JStr ''Hel'')],
       stream_event ''response_started'' ''m2'' [],
       stream_event ''response_chunk'' ''m1'' [(''delta'', JStr ''lo'')]])) (JStr ''m1'')
   = Some (concat (map (chunk_text ''m1'')
      [stream_event ''response_chunk'' ''m1'' [(''delta'', JStr ''Hel'')],
       stream_event ''response_started'' ''m2'' [],
       stream_event ''response_chunk'' ''m1'' [(''delta'', JStr ''lo'')]]))"
  by (rule chunks_concatenate)
    (simp_all add: stream_inv_def stream_start_def stream_event_def settles_def)

text \<open>
  The transcript only grows: no event removes a message, moves one, or changes who
  wrote it.
\<close>

theorem messages_append_only:
  "prefix (message_keys (messages st)) (message_keys (messages (foldl stream_step st es)))"
proof (induction es arbitrary: st)
  case (Cons e es)
  have "prefix (message_keys (messages st)) (message_keys (messages (stream_step st e)))"
    by (simp add: stream_step_def Let_def stop_streaming_def)
  from prefix_order.trans [OF this Cons [of "stream_step st e"]] show ?case by simp
qed simp

text \<open>
  The full response of a completion is used only when no chunk arrived at all: after a
  single non-empty chunk the shown text stays that chunk, whatever the full response is,
  although the code documents the fallback for missed chunks.
\<close>

theorem missed_chunks_not_repaired:
  "transcript (foldl stream_step st [stream_event ''response_started'' mid [],
       stream_event ''response_chunk'' mid [(''delta'', JStr (c # d))],
       stream_event ''response_completed'' mid [(''full_response'', JStr full)]]) (JStr mid) = Some (c # d)
   \<and> transcript (foldl stream_step st [stream_event ''response_started'' mid [],
       stream_event ''response_completed'' mid [(''full_response'', JStr full)]]) (JStr mid) = Some full"
  by (simp add: transcript_simulation transcript_step_def stream_event_def Let_def)

text \<open>
  A message sent from the panel is shown twice once the backend's own event for it
  arrives: the optimistic copy has a local id that nothing reconciles.
\<close>

theorem sent_message_shown_twice:
  "map (\<lambda>m. (sm_role m, sm_content m)) (messages (stream_step (add_user_message now stamp (c # cs) st)
      (stream_event ''message_received'' mid [(''content'', JStr (c # cs))])))
   = map (\<lambda>m. (sm_role m, sm_content m)) (messages st) @ [(UserRole, c # cs), (UserRole, c # cs)]"
  by (simp add: stream_step_def stream_event_def add_user_message_def new_message_def Let_def)

definition log_event :: "string \<Rightarrow> string \<Rightarrow> conv_event" where
  "log_event ty i = \<lparr>ev_id = i, ev_event_id = i, ev_type = ty, ev_time = [], ev_seq = 0, ev_data = JObj []\<rparr>"

lemma loop_append:
  "\<exists>c'. timeline_loop evs r c (es @ fs) = timeline_loop evs r c es @ timeline_loop evs r c' fs"
proof (induction es arbitrary: c)
  case (Cons e es)
  obtain c' where "timeline_loop evs r (snd (timeline_step evs r c e)) (es @ fs) =
      timeline_loop evs r (snd (timeline_step evs r c e)) es @ timeline_loop evs r c' fs"
    using Cons by blast
  then show ?case by (auto simp: loop_Cons simp del: timeline_loop.simps)
qed auto

lemma build_last:
  assumes "\<And>evs r c. fst (timeline_step evs r c e) = Some i"
  shows "\<exists>pre. build_timeline (es @ [e]) = pre @ [i]"
proof -
  obtain c' where "build_timeline (es @ [e]) =
      timeline_loop (es @ [e]) (completed_responses (es @ [e])) [] es
      @ timeline_loop (es @ [e]) (completed_responses (es @ [e])) c' [e]"
    unfolding build_timeline_def using loop_append by blast
  moreover have "timeline_loop xs r c [e] = [i]" for xs r c
    using assms [of xs r c] by (simp add: loop_Cons del: timeline_loop.simps(2))
  ultimately show ?thesis by auto
qed

text \<open>
  The status of a conversation flips back: with the completed response last it is ended,
  with the turn summary that the backend logs after it the same conversation is active.
\<close>

theorem status_flips_after_turn:
  "derive_status (build_timeline (es @ [log_event ''response_completed'' i])) = Ended
   \<and> derive_status (build_timeline ((es @ [log_event ''response_completed'' i]) @ [log_event ''turn_completed'' j]))
     = Active
   \<and> derive_status (build_timeline (es @ [log_event ''done'' j])) = Ended"
proof -
  have "fst (timeline_step evs r c (log_event ''response_completed'' i)) =
      Some (AgentResponse i [] (JStr []) JUndefined JUndefined JUndefined Completed)" for evs r c
    by (simp add: timeline_step_def log_event_def Let_def)
  from build_last [OF this] obtain p where
    "build_timeline (es @ [log_event ''response_completed'' i]) =
      p @ [AgentResponse i [] (JStr []) JUndefined JUndefined JUndefined Completed]" by blast
  moreover have "fst (timeline_step evs r c (log_event ''turn_completed'' j)) =
      Some (TurnSummary j [] JUndefined JUndefined JUndefined JUndefined JUndefined JUndefined)" for evs r c
    by (simp add: timeline_step_def log_event_def Let_def)
  from build_last [OF this, of "es @ [log_event ''response_completed'' i]"] obtain q where
    "build_timeline ((es @ [log_event ''response_completed'' i]) @ [log_event ''turn_completed'' j]) =
      q @ [TurnSummary j [] JUndefined JUndefined JUndefined JUndefined JUndefined JUndefined]" by blast
  moreover have "fst (timeline_step evs r c (log_event ''done'' j)) = Some (DoneItem j [])" for evs r c
    by (simp add: timeline_step_def log_event_def Let_def)
  from build_last [OF this, of es] obtain u where
    "build_timeline (es @ [log_event ''done'' j]) = u @ [DoneItem j []]" by blast
  ultimately show ?thesis by (simp add: derive_status_def)
qed

end
