(* ===== verification/ConversationView.thy ===== *)
theory ConversationView
  imports ConversationStream AuthPages
begin

text \<open>
  The screens of a conversation: the cards of \<open>conversation/timeline.tsx\<close>, the live panel
  \<open>run-panel.tsx\<close> with its message input, the page \<open>conversations/[conversationId]/page.tsx\<close>
  and the hook \<open>use-conversation-approvals.ts\<close>; the number formats they share. A card is the
  texts and controls it shows and what they depend on; styling and motion are left out. The
  locale's time of day is a parameter.
\<close>

section \<open>Numbers\<close>

text \<open>
  \<open>(n / d).toFixed(f)\<close> in units of \<open>u = d / 10^f\<close>: the nearest one, and of two equally near
  ones the larger, for the double \<open>n / d\<close>. That double differs from the quotient by less than
  what separates it from any other tie, so only its side of a tie matters: it lies below the
  quotient when the quotient, scaled to 53 bits, is rounded down (to even at a half).
\<close>

fun bit_len :: "nat \<Rightarrow> nat" where
  "bit_len n = (if n = 0 then 0 else Suc (bit_len (n div 2)))"

declare bit_len.simps [simp del]

definition double_below :: "nat \<Rightarrow> nat \<Rightarrow> bool" where
  "double_below n d = (let m = n * 2 ^ (53 - bit_len (n div d)); q = m div d; r = m mod d in
     r \<noteq> 0 \<and> (2 * r < d \<or> 2 * r = d \<and> even q))"

definition fixed_units :: "nat \<Rightarrow> nat \<Rightarrow> nat \<Rightarrow> nat" where
  "fixed_units u d n = (let q = n div u; r = n mod u in
     if 2 * r < u \<or> 2 * r = u \<and> double_below n d then q else q + 1)"

definition with_decimal :: "nat \<Rightarrow> string" where
  "with_decimal k = nat_digits (k div 10) @ ''.'' @ nat_digits (k mod 10)"

definition format_tokens :: "nat \<Rightarrow> string" where
  "format_tokens n = (if 1000 \<le> n then with_decimal (fixed_units 100 1000 n) @ ''k'' else nat_digits n)"

definition format_duration :: "nat \<Rightarrow> string" where
  "format_duration ms = (if ms < 1000 then nat_digits ms @ ''ms'' else with_decimal (fixed_units 100 1000 ms) @ ''s'')"

definition panel_tokens :: "nat \<Rightarrow> string" where
  "panel_tokens n = (if 1000000 \<le> n then with_decimal (fixed_units 100000 1000000 n) @ ''M''
     else if 1000 \<le> n then nat_digits (fixed_units 1000 1000 n) @ ''k'' else nat_digits n)"

lemma rounded_down:
  fixes n a r u :: nat
  assumes "n = a + r" "2 * r \<le> u"
  shows "2 * a \<le> 2 * n + u \<and> 2 * n \<le> 2 * a + u"
  unfolding assms(1) using assms(2) by auto

lemma rounded_up:
  fixes n a r u :: nat
  assumes "n = a + r" "u \<le> 2 * r" "r < u"
  shows "2 * (a + u) \<le> 2 * n + u \<and> 2 * n \<le> 2 * (a + u) + u"
  unfolding assms(1) using assms(2, 3) by auto

lemma fixed_units_near: "0 < u \<Longrightarrow> 2 * (fixed_units u d n * u) \<le> 2 * n + u \<and> 2 * n \<le> 2 * (fixed_units u d n * u) + u"
proof -
  assume u: "0 < u"
  have n: "n = n div u * u + n mod u" by simp
  have r: "n mod u < u" using u by simp
  have s: "(n div u + 1) * u = n div u * u + u" by simp
  show ?thesis
  proof (cases "2 * (n mod u) < u \<or> 2 * (n mod u) = u \<and> double_below n d")
    case True
    then have f: "fixed_units u d n = n div u" by (simp add: fixed_units_def Let_def)
    have "2 * (n mod u) \<le> u" using True by auto
    then show ?thesis unfolding f by (rule rounded_down [OF n])
  next
    case False
    then have f: "fixed_units u d n = n div u + 1" by (simp add: fixed_units_def Let_def)
    have "u \<le> 2 * (n mod u)" using False by auto
    then show ?thesis unfolding f s by (rule rounded_up [OF n _ r])
  qed
qed

lemma fixed_units_div: "n div u \<le> fixed_units u d n \<and> fixed_units u d n \<le> n div u + 1"
  by (simp add: fixed_units_def Let_def)

lemma fixed_units_mono:
  assumes "m \<le> n" "0 < u" shows "fixed_units u d m \<le> fixed_units u d n"
proof (cases "m div u = n div u")
  case True
  have "m mod u \<le> n mod u"
  proof -
    have "m = m div u * u + m mod u" "n = n div u * u + n mod u" by simp_all
    then show ?thesis using assms(1) True by (metis add_le_cancel_left)
  qed
  moreover have "m = n" if "m mod u = n mod u" using that True by (metis div_mult_mod_eq)
  ultimately show ?thesis using True by (cases "m = n") (auto simp: fixed_units_def Let_def)
next
  case False
  then have "m div u + 1 \<le> n div u" using div_le_mono [OF assms(1), of u] by simp
  then show ?thesis using fixed_units_div [of m u d] fixed_units_div [of n u d] by linarith
qed

text \<open>
  The compact token counts never mislead by more than half of their last digit, keep the
  order of the numbers they stand for, and drop nothing below a thousand.\<close>

theorem compact_numbers_close:
  "(n < 1000 \<and> format_tokens n = nat_digits n) \<or>
   (\<exists>k. format_tokens n = with_decimal k @ ''k'' \<and> k = fixed_units 100 1000 n \<and> 100 * k \<le> n + 50 \<and> n \<le> 100 * k + 50
     \<and> (\<forall>m. fixed_units 100 1000 (n + m) \<ge> k))"
  using fixed_units_near [of 100 1000 n] fixed_units_mono [of n _ 100 1000] by (auto simp: format_tokens_def)

text \<open>A number just below the next unit is rounded up to it but printed in the old one.\<close>

lemma rounds_to_next_unit: "panel_tokens 999500 = ''1000k'' \<and> format_tokens 999950 = ''1000.0k''"
  by (simp add: panel_tokens_def format_tokens_def fixed_units_def with_decimal_def double_below_def bit_len.simps
    nat_digits.simps js_simps)

section \<open>Long texts\<close>

definition long_threshold :: nat where "long_threshold = 1200"

definition is_long :: "string \<Rightarrow> bool" where
  "is_long content \<longleftrightarrow> length content > long_threshold"

text \<open>The cut text ends with an empty line and an ellipsis (three bytes).\<close>

definition cut_mark :: string where
  "cut_mark = [CHR 0x0A, CHR 0x0A, CHR 0xE2, CHR 0x80, CHR 0xA6]"

definition displayed :: "bool \<Rightarrow> string \<Rightarrow> string" where
  "displayed expanded content = (if expanded \<or> \<not> is_long content then content else take long_threshold content @ cut_mark)"

definition show_all_button :: "bool \<Rightarrow> string \<Rightarrow> string option" where
  "show_all_button expanded content = (if \<not> is_long content then None
     else Some (if expanded then ''Show less'' else ''Show all''))"

text \<open>Nothing is hidden without a button that shows it.\<close>

lemma hidden_has_button:
  "displayed e content \<noteq> content \<Longrightarrow> show_all_button e content = Some ''Show all'' \<and> displayed (\<not> e) content = content"
  by (simp add: displayed_def show_all_button_def split: if_splits)

section \<open>Triggers\<close>

text \<open>\<open>replace(/^#+\s*/, "")\<close> is \<open>strip_hashes\<close>; \<open>replace(/^[-*]\s+/, "")\<close> needs a space.\<close>

definition strip_bullet :: "string \<Rightarrow> string" where
  "strip_bullet l = (case l of
       c # x # r \<Rightarrow> if c \<in> {CHR ''-'', CHR ''*''} \<and> is_space x then dropWhile is_space r else l
     | _ \<Rightarrow> l)"

definition preview_line :: "string \<Rightarrow> string" where
  "preview_line l = js_trim (strip_bullet (strip_hashes l))"

fun first_preview :: "string list \<Rightarrow> string" where
  "first_preview [] = []"
| "first_preview (l # ls) = (if preview_line l \<noteq> [] then preview_line l else first_preview ls)"

definition extract_trigger_preview :: "string \<Rightarrow> string" where
  "extract_trigger_preview content = first_preview (js_split (CHR 0x0A) content)"

lemma preview_from_line:
  "extract_trigger_preview content = [] \<longleftrightarrow> (\<forall>l \<in> set (js_split (CHR 0x0A) content). preview_line l = [])"
  "extract_trigger_preview content \<noteq> [] \<Longrightarrow>
   \<exists>ls l rs. js_split (CHR 0x0A) content = ls @ l # rs \<and> preview_line l = extract_trigger_preview content
     \<and> (\<forall>x \<in> set ls. preview_line x = [])"
proof -
  have a: "first_preview ps = [] \<longleftrightarrow> (\<forall>l \<in> set ps. preview_line l = [])" for ps
    by (induction ps) auto
  have b: "first_preview ps \<noteq> [] \<Longrightarrow> \<exists>ls l rs. ps = ls @ l # rs \<and> preview_line l = first_preview ps
     \<and> (\<forall>x \<in> set ls. preview_line x = [])" for ps
  proof (induction ps)
    case (Cons p ps)
    show ?case
    proof (cases "preview_line p = []")
      case True
      then obtain ls l rs where "ps = ls @ l # rs" "preview_line l = first_preview ps" "\<forall>x \<in> set ls. preview_line x = []"
        using Cons by auto
      then show ?thesis using True by (intro exI [of _ "p # ls"] exI [of _ l] exI [of _ rs]) simp
    next
      case False
      then show ?thesis by (intro exI [of _ "[]"] exI [of _ p] exI [of _ ps]) simp
    qed
  qed simp
  show "extract_trigger_preview content = [] \<longleftrightarrow> (\<forall>l \<in> set (js_split (CHR 0x0A) content). preview_line l = [])"
    by (simp add: extract_trigger_preview_def a)
  show "extract_trigger_preview content \<noteq> [] \<Longrightarrow>
   \<exists>ls l rs. js_split (CHR 0x0A) content = ls @ l # rs \<and> preview_line l = extract_trigger_preview content
     \<and> (\<forall>x \<in> set ls. preview_line x = [])"
    unfolding extract_trigger_preview_def by (rule b)
qed

section \<open>Cards\<close>

text \<open>\<open>Object.entries\<close>: the members of an object, the elements of an array under their indices.\<close>

definition object_entries :: "js \<Rightarrow> (string \<times> js) list" where
  "object_entries v = (case v of
       JObj kvs \<Rightarrow> kvs
     | JArr vs \<Rightarrow> map (\<lambda>i. (nat_digits i, vs ! i)) [0..<length vs]
     | JStr s \<Rightarrow> map (\<lambda>i. (nat_digits i, JStr [s ! i])) [0..<length s]
     | _ \<Rightarrow> [])"

definition format_arg :: "js \<Rightarrow> string" where
  "format_arg v = (case v of JStr s \<Rightarrow> s | JUndefined \<Rightarrow> ''undefined'' | JNull \<Rightarrow> ''null'' | _ \<Rightarrow> json_pretty 0 v)"

text \<open>A count that is no number is printed as it is: the comparison with it is false.\<close>

definition count_text :: "(nat \<Rightarrow> string) \<Rightarrow> js \<Rightarrow> string" where
  "count_text fmt v = (case v of JNum n \<Rightarrow> if n < 0 then int_str n else fmt (nat n) | _ \<Rightarrow> js_string v)"

text \<open>A child of an element: nothing is shown for \<open>undefined\<close>, \<open>null\<close> and booleans.\<close>

definition jsx_text :: "js \<Rightarrow> string" where
  "jsx_text v = (case v of JUndefined \<Rightarrow> [] | JNull \<Rightarrow> [] | JBool b \<Rightarrow> [] | _ \<Rightarrow> js_string v)"

record tool_view =
  tv_name :: string
  tv_icon :: string
  tv_spins :: bool
  tv_subtitle :: "string option"
  tv_badges :: "string list"
  tv_dots :: bool
  tv_duration :: "string option"
  tv_has_body :: bool
  tv_args :: "(string \<times> string) list"
  tv_result :: "string option"

definition has_body :: "tool_card \<Rightarrow> bool" where
  "has_body c \<longleftrightarrow> object_entries (tc_args c) \<noteq> [] \<or> truthy (tc_result c)"

definition toggle_tool :: "tool_card \<Rightarrow> bool \<Rightarrow> bool" where
  "toggle_tool c expanded = (if has_body c then \<not> expanded else expanded)"

definition tool_view_of :: "tool_card \<Rightarrow> bool \<Rightarrow> tool_view" where
  "tool_view_of c expanded = \<lparr>tv_name = jsx_text (tc_name c),
     tv_icon = (case tc_status c of Running \<Rightarrow> ''Wrench'' | Success \<Rightarrow> ''Checkmark'' | Failed \<Rightarrow> ''Alert''),
     tv_spins = (tc_status c = Running),
     tv_subtitle = (case tc_subtitle c of Some s \<Rightarrow> if s = [] then None else Some s | None \<Rightarrow> None),
     tv_badges = (case tc_meta c of Some m \<Rightarrow> m | None \<Rightarrow> []),
     tv_dots = (tc_status c = Running),
     tv_duration = (if tc_status c = Running \<or> nullish (tc_duration c) then None
       else Some (count_text format_duration (tc_duration c))),
     tv_has_body = has_body c,
     tv_args = (if expanded \<and> has_body c then map (\<lambda>(k, v). (k, format_arg v)) (object_entries (tc_args c)) else []),
     tv_result = (if expanded \<and> has_body c \<and> truthy (tc_result c) then Some (jsx_text (tc_result c)) else None)\<rparr>"

datatype card =
    StartedMark string
  | TriggerCard string nat string "string option"
  | ResponseCard string "string option" "string option" "(string \<times> string) option"
  | ToolCard tool_view
  | TurnMark string string string string
  | EndedMark string

text \<open>
  \<open>expanded\<close> is the card's own state. A response that is being streamed shows dots (no text)
  until it has some; its content is read as a text, which is what the backend sends.
\<close>

fun render_item :: "(string \<Rightarrow> string) \<Rightarrow> bool \<Rightarrow> timeline_item \<Rightarrow> card" where
  "render_item tod expanded (ConversationCreated i t) = StartedMark (tod t)"
| "render_item tod expanded (MessageReceived i t c) =
     TriggerCard (extract_trigger_preview (js_string c)) (length (js_split (CHR 0x0A) (js_string c))) (tod t)
       (if expanded then Some (js_string c) else None)"
| "render_item tod expanded (AgentResponse i t c model input output status) =
     ResponseCard (tod t) (if truthy model then Some (jsx_text model) else None)
       (if status = Streaming \<and> \<not> truthy c then None else Some (displayed expanded (js_string c)))
       (if status = Completed \<and> \<not> nullish input \<and> \<not> nullish output
        then Some (count_text format_tokens input, count_text format_tokens output) else None)"
| "render_item tod expanded (ToolCall c) = ToolCard (tool_view_of c expanded)"
| "render_item tod expanded (TurnSummary i t turn model input output ci co) =
     TurnMark (jsx_text turn) (jsx_text model) (count_text format_tokens input) (count_text format_tokens output)"
| "render_item tod expanded (DoneItem i t) = EndedMark (tod t)"

definition format_timestamp :: "(string \<Rightarrow> string option) \<Rightarrow> string \<Rightarrow> string" where
  "format_timestamp locale_time t = (if t = [] then [] else (case locale_time t of None \<Rightarrow> [] | Some s \<Rightarrow> s))"

text \<open>The list of cards with their keys; \<open>open_cards\<close> are the keys of the expanded ones.\<close>

definition conversation_timeline :: "(string \<Rightarrow> string option) \<Rightarrow> string set \<Rightarrow> timeline_item list \<Rightarrow> (string \<times> card) list" where
  "conversation_timeline locale_time open_cards items =
     map (\<lambda>i. (item_id i, render_item (format_timestamp locale_time) (item_id i \<in> open_cards) i)) items"

lemma distinct_subseq: "subseq xs ys \<Longrightarrow> distinct ys \<Longrightarrow> distinct xs"
  by (auto simp: subseq_conv_nths)

text \<open>
  Every item of the timeline is one card, in order, under the key of its event; when the
  events have distinct ids no two cards share a key, whatever is expanded.\<close>

theorem timeline_cards_keyed:
  assumes "distinct (map ev_id evs)"
  shows "distinct (map fst (conversation_timeline tod open_cards (build_timeline evs)))
    \<and> length (conversation_timeline tod open_cards (build_timeline evs)) = length (build_timeline evs)
    \<and> subseq (map fst (conversation_timeline tod open_cards (build_timeline evs))) (map ev_id evs)"
proof -
  have k: "map fst (conversation_timeline tod open_cards items) = map item_id items" for items
    by (simp add: conversation_timeline_def comp_def)
  have sub: "subseq (map item_id (build_timeline evs)) (map ev_id evs)"
    unfolding build_timeline_def by (rule loop_subseq)
  show ?thesis unfolding k using sub distinct_subseq [OF sub assms] by (simp add: conversation_timeline_def)
qed

lemma timeline_cards_keyed_witness:
  "distinct (map fst (conversation_timeline (\<lambda>_. None) {} (build_timeline
     [tool_event ''tool_call_started'' ''e1'' ''t1'', tool_event ''tool_call_completed'' ''e2'' ''t1''])))"
proof -
  have "distinct (map ev_id [tool_event ''tool_call_started'' ''e1'' ''t1'', tool_event ''tool_call_completed'' ''e2'' ''t1''])"
    by (simp add: tool_event_def)
  from timeline_cards_keyed [OF this] show ?thesis by (rule conjunct1)
qed

lemma tool_body_collapsed: "tv_args (tool_view_of c False) = [] \<and> tv_result (tool_view_of c False) = None"
  by (simp add: tool_view_of_def)

lemma tool_body_on_demand:
  "tv_args (tool_view_of c (toggle_tool c False)) = map (\<lambda>(k, v). (k, format_arg v)) (object_entries (tc_args c))"
  by (cases "has_body c") (simp_all add: tool_view_of_def toggle_tool_def, simp add: has_body_def)

lemma tool_result_on_demand:
  "truthy (tc_result c) \<Longrightarrow> tv_result (tool_view_of c (toggle_tool c False)) = Some (jsx_text (tc_result c))"
  by (cases "has_body c") (simp_all add: tool_view_of_def toggle_tool_def, simp add: has_body_def)

lemma running_card: "tc_status c = Running \<Longrightarrow> tv_duration (tool_view_of c e) = None \<and> tv_dots (tool_view_of c e)"
  by (simp add: tool_view_of_def)

section \<open>The run panel\<close>

text \<open>
  The panel keeps the stream, the text of its message input, whether a message is being sent,
  and the timer that closes it. \<open>connecting\<close> is the loading of the stream token. The input is
  there while the panel is active; when it goes, its text goes with it.
\<close>

record run_panel =
  rp_stream :: stream_state
  rp_connecting :: bool
  rp_text :: string
  rp_sending :: bool
  rp_sent :: "string list"
  rp_toasts :: "string list"
  rp_closing :: bool
  rp_timers :: nat
  rp_closed :: nat

definition is_active :: "run_panel \<Rightarrow> bool" where
  "is_active st \<longleftrightarrow> connected (rp_stream st) \<or> rp_connecting st"

definition handle_send_message :: "int \<Rightarrow> string \<Rightarrow> string \<Rightarrow> run_panel \<Rightarrow> run_panel" where
  "handle_send_message now stamp content st = st\<lparr>rp_stream := add_user_message now stamp content (rp_stream st),
     rp_sent := rp_sent st @ [content], rp_sending := True\<rparr>"

text \<open>\<open>handleSend\<close> of the message input.\<close>

definition input_send :: "int \<Rightarrow> string \<Rightarrow> run_panel \<Rightarrow> run_panel" where
  "input_send now stamp st = (if js_trim (rp_text st) = [] then st
     else (handle_send_message now stamp (js_trim (rp_text st)) st)\<lparr>rp_text := []\<rparr>)"

definition message_settled :: "js option \<Rightarrow> run_panel \<Rightarrow> run_panel" where
  "message_settled err st = (if \<not> rp_sending st then st
     else (case err of
         None \<Rightarrow> st\<lparr>rp_sending := False\<rparr>
       | Some e \<Rightarrow> st\<lparr>rp_sending := False, rp_toasts := rp_toasts st @ [extract_error_message e ''Failed to send message'']\<rparr>))"

definition handle_close :: "run_panel \<Rightarrow> run_panel" where
  "handle_close st = st\<lparr>rp_closing := True, rp_timers := Suc (rp_timers st)\<rparr>"

definition close_timer :: "run_panel \<Rightarrow> run_panel" where
  "close_timer st = (if rp_timers st = 0 then st else st\<lparr>rp_timers := rp_timers st - 1, rp_closed := Suc (rp_closed st)\<rparr>)"

definition unmount_input :: "run_panel \<Rightarrow> run_panel" where
  "unmount_input st = (if is_active st then st else st\<lparr>rp_text := []\<rparr>)"

datatype panel_event = TypeMessage string | EnterKey bool int string | SendButton int string | MessageSettled "js option"
  | CloseButton | CloseTimer | StreamSignal bool stream_signal | TokenLoading bool

definition panel_step :: "run_panel \<Rightarrow> panel_event \<Rightarrow> run_panel" where
  "panel_step st e = (case e of
       TypeMessage s \<Rightarrow> if is_active st \<and> \<not> rp_sending st then st\<lparr>rp_text := s\<rparr> else st
     | EnterKey shift now stamp \<Rightarrow> if is_active st \<and> \<not> rp_sending st \<and> \<not> shift then input_send now stamp st else st
     | SendButton now stamp \<Rightarrow>
         if is_active st \<and> js_trim (rp_text st) \<noteq> [] \<and> \<not> rp_sending st then input_send now stamp st else st
     | MessageSettled r \<Rightarrow> message_settled r st
     | CloseButton \<Rightarrow> handle_close st
     | CloseTimer \<Rightarrow> close_timer st
     | StreamSignal aborted sg \<Rightarrow> unmount_input (st\<lparr>rp_stream := on_signal aborted (rp_stream st) sg\<rparr>)
     | TokenLoading b \<Rightarrow> unmount_input (st\<lparr>rp_connecting := b\<rparr>))"

text \<open>A new token restarts the stream.\<close>

definition panel_restart :: "string \<Rightarrow> string \<Rightarrow> run_panel \<Rightarrow> run_panel" where
  "panel_restart conversation token st =
     unmount_input (st\<lparr>rp_stream := connect_effect (Some conversation) (Some token) (rp_stream st)\<rparr>)"

text \<open>What the panel shows.\<close>

definition last_agent_idx :: "stream_message list \<Rightarrow> nat option" where
  "last_agent_idx ms = find_last_index (\<lambda>m. sm_role m = AgentRole) ms"

definition animates :: "run_panel \<Rightarrow> nat \<Rightarrow> bool" where
  "animates st i \<longleftrightarrow> last_agent_idx (messages (rp_stream st)) = Some i \<and> is_streaming (rp_stream st)"

datatype message_view = UserText string | AgentText string bool | AgentDots | AgentEmpty | ErrorText string

definition render_message :: "run_panel \<Rightarrow> nat \<Rightarrow> message_view" where
  "render_message st i = (let m = messages (rp_stream st) ! i in
     (case sm_role m of
        UserRole \<Rightarrow> UserText (sm_content m)
      | AgentRole \<Rightarrow> if sm_content m \<noteq> [] then AgentText (sm_content m) (animates st i)
          else if animates st i then AgentDots else AgentEmpty
      | ErrorRole \<Rightarrow> ErrorText (sm_content m)))"

record panel_view =
  pw_title :: string
  pw_active_dot :: bool
  pw_kill_button :: bool
  pw_connecting :: bool
  pw_error :: "string option"
  pw_waiting :: bool
  pw_messages :: "message_view list"
  pw_input :: "string \<times> string"
  pw_model :: "string option"
  pw_message_input :: bool

definition panel_view_of :: "run_panel \<Rightarrow> panel_view" where
  "panel_view_of st = (let s = rp_stream st in
     \<lparr>pw_title = (if rp_connecting st then ''Connecting...'' else ''Run''),
      pw_active_dot = is_active st, pw_kill_button = connected s, pw_connecting = rp_connecting st,
      pw_error = (if messages s = [] then (case stream_error s of Some e \<Rightarrow> if e = [] then None else Some e | None \<Rightarrow> None) else None),
      pw_waiting = (connected s \<and> messages s = [] \<and> (stream_error s = None \<or> stream_error s = Some [])),
      pw_messages = map (render_message st) [0..<length (messages s)],
      pw_input = (count_text panel_tokens (ts_input (stats s)), count_text panel_tokens (ts_output (stats s))),
      pw_model = (if truthy (ts_model (stats s)) then Some (jsx_text (ts_model (stats s))) else None),
      pw_message_input = is_active st\<rparr>)"

text \<open>Auto-scroll: the distance from the bottom decides whether new messages move the view.\<close>

definition handle_scroll :: "int \<Rightarrow> int \<Rightarrow> int \<Rightarrow> bool" where
  "handle_scroll height scrolled client \<longleftrightarrow> height - scrolled - client < 80"

definition scroll_effect :: "bool \<Rightarrow> int \<Rightarrow> int \<Rightarrow> int" where
  "scroll_effect should_scroll height scrolled = (if should_scroll then height else scrolled)"

section \<open>Lemmas on the panel\<close>

definition user_texts :: "stream_state \<Rightarrow> string list" where
  "user_texts st = map sm_content (filter (\<lambda>m. sm_role m = UserRole) (messages st))"

lemma user_texts_update:
  assumes "keeps_key f"
  shows "filter (\<lambda>m. sm_role m = UserRole) (update_agent mid f ms) = filter (\<lambda>m. sm_role m = UserRole) ms"
proof (cases "find_last_index (agent_message mid) ms")
  case None
  then show ?thesis by (simp add: update_agent_def)
next
  case (Some i)
  then have i: "i < length ms" "sm_role (ms ! i) = AgentRole"
    using last_index_Some [OF Some] by (simp_all add: agent_message_def)
  then have f: "sm_role (f (ms ! i)) = AgentRole" using assms by (simp add: keeps_key_def)
  have "filter (\<lambda>m. sm_role m = UserRole) ms = filter (\<lambda>m. sm_role m = UserRole) (take i ms @ ms ! i # drop (Suc i) ms)"
    using id_take_nth_drop [OF i(1)] by (rule arg_cong)
  then have "filter (\<lambda>m. sm_role m = UserRole) ms = filter (\<lambda>m. sm_role m = UserRole) (take i ms)
      @ filter (\<lambda>m. sm_role m = UserRole) (drop (Suc i) ms)"
    using i(2) unfolding filter_append filter.simps by simp
  then show ?thesis using Some i f by (simp add: update_agent_def upd_conv_take_nth_drop)
qed

lemma user_texts_step: "\<exists>ts. user_texts (stream_step st e) = user_texts st @ ts"
  by (auto simp: stream_step_def Let_def user_texts_def new_message_def stop_streaming_def user_texts_update)

lemma user_texts_message: "on_message t st = Some st' \<Longrightarrow> \<exists>ts. user_texts st' = user_texts st @ ts"
  using user_texts_step by (fastforce simp: on_message_def split: if_splits option.splits js.splits)

lemma user_texts_signal: "\<exists>ts. user_texts (on_signal aborted st sg) = user_texts st @ ts"
proof (cases sg)
  case (Text t)
  then show ?thesis using user_texts_message [of t st]
    by (cases "on_message t st") (auto simp: on_signal_def on_error_def user_texts_def)
qed (auto simp: on_signal_def on_error_def user_texts_def)

definition panel_inv :: "run_panel \<Rightarrow> bool" where
  "panel_inv st \<longleftrightarrow> subseq (rp_sent st) (user_texts (rp_stream st))
     \<and> list_all (\<lambda>c. c \<noteq> [] \<and> js_trim c = c) (rp_sent st) \<and> (\<not> is_active st \<longrightarrow> rp_text st = [])"

lemma inv_send:
  assumes "panel_inv st" "js_trim (rp_text st) \<noteq> []" shows "panel_inv (input_send now stamp st)"
proof -
  have "user_texts (add_user_message now stamp c s) = user_texts s @ [c]" for c s
    by (simp add: user_texts_def add_user_message_def new_message_def)
  then show ?thesis using assms
    by (simp add: panel_inv_def input_send_def handle_send_message_def list_emb_append_mono is_active_def add_user_message_def)
qed

lemma inv_stream:
  assumes "panel_inv st" shows "panel_inv (unmount_input (st\<lparr>rp_stream := on_signal aborted (rp_stream st) sg\<rparr>))"
proof -
  obtain ts where "user_texts (on_signal aborted (rp_stream st) sg) = user_texts (rp_stream st) @ ts"
    using user_texts_signal by blast
  then show ?thesis using assms list_emb_prefix
    by (auto simp: panel_inv_def unmount_input_def is_active_def)
qed

lemma panel_inv_step: "panel_inv st \<Longrightarrow> panel_inv (panel_step st e)"
proof (cases e)
  case (StreamSignal a sg)
  then show "panel_inv st \<Longrightarrow> ?thesis" using inv_stream by (simp add: panel_step_def)
next
  case (EnterKey sh now stamp)
  then show "panel_inv st \<Longrightarrow> ?thesis"
    using inv_send by (cases "js_trim (rp_text st) = []") (simp_all add: panel_step_def input_send_def)
next
  case (SendButton now stamp)
  then show "panel_inv st \<Longrightarrow> ?thesis" using inv_send by (simp add: panel_step_def)
next
  case (MessageSettled r)
  then show "panel_inv st \<Longrightarrow> ?thesis"
    by (simp add: panel_step_def message_settled_def panel_inv_def is_active_def split: option.split)
qed (auto simp: panel_step_def panel_inv_def is_active_def unmount_input_def handle_close_def close_timer_def)

interpretation panel: event_machine panel_step panel_inv
  by unfold_locales (rule panel_inv_step)

definition panel_start :: "stream_state \<Rightarrow> bool \<Rightarrow> run_panel" where
  "panel_start s c = \<lparr>rp_stream = s, rp_connecting = c, rp_text = [], rp_sending = False, rp_sent = [], rp_toasts = [],
     rp_closing = False, rp_timers = 0, rp_closed = 0\<rparr>"


text \<open>At most one message animates, and none after the turn.\<close>

lemma one_animates: "animates st i \<Longrightarrow> animates st j \<Longrightarrow> i = j"
  by (simp add: animates_def)

text \<open>A restart of the stream takes the sent messages off the screen.\<close>

lemma restart_hides_sent:
  "conversation \<noteq> [] \<Longrightarrow> user_texts (rp_stream (panel_restart conversation token st)) = []
   \<and> rp_sent (panel_restart conversation token st) = rp_sent st"
  by (simp add: panel_restart_def connect_effect_def unmount_input_def user_texts_def is_active_def)

text \<open>A draft is lost when the stream closes.\<close>

lemma close_drops_draft:
  "rp_text (panel_step (panel_start stream_start False \<lparr>rp_connecting := True, rp_text := ''draft''\<rparr>) (TokenLoading False)) = []"
  by (simp add: panel_step_def panel_start_def unmount_input_def is_active_def stream_start_def)

text \<open>Two clicks on close within its delay close twice.\<close>

lemma close_twice:
  "rp_closed (foldl panel_step (panel_start s c) [CloseButton, CloseButton, CloseTimer, CloseTimer]) = 2"
  by (simp add: panel_step_def panel_start_def handle_close_def close_timer_def)

section \<open>Approvals\<close>

record approval_call =
  av_path :: string
  av_conversation :: string
  av_request :: string
  av_decision :: string

definition approve :: "string option \<Rightarrow> string \<Rightarrow> approval_call option" where
  "approve conversation request = (case conversation of
       None \<Rightarrow> None
     | Some c \<Rightarrow> if c = [] then None else Some \<lparr>av_path = ''/v1/conversations/{convID}/approvals/{requestID}'',
         av_conversation = c, av_request = request, av_decision = ''approve''\<rparr>)"

definition deny :: "string option \<Rightarrow> string \<Rightarrow> approval_call option" where
  "deny conversation request = (case conversation of
       None \<Rightarrow> None
     | Some c \<Rightarrow> if c = [] then None else Some \<lparr>av_path = ''/v1/conversations/{convID}/approvals/{requestID}'',
         av_conversation = c, av_request = request, av_decision = ''deny''\<rparr>)"

text \<open>The list is fetched again and the caller told, or the caller gets the error.\<close>

datatype approval_effect = RefetchApprovals | CallerSuccess | CallerError string

definition approve_settled :: "js option \<Rightarrow> approval_effect list" where
  "approve_settled err = (case err of None \<Rightarrow> [RefetchApprovals, CallerSuccess]
     | Some e \<Rightarrow> [CallerError (extract_error_message e ''Failed to approve'')])"

definition deny_settled :: "js option \<Rightarrow> approval_effect list" where
  "deny_settled err = (case err of None \<Rightarrow> [RefetchApprovals, CallerSuccess]
     | Some e \<Rightarrow> [CallerError (extract_error_message e ''Failed to deny'')])"

definition approvals_query :: "string option \<Rightarrow> string \<times> bool" where
  "approvals_query conversation = (case conversation of None \<Rightarrow> ([], False) | Some c \<Rightarrow> (c, True))"

lemma decisions_differ: "approve conversation r = Some a \<Longrightarrow> deny conversation r' = Some d \<Longrightarrow>
    av_decision a \<noteq> av_decision d \<and> av_request a = r \<and> av_request d = r' \<and> av_conversation a = av_conversation d"
  by (auto simp: approve_def deny_def split: option.splits if_splits)

section \<open>The conversation page\<close>

datatype page_body = PageSkeleton | PageFailed | PageEmpty | PageTimeline "(string \<times> card) list" bool

record conversation_page =
  cp_title :: string
  cp_live :: bool
  cp_body :: page_body
  cp_model :: "string option"

fun response_model :: "timeline_item \<Rightarrow> js option" where
  "response_model (AgentResponse _ _ _ m _ _ _) = Some m"
| "response_model _ = None"

definition model_label :: "timeline_item list \<Rightarrow> js option" where
  "model_label items = (case find (\<lambda>i. response_model i \<noteq> None) (rev items) of Some i \<Rightarrow> response_model i | None \<Rightarrow> None)"

definition conversation_page_of ::
  "(string \<Rightarrow> string option) \<Rightarrow> string set \<Rightarrow> string \<Rightarrow> bool \<Rightarrow> bool \<Rightarrow> (raw_event list \<times> bool) option \<Rightarrow> string option \<Rightarrow> conversation_page" where
  "conversation_page_of locale_time open_cards conversation loading failed data name =
     (let items = build_timeline (normalize_events (case data of None \<Rightarrow> [] | Some (es, b) \<Rightarrow> es)) in
      \<lparr>cp_title = (case name of Some n \<Rightarrow> if n = [] then derive_title items (take 8 conversation) else n
         | None \<Rightarrow> derive_title items (take 8 conversation)),
       cp_live = (derive_status items = Active),
       cp_body = (if loading then PageSkeleton else if failed then PageFailed else if items = [] then PageEmpty
         else PageTimeline (conversation_timeline locale_time open_cards items) (case data of None \<Rightarrow> False | Some (es, b) \<Rightarrow> b)),
       cp_model = map_option jsx_text (model_label items)\<rparr>)"

text \<open>The side panels share the height.\<close>

definition panel_heights :: "bool \<Rightarrow> bool \<Rightarrow> nat option \<times> nat option" where
  "panel_heights browser terminal =
     (if browser then Some (if terminal then 60 else 100) else None, if terminal then Some (if browser then 40 else 100) else None)"

lemma panel_heights_fill:
  "browser \<or> terminal \<Longrightarrow> (case fst (panel_heights browser terminal) of Some h \<Rightarrow> h | None \<Rightarrow> 0)
     + (case snd (panel_heights browser terminal) of Some h \<Rightarrow> h | None \<Rightarrow> 0) = 100"
  by (auto simp: panel_heights_def)

lemma find_append: "find P (xs @ ys) = (case find P xs of Some x \<Rightarrow> Some x | None \<Rightarrow> find P ys)"
  by (induction xs) auto

lemma model_label_last:
  "model_label (xs @ [AgentResponse i t c m a b s] @ ys) = (if list_all (\<lambda>y. response_model y = None) ys then Some m else model_label ys)"
proof (cases "list_all (\<lambda>y. response_model y = None) ys")
  case True
  then have "find (\<lambda>i. response_model i \<noteq> None) (rev ys) = None" by (simp add: find_None_iff list_all_iff)
  then show ?thesis using True by (simp add: model_label_def find_append)
next
  case False
  then obtain y where "find (\<lambda>i. response_model i \<noteq> None) (rev ys) = Some y"
    by (cases "find (\<lambda>i. response_model i \<noteq> None) (rev ys)") (auto simp: find_None_iff list_all_iff)
  then show ?thesis using False by (simp add: model_label_def find_append)
qed

end
