(* ===== verification/AppShell.thy ===== *)
theory AppShell
  imports ConversationView
begin

text \<open>
  What surrounds the pages of both applications: the theme shortcut of
  \<open>components/theme-provider.tsx\<close> (the same file in both), the side bar of the admin application
  (\<open>components/ui/sidebar.tsx\<close>) with \<open>hooks/use-mobile.ts\<close>, the logo of a provider, and the figures
  of the overview and of the sandboxes page with their formats. The width of the window and
  the document's cookies are what the code reads and writes of the browser.
\<close>

section \<open>Key strokes\<close>

datatype key_target = Editable | Element string | NoElement

record key_stroke =
  ks_key :: string
  ks_meta :: bool
  ks_ctrl :: bool
  ks_alt :: bool
  ks_repeat :: bool
  ks_prevented :: bool
  ks_where :: key_target

definition is_typing_target :: "key_target \<Rightarrow> bool" where
  "is_typing_target t = (case t of
       NoElement \<Rightarrow> False | Editable \<Rightarrow> True
     | Element tag \<Rightarrow> tag = ''INPUT'' \<or> tag = ''TEXTAREA'' \<or> tag = ''SELECT'')"

text \<open>The theme that the key sets, if it sets one.\<close>

definition theme_key :: "string option \<Rightarrow> key_stroke \<Rightarrow> string option" where
  "theme_key resolved k =
     (if ks_prevented k \<or> ks_repeat k then None
      else if ks_meta k \<or> ks_ctrl k \<or> ks_alt k then None
      else if to_lower (ks_key k) \<noteq> ''d'' then None
      else if is_typing_target (ks_where k) then None
      else Some (if resolved = Some ''dark'' then ''light'' else ''dark''))"

definition theme_step :: "string option \<Rightarrow> key_stroke \<Rightarrow> string option" where
  "theme_step resolved k = (case theme_key resolved k of None \<Rightarrow> resolved | Some t \<Rightarrow> Some t)"

lemma typing_keeps_theme: "is_typing_target (ks_where k) \<Longrightarrow> theme_step resolved k = resolved"
  by (simp add: theme_step_def theme_key_def)

lemma theme_key_twice:
  "theme_key (Some t) k \<noteq> None \<Longrightarrow> t \<in> {''light'', ''dark''} \<Longrightarrow> theme_step (theme_step (Some t) k) k = Some t"
  by (auto simp: theme_step_def theme_key_def split: if_splits)

section \<open>The side bar\<close>

definition mobile_breakpoint :: int where "mobile_breakpoint = 768"

text \<open>Unknown until the effect has run, and then not mobile.\<close>

definition use_is_mobile :: "int option \<Rightarrow> bool" where
  "use_is_mobile width = (case width of None \<Rightarrow> False | Some w \<Rightarrow> w < mobile_breakpoint)"

record side_bar =
  sb_open :: bool
  sb_owner :: "bool option"
  sb_reports :: "bool list"
  sb_mobile :: bool
  sb_width :: "int option"
  sb_cookie :: "string option"

definition side_bar_init :: "bool option \<Rightarrow> bool \<Rightarrow> side_bar" where
  "side_bar_init owner default_open = \<lparr>sb_open = default_open, sb_owner = owner, sb_reports = [], sb_mobile = False,
     sb_width = None, sb_cookie = None\<rparr>"

definition side_bar_shown :: "side_bar \<Rightarrow> bool" where
  "side_bar_shown st = (case sb_owner st of None \<Rightarrow> sb_open st | Some b \<Rightarrow> b)"

definition bool_text :: "bool \<Rightarrow> string" where
  "bool_text b = (if b then ''true'' else ''false'')"

definition side_bar_cookie :: "bool \<Rightarrow> string" where
  "side_bar_cookie b = ''sidebar_state='' @ bool_text b @ ''; path=/; max-age=604800''"

text \<open>The owner, when there is one, is told; without one the state is kept here.\<close>

definition set_side_bar :: "bool \<Rightarrow> side_bar \<Rightarrow> side_bar" where
  "set_side_bar b st = (if sb_owner st \<noteq> None then st\<lparr>sb_reports := sb_reports st @ [b]\<rparr> else st\<lparr>sb_open := b\<rparr>)
     \<lparr>sb_cookie := Some (side_bar_cookie b)\<rparr>"

definition toggle_side_bar :: "side_bar \<Rightarrow> side_bar" where
  "toggle_side_bar st = (if use_is_mobile (sb_width st) then st\<lparr>sb_mobile := \<not> sb_mobile st\<rparr>
     else set_side_bar (\<not> side_bar_shown st) st)"

definition side_bar_key :: "key_stroke \<Rightarrow> bool" where
  "side_bar_key k \<longleftrightarrow> ks_key k = ''b'' \<and> (ks_meta k \<or> ks_ctrl k)"

datatype shell_event = TriggerClick | ShellKey key_stroke | SheetChange bool | WindowResized int

definition side_bar_step :: "side_bar \<Rightarrow> shell_event \<Rightarrow> side_bar" where
  "side_bar_step st e = (case e of
       TriggerClick \<Rightarrow> toggle_side_bar st
     | ShellKey k \<Rightarrow> if side_bar_key k then toggle_side_bar st else st
     | SheetChange b \<Rightarrow> if use_is_mobile (sb_width st) then st\<lparr>sb_mobile := b\<rparr> else st
     | WindowResized w \<Rightarrow> st\<lparr>sb_width := Some w\<rparr>)"

definition side_bar_inv :: "bool \<Rightarrow> side_bar \<Rightarrow> bool" where
  "side_bar_inv d st \<longleftrightarrow> sb_owner st = None \<and>
     (case sb_cookie st of None \<Rightarrow> sb_open st = d | Some c \<Rightarrow> c = side_bar_cookie (sb_open st))"

lemma side_bar_inv_toggle: "side_bar_inv d st \<Longrightarrow> side_bar_inv d (toggle_side_bar st)"
  by (auto simp: side_bar_inv_def toggle_side_bar_def set_side_bar_def side_bar_shown_def split: option.split)

lemma side_bar_inv_step: "side_bar_inv d st \<Longrightarrow> side_bar_inv d (side_bar_step st e)"
  by (cases e) (simp_all add: side_bar_step_def side_bar_inv_toggle, auto simp: side_bar_inv_def split: option.split)

interpretation side_bar: event_machine side_bar_step "side_bar_inv d" for d
  by unfold_locales (rule side_bar_inv_step)

text \<open>
  The cookie of the side bar always says what is shown: after any clicks, keys and changes of
  the window it is absent with the bar as it came, or names the present state.
\<close>

theorem side_bar_cookie_true:
  "let st = foldl side_bar_step (side_bar_init None d) es in
     side_bar_shown st = sb_open st \<and> (if sb_cookie st = None then sb_open st = d else sb_cookie st = Some (side_bar_cookie (sb_open st)))"
proof -
  have "side_bar_inv d (side_bar_init None d)" by (simp add: side_bar_inv_def side_bar_init_def)
  then have "side_bar_inv d (foldl side_bar_step (side_bar_init None d) es)" by (rule side_bar.run_inv)
  then show ?thesis by (auto simp: side_bar_inv_def side_bar_shown_def Let_def split: option.splits)
qed

text \<open>
  Nobody reads that cookie: the layout mounts the provider without a default, so the bar is open
  after every reload. No key stroke is a shortcut of both the theme and the side bar. And the
  two ways of telling a small window agree on whole pixels.
\<close>

definition layout_mount :: "string option \<Rightarrow> side_bar" where
  "layout_mount stored = (side_bar_init None True)\<lparr>sb_cookie := stored\<rparr>"

lemma stored_state_ignored: "side_bar_shown (layout_mount (Some (side_bar_cookie False)))"
  by (simp add: layout_mount_def side_bar_shown_def side_bar_init_def)

lemma shortcuts_disjoint: "side_bar_key k \<Longrightarrow> theme_key resolved k = None"
  by (auto simp: side_bar_key_def theme_key_def)

lemma breakpoint_agrees: "use_is_mobile (Some w) \<longleftrightarrow> w \<le> mobile_breakpoint - 1"
  by (auto simp: use_is_mobile_def mobile_breakpoint_def)

section \<open>The logo of a provider\<close>

datatype logo_view = Letter string | Picture string

definition provider_logo :: "bool \<Rightarrow> string \<Rightarrow> logo_view" where
  "provider_logo failed provider = (if failed \<or> provider = []
     then Letter (to_upper (take 1 (if provider = [] then ''?'' else provider)))
     else Picture (''/logos/'' @ provider @ ''.svg''))"

definition size_class :: "int \<Rightarrow> string" where
  "size_class n = (case map_of [(16, ''size-4''), (20, ''size-5''), (24, ''size-6''), (28, ''size-7''), (32, ''size-8''),
     (40, ''size-10''), (48, ''size-12'')] n of None \<Rightarrow> ''size-5'' | Some c \<Rightarrow> c)"

lemma logo_never_blank: "provider_logo failed provider \<noteq> Letter []"
  by (cases provider) (simp_all add: provider_logo_def to_upper_def)

section \<open>Figures\<close>

text \<open>\<open>Intl.NumberFormat('en-US')\<close> on whole numbers: a comma before every three digits from the right.\<close>

fun group3 :: "string \<Rightarrow> string" where
  "group3 (a # b # c # d # ds) = a # b # c # CHR '','' # group3 (d # ds)"
| "group3 ds = ds"

definition group_digits :: "nat \<Rightarrow> string" where
  "group_digits n = rev (group3 (rev (nat_digits n)))"

definition format_number :: "nat option \<Rightarrow> string" where
  "format_number v = (case v of None \<Rightarrow> ''0'' | Some n \<Rightarrow> group_digits n)"

text \<open>\<open>(bytes / 1024 / 1024).toFixed(1)\<close>: the divisions by powers of two are exact, and a tie goes up.\<close>

definition memory_tenths :: "nat \<Rightarrow> nat" where
  "memory_tenths bytes = (20 * bytes + 1048576) div 2097152"

definition format_memory :: "nat option \<Rightarrow> string" where
  "format_memory b = (case b of None \<Rightarrow> ''--'' | Some n \<Rightarrow> with_decimal (memory_tenths n) @ '' MB'')"

definition two_decimals :: "nat \<Rightarrow> string" where
  "two_decimals k = nat_digits (k div 100) @ ''.'' @ nat_digits (k mod 100 div 10) @ nat_digits (k mod 10)"

text \<open>
  \<open>(usec / 1_000_000).toFixed(2)\<close>: a value below one second has more than 53 binary places, so
  whether its double lies below a tie is decided at the place its own exponent gives.
\<close>

definition fraction_below :: "nat \<Rightarrow> nat \<Rightarrow> bool" where
  "fraction_below n d = (let m = n * 2 ^ (52 + bit_len ((d - 1) div n)); q = m div d; r = m mod d in
     r \<noteq> 0 \<and> (2 * r < d \<or> 2 * r = d \<and> even q))"

definition cpu_units :: "nat \<Rightarrow> nat" where
  "cpu_units n = (if n < 1000000 \<and> n mod 10000 = 5000
     then (if fraction_below n 1000000 then n div 10000 else n div 10000 + 1)
     else fixed_units 10000 1000000 n)"

definition format_cpu :: "nat option \<Rightarrow> string" where
  "format_cpu u = (case u of None \<Rightarrow> ''--'' | Some n \<Rightarrow> two_decimals (cpu_units n) @ ''s'')"

text \<open>Ties go either way, as the doubles 0.005, 0.015, 0.045 and 1.005 do.\<close>

lemma cpu_ties: "map cpu_units [5000, 15000, 45000, 1005000] = [1, 1, 4, 100]"
  by (simp add: cpu_units_def fraction_below_def fixed_units_def double_below_def bit_len.simps Let_def)

lemma cpu_units_near: "10000 * cpu_units n \<le> n + 5000 \<and> n \<le> 10000 * cpu_units n + 5000"
proof -
  have n: "n = 10000 * (n div 10000) + n mod 10000" "n mod 10000 < 10000" by simp_all
  show ?thesis
  proof (cases "2 * (n mod 10000) < 10000")
    case True
    then have "cpu_units n = n div 10000" by (simp add: cpu_units_def fixed_units_def Let_def)
    then show ?thesis using n True by linarith
  next
    case False
    then have "cpu_units n = n div 10000 + 1 \<or> (cpu_units n = n div 10000 \<and> n mod 10000 = 5000)"
      by (auto simp: cpu_units_def fixed_units_def Let_def)
    then show ?thesis using n False by linarith
  qed
qed

lemma filter_group3: "CHR '','' \<notin> set ds \<Longrightarrow> filter (\<lambda>c. c \<noteq> CHR '','') (group3 ds) = ds"
  by (induction ds rule: group3.induct) auto

lemma nat_digits_no_comma: "CHR '','' \<notin> set (nat_digits n)"
  using JsonText.nat_digits_digits [of n] by (auto simp: JsonText.is_digit_def)

lemma plain_figure: "filter (\<lambda>c. c \<noteq> CHR '','') (group_digits n) = nat_digits n"
  using filter_group3 [of "rev (nat_digits n)"] nat_digits_no_comma [of n] by (simp add: group_digits_def flip: rev_filter)

text \<open>
  No count is misprinted: without its commas a figure is the number, so different counts have
  different figures; a missing count reads as zero. And the memory of a sandbox is printed to the
  nearest tenth of a megabyte, its time to the nearest hundredth of a second.\<close>

theorem figures_faithful:
  "digits_value (filter (\<lambda>c. c \<noteq> CHR '','') (format_number v)) = (case v of None \<Rightarrow> 0 | Some n \<Rightarrow> n)
   \<and> (format_number (Some n) = format_number (Some m) \<longleftrightarrow> n = m)
   \<and> 2097152 * memory_tenths b \<le> 20 * b + 1048576 \<and> 20 * b + 1048576 < 2097152 * (memory_tenths b + 1)
   \<and> 10000 * cpu_units c \<le> c + 5000 \<and> c \<le> 10000 * cpu_units c + 5000"
proof -
  have val: "digits_value (filter (\<lambda>c. c \<noteq> CHR '','') (group_digits k)) = k" for k
    by (simp only: plain_figure digits_value_nat_digits)
  have zero: "digits_value (filter (\<lambda>c. c \<noteq> CHR '','') ''0'') = 0" by (simp add: digits_value_def)
  have "n = m" if "group_digits n = group_digits m" using val [of n] val [of m] unfolding that by simp
  moreover have "2097152 * memory_tenths b \<le> 20 * b + 1048576" unfolding memory_tenths_def by (rule times_div_less_eq_dividend)
  moreover have "20 * b + 1048576 < 2097152 * (memory_tenths b + 1)"
    unfolding memory_tenths_def using dividend_less_times_div [of 2097152 "20 * b + 1048576"] by simp
  ultimately show ?thesis using val zero cpu_units_near [of c] by (auto simp: format_number_def split: option.split)
qed

text \<open>The cards of the overview, each with its title, its value and the line below it.\<close>

record platform_stats =
  st_users :: "nat option"
  st_orgs :: "nat option"
  st_agents :: "nat option"
  st_credentials :: "nat option"
  st_running :: "nat option"
  st_stopped :: "nat option"
  st_error :: "nat option"
  st_conversations :: "nat option"
  st_generations :: "nat option"

definition overview_cards :: "platform_stats \<Rightarrow> string \<Rightarrow> (string \<times> string \<times> string option) list" where
  "overview_cards s cost = [(''Total Users'', format_number (st_users s), None),
     (''Total Organizations'', format_number (st_orgs s), None), (''Total Agents'', format_number (st_agents s), None),
     (''Total Credentials'', format_number (st_credentials s), None),
     (''Sandboxes Running'', format_number (st_running s),
        Some (format_number (st_stopped s) @ '' stopped, '' @ format_number (st_error s) @ '' error'')),
     (''Active Conversations'', format_number (st_conversations s), None),
     (''Total Generations'', format_number (st_generations s), None), (''Total Cost'', cost, None)]"

datatype 'a card_body = CardLoading | CardFailed string | CardEmpty string | CardRows "'a list"

definition generation_table :: "string \<Rightarrow> bool \<Rightarrow> bool \<Rightarrow> 'a list option \<Rightarrow> 'a card_body" where
  "generation_table what loading failed rows = (if loading then CardLoading
     else if failed then CardFailed (''Failed to load '' @ what @ '' statistics.'')
     else (case rows of None \<Rightarrow> CardEmpty ''No generation data yet.''
       | Some rs \<Rightarrow> if rs = [] then CardEmpty ''No generation data yet.'' else CardRows rs))"

text \<open>Rows are only shown when there are some and the request has succeeded.\<close>

lemma generation_rows: "generation_table what loading failed rows = CardRows rs \<Longrightarrow> \<not> loading \<and> \<not> failed \<and> rows = Some rs \<and> rs \<noteq> []"
  by (auto simp: generation_table_def split: if_splits option.splits)

end
