(* ===== verification/AdminTables.thy ===== *)
theory AdminTables
  imports AdminLists AppShell
begin

text \<open>
  The tables of the admin dashboard, \<open>apps/admin/app/dashboard/*/page.tsx\<close>: what a list shows
  while it loads, when it failed, when it is empty and otherwise, cell by cell, with the
  controls that each row offers; and the pages on which a row's action is confirmed in a dialog
  as machines over \<open>confirm_page\<close>. A row is the object of the answer. Dates as the platform
  writes them, amounts of money and numbers in the browser's locale are parameters.
\<close>

section \<open>Cells\<close>

datatype cell =
    Text string | Lines string string | Mark string | Chip string string | Chips "(string \<times> string) list"
  | Moment "string option" | Menu bool string "string list" | Buttons "(string \<times> bool) list" | Vacant

datatype list_table =
    ListLoading nat
  | ListFailed string
  | ListEmpty string "string option"
  | ListRows "string list" "(string \<times> cell list) list"

text \<open>The branches every page has, in this order. Pages without the second pass \<open>None\<close>.\<close>

definition table_of ::
  "bool \<Rightarrow> nat \<Rightarrow> string option \<Rightarrow> string \<times> string option \<Rightarrow> string list \<Rightarrow> ('r \<Rightarrow> string) \<Rightarrow> ('r \<Rightarrow> cell list) \<Rightarrow> 'r list \<Rightarrow> list_table" where
  "table_of loading skeletons failure blank heads key row rows =
     (if loading then ListLoading skeletons
      else if failure \<noteq> None then ListFailed (opt_or [] failure)
      else if rows = [] then ListEmpty (fst blank) (snd blank)
      else ListRows heads (map (\<lambda>r. (key r, row r)) rows))"

definition only_if :: "bool \<Rightarrow> 'a \<Rightarrow> 'a option" where
  "only_if b x = (if b then Some x else None)"

definition answer_rows :: "js list option \<Rightarrow> js list" where
  "answer_rows data = opt_or [] data"

definition text_at :: "js \<Rightarrow> string \<Rightarrow> string option" where
  "text_at r k = (case js_get r k of JStr s \<Rightarrow> Some s | _ \<Rightarrow> None)"

definition figure_at :: "js \<Rightarrow> string \<Rightarrow> nat option" where
  "figure_at r k = (case js_get r k of JNum n \<Rightarrow> Some (nat n) | _ \<Rightarrow> None)"

definition record_id :: "js \<Rightarrow> string" where
  "record_id r = opt_or [] (text_at r ''id'')"

text \<open>\<open>x || '--'\<close>, \<open>x ?? '--'\<close>, \<open>x?.slice(0, 8) ?? '--'\<close> and \<open>x ? x.slice(0, n) + '...' : '--'\<close>.\<close>

definition or_dash :: "string option \<Rightarrow> string" where
  "or_dash s = (if opt_or [] s = [] then ''--'' else opt_or [] s)"

definition else_dash :: "string option \<Rightarrow> string" where
  "else_dash s = opt_or ''--'' s"

definition short_id :: "string option \<Rightarrow> string" where
  "short_id s = else_dash (map_option (take 8) s)"

definition cut_id :: "nat \<Rightarrow> string option \<Rightarrow> string" where
  "cut_id n s = (if opt_or [] s = [] then ''--'' else take n (opt_or [] s) @ ''...'')"

definition status_cell :: "string option \<Rightarrow> cell" where
  "status_cell s = (if opt_or [] s = [] then Text ''--'' else Mark (opt_or [] s))"

definition number_text :: "nat option \<Rightarrow> string" where
  "number_text n = opt_or [] (map_option nat_digits n)"

definition moment :: "js \<Rightarrow> string \<Rightarrow> cell" where
  "moment r k = Moment (if opt_or [] (text_at r k) = [] then None else text_at r k)"

definition more_note :: "bool \<Rightarrow> 'r list \<Rightarrow> string option" where
  "more_note has_more rows = only_if has_more (''Showing first '' @ nat_digits (length rows) @ '' results. Refine your search for more.'')"

section \<open>Users and organisations\<close>

definition user_menu :: "js \<Rightarrow> string list" where
  "user_menu r = [''Edit''] @ (if truthy (js_get r ''email_confirmed_at'') then [] else [''Confirm Email''])
     @ [if truthy (js_get r ''banned_at'') then ''Unban'' else ''Ban User'', ''Delete User'']"

definition row_menu :: "string option \<Rightarrow> js \<Rightarrow> string list \<Rightarrow> cell" where
  "row_menu busy r items = (let b = row_busy busy (record_id r) in Menu b (if b then ''...'' else ''Actions'') items)"

definition users_table :: "bool \<Rightarrow> bool \<Rightarrow> string \<Rightarrow> user_tab \<Rightarrow> string option \<Rightarrow> js list option \<Rightarrow> list_table" where
  "users_table loading failed search tab busy data = table_of loading 8 (only_if failed ''Failed to load users.'')
     (if search \<noteq> [] \<or> tab \<noteq> AllUsers then ''No users match the current filters.'' else ''No users found.'', None)
     [''Email'', ''Name'', ''Confirmed'', ''Banned'', ''Created'', []] record_id
     (\<lambda>r. [Text (opt_or [] (text_at r ''email'')), Text (or_dash (text_at r ''name'')),
        Mark (if truthy (js_get r ''email_confirmed_at'') then ''verified'' else ''pending''),
        (if truthy (js_get r ''banned_at'') then Mark ''banned'' else Text ''--''),
        moment r ''created_at'', row_menu busy r (user_menu r)])
     (answer_rows data)"

text \<open>\<open>active !== false\<close>: an organisation without the field counts as active.\<close>

definition org_active :: "js \<Rightarrow> bool" where
  "org_active r \<longleftrightarrow> js_get r ''active'' \<noteq> JBool False"

definition rate_text :: "nat option \<Rightarrow> string" where
  "rate_text n = (if opt_or 0 n = 0 then ''Unlimited'' else format_number n @ '' req/min'')"

definition org_menu :: "js \<Rightarrow> string list" where
  "org_menu r = [''View Details'', ''Edit'', if org_active r then ''Deactivate'' else ''Activate'', ''Delete Organization'']"

definition orgs_table :: "bool \<Rightarrow> bool \<Rightarrow> string \<Rightarrow> org_tab \<Rightarrow> string option \<Rightarrow> js list option \<Rightarrow> list_table" where
  "orgs_table loading failed search tab busy data = table_of loading 8 (only_if failed ''Failed to load organizations.'')
     (if search \<noteq> [] \<or> tab \<noteq> AllOrgs then ''No organizations match the current filters.'' else ''No organizations found.'', None)
     [''Name'', ''Status'', ''Rate Limit'', ''Created'', []] record_id
     (\<lambda>r. [Buttons [(opt_or [] (text_at r ''name''), False)], Mark (if org_active r then ''active'' else ''stopped''),
        Text (rate_text (figure_at r ''rate_limit'')), moment r ''created_at'', row_menu busy r (org_menu r)])
     (answer_rows data)"

datatype org_view =
    OrgLoading | OrgFailed | OrgNothing
  | OrgShown string "(string \<times> cell) list" "string list" "(string \<times> cell) list"

definition org_detail :: "bool \<Rightarrow> bool \<Rightarrow> js option \<Rightarrow> org_view" where
  "org_detail loading failed data = (if loading then OrgLoading else if failed then OrgFailed else (case data of
       None \<Rightarrow> OrgNothing
     | Some r \<Rightarrow> OrgShown (opt_or ''Organization Details'' (text_at r ''name''))
         [(''Status'', Mark (if truthy (js_get r ''active'') then ''active'' else ''stopped'')),
          (''Rate Limit'', Text (rate_text (figure_at r ''rate_limit''))), (''Members'', Text (format_number (figure_at r ''member_count''))),
          (''Credentials'', Text (format_number (figure_at r ''credential_count''))), (''Agents'', Text (format_number (figure_at r ''agent_count''))),
          (''Sandboxes'', Text (format_number (figure_at r ''sandbox_count'')))]
         (case js_get r ''allowed_origins'' of JArr os \<Rightarrow> map js_string os | _ \<Rightarrow> [])
         [(''Created'', moment r ''created_at''), (''Updated'', moment r ''updated_at'')]))"

text \<open>
  The list and the details read a missing field differently; the backend always sends it.
\<close>

lemma missing_active_disagrees:
  "js_get r ''active'' = JUndefined \<Longrightarrow> org_active r \<and> \<not> truthy (js_get r ''active'')"
  by (simp add: org_active_def)

section \<open>Agents, skills and templates\<close>

definition admin_agent_menu :: "js \<Rightarrow> string list" where
  "admin_agent_menu r = ''Edit'' # (if text_at r ''status'' \<noteq> Some ''archived'' then [''Archive''] else []) @ [''Delete'']"

text \<open>An empty cell is left between the organisation and the sandbox type.\<close>

definition admin_agents_table :: "bool \<Rightarrow> js list option \<Rightarrow> list_table" where
  "admin_agents_table loading data = table_of loading 5 None (''No agents found.'', None)
     [''Name'', ''Model'', ''Org ID'', ''Sandbox Type'', ''Status'', ''Created'', []] record_id
     (\<lambda>r. [Text (or_dash (text_at r ''name'')), Text (or_dash (text_at r ''model'')), Text (short_id (text_at r ''org_id'')), Vacant,
        Text (or_dash (text_at r ''sandbox_type'')), status_cell (text_at r ''status''), moment r ''created_at'',
        Menu False ''...'' (admin_agent_menu r)])
     (answer_rows data)"

definition skill_chips :: "js \<Rightarrow> (string \<times> string) list" where
  "skill_chips r = (case js_get r ''tags'' of JArr ts \<Rightarrow> map (\<lambda>t. (''secondary'', js_string t)) ts | _ \<Rightarrow> [])
     @ (if truthy (js_get r ''featured'') then [(''default'', ''Featured'')] else [])"

definition skills_table :: "bool \<Rightarrow> js list option \<Rightarrow> list_table" where
  "skills_table loading data = table_of loading 5 None (''No skills found.'', None)
     [''Name'', ''Source'', ''Scope'', ''Status'', ''Tags'', ''Installs'', ''Created'', []] record_id
     (\<lambda>r. let git = text_at r ''source_type'' = Some ''git'' in
       [Lines (opt_or [] (text_at r ''name'')) (if opt_or [] (text_at r ''description'') = [] then ''No description'' else opt_or [] (text_at r ''description'')),
        Chips ((if git then ''default'' else ''secondary'', opt_or [] (text_at r ''source_type''))
          # (if git \<and> opt_or [] (text_at r ''repo_url'') \<noteq> [] then [([], opt_or [] (text_at r ''repo_url''))] else [])),
        (if opt_or [] (text_at r ''org_id'') \<noteq> [] then Text (take 8 (opt_or [] (text_at r ''org_id'')) @ ''...'') else Chip ''outline'' ''Global''),
        Mark (opt_or [] (text_at r ''status'')), Chips (skill_chips r), Text (number_text (figure_at r ''install_count'')),
        moment r ''created_at'', Menu False ''...'' [''Edit'', ''Delete'']])
     (answer_rows data)"

definition templates_table :: "bool \<Rightarrow> js list option \<Rightarrow> list_table" where
  "templates_table loading data = table_of loading 5 None (''No sandbox templates found.'', None)
     [''Name'', ''Slug'', ''Tags'', ''Size'', ''Scope'', ''Build Status'', ''Created'', []] record_id
     (\<lambda>r. [Text (or_dash (text_at r ''name'')), Text (or_dash (text_at r ''slug'')),
        Text (case js_get r ''tags'' of JArr ts \<Rightarrow> if ts = [] then ''--'' else js_join '', '' (map js_string ts) | _ \<Rightarrow> ''--''),
        Text (or_dash (text_at r ''size'')),
        Text (if opt_or [] (text_at r ''org_id'') \<noteq> [] then take 8 (opt_or [] (text_at r ''org_id'')) else ''Public''),
        status_cell (text_at r ''build_status''), moment r ''created_at'', Menu False ''...'' [''Edit'', ''Delete'']])
     (answer_rows data)"

section \<open>Sandboxes and conversations\<close>

definition sandbox_menu :: "js \<Rightarrow> string list" where
  "sandbox_menu r = (if text_at r ''status'' = Some ''running'' then [''Stop''] else []) @ [''Delete'']"

definition sandboxes_table :: "bool \<Rightarrow> js list option \<Rightarrow> list_table" where
  "sandboxes_table loading data = table_of loading 5 None (''No sandboxes found.'', None)
     [''ID'', ''Org ID'', ''Type'', ''Status'', ''Agent ID'', ''Memory Used'', ''Memory Limit'', ''CPU'', ''Last Active'', ''Created'', []] record_id
     (\<lambda>r. [Text (short_id (text_at r ''id'')), Text (short_id (text_at r ''org_id'')), Text (or_dash (text_at r ''sandbox_type'')),
        status_cell (text_at r ''status''), Text (short_id (text_at r ''agent_id'')),
        Text (format_memory (figure_at r ''memory_used_bytes'')), Text (format_memory (figure_at r ''memory_limit_bytes'')),
        Text (format_cpu (figure_at r ''cpu_usage_usec'')), moment r ''last_active_at'', moment r ''created_at'',
        Menu False ''...'' (sandbox_menu r)])
     (answer_rows data)"

definition conversation_buttons :: "js \<Rightarrow> (string \<times> bool) list" where
  "conversation_buttons r = (if text_at r ''status'' = Some ''active'' then [(''End'', False)] else [])"

definition conversations_table :: "bool \<Rightarrow> js list option \<Rightarrow> list_table" where
  "conversations_table loading data = table_of loading 5 None (''No conversations found.'', None)
     [''ID'', ''Agent ID'', ''Org ID'', ''Sandbox ID'', ''Status'', ''Created'', ''Ended'', []] record_id
     (\<lambda>r. [Text (short_id (text_at r ''id'')), Text (short_id (text_at r ''agent_id'')), Text (short_id (text_at r ''org_id'')),
        Text (short_id (text_at r ''sandbox_id'')), status_cell (text_at r ''status''), moment r ''created_at'', moment r ''ended_at'',
        Buttons (conversation_buttons r)])
     (answer_rows data)"

section \<open>Credentials, keys and tokens\<close>

definition revoked_status :: "js \<Rightarrow> cell" where
  "revoked_status r = Mark (if truthy (js_get r ''revoked_at'') then ''revoked'' else ''active'')"

definition revoke_button :: "string option \<Rightarrow> js \<Rightarrow> (string \<times> bool) list" where
  "revoke_button busy r = (if truthy (js_get r ''revoked_at'') then []
     else [(if row_busy busy (record_id r) then ''Revoking...'' else ''Revoke'', row_busy busy (record_id r))])"

definition empty_filtered :: "string \<Rightarrow> string \<Rightarrow> string \<Rightarrow> string \<times> string option" where
  "empty_filtered what things tab = (''No '' @ what @ '' found'', Some (if tab \<noteq> ''all''
     then ''No '' @ what @ '' match the current filter. Try changing the tab or clearing filters.''
     else ''There are no '' @ things @ '' in the system yet.''))"

definition failed_again :: "string \<Rightarrow> string" where
  "failed_again what = ''Failed to load '' @ what @ ''. Please try again.''"

text \<open>An empty cell is left here too, between the organisation and the status.\<close>

definition credentials_table :: "bool \<Rightarrow> bool \<Rightarrow> string \<Rightarrow> string option \<Rightarrow> js list option \<Rightarrow> list_table" where
  "credentials_table loading failed tab busy data = table_of loading 5 (only_if failed (failed_again ''credentials''))
     (empty_filtered ''credentials'' ''credentials'' tab)
     [''Label'', ''Provider'', ''Org ID'', ''Status'', ''Created'', ''Actions''] record_id
     (\<lambda>r. [Text (or_dash (text_at r ''label'')), Text (or_dash (text_at r ''provider_id'')), Text (cut_id 8 (text_at r ''org_id'')), Vacant,
        revoked_status r, moment r ''created_at'', Buttons ((''Edit'', False) # revoke_button busy r)])
     (answer_rows data)"

definition expiry_text :: "string \<Rightarrow> (string \<Rightarrow> string) \<Rightarrow> (string \<Rightarrow> bool) \<Rightarrow> string option \<Rightarrow> string" where
  "expiry_text never date past d = (if opt_or [] d = [] then never
     else date (opt_or [] d) @ (if past (opt_or [] d) then '' (expired)'' else []))"

definition api_keys_table ::
  "(string \<Rightarrow> string) \<Rightarrow> (string \<Rightarrow> bool) \<Rightarrow> bool \<Rightarrow> bool \<Rightarrow> string \<Rightarrow> string option \<Rightarrow> js list option \<Rightarrow> list_table" where
  "api_keys_table date past loading failed tab busy data = table_of loading 5 (only_if failed (failed_again ''API keys''))
     (empty_filtered ''API keys'' ''API keys'' tab)
     [''Name'', ''Key Prefix'', ''Org ID'', ''Scopes'', ''Expires'', ''Status'', ''Created'', ''Actions''] record_id
     (\<lambda>r. [Text (or_dash (text_at r ''name'')), Text (or_dash (text_at r ''key_prefix'')), Text (cut_id 8 (text_at r ''org_id'')),
        (case js_get r ''scopes'' of JArr ss \<Rightarrow> if ss = [] then Text ''--'' else Chips (map (\<lambda>s. (''secondary'', js_string s)) ss) | _ \<Rightarrow> Text ''--''),
        Text (expiry_text ''Never'' date past (text_at r ''expires_at'')), revoked_status r, moment r ''created_at'',
        Buttons (revoke_button busy r)])
     (answer_rows data)"

definition tokens_table ::
  "(string \<Rightarrow> string) \<Rightarrow> (string \<Rightarrow> bool) \<Rightarrow> bool \<Rightarrow> bool \<Rightarrow> string \<Rightarrow> string option \<Rightarrow> js list option \<Rightarrow> list_table" where
  "tokens_table date past loading failed tab busy data = table_of loading 5 (only_if failed (failed_again ''tokens''))
     (empty_filtered ''tokens'' ''proxy tokens'' tab)
     [''JTI'', ''Org ID'', ''Credential ID'', ''Expires'', ''Status'', ''Created'', ''Actions''] record_id
     (\<lambda>r. [Text (cut_id 12 (text_at r ''jti'')), Text (cut_id 8 (text_at r ''org_id'')), Text (cut_id 8 (text_at r ''credential_id'')),
        Text (expiry_text ''--'' date past (text_at r ''expires_at'')), revoked_status r, moment r ''created_at'',
        Buttons (revoke_button busy r)])
     (answer_rows data)"

section \<open>Logs, domains, storage, integrations\<close>

definition money_or :: "(js \<Rightarrow> string) \<Rightarrow> js \<Rightarrow> string" where
  "money_or money v = (if nullish v then ''$0.00'' else money v)"

definition tokens_or :: "(nat \<Rightarrow> string) \<Rightarrow> nat option \<Rightarrow> string" where
  "tokens_or local n = (case n of None \<Rightarrow> ''0'' | Some k \<Rightarrow> local k)"

definition generation_cards :: "(nat \<Rightarrow> string) \<Rightarrow> (js \<Rightarrow> string) \<Rightarrow> js \<Rightarrow> (string \<times> string) list" where
  "generation_cards local money totals = [(''Total Generations'', tokens_or local (figure_at totals ''total_generations'')),
     (''Total Cost'', money_or money (js_get totals ''total_cost'')), (''Input Tokens'', tokens_or local (figure_at totals ''total_input_tokens'')),
     (''Output Tokens'', tokens_or local (figure_at totals ''total_output_tokens''))]"

text \<open>The two breakdowns are left out altogether when they are empty.\<close>

definition breakdown_table :: "(nat \<Rightarrow> string) \<Rightarrow> (js \<Rightarrow> string) \<Rightarrow> string \<Rightarrow> string \<Rightarrow> js \<Rightarrow> list_table option" where
  "breakdown_table local money head key v = (case v of
       JArr rs \<Rightarrow> only_if (rs \<noteq> []) (table_of False 0 None ([], None)
         [head, ''Count'', ''Cost'', ''Input Tokens'', ''Output Tokens''] (\<lambda>r. opt_or [] (text_at r key))
         (\<lambda>r. [Text (else_dash (text_at r key)), Text (tokens_or local (figure_at r ''count'')), Text (money_or money (js_get r ''cost'')),
            Text (tokens_or local (figure_at r ''input_tokens'')), Text (tokens_or local (figure_at r ''output_tokens''))]) rs)
     | _ \<Rightarrow> None)"

definition generations_table :: "(nat \<Rightarrow> string) \<Rightarrow> (js \<Rightarrow> string) \<Rightarrow> bool \<Rightarrow> js list option \<Rightarrow> list_table" where
  "generations_table local money loading data = table_of loading 5 None (''No generations found.'', None)
     [''ID'', ''Org ID'', ''Provider'', ''Model'', ''Input Tokens'', ''Output Tokens'', ''Cost'', ''Status'', ''Created''] record_id
     (\<lambda>r. [Text (else_dash (text_at r ''id'')), Text (else_dash (text_at r ''org_id'')), Text (else_dash (text_at r ''provider_id'')),
        Text (else_dash (text_at r ''model'')), Text (tokens_or local (figure_at r ''input_tokens'')),
        Text (tokens_or local (figure_at r ''output_tokens'')), Text (money_or money (js_get r ''cost'')),
        status_cell (text_at r ''status''), moment r ''created_at''])
     (answer_rows data)"

definition audit_table :: "bool \<Rightarrow> js list option \<Rightarrow> list_table" where
  "audit_table loading data = table_of loading 5 None (''No audit entries found.'', None)
     [''Action'', ''Org ID'', ''IP Address'', ''Created''] record_id
     (\<lambda>r. [Text (else_dash (text_at r ''action'')), Text (else_dash (text_at r ''org_id'')), Text (else_dash (text_at r ''ip_address'')),
        moment r ''created_at''])
     (answer_rows data)"

text \<open>The dash of the admin log is an em dash, the bytes 226, 128 and 148.\<close>

definition long_dash :: string where "long_dash = [CHR 0xE2, CHR 0x80, CHR 0x94]"

definition payload_buttons :: "js \<Rightarrow> (string \<times> bool) list" where
  "payload_buttons r = (case js_get r ''payload'' of JObj kvs \<Rightarrow> if kvs = [] then [] else [(''Payload'', False)] | _ \<Rightarrow> [])"

definition status_code :: "js \<Rightarrow> int" where
  "status_code r = (case js_get r ''status_code'' of JNum n \<Rightarrow> n | _ \<Rightarrow> 0)"

definition admin_audit_table :: "bool \<Rightarrow> bool \<Rightarrow> js list option \<Rightarrow> list_table" where
  "admin_audit_table loading failed data = table_of loading 8 (only_if failed ''Failed to load admin audit log.'')
     (''No admin operations recorded yet.'', None)
     [''Time'', ''Action'', ''Method'', ''Resource'', ''Resource ID'', ''Admin'', ''Status'', ''Latency'', []] record_id
     (\<lambda>r. [moment r ''created_at'', Text (opt_or [] (text_at r ''action'')),
        Chip (method_variant (opt_or [] (text_at r ''method''))) (opt_or [] (text_at r ''method'')), Text (opt_or [] (text_at r ''resource'')),
        Text (if opt_or [] (text_at r ''resource_id'') = [] then long_dash else opt_or [] (text_at r ''resource_id'')),
        Text (opt_or [] (text_at r ''admin_email'')), Chip (code_variant (status_code r)) (int_str (status_code r)),
        Text (number_text (figure_at r ''latency_ms'') @ ''ms''), Buttons (payload_buttons r)])
     (answer_rows data)"

definition audit_details :: "js \<Rightarrow> (string \<times> string) list" where
  "audit_details r = [(''Path'', opt_or [] (text_at r ''path'')),
     (''Resource ID'', if opt_or [] (text_at r ''resource_id'') = [] then long_dash else opt_or [] (text_at r ''resource_id'')),
     (''Admin'', opt_or [] (text_at r ''admin_email'')),
     (''IP Address'', if opt_or [] (text_at r ''ip_address'') = [] then long_dash else opt_or [] (text_at r ''ip_address'')),
     (''Status'', int_str (status_code r)), (''Latency'', number_text (figure_at r ''latency_ms'') @ ''ms'')]"

definition domains_table :: "bool \<Rightarrow> js list option \<Rightarrow> list_table" where
  "domains_table loading data = table_of loading 5 None (''No custom domains found.'', None)
     [''Domain'', ''Org ID'', ''Status'', ''Verified At'', ''Created'', ''Actions''] record_id
     (\<lambda>r. [Text (else_dash (text_at r ''domain'')), Text (else_dash (text_at r ''org_id'')),
        Mark (if truthy (js_get r ''verified'') then ''verified'' else ''pending''), moment r ''verified_at'', moment r ''created_at'',
        Buttons [(''Delete'', False)]])
     (answer_rows data)"

definition storage_table :: "bool \<Rightarrow> js list option \<Rightarrow> list_table" where
  "storage_table loading data = table_of loading 5 None (''No workspace storage found.'', None)
     [''ID'', ''Org ID'', ''Created'', ''Actions''] record_id
     (\<lambda>r. [Text (else_dash (text_at r ''id'')), Text (else_dash (text_at r ''org_id'')), moment r ''created_at'', Buttons [(''Delete'', False)]])
     (answer_rows data)"

definition as_integration :: "js \<Rightarrow> platform_integration" where
  "as_integration r = \<lparr>pi_id = text_at r ''id'', pi_name = text_at r ''display_name'',
     pi_meta = (if nullish (js_get r ''meta'') then None else Some (js_get r ''meta'')), pi_nango = js_get r ''nango_config''\<rparr>"

definition mode_chip :: "js \<Rightarrow> cell" where
  "mode_chip r = (let m = get_auth_mode (as_integration r) in Chip (badge_variant m) m)"

definition integrations_table :: "bool \<Rightarrow> string option \<Rightarrow> js list option \<Rightarrow> list_table" where
  "integrations_table loading busy data = table_of loading 5 None
     (''No platform integrations'', Some ''Create your first platform integration to let end users connect their accounts.'')
     [''Provider'', ''Display Name'', ''Unique Key'', ''Auth Mode'', ''Created'', ''Actions''] record_id
     (\<lambda>r. [Text (else_dash (text_at r ''provider'')), Text (else_dash (text_at r ''display_name'')), Text (else_dash (text_at r ''unique_key'')),
        mode_chip r, moment r ''created_at'',
        Buttons [(''Config'', False), (''Edit'', False),
          (if row_busy busy (record_id r) then ''Deleting...'' else ''Delete'', row_busy busy (record_id r))]])
     (answer_rows data)"

definition integration_details :: "js \<Rightarrow> (string \<times> cell) list" where
  "integration_details r = [(''ID'', Text (else_dash (text_at r ''id''))), (''Provider'', Text (else_dash (text_at r ''provider''))),
     (''Display Name'', Text (else_dash (text_at r ''display_name''))), (''Unique Key'', Text (else_dash (text_at r ''unique_key''))),
     (''Auth Mode'', mode_chip r), (''Created'', moment r ''created_at'')]
     @ (if truthy (js_get r ''updated_at'') then [(''Updated'', moment r ''updated_at'')] else [])"

section \<open>Every cell below its heading\<close>

definition aligned :: "list_table \<Rightarrow> bool" where
  "aligned t = (case t of ListRows heads rows \<Rightarrow> list_all (\<lambda>(k, cells). length cells = length heads) rows | _ \<Rightarrow> True)"

definition shown_rows :: "list_table \<Rightarrow> string list" where
  "shown_rows t = (case t of ListRows heads rows \<Rightarrow> map fst rows | _ \<Rightarrow> [])"

lemma aligned_table: "(\<And>r. length (row r) = length heads) \<Longrightarrow> aligned (table_of l n f e heads key row rows)"
  by (simp add: aligned_def table_of_def list_all_iff)

lemma shown_table: "shown_rows (table_of False n None e heads key row rows) = map key rows"
  by (simp add: shown_rows_def table_of_def comp_def)

lemma only_if_False [simp]: "only_if False x = None"
  by (simp add: only_if_def)

named_theorems table_defs

lemmas [table_defs] = users_table_def orgs_table_def admin_agents_table_def skills_table_def templates_table_def sandboxes_table_def
  conversations_table_def credentials_table_def api_keys_table_def tokens_table_def generations_table_def audit_table_def
  admin_audit_table_def domains_table_def storage_table_def integrations_table_def

text \<open>
  Whatever an answer holds, the tables with a heading for each cell keep every value below its
  own heading. The two others are the tables of agents and of credentials: their values from the
  fourth on stand one column too far to the right.
\<close>

theorem tables_aligned:
  "aligned (users_table l f s ut b data)" "aligned (orgs_table l f s ot b data)" "aligned (skills_table l data)"
  "aligned (templates_table l data)" "aligned (sandboxes_table l data)" "aligned (conversations_table l data)"
  "aligned (api_keys_table date past l f s b data)" "aligned (tokens_table date past l f s b data)"
  "aligned (generations_table local money l data)" "aligned (audit_table l data)" "aligned (admin_audit_table l f data)"
  "aligned (domains_table l data)" "aligned (storage_table l data)" "aligned (integrations_table l b data)"
  by (simp_all add: table_defs aligned_table Let_def)

lemma agents_misaligned: "rs \<noteq> [] \<Longrightarrow> \<not> aligned (admin_agents_table False (Some rs))"
  by (cases rs) (simp_all add: admin_agents_table_def aligned_def table_of_def answer_rows_def opt_or_def)

lemma credentials_misaligned: "rs \<noteq> [] \<Longrightarrow> \<not> aligned (credentials_table False False tab busy (Some rs))"
  by (cases rs) (simp_all add: credentials_table_def aligned_def table_of_def answer_rows_def opt_or_def)

text \<open>An answer is shown completely and in its order, whatever the filters and the busy row.\<close>

theorem answers_shown:
  "shown_rows (users_table False False s ut b (Some rs)) = map record_id rs"
  "shown_rows (orgs_table False False s ot b (Some rs)) = map record_id rs"
  "shown_rows (admin_agents_table False (Some rs)) = map record_id rs"
  "shown_rows (skills_table False (Some rs)) = map record_id rs"
  "shown_rows (sandboxes_table False (Some rs)) = map record_id rs"
  "shown_rows (credentials_table False False s b (Some rs)) = map record_id rs"
  "shown_rows (api_keys_table date past False False s b (Some rs)) = map record_id rs"
  "shown_rows (tokens_table date past False False s b (Some rs)) = map record_id rs"
  by (simp_all add: table_defs shown_table answer_rows_def opt_or_def)

text \<open>Eight pages have no branch for a failure: a request that failed reads as an empty list.\<close>

lemma failure_reads_as_empty:
  "admin_agents_table False None = ListEmpty ''No agents found.'' None"
  "sandboxes_table False None = ListEmpty ''No sandboxes found.'' None"
  "audit_table False None = ListEmpty ''No audit entries found.'' None"
  by (simp_all add: table_defs table_of_def answer_rows_def opt_or_def)

section \<open>Actions on rows\<close>

text \<open>
  The pages on which a row's action waits in a dialog: the rows of the last answer, and the
  dialog. \<open>offers\<close> lists what the rows and the header let pick.
\<close>

record 'a list_page =
  lg_rows :: "js list"
  lg_confirm :: "'a confirm_page"

definition list_page_init :: "'a list_page" where
  "list_page_init = \<lparr>lg_rows = [], lg_confirm = \<lparr>cf_asked = None, cf_pending = 0, cf_calls = [], cf_refetch = 0\<rparr>\<rparr>"

datatype 'a list_event = RowsArrive "js list" | PickAction 'a | DismissDialog | ConfirmAction | CallSettled admin_reply

definition on_confirm :: "('a confirm_page \<Rightarrow> 'a confirm_page) \<Rightarrow> 'a list_page \<Rightarrow> 'a list_page" where
  "on_confirm f st = st\<lparr>lg_confirm := f (lg_confirm st)\<rparr>"

text \<open>The dialog is modal: the rows behind it are out of reach.\<close>

definition list_step :: "(js list \<Rightarrow> 'a list) \<Rightarrow> ('a \<Rightarrow> admin_call) \<Rightarrow> 'a list_page \<Rightarrow> 'a list_event \<Rightarrow> 'a list_page" where
  "list_step offers request st e = (case e of
       RowsArrive rs \<Rightarrow> st\<lparr>lg_rows := rs\<rparr>
     | PickAction a \<Rightarrow> if cf_asked (lg_confirm st) = None \<and> a \<in> set (offers (lg_rows st)) then on_confirm (\<lambda>c. c\<lparr>cf_asked := Some a\<rparr>) st else st
     | DismissDialog \<Rightarrow> on_confirm (\<lambda>c. c\<lparr>cf_asked := None\<rparr>) st
     | ConfirmAction \<Rightarrow> on_confirm (confirm_click request) st
     | CallSettled r \<Rightarrow> on_confirm (confirm_settled r) st)"

definition agent_offers :: "js list \<Rightarrow> agent_action list" where
  "agent_offers rows = concat (map (\<lambda>r. (if text_at r ''status'' \<noteq> Some ''archived'' then [ArchiveAgent (record_id r)] else [])
     @ [DeleteAgent (record_id r)]) rows)"

definition sandbox_offers :: "js list \<Rightarrow> sandbox_action list" where
  "sandbox_offers rows = Cleanup # concat (map (\<lambda>r. (if text_at r ''status'' = Some ''running'' then [StopSandbox (record_id r)] else [])
     @ [DeleteSandbox (record_id r)]) rows)"

definition conversation_offers :: "js list \<Rightarrow> string list" where
  "conversation_offers rows = map record_id (filter (\<lambda>r. text_at r ''status'' = Some ''active'') rows)"

text \<open>The offers are those of the menus and buttons of the tables.\<close>

lemma offers_are_menus:
  "length (agent_offers rows) = length (concat (map (\<lambda>r. tl (admin_agent_menu r)) rows))"
  "length (sandbox_offers rows) = Suc (length (concat (map sandbox_menu rows)))"
  "length (conversation_offers rows) = length (concat (map conversation_buttons rows))"
  by (induction rows) (simp_all add: agent_offers_def admin_agent_menu_def sandbox_offers_def sandbox_menu_def conversation_offers_def conversation_buttons_def)

definition agents_page_of :: "agent_action list_event list \<Rightarrow> agent_action list_page" where
  "agents_page_of es = foldl (list_step agent_offers agent_request) list_page_init es"

definition sandboxes_page_of :: "sandbox_action list_event list \<Rightarrow> sandbox_action list_page" where
  "sandboxes_page_of es = foldl (list_step sandbox_offers sandbox_request) list_page_init es"

definition conversations_page_of :: "string list_event list \<Rightarrow> string list_page" where
  "conversations_page_of es = foldl (list_step conversation_offers end_conversation) list_page_init es"

text \<open>
  The contract of such a page: whatever it has asked about or called, it was offered by the
  rows of an answer that arrived in this run.
\<close>

definition was_offered :: "(js list \<Rightarrow> 'a list) \<Rightarrow> js list set \<Rightarrow> 'a \<Rightarrow> bool" where
  "was_offered offers answers a \<longleftrightarrow> (\<exists>rows \<in> answers. a \<in> set (offers rows))"

definition list_inv :: "(js list \<Rightarrow> 'a list) \<Rightarrow> ('a \<Rightarrow> admin_call) \<Rightarrow> js list set \<Rightarrow> 'a list_page \<Rightarrow> bool" where
  "list_inv offers request answers st \<longleftrightarrow> lg_rows st \<in> answers
     \<and> (\<forall>a. cf_asked (lg_confirm st) = Some a \<longrightarrow> was_offered offers answers a)
     \<and> (\<forall>c \<in> set (cf_calls (lg_confirm st)). \<exists>a. c = request a \<and> was_offered offers answers a)"

fun arrives :: "js list set \<Rightarrow> 'a list_event \<Rightarrow> bool" where
  "arrives answers (RowsArrive rs) = (rs \<in> answers)"
| "arrives answers _ = True"

lemma list_inv_click: "list_inv offers request answers st \<Longrightarrow> list_inv offers request answers (on_confirm (confirm_click request) st)"
  by (cases "cf_asked (lg_confirm st)") (auto simp: list_inv_def on_confirm_def confirm_click_def)

lemma list_inv_settled: "list_inv offers request answers st \<Longrightarrow> list_inv offers request answers (on_confirm (confirm_settled r) st)"
  by (cases r) (simp_all add: list_inv_def on_confirm_def confirm_settled_def)

lemma list_inv_step:
  assumes "list_inv offers request answers st" "arrives answers e"
  shows "list_inv offers request answers (list_step offers request st e)"
proof (cases e)
  case (PickAction a)
  then show ?thesis using assms(1) by (auto simp: list_inv_def list_step_def on_confirm_def was_offered_def)
qed (use assms in \<open>simp_all add: list_step_def list_inv_click list_inv_settled, simp_all add: list_inv_def on_confirm_def\<close>)

lemma list_run_inv:
  "list_all (arrives answers) es \<Longrightarrow> list_inv offers request answers st \<Longrightarrow> list_inv offers request answers (foldl (list_step offers request) st es)"
  by (induction es arbitrary: st) (simp_all add: list_inv_step)

text \<open>The answers of a run, with the empty list that stands for none so far.\<close>

definition answers_of :: "'a list_event list \<Rightarrow> js list set" where
  "answers_of es = insert [] {rs. RowsArrive rs \<in> set es}"

lemma called_was_offered:
  assumes "c \<in> set (cf_calls (lg_confirm (foldl (list_step offers request) list_page_init es)))"
  shows "\<exists>a. c = request a \<and> was_offered offers (answers_of es) a"
proof -
  have "arrives (answers_of es) e" if "e \<in> set es" for e
    using that by (cases e rule: list_event.exhaust) (simp_all add: answers_of_def)
  then have "list_all (arrives (answers_of es)) es" by (simp add: list_all_iff)
  moreover have "list_inv offers request (answers_of es) list_page_init" by (simp add: list_inv_def list_page_init_def answers_of_def)
  ultimately have "list_inv offers request (answers_of es) (foldl (list_step offers request) list_page_init es)"
    by (rule list_run_inv)
  then show ?thesis using assms by (simp add: list_inv_def)
qed

definition row_listed :: "js list set \<Rightarrow> string \<Rightarrow> (string option \<Rightarrow> bool) \<Rightarrow> bool" where
  "row_listed answers i good \<longleftrightarrow> (\<exists>rows \<in> answers. \<exists>r \<in> set rows. record_id r = i \<and> good (text_at r ''status''))"

lemma agent_offers_listed:
  "a \<in> set (agent_offers rows) \<Longrightarrow> \<exists>r \<in> set rows. a = ArchiveAgent (record_id r) \<and> text_at r ''status'' \<noteq> Some ''archived'' \<or> a = DeleteAgent (record_id r)"
  by (auto simp: agent_offers_def split: if_splits)

lemma sandbox_offers_listed:
  "a \<in> set (sandbox_offers rows) \<Longrightarrow> a = Cleanup \<or> (\<exists>r \<in> set rows. a = StopSandbox (record_id r) \<and> text_at r ''status'' = Some ''running'' \<or> a = DeleteSandbox (record_id r))"
  by (auto simp: sandbox_offers_def split: if_splits)

text \<open>
  C27. On the pages of agents, sandboxes and conversations no call is made that the table did
  not offer: only an agent listed as not archived is archived, only a sandbox listed as running
  is stopped, only a conversation listed as active is ended, and only listed rows are deleted,
  whatever is clicked, dismissed, confirmed twice or answered late.\<close>

theorem row_actions_offered:
  "(\<forall>c \<in> set (cf_calls (lg_confirm (agents_page_of as))). \<exists>i.
     c = agent_request (ArchiveAgent i) \<and> row_listed (answers_of as) i (\<lambda>s. s \<noteq> Some ''archived'')
     \<or> c = agent_request (DeleteAgent i) \<and> row_listed (answers_of as) i (\<lambda>_. True))
   \<and> (\<forall>c \<in> set (cf_calls (lg_confirm (sandboxes_page_of ss))). c = sandbox_request Cleanup \<or> (\<exists>i.
     c = sandbox_request (StopSandbox i) \<and> row_listed (answers_of ss) i (\<lambda>s. s = Some ''running'')
     \<or> c = sandbox_request (DeleteSandbox i) \<and> row_listed (answers_of ss) i (\<lambda>_. True)))
   \<and> (\<forall>c \<in> set (cf_calls (lg_confirm (conversations_page_of cs))). \<exists>i.
     c = end_conversation i \<and> row_listed (answers_of cs) i (\<lambda>s. s = Some ''active''))"
  (is "?agents \<and> ?sandboxes \<and> ?conversations")
proof -
  have ?agents
    using called_was_offered [of _ agent_offers agent_request as] agent_offers_listed
    unfolding agents_page_of_def was_offered_def row_listed_def by fastforce
  moreover have ?sandboxes
    using called_was_offered [of _ sandbox_offers sandbox_request ss] sandbox_offers_listed
    unfolding sandboxes_page_of_def was_offered_def row_listed_def by fastforce
  moreover have ?conversations
    using called_was_offered [of _ conversation_offers end_conversation cs]
    unfolding conversations_page_of_def was_offered_def row_listed_def conversation_offers_def by fastforce
  ultimately show ?thesis by blast
qed

definition demo_sandbox :: js where
  "demo_sandbox = JObj [(''id'', JStr ''s1''), (''status'', JStr ''running'')]"

lemma row_actions_offered_witness:
  "cf_calls (lg_confirm (sandboxes_page_of [RowsArrive [demo_sandbox], PickAction (StopSandbox ''s1''), ConfirmAction]))
     = [sandbox_request (StopSandbox ''s1'')]
   \<and> (\<exists>i. sandbox_request (StopSandbox ''s1'') = sandbox_request (StopSandbox i)
     \<and> row_listed (answers_of [RowsArrive [demo_sandbox], PickAction (StopSandbox ''s1''), ConfirmAction]) i (\<lambda>s. s = Some ''running''))"
proof -
  have calls: "cf_calls (lg_confirm (sandboxes_page_of [RowsArrive [demo_sandbox], PickAction (StopSandbox ''s1''), ConfirmAction]))
     = [sandbox_request (StopSandbox ''s1'')]"
    by (simp add: sandboxes_page_of_def list_page_init_def list_step_def on_confirm_def sandbox_offers_def demo_sandbox_def
        text_at_def record_id_def opt_or_def confirm_click_def)
  have differ: "sandbox_request (StopSandbox ''s1'') \<noteq> sandbox_request Cleanup"
    "sandbox_request (StopSandbox ''s1'') \<noteq> sandbox_request (DeleteSandbox i)" for i
    by (simp_all add: post_row_def delete_row_def)
  show ?thesis
    using row_actions_offered [of "[]" "[RowsArrive [demo_sandbox], PickAction (StopSandbox ''s1''), ConfirmAction]" "[]"] differ
    unfolding calls by (simp del: sandbox_request.simps)
qed

section \<open>Dialogs\<close>

record dialog_text =
  dt_title :: string
  dt_description :: string
  dt_destructive :: bool
  dt_button :: string

definition quoted_text :: "string \<Rightarrow> string" where
  "quoted_text s = [CHR 0x22] @ s @ [CHR 0x22]"

text \<open>Without an action the dialog is closed, and its texts are those of a deletion.\<close>

definition agent_dialog :: "agent_action option \<Rightarrow> string \<Rightarrow> dialog_text" where
  "agent_dialog a name = (case a of
       Some (ArchiveAgent i) \<Rightarrow> \<lparr>dt_title = ''Archive agent'', dt_description = ''Are you sure you want to archive ''
         @ quoted_text name @ ''? The agent will be deactivated.'', dt_destructive = False, dt_button = ''Archive''\<rparr>
     | _ \<Rightarrow> \<lparr>dt_title = ''Delete agent'', dt_description = ''Are you sure you want to permanently delete ''
         @ quoted_text name @ ''? This action cannot be undone.'', dt_destructive = (a \<noteq> None), dt_button = ''Delete''\<rparr>)"

definition sandbox_dialog :: "sandbox_action option \<Rightarrow> dialog_text" where
  "sandbox_dialog a = (case a of
       Some (StopSandbox i) \<Rightarrow> \<lparr>dt_title = ''Stop sandbox'', dt_description = ''Are you sure you want to force-stop this sandbox?'',
         dt_destructive = False, dt_button = ''Stop''\<rparr>
     | Some Cleanup \<Rightarrow> \<lparr>dt_title = ''Cleanup sandboxes'',
         dt_description = ''This will delete all errored and stale stopped sandboxes (stopped > 24h). Continue?'',
         dt_destructive = False, dt_button = ''Cleanup''\<rparr>
     | _ \<Rightarrow> \<lparr>dt_title = ''Delete sandbox'',
         dt_description = ''Are you sure you want to permanently delete this sandbox? This action cannot be undone.'',
         dt_destructive = (a \<noteq> None), dt_button = ''Delete''\<rparr>)"

text \<open>The button says which call it makes.\<close>

lemma dialogs_tell_call:
  "ac_method (agent_request a) = (if dt_button (agent_dialog (Some a) name) = ''Archive'' then ''POST'' else ''DELETE'')"
  "ac_method (sandbox_request s) = (if dt_destructive (sandbox_dialog (Some s)) then ''DELETE'' else ''POST'')"
  by (cases a; simp add: agent_dialog_def post_row_def delete_row_def)
    (cases s; simp add: sandbox_dialog_def post_row_def delete_row_def)

text \<open>What a clean-up deletes is marked as harmless: its button is not the destructive one.\<close>

lemma cleanup_not_marked: "\<not> dt_destructive (sandbox_dialog (Some Cleanup))"
  by (simp add: sandbox_dialog_def)

end
