(* ===== verification/AdminDialogs.thy ===== *)
theory AdminDialogs
  imports AdminTables
begin

text \<open>
  The dialogs of the admin pages, \<open>apps/admin/app/dashboard/*/page.tsx\<close>: their controls as pairs
  of what is shown of the form and what a change does to it, on the editors of \<open>AdminEditors\<close>.
  The locale \<open>edit_dialog\<close> is the contract of such a dialog (a control changes its own member of
  the body and no other), interpreted for every dialog; from it follows that a save changes
  exactly what was typed. The dialogs of the platform integrations are views of
  \<open>AdminIntegrations\<close>.
\<close>

section \<open>Controls\<close>

record 'f form_control =
  fc_label :: string
  fc_options :: "(string \<times> string) list option"
  fc_value :: "'f \<Rightarrow> string"
  fc_change :: "string \<Rightarrow> 'f \<Rightarrow> 'f"

definition text_control :: "string \<Rightarrow> ('f \<Rightarrow> string) \<Rightarrow> (string \<Rightarrow> 'f \<Rightarrow> 'f) \<Rightarrow> 'f form_control" where
  "text_control l v c = \<lparr>fc_label = l, fc_options = None, fc_value = v, fc_change = c\<rparr>"

definition select_control :: "string \<Rightarrow> (string \<times> string) list \<Rightarrow> ('f \<Rightarrow> string) \<Rightarrow> (string \<Rightarrow> 'f \<Rightarrow> 'f) \<Rightarrow> 'f form_control" where
  "select_control l os v c = \<lparr>fc_label = l, fc_options = Some os, fc_value = v, fc_change = c\<rparr>"

text \<open>A selection can only be one of its options.\<close>

definition accepts :: "'f form_control \<Rightarrow> string \<Rightarrow> bool" where
  "accepts c s \<longleftrightarrow> (case fc_options c of None \<Rightarrow> True | Some os \<Rightarrow> s \<in> fst ` set os)"

definition typed :: "'f form_control list \<Rightarrow> nat \<times> string \<Rightarrow> 'f \<Rightarrow> 'f" where
  "typed cs t f = (case t of (i, s) \<Rightarrow> if i < length cs \<and> accepts (cs ! i) s then fc_change (cs ! i) s f else f)"

definition type_all :: "'f form_control list \<Rightarrow> (nat \<times> string) list \<Rightarrow> 'f \<Rightarrow> 'f" where
  "type_all cs ts f = foldl (\<lambda>f t. typed cs t f) f ts"

record form_view =
  fv_title :: string
  fv_description :: string
  fv_fields :: "(string \<times> string \<times> (string \<times> string) list option) list"
  fv_error :: "string option"
  fv_button :: string
  fv_disabled :: bool

definition fields_of :: "'f form_control list \<Rightarrow> 'f \<Rightarrow> (string \<times> string \<times> (string \<times> string) list option) list" where
  "fields_of cs f = map (\<lambda>c. (fc_label c, fc_value c f, fc_options c)) cs"

definition shown_error :: "string option \<Rightarrow> string option" where
  "shown_error e = (if e = Some [] then None else e)"

definition edit_view :: "string \<Rightarrow> string \<Rightarrow> string \<Rightarrow> 'f form_control list \<Rightarrow> 'f editor \<Rightarrow> form_view option" where
  "edit_view title description button cs st = (case ed_id st of None \<Rightarrow> None | Some i \<Rightarrow>
     Some \<lparr>fv_title = title, fv_description = description, fv_fields = fields_of cs (ed_form st), fv_error = shown_error (ed_error st),
       fv_button = (if ed_saving st then ''Saving...'' else button), fv_disabled = ed_saving st\<rparr>)"

section \<open>The contract\<close>

locale edit_dialog =
  fixes controls :: "'f form_control list"
    and member :: "nat \<Rightarrow> string"
    and body :: "'f \<Rightarrow> js"
  assumes change_other: "i < length controls \<Longrightarrow> j < length controls \<Longrightarrow> i \<noteq> j \<Longrightarrow>
      js_get (body (fc_change (controls ! i) s f)) (member j) = js_get (body f) (member j)"
    and change_self: "i < length controls \<Longrightarrow>
      js_get (body (fc_change (controls ! i) s f)) (member i) = js_get (body (fc_change (controls ! i) s g)) (member i)"
begin

lemma typed_other: "j < length controls \<Longrightarrow> fst t \<noteq> j \<Longrightarrow> js_get (body (typed controls t f)) (member j) = js_get (body f) (member j)"
  by (cases t) (simp add: typed_def change_other)

lemma untouched: "j < length controls \<Longrightarrow> j \<notin> fst ` set ts \<Longrightarrow> js_get (body (type_all controls ts f)) (member j) = js_get (body f) (member j)"
  unfolding type_all_def by (induction ts arbitrary: f) (simp_all add: typed_other)

lemma last_typed:
  assumes "j < length controls" "accepts (controls ! j) s" "j \<notin> fst ` set us"
  shows "js_get (body (type_all controls (ts @ (j, s) # us) f)) (member j) = js_get (body (fc_change (controls ! j) s f)) (member j)"
proof -
  have "type_all controls (ts @ (j, s) # us) f = type_all controls us (typed controls (j, s) (type_all controls ts f))"
    by (simp add: type_all_def)
  then show ?thesis using assms untouched [OF assms(1, 3)] change_self [OF assms(1)] by (simp add: typed_def)
qed

end

text \<open>Opening a row, typing and saving, on the editor of the page.\<close>

definition edit_run :: "string \<Rightarrow> ('f \<Rightarrow> js) \<Rightarrow> (admin_reply \<Rightarrow> 'f editor \<Rightarrow> 'f editor) \<Rightarrow> 'f form_control list \<Rightarrow> string \<Rightarrow> 'f \<Rightarrow> (nat \<times> string) list \<Rightarrow> 'f editor" where
  "edit_run path body settle cs i f ts =
     foldl (editor_step path body settle) (editor_init f) (OpenRow i f # map (\<lambda>t. Edit (typed cs t)) ts @ [Save])"

lemma run_edits:
  "ed_id st = Some i \<Longrightarrow> foldl (editor_step path body settle) st (map (\<lambda>t. Edit (typed cs t)) ts) = st\<lparr>ed_form := type_all cs ts (ed_form st)\<rparr>"
  unfolding type_all_def by (induction ts arbitrary: st) (simp_all add: editor_step_def)

lemma edit_run_calls:
  "ed_calls (edit_run path body settle cs i f ts) = [\<lparr>ac_method = ''PUT'', ac_path = path, ac_id = Some i, ac_body = body (type_all cs ts f)\<rparr>]"
proof -
  have "foldl (editor_step path body settle) (editor_init f) (OpenRow i f # map (\<lambda>t. Edit (typed cs t)) ts)
      = (editor_init f)\<lparr>ed_id := Some i, ed_form := type_all cs ts f\<rparr>"
    using run_edits [of "editor_open i f (editor_init f)" i path body settle cs ts]
    by (simp add: editor_step_def editor_open_def editor_init_def)
  then show ?thesis by (simp add: edit_run_def editor_step_def editor_save_def editor_init_def)
qed

section \<open>Organisations and users\<close>

text \<open>\<open>parseInt(text, 10) || 0\<close>: the digits that follow blanks and a sign.\<close>

definition parse_int :: "string \<Rightarrow> int" where
  "parse_int s = (let t = trim_start s; neg = (t \<noteq> [] \<and> hd t = CHR ''-'');
      u = (if t \<noteq> [] \<and> (hd t = CHR ''-'' \<or> hd t = CHR ''+'') then tl t else t);
      n = int (digits_value (takeWhile JsonText.is_digit u)) in if neg then - n else n)"

lemma parse_int_examples: "map parse_int [''60'', '' 7 req'', ''-3'', ''abc'', []] = [60, 7, -3, 0, 0]"
  by code_simp

definition org_controls :: "org_form form_control list" where
  "org_controls = [text_control ''Name'' ow_fname (\<lambda>s f. f\<lparr>ow_fname := s\<rparr>),
     text_control ''Rate Limit (req/min)'' (\<lambda>f. int_str (ow_frate f)) (\<lambda>s f. f\<lparr>ow_frate := parse_int s\<rparr>),
     select_control ''Active'' [(''true'', []), (''false'', [])] (\<lambda>f. bool_text (ow_factive f)) (\<lambda>s f. f\<lparr>ow_factive := (s = ''true'')\<rparr>),
     text_control ''Allowed Origins (one per line)'' ow_forigins (\<lambda>s f. f\<lparr>ow_forigins := s\<rparr>)]"

definition org_edit_view :: "org_form editor \<Rightarrow> form_view option" where
  "org_edit_view = edit_view ''Edit Organization'' ''Update the organization settings.'' ''Save changes'' org_controls"

definition user_controls :: "account_form form_control list" where
  "user_controls = [text_control ''Name'' ar_fname (\<lambda>s f. f\<lparr>ar_fname := s\<rparr>), text_control ''Email'' ar_femail (\<lambda>s f. f\<lparr>ar_femail := s\<rparr>)]"

definition user_edit_view :: "account_form editor \<Rightarrow> form_view option" where
  "user_edit_view = edit_view ''Edit User'' ''Update the name or email for this user.'' ''Save changes'' user_controls"

definition org_members :: "string list" where "org_members = [''name'', ''rate_limit'', ''active'', ''allowed_origins'']"
definition user_members :: "string list" where "user_members = [''name'', ''email'']"

lemmas control_defs = text_control_def select_control_def

lemma less_cases: "i < Suc n \<longleftrightarrow> i = n \<or> i < n" by auto

interpretation org_dialog: edit_dialog org_controls "\<lambda>i. org_members ! i" org_body
  by unfold_locales (auto simp: org_controls_def org_members_def org_body_def control_defs less_cases numeral_eq_Suc)

interpretation user_dialog: edit_dialog user_controls "\<lambda>i. user_members ! i" user_body
  by unfold_locales (auto simp: user_controls_def user_members_def user_body_def control_defs less_cases numeral_eq_Suc)

section \<open>Agents, skills and templates\<close>

definition dict_text :: "string \<Rightarrow> (string, string) dict \<Rightarrow> string" where
  "dict_text k f = opt_or [] (dict_get f k)"

definition agent_controls :: "(string, string) dict form_control list" where
  "agent_controls = [text_control ''Name'' (dict_text ''name'') (dict_set ''name''),
     text_control ''Description'' (dict_text ''description'') (dict_set ''description''),
     text_control ''Model'' (dict_text ''model'') (dict_set ''model''),
     text_control ''System Prompt'' (dict_text ''system_prompt'') (dict_set ''system_prompt''),
     select_control ''Sandbox Type'' [(''dedicated'', ''Dedicated''), (''shared'', ''Shared'')] (dict_text ''sandbox_type'') (dict_set ''sandbox_type''),
     select_control ''Status'' [(''active'', ''Active''), (''archived'', ''Archived'')] (dict_text ''status'') (dict_set ''status'')]"

definition agent_members :: "string list" where
  "agent_members = [''name'', ''description'', ''model'', ''system_prompt'', ''sandbox_type'', ''status'']"

definition agent_edit_view :: "(string, string) dict editor \<Rightarrow> form_view option" where
  "agent_edit_view = edit_view ''Edit agent'' ''Update agent configuration and settings.'' ''Save changes'' agent_controls"

definition set_skill_text :: "string \<Rightarrow> string \<Rightarrow> skill_fields \<Rightarrow> skill_fields" where
  "set_skill_text k s f = f\<lparr>kx_texts := dict_set k s (kx_texts f)\<rparr>"

definition skill_text :: "string \<Rightarrow> skill_fields \<Rightarrow> string" where
  "skill_text k f = dict_text k (kx_texts f)"

text \<open>No control shows or changes \<open>featured\<close>: it is sent back as it was loaded.\<close>

definition skill_controls :: "skill_fields form_control list" where
  "skill_controls = [text_control ''Name'' (skill_text ''name'') (set_skill_text ''name''),
     text_control ''Description'' (skill_text ''description'') (set_skill_text ''description''),
     select_control ''Status'' [(''draft'', ''Draft''), (''published'', ''Published''), (''archived'', ''Archived'')]
       (skill_text ''status'') (set_skill_text ''status''),
     text_control ''Tags (comma-separated)'' kx_tags (\<lambda>s f. f\<lparr>kx_tags := s\<rparr>),
     text_control ''Branch / Ref'' (skill_text ''repo_ref'') (set_skill_text ''repo_ref'')]"

definition skill_members :: "string list" where
  "skill_members = [''name'', ''description'', ''status'', ''tags'', ''repo_ref'']"

definition skill_edit_view :: "skill_fields editor \<Rightarrow> form_view option" where
  "skill_edit_view = edit_view ''Edit Skill'' ''Update skill properties.'' ''Save Changes'' skill_controls"

definition template_sizes :: "(string \<times> string) list" where
  "template_sizes = [(''small'', ''Small (1 CPU, 2GB RAM, 10GB Disk)''), (''medium'', ''Medium (2 CPU, 4GB RAM, 20GB Disk)''),
     (''large'', ''Large (4 CPU, 8GB RAM, 40GB Disk)''), (''xlarge'', ''XLarge (8 CPU, 16GB RAM, 80GB Disk)'')]"

definition template_controls :: "template_form form_control list" where
  "template_controls = [text_control ''Name'' tf_name (\<lambda>s f. f\<lparr>tf_name := s\<rparr>),
     text_control ''Slug (Daytona snapshot name)'' tf_slug (\<lambda>s f. f\<lparr>tf_slug := s\<rparr>),
     text_control ''Tags (comma-separated)'' tf_tags (\<lambda>s f. f\<lparr>tf_tags := s\<rparr>),
     select_control ''Size'' template_sizes tf_size (\<lambda>s f. f\<lparr>tf_size := s\<rparr>)]"

definition template_members :: "string list" where
  "template_members = [''name'', ''slug'', ''tags'', ''size'']"

definition template_edit_view :: "template_form editor \<Rightarrow> form_view option" where
  "template_edit_view = edit_view ''Edit sandbox template'' ''Update the template details.'' ''Save changes'' template_controls"

lemmas dialog_defs = control_defs agent_controls_def agent_members_def agent_body_def agent_defaults_def
  skill_controls_def skill_members_def skill_edit_body_def skill_defaults_def set_skill_text_def
  template_controls_def template_members_def template_body_def

lemma agent_control_change: "i < length agent_controls \<Longrightarrow> fc_change (agent_controls ! i) = dict_set (agent_members ! i)"
  by (auto simp: agent_controls_def agent_members_def control_defs less_cases numeral_eq_Suc)

lemma agent_member_sent:
  "k \<in> set agent_members \<Longrightarrow> js_get (agent_body f) k = JStr (opt_or (the (map_of agent_defaults k)) (dict_get f k))"
  by (auto simp: agent_members_def agent_body_def agent_defaults_def)

lemma agent_members_ok: "distinct agent_members" "length agent_members = length agent_controls"
  by (simp_all add: agent_members_def agent_controls_def)

interpretation agent_dialog: edit_dialog agent_controls "\<lambda>i. agent_members ! i" agent_body
proof
  fix i j s f g assume i: "i < length agent_controls"
  show "js_get (agent_body (fc_change (agent_controls ! i) s f)) (agent_members ! i)
      = js_get (agent_body (fc_change (agent_controls ! i) s g)) (agent_members ! i)"
    using i agent_members_ok by (simp add: agent_control_change agent_member_sent dict_get_set opt_or_def)
  assume j: "j < length agent_controls" "i \<noteq> j"
  then have "agent_members ! i \<noteq> agent_members ! j" using i agent_members_ok by (simp add: nth_eq_iff_index_eq)
  then show "js_get (agent_body (fc_change (agent_controls ! i) s f)) (agent_members ! j) = js_get (agent_body f) (agent_members ! j)"
    using i j agent_members_ok by (simp add: agent_control_change agent_member_sent dict_get_set)
qed

interpretation skill_dialog: edit_dialog skill_controls "\<lambda>i. skill_members ! i" skill_edit_body
  by unfold_locales (auto simp: dialog_defs less_cases numeral_eq_Suc update_conv')

interpretation template_dialog: edit_dialog template_controls "\<lambda>i. template_members ! i" template_body
  by unfold_locales (auto simp: dialog_defs less_cases numeral_eq_Suc)

text \<open>What no control of the dialog of a skill changes.\<close>

lemma skill_featured_kept: "js_get (skill_edit_body (type_all skill_controls ts f)) ''featured'' = JBool (kx_featured f)"
proof -
  have "kx_featured (typed skill_controls t g) = kx_featured g" for t g
    by (cases t) (auto simp: typed_def dialog_defs less_cases numeral_eq_Suc)
  then have "kx_featured (type_all skill_controls ts f) = kx_featured f"
    unfolding type_all_def by (induction ts arbitrary: f) simp_all
  then show ?thesis by (simp add: skill_edit_body_def skill_defaults_def)
qed

section \<open>Creating\<close>

definition create_view ::
  "string \<Rightarrow> string \<Rightarrow> string \<Rightarrow> string \<Rightarrow> ('f \<Rightarrow> bool) \<Rightarrow> ('f \<Rightarrow> 'f form_control list) \<Rightarrow> 'f creator \<Rightarrow> form_view option" where
  "create_view title description button busy ready cs st = (if \<not> cr_open st then None else
     Some \<lparr>fv_title = title, fv_description = description, fv_fields = fields_of (cs (cr_form st)) (cr_form st),
       fv_error = shown_error (cr_error st), fv_button = (if cr_saving st then busy else button),
       fv_disabled = (cr_saving st \<or> \<not> ready (cr_form st))\<rparr>)"

text \<open>The fields of a repository are there for a git skill only.\<close>

definition new_skill_controls :: "new_skill \<Rightarrow> new_skill form_control list" where
  "new_skill_controls f = [text_control ''Name'' ns_name (\<lambda>s f. f\<lparr>ns_name := s\<rparr>),
     text_control ''Description'' ns_description (\<lambda>s f. f\<lparr>ns_description := s\<rparr>),
     select_control ''Source Type'' [(''git'', ''Git Repository''), (''inline'', ''Inline'')]
       (\<lambda>f. if ns_git f then ''git'' else ''inline'') (\<lambda>s f. f\<lparr>ns_git := (s = ''git'')\<rparr>)]
     @ (if ns_git f then [text_control ''Repository URL'' ns_repo_url (\<lambda>s f. f\<lparr>ns_repo_url := s\<rparr>),
          text_control ''Subpath (optional)'' ns_repo_subpath (\<lambda>s f. f\<lparr>ns_repo_subpath := s\<rparr>),
          text_control ''Branch / Ref'' ns_repo_ref (\<lambda>s f. f\<lparr>ns_repo_ref := s\<rparr>)] else [])
     @ [text_control ''Tags (comma-separated)'' ns_tags (\<lambda>s f. f\<lparr>ns_tags := s\<rparr>)]"

definition new_skill_view :: "new_skill creator \<Rightarrow> form_view option" where
  "new_skill_view = create_view ''Create Global Skill'' ''Global skills are visible to all organizations.'' ''Create Skill'' ''Creating...''
     (\<lambda>f. ns_name f \<noteq> []) new_skill_controls"

definition new_template_view :: "template_form creator \<Rightarrow> form_view option" where
  "new_template_view = create_view ''Register public template''
     ''Register a pre-built Daytona snapshot as a public template. Build snapshots first with make build-templates.''
     ''Register Template'' ''Registering...'' (\<lambda>_. True) (\<lambda>_. template_controls)"

text \<open>What is on the screen decides what is sent, up to the member that no control has.\<close>

lemma new_skill_shown:
  assumes "fields_of (new_skill_controls f) f = fields_of (new_skill_controls g) g" "ns_featured f = ns_featured g"
  shows "new_skill_body f = new_skill_body g"
  using assms by (cases "ns_git f"; cases "ns_git g") (simp_all add: fields_of_def new_skill_controls_def control_defs new_skill_body_def)

lemma never_featured: "ns_featured (fold (\<lambda>t f. typed (new_skill_controls f) t f) ts new_skill_init) = False"
proof -
  have controls: "list_all (\<lambda>c. \<forall>s h. ns_featured (fc_change c s h) = ns_featured h) (new_skill_controls g)" for g
    by (simp add: new_skill_controls_def control_defs)
  have "ns_featured (typed (new_skill_controls f) t f) = ns_featured f" for t f
    using controls [of f] by (cases t) (simp add: typed_def list_all_length)
  then have "ns_featured (fold (\<lambda>t f. typed (new_skill_controls f) t f) ts f) = ns_featured f" for f
    by (induction ts arbitrary: f) simp_all
  then show ?thesis by (simp add: new_skill_init_def)
qed

section \<open>Edits\<close>

definition edits_only ::
  "string \<Rightarrow> ('f \<Rightarrow> js) \<Rightarrow> (admin_reply \<Rightarrow> 'f editor \<Rightarrow> 'f editor) \<Rightarrow> 'f form_control list \<Rightarrow> string list \<Rightarrow> string \<Rightarrow> 'f \<Rightarrow> (nat \<times> string) list \<Rightarrow> bool" where
  "edits_only path body settle cs members i f ts \<longleftrightarrow> (\<exists>b.
     ed_calls (edit_run path body settle cs i f ts) = [\<lparr>ac_method = ''PUT'', ac_path = path, ac_id = Some i, ac_body = b\<rparr>]
     \<and> (\<forall>j < length cs. j \<notin> fst ` set ts \<longrightarrow> js_get b (members ! j) = js_get (body f) (members ! j))
     \<and> (\<forall>j < length cs. \<forall>s us vs. ts = us @ (j, s) # vs \<and> accepts (cs ! j) s \<and> j \<notin> fst ` set vs
          \<longrightarrow> js_get b (members ! j) = js_get (body (fc_change (cs ! j) s f)) (members ! j)))"

lemma edits_onlyI:
  "edit_dialog cs (\<lambda>i. members ! i) body \<Longrightarrow> edits_only path body settle cs members i f ts"
proof -
  assume dialog: "edit_dialog cs (\<lambda>i. members ! i) body"
  show ?thesis
    unfolding edits_only_def edit_run_calls
    by (rule exI [of _ "body (type_all cs ts f)"]) (auto simp: edit_dialog.untouched [OF dialog] edit_dialog.last_typed [OF dialog])
qed

text \<open>
  Saving in a dialog of the admin pages changes nothing but what was typed: whatever is typed
  into whichever fields, in any order, the save is one call for the opened row, every field that
  was left alone is sent as the opened row had it, and every other as it was typed last.\<close>

theorem dialogs_edit_only_typed:
  "edits_only org_path org_body org_settled org_controls org_members i org ts
   \<and> edits_only ''/admin/v1/users/{id}'' user_body user_settled user_controls user_members i user ts
   \<and> edits_only ''/admin/v1/agents/{id}'' agent_body agent_settled agent_controls agent_members i agent ts
   \<and> edits_only ''/admin/v1/skills/{id}'' skill_edit_body skill_edit_settled skill_controls skill_members i skill ts
   \<and> edits_only ''/admin/v1/sandbox-templates/{id}'' template_body template_settled template_controls template_members i template ts"
  by (intro conjI edits_onlyI org_dialog.edit_dialog_axioms user_dialog.edit_dialog_axioms agent_dialog.edit_dialog_axioms
      skill_dialog.edit_dialog_axioms template_dialog.edit_dialog_axioms)

text \<open>The last text of a field is the one that is sent.\<close>

lemma last_name_sent:
  "1 \<notin> fst ` set us \<Longrightarrow> js_get (user_body (type_all user_controls (ts @ (1, s) # us) f)) ''email'' = JStr s"
  using user_dialog.last_typed [of 1 s us ts f]
  by (simp add: user_controls_def user_members_def control_defs accepts_def user_body_def)

section \<open>Platform integrations\<close>

datatype integration_view =
    ProvidersLoading string
  | NoProviders string
  | Providers string "(string \<times> string \<times> string \<times> string) list"
  | Configure string "(string \<times> string) list" "string option" "(string \<times> bool) list"

text \<open>The two steps of the creation: the providers with their modes, then the fields of the chosen one.\<close>

definition new_integration_view :: "bool \<Rightarrow> provider list \<Rightarrow> create_integration \<Rightarrow> (string \<times> integration_view) option" where
  "new_integration_view loading ps st = (if \<not> ci_open st then None
     else if ci_step st = 1 then Some (''Select a provider'',
       (if loading then ProvidersLoading (ci_search st)
        else if filtered_providers ps (ci_search st) = [] then NoProviders (ci_search st)
        else Providers (ci_search st) (map (\<lambda>p. (pv_display p, pv_name p, badge_variant (pv_mode p), pv_mode p)) (filtered_providers ps (ci_search st)))))
     else (case ci_provider st of
         None \<Rightarrow> None
       | Some p \<Rightarrow> Some (''Configure '' @ pv_display p, Configure (ci_name st)
           (map (\<lambda>k. (k, dict_text k (ci_creds st))) (credential_fields (pv_mode p)) @ [(''meta'', ci_meta st)])
           (shown_error (ci_error st)) [(''Back'', False), (if ci_saving st then ''Creating...'' else ''Create'', ci_saving st)])))"

definition integration_edit_view :: "bool \<Rightarrow> edit_integration \<Rightarrow> (string \<times> integration_view) option" where
  "integration_edit_view expanded st = (case ei_integration st of None \<Rightarrow> None | Some i \<Rightarrow> Some (''Edit integration'', Configure (ei_name st)
     ((''meta'', ei_meta st) # (if expanded then map (\<lambda>k. (k, dict_text k (ei_creds st))) (credential_fields (get_auth_mode i)) else []))
     (shown_error (ei_error st))
     [(if expanded then ''Hide credentials'' else ''Update credentials'', False), (''Cancel'', False),
      (if ei_saving st then ''Saving...'' else ''Save changes'', ei_saving st)]))"

text \<open>A provider that is chosen is configured under its own name, with exactly the fields of its mode.\<close>

lemma picked_provider_configured:
  "ci_open st \<Longrightarrow> ci_step st = 1 \<Longrightarrow>
   \<exists>fields buttons. new_integration_view loading ps (new_integration_step st (Pick p))
     = Some (''Configure '' @ pv_display p, Configure (pv_display p) fields None buttons)
     \<and> map fst fields = credential_fields (pv_mode p) @ [''meta'']"
  by (simp add: new_integration_view_def new_integration_step_def select_provider_def shown_error_def comp_def)

end
