(* ===== verification/TriggerBuilder.thy ===== *)
theory TriggerBuilder
  imports JsPrelude "HOL-Library.Multiset"
begin

text \<open>
  Building an agent's triggers, in \<open>apps/web/app/w/agents/_components\<close>: the condition
  builder (\<open>create-agent/step-trigger/condition-builder.tsx\<close>), the trigger step of the
  creation wizard (\<open>create-agent/step-trigger/index.tsx\<close>) and the dialog that edits the
  triggers of an existing agent (\<open>edit-triggers-dialog.tsx\<close>). States are the components'
  React states, operations their handlers; what a handler hands to its parent
  (\<open>onConfirm\<close>, \<open>addTrigger\<close>, \<open>onUpdate\<close>) is part of its result. Animation variants and
  rendering are not modelled.
\<close>

section \<open>Triggers and conditions\<close>

record condition =
  c_path :: string
  c_operator :: string
  c_value :: js

datatype match_mode = All | Any

record conditions_config =
  cc_mode :: match_mode
  cc_conditions :: "condition list"

record trigger =
  tg_connection :: string
  tg_connection_name :: string
  tg_provider :: string
  tg_keys :: "string list"
  tg_names :: "string list"
  tg_conditions :: "conditions_config option"

section \<open>The condition builder\<close>

record builder_state =
  match_all :: bool
  bs_conditions :: "condition list"
  custom_path_index :: "nat option"

definition builder_init :: "conditions_config option \<Rightarrow> builder_state" where
  "builder_init c = \<lparr>match_all = (case c of None \<Rightarrow> True | Some x \<Rightarrow> cc_mode x \<noteq> Any),
     bs_conditions = (case c of None \<Rightarrow> [] | Some x \<Rightarrow> cc_conditions x), custom_path_index = None\<rparr>"

text \<open>\<open>refName.replace(/_/g, " ")\<close> labels the paths of a trigger.\<close>

definition path_options :: "(string, string) dict \<Rightarrow> (string \<times> string) list" where
  "path_options refs = map (\<lambda>(n, p). (map (\<lambda>c. if c = CHR ''_'' then CHR '' '' else c) n, p)) refs"

definition add_condition :: "builder_state \<Rightarrow> builder_state" where
  "add_condition st = st\<lparr>bs_conditions := bs_conditions st @
     [\<lparr>c_path = [], c_operator = ''equals'', c_value = JStr []\<rparr>]\<rparr>"

definition remove_at :: "nat \<Rightarrow> 'a list \<Rightarrow> 'a list" where
  "remove_at i xs = map fst (filter (\<lambda>(x, j). j \<noteq> i) (zip xs [0..<length xs]))"

definition remove_condition :: "nat \<Rightarrow> builder_state \<Rightarrow> builder_state" where
  "remove_condition i st =
     st\<lparr>bs_conditions := remove_at i (bs_conditions st),
        custom_path_index := (if custom_path_index st = Some i then None else custom_path_index st)\<rparr>"

datatype condition_field = FPath string | FOperator string | FValue js

definition set_field :: "condition_field \<Rightarrow> condition \<Rightarrow> condition" where
  "set_field f c = (case f of FPath p \<Rightarrow> c\<lparr>c_path := p\<rparr> | FOperator p \<Rightarrow> c\<lparr>c_operator := p\<rparr>
     | FValue v \<Rightarrow> c\<lparr>c_value := v\<rparr>)"

definition update_condition :: "nat \<Rightarrow> condition_field \<Rightarrow> builder_state \<Rightarrow> builder_state" where
  "update_condition i f st =
     st\<lparr>bs_conditions := map (\<lambda>(c, j). if j = i then set_field f c else c)
       (zip (bs_conditions st) [0..<length (bs_conditions st)])\<rparr>"

definition path_select :: "nat \<Rightarrow> string option \<Rightarrow> builder_state \<Rightarrow> builder_state" where
  "path_select i v st =
     (case v of
        None \<Rightarrow> st
      | Some p \<Rightarrow>
          (if p = [] then st
           else if p = ''__custom__'' then update_condition i (FPath []) (st\<lparr>custom_path_index := Some i\<rparr>)
           else update_condition i (FPath p) (st\<lparr>custom_path_index := None\<rparr>)))"

definition confirm_builder :: "builder_state \<Rightarrow> conditions_config option" where
  "confirm_builder st =
     (let valid = filter (\<lambda>c. js_trim (c_path c) \<noteq> []) (bs_conditions st) in
      if valid = [] then None
      else Some \<lparr>cc_mode = (if match_all st then All else Any), cc_conditions = valid\<rparr>)"

section \<open>Selecting events\<close>

record selected_event =
  se_key :: string
  se_name :: string
  se_refs :: "(string, string) dict"
  se_conditions :: "conditions_config option"

record connection =
  cn_id :: string
  cn_name :: string
  cn_provider :: string

datatype view = ListView | ChoiceView | ConnectionsView | TriggersView | ConditionsView

record picker =
  pk_view :: view
  pk_connection :: "connection option"
  pk_events :: "(string, selected_event) dict"
  pk_configuring :: "string option"
  pk_search :: string
  pk_direction :: int
  pk_editing :: "nat option"

definition step_order :: "view list" where
  "step_order = [ChoiceView, ConnectionsView, TriggersView, ConditionsView]"

definition dialog_order :: "view list" where
  "dialog_order = [ListView, ConnectionsView, TriggersView, ConditionsView]"

definition navigate_to :: "view list \<Rightarrow> view \<Rightarrow> picker \<Rightarrow> picker" where
  "navigate_to order v st =
     st\<lparr>pk_direction := (if index_of v order > index_of (pk_view st) order then 1 else -1),
        pk_search := [], pk_view := v\<rparr>"

definition pick_connection :: "view list \<Rightarrow> connection \<Rightarrow> picker \<Rightarrow> picker" where
  "pick_connection order c st = navigate_to order TriggersView (st\<lparr>pk_connection := Some c, pk_events := []\<rparr>)"

definition toggle_event :: "string \<Rightarrow> string \<Rightarrow> (string, string) dict \<Rightarrow> picker \<Rightarrow> picker" where
  "toggle_event k n refs st =
     st\<lparr>pk_events := (if dict_has (pk_events st) k then dict_delete k (pk_events st)
       else dict_set k \<lparr>se_key = k, se_name = n, se_refs = refs, se_conditions = None\<rparr> (pk_events st))\<rparr>"

definition remove_event :: "string \<Rightarrow> picker \<Rightarrow> picker" where
  "remove_event k st = st\<lparr>pk_events := dict_delete k (pk_events st)\<rparr>"

definition open_conditions :: "view list \<Rightarrow> string \<Rightarrow> picker \<Rightarrow> picker" where
  "open_conditions order k st = navigate_to order ConditionsView (st\<lparr>pk_configuring := Some k\<rparr>)"

text \<open>The wizard's step: filters go to the event being configured.\<close>

definition set_event_conditions ::
  "string \<Rightarrow> conditions_config option \<Rightarrow> (string, selected_event) dict \<Rightarrow> (string, selected_event) dict" where
  "set_event_conditions k c evs =
     (case dict_get evs k of None \<Rightarrow> evs | Some e \<Rightarrow> dict_set k (e\<lparr>se_conditions := c\<rparr>) evs)"

definition step_confirm_conditions :: "conditions_config option \<Rightarrow> picker \<Rightarrow> picker" where
  "step_confirm_conditions c st =
     (case pk_configuring st of
        None \<Rightarrow> st
      | Some k \<Rightarrow>
          (if k = [] then st
           else navigate_to step_order TriggersView
             (st\<lparr>pk_events := set_event_conditions k c (pk_events st), pk_configuring := None\<rparr>)))"

definition filtered :: "selected_event \<Rightarrow> bool" where
  "filtered e \<longleftrightarrow> (case se_conditions e of None \<Rightarrow> False | Some c \<Rightarrow> cc_conditions c \<noteq> [])"

definition make_trigger :: "connection \<Rightarrow> selected_event list \<Rightarrow> conditions_config option \<Rightarrow> trigger" where
  "make_trigger c es conds = \<lparr>tg_connection = cn_id c, tg_connection_name = cn_name c,
     tg_provider = cn_provider c, tg_keys = map se_key es, tg_names = map se_name es,
     tg_conditions = conds\<rparr>"

text \<open>One grouped trigger for the events without filters, one for each event with filters.\<close>

definition group_triggers :: "connection \<Rightarrow> selected_event list \<Rightarrow> trigger list" where
  "group_triggers c evs =
     (let plain = filter (\<lambda>e. \<not> filtered e) evs in
      (if plain \<noteq> [] then [make_trigger c plain None] else [])
      @ map (\<lambda>e. make_trigger c [e] (se_conditions e)) (filter filtered evs))"

definition step_confirm_selection :: "picker \<Rightarrow> trigger list \<times> picker" where
  "step_confirm_selection st =
     (case pk_connection st of
        None \<Rightarrow> ([], st)
      | Some c \<Rightarrow>
          (if pk_events st = [] then ([], st)
           else (group_triggers c (map snd (pk_events st)),
                 navigate_to step_order ChoiceView (st\<lparr>pk_events := [], pk_connection := None\<rparr>))))"

section \<open>Editing triggers\<close>

definition reset_flow :: "picker \<Rightarrow> picker" where
  "reset_flow st = st\<lparr>pk_connection := None, pk_events := [], pk_configuring := None, pk_editing := None,
     pk_search := []\<rparr>"

definition add_click :: "picker \<Rightarrow> picker" where
  "add_click st = navigate_to dialog_order ConnectionsView (reset_flow st)"

text \<open>
  The effect that fills in the references of the selected events once the catalogue of the
  provider has been loaded (\<open>catalogue\<close>: trigger key to references).
\<close>

definition fill_refs ::
  "(string, (string, string) dict) dict \<Rightarrow> (string, selected_event) dict \<Rightarrow> (string, selected_event) dict" where
  "fill_refs catalogue evs =
     map (\<lambda>(k, e). (k,
       if se_refs e \<noteq> [] then e
       else (case dict_get catalogue k of
               Some refs \<Rightarrow> if refs \<noteq> [] then e\<lparr>se_refs := refs\<rparr> else e | None \<Rightarrow> e))) evs"

definition event_of_trigger :: "trigger \<Rightarrow> nat \<Rightarrow> string \<Rightarrow> selected_event" where
  "event_of_trigger t j k = \<lparr>se_key = k,
     se_name = (if j < length (tg_names t) then tg_names t ! j else k), se_refs = [],
     se_conditions = tg_conditions t\<rparr>"

definition events_of_trigger :: "trigger \<Rightarrow> (string, selected_event) dict" where
  "events_of_trigger t =
     foldl (\<lambda>m (k, j). dict_set k (event_of_trigger t j k) m) [] (zip (tg_keys t) [0..<length (tg_keys t)])"

definition edit_click :: "trigger list \<Rightarrow> nat \<Rightarrow> picker \<Rightarrow> picker" where
  "edit_click triggers i st =
     (if i < length triggers
      then (let t = triggers ! i in
        navigate_to dialog_order TriggersView
          (st\<lparr>pk_editing := Some i,
              pk_connection := Some \<lparr>cn_id = tg_connection t, cn_name = tg_connection_name t,
                cn_provider = tg_provider t\<rparr>,
              pk_events := events_of_trigger t, pk_configuring := None, pk_search := []\<rparr>))
      else st)"

definition dialog_confirm_conditions :: "conditions_config option \<Rightarrow> picker \<Rightarrow> picker" where
  "dialog_confirm_conditions c st =
     (case pk_configuring st of
        None \<Rightarrow> st
      | Some k \<Rightarrow>
          (if k = [] then st
           else navigate_to dialog_order TriggersView
             (st\<lparr>pk_events :=
                  (if pk_editing st \<noteq> None
                   then map (\<lambda>(k', e). (k', e\<lparr>se_conditions := c\<rparr>)) (pk_events st)
                   else set_event_conditions k c (pk_events st)),
                 pk_configuring := None\<rparr>)))"

definition build_from_selection :: "picker \<Rightarrow> trigger list" where
  "build_from_selection st =
     (case pk_connection st of
        None \<Rightarrow> []
      | Some c \<Rightarrow>
          (let evs = map snd (pk_events st) in
           if pk_editing st \<noteq> None
           then [make_trigger c evs
             (case find filtered evs of Some e \<Rightarrow> se_conditions e | None \<Rightarrow> None)]
           else group_triggers c evs))"

text \<open>What the agent's form does with the result (\<open>addTrigger\<close>, \<open>removeTrigger\<close>, \<open>updateTrigger\<close>).\<close>

definition add_trigger :: "trigger \<Rightarrow> trigger list \<Rightarrow> trigger list" where
  "add_trigger t ts = ts @ [t]"

definition remove_trigger :: "nat \<Rightarrow> trigger list \<Rightarrow> trigger list" where
  "remove_trigger i ts = remove_at i ts"

definition update_trigger :: "nat \<Rightarrow> trigger list \<Rightarrow> trigger list \<Rightarrow> trigger list" where
  "update_trigger i new ts = take i ts @ new @ drop (i + 1) ts"

definition dialog_confirm_selection :: "trigger list \<Rightarrow> picker \<Rightarrow> trigger list \<times> picker" where
  "dialog_confirm_selection triggers st =
     (if pk_connection st = None \<or> pk_events st = [] then (triggers, st)
      else
        (let built = build_from_selection st in
         (case pk_editing st of
            Some i \<Rightarrow> update_trigger i built triggers
          | None \<Rightarrow> foldl (\<lambda>ts t. add_trigger t ts) triggers built,
          navigate_to dialog_order ListView (reset_flow st))))"

definition dialog_open_change :: "bool \<Rightarrow> picker \<Rightarrow> picker" where
  "dialog_open_change next_open st = (if next_open then st else (reset_flow st)\<lparr>pk_view := ListView\<rparr>)"

definition back_from_triggers :: "picker \<Rightarrow> picker" where
  "back_from_triggers st =
     (if pk_editing st \<noteq> None then navigate_to dialog_order ListView (reset_flow st)
      else navigate_to dialog_order ConnectionsView st)"

text \<open>\<open>getBaseProvider\<close> of \<open>templates.ts\<close>.\<close>

definition get_base_provider :: "string \<Rightarrow> string" where
  "get_base_provider p =
     (let i = index_of (CHR ''-'') p in if i > 0 then take (nat i) p else p)"

section \<open>Lemmas\<close>

lemma upt_step: "[n..<n + length (x # xs)] = n # [Suc n..<Suc n + length xs]"
  by (simp add: upt_conv_Cons del: upt_Suc)

lemma remove_index_before:
  "i < n \<Longrightarrow> map fst (filter (\<lambda>(x, j). j \<noteq> i) (zip xs [n..<n + length xs])) = xs"
proof (induction xs arbitrary: n)
  case (Cons x xs)
  then show ?case unfolding upt_step using Cons.IH [of "Suc n"] by simp
qed simp

lemma remove_index:
  "map fst (filter (\<lambda>(x, j). j \<noteq> n + i) (zip xs [n..<n + length xs])) = take i xs @ drop (Suc i) xs"
proof (induction xs arbitrary: n i)
  case (Cons x xs)
  show ?case
  proof (cases i)
    case 0
    then show ?thesis
      unfolding upt_step using remove_index_before [of n "Suc n" xs] by simp
  next
    case (Suc k)
    then show ?thesis
      unfolding upt_step using Cons.IH [of "Suc n" k] by simp
  qed
qed simp

lemma remove_at_eq: "remove_at i xs = take i xs @ drop (Suc i) xs"
  using remove_index [of 0 i xs] by (simp add: remove_at_def)

text \<open>The selection is a map whose entries carry their own key.\<close>

definition picker_inv :: "picker \<Rightarrow> bool" where
  "picker_inv st \<longleftrightarrow> dict_ok (pk_events st) \<and> map (\<lambda>(k, e). se_key e) (pk_events st) = dict_keys (pk_events st)"

definition keyed :: "(string, selected_event) dict \<Rightarrow> bool" where
  "keyed m \<longleftrightarrow> dict_ok m \<and> (\<forall>(k, e) \<in> set m. se_key e = k)"

lemma picker_inv_keyed: "picker_inv st \<longleftrightarrow> keyed (pk_events st)"
  by (auto simp: picker_inv_def keyed_def dict_keys_def)

lemma keyed_set: "keyed m \<Longrightarrow> se_key e = k \<Longrightarrow> keyed (dict_set k e m)"
proof -
  assume "keyed m" "se_key e = k"
  then show ?thesis using set_dict_set [of k e m] by (auto simp: keyed_def dict_ok_set)
qed

lemma keyed_delete: "keyed m \<Longrightarrow> keyed (dict_delete k m)"
  by (auto simp: keyed_def dict_ok_delete set_dict_delete)

lemma keyed_Nil [simp]: "keyed []"
  by (simp add: keyed_def)

lemma keyed_map:
  assumes "keyed m" "\<And>k e. fst (f (k, e)) = k" "\<And>k e. se_key (snd (f (k, e))) = se_key e"
  shows "keyed (map f m)"
proof -
  have "map fst (map f m) = map fst m"
    using assms(2) by (induction m) (auto simp: split_paired_all)
  moreover have "se_key e = k" if mem: "(k, e) \<in> set (map f m)" for k e
  proof -
    obtain z where z: "z \<in> set m" "f z = (k, e)" using mem by auto
    obtain k' e' where "z = (k', e')" by (rule prod.exhaust)
    with z have ke: "(k', e') \<in> set m" "f (k', e') = (k, e)" by simp_all
    then show ?thesis
      using assms(1) assms(2) [of k' e'] assms(3) [of k' e'] by (auto simp: keyed_def)
  qed
  ultimately show ?thesis using assms(1) unfolding keyed_def dict_ok_def by (metis (mono_tags, lifting) case_prodI2)
qed

lemma keyed_conditions: "keyed m \<Longrightarrow> keyed (set_event_conditions k c m)"
proof (cases "dict_get m k")
  case (Some e)
  assume m: "keyed m"
  then have "se_key e = k" using map_of_SomeD [OF Some] by (auto simp: keyed_def)
  then show ?thesis using m Some by (simp add: set_event_conditions_def keyed_set)
qed (simp add: set_event_conditions_def)

lemma keyed_events_of_trigger: "keyed (events_of_trigger t)"
proof -
  have "keyed (foldl (\<lambda>m (k, j). dict_set k (event_of_trigger t j k) m) m kjs)" if "keyed m" for m kjs
    using that by (induction kjs arbitrary: m) (auto simp: keyed_set event_of_trigger_def)
  then show ?thesis by (simp add: events_of_trigger_def)
qed

datatype picker_event =
    Pick connection
  | Toggle string string "(string, string) dict"
  | Remove string
  | Configure string
  | StepConditions "conditions_config option"
  | StepConfirm
  | AddClick
  | EditClick "trigger list" nat
  | CatalogueLoaded "(string, (string, string) dict) dict"
  | DialogConditions "conditions_config option"
  | DialogConfirm "trigger list"
  | DialogOpenChange bool
  | BackFromTriggers

definition picker_step :: "picker \<Rightarrow> picker_event \<Rightarrow> picker" where
  "picker_step st e =
     (case e of
        Pick c \<Rightarrow> pick_connection step_order c st
      | Toggle k n refs \<Rightarrow> toggle_event k n refs st
      | Remove k \<Rightarrow> remove_event k st
      | Configure k \<Rightarrow> open_conditions step_order k st
      | StepConditions c \<Rightarrow> step_confirm_conditions c st
      | StepConfirm \<Rightarrow> snd (step_confirm_selection st)
      | AddClick \<Rightarrow> add_click st
      | EditClick ts i \<Rightarrow> edit_click ts i st
      | CatalogueLoaded cat \<Rightarrow> st\<lparr>pk_events := fill_refs cat (pk_events st)\<rparr>
      | DialogConditions c \<Rightarrow> dialog_confirm_conditions c st
      | DialogConfirm ts \<Rightarrow> snd (dialog_confirm_selection ts st)
      | DialogOpenChange b \<Rightarrow> dialog_open_change b st
      | BackFromTriggers \<Rightarrow> back_from_triggers st)"

lemma picker_inv_step: "picker_inv st \<Longrightarrow> picker_inv (picker_step st e)"
proof -
  assume "picker_inv st"
  then have k: "keyed (pk_events st)" by (simp add: picker_inv_keyed)
  have fill: "keyed (fill_refs cat (pk_events st))" for cat
    unfolding fill_refs_def by (rule keyed_map [OF k]) (simp_all split: option.split)
  have all: "keyed (map (\<lambda>(k', e). (k', e\<lparr>se_conditions := c\<rparr>)) (pk_events st))" for c
    by (rule keyed_map [OF k]) simp_all
  have nav: "pk_events (navigate_to ord v s) = pk_events s" for ord v s
    by (simp add: navigate_to_def)
  show ?thesis
    unfolding picker_inv_keyed
    using k
    by (cases e) (auto simp: picker_step_def pick_connection_def toggle_event_def remove_event_def
        open_conditions_def step_confirm_conditions_def step_confirm_selection_def add_click_def reset_flow_def
        edit_click_def dialog_confirm_conditions_def dialog_confirm_selection_def dialog_open_change_def
        back_from_triggers_def nav Let_def fill all keyed_set keyed_delete keyed_conditions keyed_events_of_trigger
        split: option.split)
qed

interpretation picker: event_machine picker_step picker_inv
  by unfold_locales (rule picker_inv_step)

section \<open>Properties\<close>

lemma group_keys:
  "mset (concat (map tg_keys (group_triggers c evs))) = mset (map se_key evs)"
proof -
  have parts: "mset (map se_key (filter filtered evs)) + mset (map se_key (filter (\<lambda>e. \<not> filtered e) evs))
      = mset (map se_key evs)"
    by (induction evs) auto
  have single: "concat (map (\<lambda>e. tg_keys (make_trigger c [e] (se_conditions e))) es) = map se_key es" for es
    by (induction es) (simp_all add: make_trigger_def)
  have "concat (map tg_keys (group_triggers c evs)) =
      map se_key (filter (\<lambda>e. \<not> filtered e) evs) @ map se_key (filter filtered evs)"
    using single [of "filter filtered evs"]
    by (simp add: group_triggers_def Let_def o_def) (simp add: make_trigger_def)
  then show ?thesis using parts by (simp add: add.commute)
qed

text \<open>
  C16. Confirming a selection loses and invents no event: after any history of the picker,
  the keys of the triggers it adds are exactly the selected keys, each once; every trigger
  belongs to the picked connection; one that has filters is for a single event, and at most
  one has none.
\<close>

theorem selection_partitioned:
  assumes "picker_inv st0" "pk_connection (foldl picker_step st0 es) = Some c"
  shows "let st = foldl picker_step st0 es; ts = fst (step_confirm_selection st) in
     mset (concat (map tg_keys ts)) = mset (dict_keys (pk_events st)) \<and> distinct (concat (map tg_keys ts))
     \<and> (\<forall>t \<in> set ts. tg_connection t = cn_id c \<and> tg_keys t \<noteq> []
          \<and> (case tg_conditions t of None \<Rightarrow> True
             | Some x \<Rightarrow> cc_conditions x \<noteq> [] \<and> length (tg_keys t) = 1))
     \<and> length (filter (\<lambda>t. tg_conditions t = None) ts) \<le> 1"
proof -
  let ?st = "foldl picker_step st0 es"
  have inv: "picker_inv ?st" by (rule picker.run_inv [OF assms(1)])
  let ?ts = "fst (step_confirm_selection ?st)"
  have ts: "?ts = group_triggers c (map snd (pk_events ?st))"
    using assms(2) by (simp add: step_confirm_selection_def group_triggers_def)
  have keys: "map se_key (map snd (pk_events ?st)) = dict_keys (pk_events ?st)"
    using inv by (simp add: picker_inv_def o_def case_prod_unfold)
  have ms: "mset (concat (map tg_keys ?ts)) = mset (dict_keys (pk_events ?st))"
    unfolding ts group_keys keys ..
  moreover have "distinct (concat (map tg_keys ?ts))"
    using inv mset_eq_imp_distinct_iff [OF ms] by (simp add: picker_inv_def dict_ok_def dict_keys_def)
  moreover have "\<forall>t \<in> set ?ts. tg_connection t = cn_id c \<and> tg_keys t \<noteq> []
      \<and> (case tg_conditions t of None \<Rightarrow> True | Some x \<Rightarrow> cc_conditions x \<noteq> [] \<and> length (tg_keys t) = 1)"
    by (auto simp: ts group_triggers_def Let_def make_trigger_def filtered_def split: option.splits if_splits)
  moreover have "length (filter (\<lambda>t. tg_conditions t = None) ?ts) \<le> 1"
  proof -
    have "filter (\<lambda>t. tg_conditions t = None) (map (\<lambda>e. make_trigger c [e] (se_conditions e)) (filter filtered evs)) = []"
      for evs by (auto simp: filter_empty_conv make_trigger_def filtered_def split: option.splits)
    then show ?thesis by (simp add: ts group_triggers_def Let_def)
  qed
  ultimately show ?thesis by (simp add: Let_def)
qed

definition demo_picker :: picker where
  "demo_picker = \<lparr>pk_view = ChoiceView, pk_connection = None, pk_events = [], pk_configuring = None,
     pk_search = [], pk_direction = 1, pk_editing = None\<rparr>"

definition demo_selection :: "picker_event list" where
  "demo_selection = [Pick \<lparr>cn_id = ''c1'', cn_name = ''GitHub'', cn_provider = ''github''\<rparr>,
     Toggle ''push'' ''Push'' [], Toggle ''issues'' ''Issues'' [], Configure ''push'',
     StepConditions (Some \<lparr>cc_mode = All, cc_conditions = [\<lparr>c_path = ''ref'', c_operator = ''equals'', c_value = JNull\<rparr>]\<rparr>)]"

lemma selection_partitioned_witness:
  "let st = foldl picker_step demo_picker demo_selection; ts = fst (step_confirm_selection st) in
     mset (concat (map tg_keys ts)) = mset (dict_keys (pk_events st)) \<and> distinct (concat (map tg_keys ts))
     \<and> (\<forall>t \<in> set ts. tg_connection t = ''c1'' \<and> tg_keys t \<noteq> []
          \<and> (case tg_conditions t of None \<Rightarrow> True
             | Some x \<Rightarrow> cc_conditions x \<noteq> [] \<and> length (tg_keys t) = 1))
     \<and> length (filter (\<lambda>t. tg_conditions t = None) ts) \<le> 1"
proof -
  have "picker_inv demo_picker" by (simp add: picker_inv_def demo_picker_def dict_keys_def)
  moreover have "pk_connection (foldl picker_step demo_picker demo_selection) =
      Some \<lparr>cn_id = ''c1'', cn_name = ''GitHub'', cn_provider = ''github''\<rparr>"
    by (simp add: demo_picker_def demo_selection_def picker_step_def pick_connection_def navigate_to_def
        toggle_event_def open_conditions_def step_confirm_conditions_def)
  ultimately show ?thesis
    using selection_partitioned by fastforce
qed

lemma events_of_trigger_distinct:
  assumes "distinct (tg_keys t)"
  shows "events_of_trigger t =
     map (\<lambda>(k, j). (k, event_of_trigger t j k)) (zip (tg_keys t) [0..<length (tg_keys t)])"
proof -
  show ?thesis
    using assms fold_dict_set [of "[]" fst "zip (tg_keys t) [0..<length (tg_keys t)]" "\<lambda>_. True"
        "\<lambda>(k, j). event_of_trigger t j k"]
    by (simp add: events_of_trigger_def case_prod_unfold)
qed

text \<open>
  Editing a trigger and confirming without a change keeps the agent's triggers as they
  were, also when the catalogue has been loaded in between.
\<close>

theorem edit_without_change:
  assumes "i < length triggers" "t = triggers ! i"
    and "tg_keys t \<noteq> []" "distinct (tg_keys t)" "length (tg_names t) = length (tg_keys t)"
    and "case tg_conditions t of None \<Rightarrow> True | Some c \<Rightarrow> cc_conditions c \<noteq> []"
  shows "fst (dialog_confirm_selection triggers
     (picker_step (edit_click triggers i st) (CatalogueLoaded cat))) = triggers"
proof -
  let ?kjs = "zip (tg_keys t) [0..<length (tg_keys t)]"
  let ?evs = "fill_refs cat (events_of_trigger t)"
  have evs: "map snd ?evs = map (\<lambda>(k, j). (event_of_trigger t j k)\<lparr>se_refs :=
      (case dict_get cat k of None \<Rightarrow> [] | Some refs \<Rightarrow> refs)\<rparr>) ?kjs"
    unfolding events_of_trigger_distinct [OF assms(4)] fill_refs_def
    by (auto simp: event_of_trigger_def split: option.split)
  have keys: "map se_key (map snd ?evs) = tg_keys t"
    unfolding evs by (rule nth_equalityI) (auto simp: event_of_trigger_def)
  have names: "map se_name (map snd ?evs) = tg_names t"
    unfolding evs using assms(5) by (intro nth_equalityI) (auto simp: event_of_trigger_def)
  have conds: "se_conditions e = tg_conditions t" if "e \<in> set (map snd ?evs)" for e
    using that unfolding evs by (auto simp: event_of_trigger_def)
  have ne: "map snd ?evs \<noteq> []"
    using keys assms(3) by auto
  have shared: "(case find filtered (map snd ?evs) of Some e \<Rightarrow> se_conditions e | None \<Rightarrow> None) = tg_conditions t"
  proof (cases "map snd ?evs")
    case (Cons e es)
    then have e: "se_conditions e = tg_conditions t" using conds [of e] by simp
    show ?thesis
    proof (cases "tg_conditions t")
      case None
      then have "find filtered (map snd ?evs) = None"
        using conds by (auto simp: find_None_iff filtered_def)
      then show ?thesis using None by simp
    next
      case (Some c)
      then have "filtered e" using e assms(6) by (simp add: filtered_def)
      then show ?thesis using Cons e by simp
    qed
  qed (use ne in simp)
  have st: "picker_step (edit_click triggers i st) (CatalogueLoaded cat) =
      (edit_click triggers i st)\<lparr>pk_events := ?evs\<rparr>"
    using assms(1,2) by (simp add: picker_step_def edit_click_def navigate_to_def Let_def)
  have "build_from_selection ((edit_click triggers i st)\<lparr>pk_events := ?evs\<rparr>) = [t]"
    using assms(1,2) keys names shared
    by (simp add: build_from_selection_def edit_click_def navigate_to_def make_trigger_def Let_def del: map_map)
  moreover have "?evs \<noteq> []" using ne by auto
  ultimately show ?thesis
    using assms(1,2) unfolding st
    by (simp add: dialog_confirm_selection_def edit_click_def navigate_to_def update_trigger_def Let_def
        id_take_nth_drop [symmetric])
qed

definition demo_trigger :: trigger where
  "demo_trigger = \<lparr>tg_connection = ''c1'', tg_connection_name = ''github'', tg_provider = ''github'',
     tg_keys = [''push'', ''issues''], tg_names = [''push'', ''issues''],
     tg_conditions = Some \<lparr>cc_mode = Any, cc_conditions = [\<lparr>c_path = ''ref'', c_operator = ''exists'', c_value = JNull\<rparr>]\<rparr>\<rparr>"

lemma edit_without_change_witness:
  "fst (dialog_confirm_selection [demo_trigger]
     (picker_step (edit_click [demo_trigger] 0 demo_picker)
       (CatalogueLoaded [(''push'', [(''ref'', ''body.ref'')])]))) = [demo_trigger]"
  by (rule edit_without_change [where t = demo_trigger]) (simp_all add: demo_trigger_def)

text \<open>
  What the condition builder returns is stable: it is absent or has at least one
  condition, all with a path that is not blank, taken in order from those entered, and
  opening the builder on it and confirming again returns the same.
\<close>

theorem builder_confirm_stable:
  "confirm_builder (builder_init (confirm_builder st)) = confirm_builder st
   \<and> (case confirm_builder st of
        None \<Rightarrow> filter (\<lambda>c. js_trim (c_path c) \<noteq> []) (bs_conditions st) = []
      | Some r \<Rightarrow> cc_conditions r \<noteq> [] \<and> subseq (cc_conditions r) (bs_conditions st)
          \<and> filter (\<lambda>c. js_trim (c_path c) = []) (cc_conditions r) = []
          \<and> (cc_mode r = All \<longleftrightarrow> match_all st))"
  by (auto simp: confirm_builder_def builder_init_def Let_def filter_empty_conv)

text \<open>
  Removing a condition above the one whose custom path is being edited leaves the index
  behind: it then names another row, or none.
\<close>

lemma remove_condition_stale_index:
  "bs_conditions st = [a, b] \<Longrightarrow> custom_path_index st = Some 1 \<Longrightarrow>
   bs_conditions (remove_condition 0 st) = [b] \<and> custom_path_index (remove_condition 0 st) = Some 1"
  by (simp add: remove_condition_def remove_at_eq)

end
