(* ===== verification/CreateAgent.thy ===== *)
theory CreateAgent
  imports TriggerBuilder
begin

text \<open>
  The agent creation wizard, \<open>apps/web/app/w/agents/_components/create-agent/context.tsx\<close>:
  its steps, the selections it accumulates, and the request body it submits. The body is
  the JavaScript object the code builds, before serialisation drops its undefined members.
  The form library holds the form's values; the mutation and the toasts are not modelled.
\<close>

section \<open>State\<close>

datatype creation_mode = Scratch | Marketplace

datatype step =
    ModeStep | SandboxStep | IntegrationsStep | TriggerStep | LlmKeyStep | BasicsStep | SystemPromptStep
  | InstructionsStep | SkillsStep | SubagentsStep | SummaryStep | MarketplaceBrowse | MarketplaceDetail

definition scratch_steps :: "step list" where
  "scratch_steps = [ModeStep, SandboxStep, IntegrationsStep, TriggerStep, LlmKeyStep, BasicsStep,
     SystemPromptStep, InstructionsStep, SkillsStep, SubagentsStep, SummaryStep]"

definition marketplace_steps :: "step list" where
  "marketplace_steps = [ModeStep, MarketplaceBrowse, MarketplaceDetail]"

record form_values =
  fv_name :: string
  fv_description :: string
  fv_model :: string
  fv_credential :: string
  fv_sandbox :: string
  fv_prompts :: "(string, string) dict"
  fv_instructions :: string
  fv_judge_key :: string
  fv_judge_model :: string
  fv_marketplace_agent :: string

definition default_values :: form_values where
  "default_values = \<lparr>fv_name = [], fv_description = [], fv_model = [], fv_credential = [],
     fv_sandbox = ''shared'', fv_prompts = [], fv_instructions = [], fv_judge_key = [],
     fv_judge_model = [], fv_marketplace_agent = []\<rparr>"

record skill_preview =
  sk_id :: string
  sk_slug :: string
  sk_name :: string

record subagent_preview =
  sa_id :: string
  sa_name :: string
  sa_model :: string

record create_state =
  cs_form :: form_values
  cs_step :: step
  cs_mode :: "creation_mode option"
  cs_direction :: int
  cs_integrations :: "string jsset"
  cs_actions :: "(string, string jsset) dict"
  cs_skills :: "(string, skill_preview) dict"
  cs_subagents :: "(string, subagent_preview) dict"
  cs_triggers :: "trigger list"

definition initial_step :: "creation_mode option \<Rightarrow> step" where
  "initial_step m = (case m of Some Marketplace \<Rightarrow> MarketplaceBrowse | Some Scratch \<Rightarrow> SandboxStep
     | None \<Rightarrow> ModeStep)"

definition create_init :: "creation_mode option \<Rightarrow> create_state" where
  "create_init m = \<lparr>cs_form = default_values, cs_step = initial_step m, cs_mode = m, cs_direction = 1,
     cs_integrations = [], cs_actions = [], cs_skills = [], cs_subagents = [], cs_triggers = []\<rparr>"

section \<open>Operations\<close>

definition current_steps :: "create_state \<Rightarrow> step list" where
  "current_steps st = (if cs_mode st = Some Marketplace then marketplace_steps else scratch_steps)"

definition go_to :: "step \<Rightarrow> create_state \<Rightarrow> create_state" where
  "go_to next st =
     st\<lparr>cs_direction := (if index_of next (current_steps st) > index_of (cs_step st) (current_steps st)
          then 1 else -1),
        cs_step := next\<rparr>"

definition set_mode :: "creation_mode \<Rightarrow> create_state \<Rightarrow> create_state" where
  "set_mode m st = st\<lparr>cs_mode := Some m, cs_direction := 1,
     cs_step := (if m = Marketplace then MarketplaceBrowse else SandboxStep)\<rparr>"

definition toggle_integration :: "string \<Rightarrow> create_state \<Rightarrow> create_state" where
  "toggle_integration i st =
     (if i \<in> set (cs_integrations st)
      then st\<lparr>cs_integrations := set_remove i (cs_integrations st),
              cs_actions := dict_delete i (cs_actions st)\<rparr>
      else st\<lparr>cs_integrations := set_add i (cs_integrations st)\<rparr>)"

definition toggle_member :: "'a \<Rightarrow> 'a jsset \<Rightarrow> 'a jsset" where
  "toggle_member x s = (if x \<in> set s then set_remove x s else set_add x s)"

definition toggle_action :: "string \<Rightarrow> string \<Rightarrow> create_state \<Rightarrow> create_state" where
  "toggle_action i a st =
     st\<lparr>cs_actions := dict_set i
       (toggle_member a (case dict_get (cs_actions st) i of None \<Rightarrow> [] | Some s \<Rightarrow> s)) (cs_actions st)\<rparr>"

definition toggle_skill :: "skill_preview \<Rightarrow> create_state \<Rightarrow> create_state" where
  "toggle_skill s st =
     st\<lparr>cs_skills := (if dict_has (cs_skills st) (sk_id s) then dict_delete (sk_id s) (cs_skills st)
       else dict_set (sk_id s) s (cs_skills st))\<rparr>"

definition clear_skills :: "create_state \<Rightarrow> create_state" where
  "clear_skills st = st\<lparr>cs_skills := []\<rparr>"

definition toggle_subagent :: "subagent_preview \<Rightarrow> create_state \<Rightarrow> create_state" where
  "toggle_subagent s st =
     st\<lparr>cs_subagents := (if dict_has (cs_subagents st) (sa_id s) then dict_delete (sa_id s) (cs_subagents st)
       else dict_set (sa_id s) s (cs_subagents st))\<rparr>"

definition clear_subagents :: "create_state \<Rightarrow> create_state" where
  "clear_subagents st = st\<lparr>cs_subagents := []\<rparr>"

definition create_add_trigger :: "trigger \<Rightarrow> create_state \<Rightarrow> create_state" where
  "create_add_trigger t st = st\<lparr>cs_triggers := add_trigger t (cs_triggers st)\<rparr>"

definition create_remove_trigger :: "nat \<Rightarrow> create_state \<Rightarrow> create_state" where
  "create_remove_trigger i st = st\<lparr>cs_triggers := remove_trigger i (cs_triggers st)\<rparr>"

definition create_reset :: "create_state \<Rightarrow> create_state" where
  "create_reset st = st\<lparr>cs_step := ModeStep, cs_mode := None, cs_integrations := [], cs_actions := [],
     cs_skills := [], cs_subagents := [], cs_triggers := [], cs_form := default_values\<rparr>"

section \<open>The request body\<close>

definition js_strings :: "string list \<Rightarrow> js" where
  "js_strings xs = JArr (map JStr xs)"

definition optional_text :: "string \<Rightarrow> js" where
  "optional_text s = (if s = [] then JUndefined else JStr s)"

definition condition_js :: "condition \<Rightarrow> js" where
  "condition_js c = JObj [(''path'', JStr (c_path c)), (''operator'', JStr (c_operator c)), (''value'', c_value c)]"

definition conditions_js :: "conditions_config option \<Rightarrow> js" where
  "conditions_js c =
     (case c of
        None \<Rightarrow> JNull
      | Some x \<Rightarrow> JObj [(''mode'', JStr (if cc_mode x = Any then ''any'' else ''all'')),
          (''conditions'', JArr (map condition_js (cc_conditions x)))])"

definition trigger_js :: "trigger \<Rightarrow> js" where
  "trigger_js t = JObj [(''connection_id'', JStr (tg_connection t)), (''trigger_keys'', js_strings (tg_keys t)),
     (''conditions'', conditions_js (tg_conditions t))]"

definition integrations_payload :: "string jsset \<Rightarrow> (string, string jsset) dict \<Rightarrow> (string \<times> js) list" where
  "integrations_payload ints acts =
     foldl (\<lambda>m i. dict_set i
       (JObj [(''actions'', js_strings (case dict_get acts i of None \<Rightarrow> [] | Some s \<Rightarrow> s))]) m) [] ints"

definition first_prompt :: "(string, string) dict \<Rightarrow> string" where
  "first_prompt ps = (case find (\<lambda>p. js_trim p \<noteq> []) (map snd ps) of Some p \<Rightarrow> p | None \<Rightarrow> [])"

definition prompts_payload :: "(string, string) dict \<Rightarrow> (string \<times> js) list" where
  "prompts_payload ps =
     foldl (\<lambda>m (k, p). if js_trim p \<noteq> [] then dict_set k (JObj [(''system_prompt'', JStr p)]) m else m) [] ps"

definition create_body :: "create_state \<Rightarrow> js" where
  "create_body st =
     (let v = cs_form st in
      JObj ([(''name'', JStr (js_trim (fv_name v))),
             (''description'', optional_text (js_trim (fv_description v))),
             (''credential_id'', JStr (fv_credential v)),
             (''model'', JStr (fv_model v)),
             (''sandbox_type'', JStr (fv_sandbox v)),
             (''system_prompt'', JStr (first_prompt (fv_prompts v))),
             (''provider_prompts'', JObj (prompts_payload (fv_prompts v))),
             (''instructions'', optional_text (fv_instructions v)),
             (''integrations'', JObj (integrations_payload (cs_integrations st) (cs_actions st)))]
         @ (if cs_skills st \<noteq> [] then [(''skill_ids'', js_strings (dict_keys (cs_skills st)))] else [])
         @ (if cs_subagents st \<noteq> [] then [(''subagent_ids'', js_strings (dict_keys (cs_subagents st)))] else [])
         @ (if cs_triggers st \<noteq> [] then [(''triggers'', JArr (map trigger_js (cs_triggers st)))] else [])))"

definition handle_create :: "create_state \<Rightarrow> js option" where
  "handle_create st =
     (let v = cs_form st in
      if fv_credential v = [] \<or> fv_model v = [] \<or> fv_sandbox v = [] then None else Some (create_body st))"

section \<open>The invariant\<close>

datatype create_event =
    GoTo step
  | SetMode creation_mode
  | ToggleIntegration string
  | ToggleAction string string
  | ToggleSkill skill_preview
  | ClearSkills
  | ToggleSubagent subagent_preview
  | ClearSubagents
  | AddTrigger trigger
  | RemoveTrigger nat
  | SetForm form_values
  | Reset

definition create_step :: "create_state \<Rightarrow> create_event \<Rightarrow> create_state" where
  "create_step st e =
     (case e of
        GoTo s \<Rightarrow> go_to s st
      | SetMode m \<Rightarrow> set_mode m st
      | ToggleIntegration i \<Rightarrow> toggle_integration i st
      | ToggleAction i a \<Rightarrow> toggle_action i a st
      | ToggleSkill s \<Rightarrow> toggle_skill s st
      | ClearSkills \<Rightarrow> clear_skills st
      | ToggleSubagent s \<Rightarrow> toggle_subagent s st
      | ClearSubagents \<Rightarrow> clear_subagents st
      | AddTrigger t \<Rightarrow> create_add_trigger t st
      | RemoveTrigger i \<Rightarrow> create_remove_trigger i st
      | SetForm v \<Rightarrow> st\<lparr>cs_form := v\<rparr>
      | Reset \<Rightarrow> create_reset st)"

definition indexed :: "('v \<Rightarrow> string) \<Rightarrow> (string, 'v) dict \<Rightarrow> bool" where
  "indexed f m \<longleftrightarrow> dict_ok m \<and> (\<forall>(k, v) \<in> set m. f v = k)"

definition create_inv :: "create_state \<Rightarrow> bool" where
  "create_inv st \<longleftrightarrow> distinct (cs_integrations st)
     \<and> dict_ok (cs_actions st) \<and> (\<forall>(i, s) \<in> set (cs_actions st). distinct s)
     \<and> indexed sk_id (cs_skills st) \<and> indexed sa_id (cs_subagents st)"

lemma indexed_set: "indexed f m \<Longrightarrow> indexed f (dict_set (f v) v m)"
proof -
  assume "indexed f m"
  then show ?thesis using set_dict_set [of "f v" v m] by (auto simp: indexed_def dict_ok_set)
qed

lemma indexed_delete: "indexed f m \<Longrightarrow> indexed f (dict_delete k m)"
  by (auto simp: indexed_def dict_ok_delete set_dict_delete)

lemma indexed_keys: "indexed f m \<Longrightarrow> dict_keys m = map f (map snd m)"
  by (auto simp: indexed_def dict_keys_def)

lemma distinct_toggle: "distinct s \<Longrightarrow> distinct (toggle_member x s)"
  by (simp add: toggle_member_def distinct_set_add distinct_set_remove)

lemma create_inv_action: "create_inv st \<Longrightarrow> create_inv (toggle_action i a st)"
proof -
  assume inv: "create_inv st"
  let ?s = "toggle_member a (case dict_get (cs_actions st) i of None \<Rightarrow> [] | Some s \<Rightarrow> s)"
  have "distinct ?s"
    using inv by (auto simp: create_inv_def intro!: distinct_toggle dest!: map_of_SomeD split: option.split)
  then show ?thesis
    using inv set_dict_set [of i ?s "cs_actions st"] by (auto simp: create_inv_def toggle_action_def dict_ok_set)
qed

lemma create_inv_step: "create_inv st \<Longrightarrow> create_inv (create_step st e)"
proof (cases e)
  case (ToggleAction i a)
  then show "create_inv st \<Longrightarrow> ?thesis" by (simp add: create_step_def create_inv_action)
qed (auto simp: create_step_def create_inv_def go_to_def set_mode_def
    toggle_integration_def toggle_skill_def clear_skills_def toggle_subagent_def clear_subagents_def
    create_add_trigger_def create_remove_trigger_def create_reset_def distinct_set_add distinct_set_remove
    dict_ok_delete set_dict_delete indexed_set indexed_delete indexed_def [of _ "[]"])

interpretation create: event_machine create_step create_inv
  by unfold_locales (rule create_inv_step)

lemma create_inv_init: "create_inv (create_init m)"
  by (simp add: create_inv_def create_init_def indexed_def)

section \<open>Properties\<close>

lemma integrations_payload_eq:
  "distinct ints \<Longrightarrow> integrations_payload ints acts =
     map (\<lambda>i. (i, JObj [(''actions'', js_strings (case dict_get acts i of None \<Rightarrow> [] | Some s \<Rightarrow> s))])) ints"
  using fold_dict_set [of "[]" "\<lambda>i. i" ints "\<lambda>_. True"
      "\<lambda>i. JObj [(''actions'', js_strings (case dict_get acts i of None \<Rightarrow> [] | Some s \<Rightarrow> s))]"]
  by (simp add: integrations_payload_def)


definition demo_form :: form_values where
  "demo_form = default_values\<lparr>fv_name := '' Bot '', fv_credential := ''k1'', fv_model := ''m1''\<rparr>"

definition demo_wizard :: "create_event list" where
  "demo_wizard = [ToggleIntegration ''c1'', ToggleAction ''c1'' ''read'', SetForm demo_form]"


text \<open>
  Deselecting an integration drops its actions: selecting it again starts from none. It
  does not drop the triggers that were added for its connection.
\<close>

lemma reselected_integration_empty:
  "create_inv st \<Longrightarrow> i \<in> set (cs_integrations st) \<Longrightarrow>
   dict_get (cs_actions (toggle_integration i (toggle_integration i st))) i = None"
  by (simp add: toggle_integration_def set_set_remove delete_conv')

lemma deselected_integration_keeps_triggers:
  "let st = foldl create_step (create_init (Some Scratch))
       [ToggleIntegration (tg_connection t), AddTrigger t, ToggleIntegration (tg_connection t)] in
     cs_triggers st = [t] \<and> cs_integrations st = []"
  by (simp add: create_step_def create_init_def toggle_integration_def create_add_trigger_def add_trigger_def
      set_add_def set_remove_def)

end
