(* ===== verification/WizardFlow.thy ===== *)
theory WizardFlow
  imports CreateAgent AuthPages
begin

text \<open>
  The pages of the agent wizard, \<open>create-agent/step-*.tsx\<close>, as one machine over the state of
  \<open>CreateAgent\<close>: what each page lets the user do, which guard its button has, and where its
  buttons go. The main result is that the wizard cannot submit an incomplete agent.
\<close>

section \<open>Guards of the pages\<close>

definition can_submit :: "form_values \<Rightarrow> bool" where
  "can_submit v \<longleftrightarrow> js_trim (fv_name v) \<noteq> [] \<and> fv_model v \<noteq> []"

definition has_prompt :: "form_values \<Rightarrow> bool" where
  "has_prompt v \<longleftrightarrow> list_ex (\<lambda>p. js_trim p \<noteq> []) (map snd (fv_prompts v))"

text \<open>The buttons of a page: forward, with its guard, and back.\<close>

definition next_page :: "create_state \<Rightarrow> step option" where
  "next_page st = (case cs_step st of
       IntegrationsStep \<Rightarrow> Some TriggerStep
     | TriggerStep \<Rightarrow> Some LlmKeyStep
     | BasicsStep \<Rightarrow> if can_submit (cs_form st) then Some SystemPromptStep else None
     | SystemPromptStep \<Rightarrow> if has_prompt (cs_form st) then Some InstructionsStep else None
     | InstructionsStep \<Rightarrow> Some SkillsStep
     | SkillsStep \<Rightarrow> Some SubagentsStep
     | SubagentsStep \<Rightarrow> Some SummaryStep
     | _ \<Rightarrow> None)"

fun back_target :: "step \<Rightarrow> step option" where
  "back_target SandboxStep = Some ModeStep"
| "back_target IntegrationsStep = Some SandboxStep"
| "back_target TriggerStep = Some IntegrationsStep"
| "back_target LlmKeyStep = Some IntegrationsStep"
| "back_target BasicsStep = Some LlmKeyStep"
| "back_target SystemPromptStep = Some BasicsStep"
| "back_target InstructionsStep = Some SystemPromptStep"
| "back_target SkillsStep = Some InstructionsStep"
| "back_target SubagentsStep = Some SkillsStep"
| "back_target SummaryStep = Some SkillsStep"
| "back_target MarketplaceBrowse = Some ModeStep"
| "back_target MarketplaceDetail = Some MarketplaceBrowse"
| "back_target ModeStep = None"

text \<open>Two back buttons do not lead to the page before: the trigger and the subagents are skipped.\<close>

lemma back_is_previous:
  "i + 1 < length scratch_steps \<Longrightarrow> back_target (scratch_steps ! (i + 1)) = Some (scratch_steps ! i)
   \<longleftrightarrow> scratch_steps ! (i + 1) \<notin> {LlmKeyStep, SummaryStep}"
  by (auto simp: scratch_steps_def nth_Cons' numeral_eq_Suc less_Suc_eq)

section \<open>The machine\<close>

record wizard =
  wz_state :: create_state
  wz_calls :: "js list"
  wz_pending :: "string option"
  wz_toasts :: "string list"
  wz_open :: bool

definition wizard_init :: "creation_mode option \<Rightarrow> wizard" where
  "wizard_init m = \<lparr>wz_state = create_init m, wz_calls = [], wz_pending = None, wz_toasts = [], wz_open = True\<rparr>"

definition on_state :: "(create_state \<Rightarrow> create_state) \<Rightarrow> wizard \<Rightarrow> wizard" where
  "on_state f w = w\<lparr>wz_state := f (wz_state w)\<rparr>"

definition set_values :: "(form_values \<Rightarrow> form_values) \<Rightarrow> create_state \<Rightarrow> create_state" where
  "set_values f st = st\<lparr>cs_form := f (cs_form st)\<rparr>"

text \<open>
  The clicks of the integrations page: opening an integration selects it, \<open>Remove\<close>
  deselects it. What the page shows meanwhile is in \<open>WizardPickers\<close>.
\<close>

definition open_integration :: "string \<Rightarrow> create_state \<Rightarrow> create_state" where
  "open_integration i st = (if i \<in> set (cs_integrations st) then st else toggle_integration i st)"

definition drop_integration :: "string \<Rightarrow> create_state \<Rightarrow> create_state" where
  "drop_integration i st = (if i \<in> set (cs_integrations st) then toggle_integration i st else st)"

text \<open>\<open>handleSelect\<close> of the sandbox page and of the key page.\<close>

definition select_sandbox :: "bool \<Rightarrow> create_state \<Rightarrow> create_state" where
  "select_sandbox dedicated st =
     go_to IntegrationsStep (set_values (\<lambda>v. v\<lparr>fv_sandbox := (if dedicated then ''dedicated'' else ''shared'')\<rparr>) st)"

definition select_key :: "string \<Rightarrow> create_state \<Rightarrow> create_state" where
  "select_key credential st = go_to BasicsStep (set_values (\<lambda>v. v\<lparr>fv_credential := credential\<rparr>) st)"

definition pick_marketplace :: "string \<Rightarrow> create_state \<Rightarrow> create_state" where
  "pick_marketplace slug st = go_to MarketplaceDetail (set_values (\<lambda>v. v\<lparr>fv_marketplace_agent := slug\<rparr>) st)"

definition submit_agent :: "wizard \<Rightarrow> wizard" where
  "submit_agent w = (case handle_create (wz_state w) of
       None \<Rightarrow> w | Some b \<Rightarrow> w\<lparr>wz_calls := wz_calls w @ [b], wz_pending := Some (fv_name (cs_form (wz_state w)))\<rparr>)"

text \<open>The answer to the latest request; the name is the one the form had at the click.\<close>

definition submit_settled :: "js option \<Rightarrow> wizard \<Rightarrow> wizard" where
  "submit_settled err w = (case wz_pending w of None \<Rightarrow> w | Some name \<Rightarrow> (case err of
       None \<Rightarrow> w\<lparr>wz_pending := None, wz_open := False,
         wz_toasts := wz_toasts w @ [''Agent '' @ [CHR 0x22] @ name @ [CHR 0x22] @ '' created'']\<rparr>
     | Some e \<Rightarrow> w\<lparr>wz_pending := None, wz_toasts := wz_toasts w @ [extract_error_message e ''Failed to create agent'']\<rparr>))"

datatype wizard_event =
    PickMode creation_mode | PickSandbox bool | OpenIntegration string | DropIntegration string | PickAction string string
  | WizardTrigger trigger | DropTrigger nat | PickKey string | NameText string | DescriptionText string
  | PickModel string | PromptText string string | InstructionsText string | PickSkill skill_preview | NoSkills
  | PickSubagent subagent_preview | NoSubagents | PickListing string | Forward | Back | CreateButton | Submitted "js option"

text \<open>What a control does, and the page it is on.\<close>

definition control :: "wizard_event \<Rightarrow> (step \<times> (create_state \<Rightarrow> create_state)) option" where
  "control e = (case e of
       PickMode m \<Rightarrow> Some (ModeStep, set_mode m)
     | PickSandbox b \<Rightarrow> Some (SandboxStep, select_sandbox b)
     | OpenIntegration i \<Rightarrow> Some (IntegrationsStep, open_integration i)
     | DropIntegration i \<Rightarrow> Some (IntegrationsStep, drop_integration i)
     | PickAction i a \<Rightarrow> Some (IntegrationsStep, toggle_action i a)
     | WizardTrigger t \<Rightarrow> Some (TriggerStep, create_add_trigger t)
     | DropTrigger i \<Rightarrow> Some (TriggerStep, create_remove_trigger i)
     | PickKey k \<Rightarrow> Some (LlmKeyStep, select_key k)
     | NameText s \<Rightarrow> Some (BasicsStep, set_values (\<lambda>v. v\<lparr>fv_name := s\<rparr>))
     | DescriptionText s \<Rightarrow> Some (BasicsStep, set_values (\<lambda>v. v\<lparr>fv_description := s\<rparr>))
     | PickModel s \<Rightarrow> Some (BasicsStep, set_values (\<lambda>v. v\<lparr>fv_model := s\<rparr>))
     | PromptText p s \<Rightarrow> Some (SystemPromptStep, set_values (\<lambda>v. v\<lparr>fv_prompts := dict_set p s (fv_prompts v)\<rparr>))
     | InstructionsText s \<Rightarrow> Some (InstructionsStep, set_values (\<lambda>v. v\<lparr>fv_instructions := s\<rparr>))
     | PickSkill s \<Rightarrow> Some (SkillsStep, toggle_skill s) | NoSkills \<Rightarrow> Some (SkillsStep, clear_skills)
     | PickSubagent s \<Rightarrow> Some (SubagentsStep, toggle_subagent s) | NoSubagents \<Rightarrow> Some (SubagentsStep, clear_subagents)
     | PickListing slug \<Rightarrow> Some (MarketplaceBrowse, pick_marketplace slug)
     | _ \<Rightarrow> None)"

definition wizard_step :: "wizard \<Rightarrow> wizard_event \<Rightarrow> wizard" where
  "wizard_step w e = (if \<not> wz_open w then w else
     (case control e of
        Some (page, f) \<Rightarrow> if cs_step (wz_state w) = page then on_state f w else w
      | None \<Rightarrow> (case e of
          Forward \<Rightarrow> (case next_page (wz_state w) of None \<Rightarrow> w | Some s \<Rightarrow> on_state (go_to s) w)
        | Back \<Rightarrow> (case back_target (cs_step (wz_state w)) of None \<Rightarrow> w | Some s \<Rightarrow> on_state (go_to s) w)
        | CreateButton \<Rightarrow> if cs_step (wz_state w) = SummaryStep \<and> \<not> button_disabled None (wz_pending w \<noteq> None) then submit_agent w else w
        | Submitted err \<Rightarrow> submit_settled err w
        | _ \<Rightarrow> w)))"

section \<open>The invariant\<close>

text \<open>
  What has to be known on a page: past the key page a key was chosen, past the basics a name
  and a model, past the system prompt a prompt.
\<close>

definition after_key :: "step set" where
  "after_key = {BasicsStep, SystemPromptStep, InstructionsStep, SkillsStep, SubagentsStep, SummaryStep}"

definition after_basics :: "step set" where
  "after_basics = {SystemPromptStep, InstructionsStep, SkillsStep, SubagentsStep, SummaryStep}"

definition after_prompt :: "step set" where
  "after_prompt = {InstructionsStep, SkillsStep, SubagentsStep, SummaryStep}"

lemmas pages = after_key_def after_basics_def after_prompt_def

definition form_ok :: "string set \<Rightarrow> create_state \<Rightarrow> bool" where
  "form_ok keys st \<longleftrightarrow> (cs_step st \<in> after_key \<longrightarrow> fv_credential (cs_form st) \<in> keys)
     \<and> (cs_step st \<in> after_basics \<longrightarrow> can_submit (cs_form st))
     \<and> (cs_step st \<in> after_prompt \<longrightarrow> has_prompt (cs_form st))"

definition picked_key :: "wizard_event \<Rightarrow> string option" where
  "picked_key e = (case e of PickKey k \<Rightarrow> Some k | _ \<Rightarrow> None)"

definition body_complete :: "string set \<Rightarrow> js \<Rightarrow> bool" where
  "body_complete keys b \<longleftrightarrow> (\<exists>k n m. k \<in> keys \<and> k \<noteq> [] \<and> n \<noteq> [] \<and> m \<noteq> [] \<and> js_trim n = n
     \<and> js_get b ''credential_id'' = JStr k \<and> js_get b ''name'' = JStr n \<and> js_get b ''model'' = JStr m
     \<and> (\<exists>p. js_get b ''system_prompt'' = JStr p \<and> js_trim p \<noteq> []))"

lemma go_to_fields [simp]: "cs_step (go_to s st) = s" "cs_form (go_to s st) = cs_form st"
  by (simp_all add: go_to_def)

lemma selection_fields [simp]:
  "cs_step (toggle_integration i st) = cs_step st" "cs_form (toggle_integration i st) = cs_form st"
  "cs_step (open_integration i st) = cs_step st" "cs_form (open_integration i st) = cs_form st"
  "cs_step (drop_integration i st) = cs_step st" "cs_form (drop_integration i st) = cs_form st"
  "cs_step (toggle_action i a st) = cs_step st" "cs_form (toggle_action i a st) = cs_form st"
  "cs_step (toggle_skill k st) = cs_step st" "cs_form (toggle_skill k st) = cs_form st"
  "cs_step (clear_skills st) = cs_step st" "cs_form (clear_skills st) = cs_form st"
  "cs_step (toggle_subagent g st) = cs_step st" "cs_form (toggle_subagent g st) = cs_form st"
  "cs_step (clear_subagents st) = cs_step st" "cs_form (clear_subagents st) = cs_form st"
  "cs_step (create_add_trigger t st) = cs_step st" "cs_form (create_add_trigger t st) = cs_form st"
  "cs_step (create_remove_trigger n st) = cs_step st" "cs_form (create_remove_trigger n st) = cs_form st"
  by (simp_all add: open_integration_def drop_integration_def toggle_integration_def toggle_action_def toggle_skill_def clear_skills_def toggle_subagent_def
      clear_subagents_def create_add_trigger_def create_remove_trigger_def)

lemma set_values_fields [simp]: "cs_step (set_values f st) = cs_step st" "cs_form (set_values f st) = f (cs_form st)"
  by (simp_all add: set_values_def)

lemma form_ok_control:
  assumes "control e = Some (cs_step st, f)" "form_ok keys st" "\<And>k. picked_key e = Some k \<Longrightarrow> k \<in> keys"
  shows "form_ok keys (f st)"
proof -
  have page: "cs_step (set_mode m st) \<in> {SandboxStep, MarketplaceBrowse}" for m by (simp add: set_mode_def)
  show ?thesis
  proof (cases e)
    case (PickMode m)
    then have "f = set_mode m" using assms(1) by (simp add: control_def)
    then show ?thesis using page [of m] by (auto simp: form_ok_def pages)
  next
    case (PickKey k)
    then have "f = select_key k" "k \<in> keys" using assms(1,3) by (simp_all add: control_def picked_key_def)
    then show ?thesis by (simp add: form_ok_def pages select_key_def)
  qed (use assms(1,2) in \<open>auto simp: control_def form_ok_def pages select_sandbox_def pick_marketplace_def
      can_submit_def has_prompt_def\<close>)
qed

lemma form_ok_forward: "form_ok keys st \<Longrightarrow> next_page st = Some s \<Longrightarrow> form_ok keys (go_to s st)"
  by (cases "cs_step st") (auto simp: next_page_def form_ok_def pages split: if_splits)

lemma form_ok_back: "form_ok keys st \<Longrightarrow> back_target (cs_step st) = Some s \<Longrightarrow> form_ok keys (go_to s st)"
  by (cases "cs_step st") (auto simp: form_ok_def pages)

text \<open>What the summary page submits is complete.\<close>

lemma has_prompt_first: "has_prompt v \<Longrightarrow> js_trim (first_prompt (fv_prompts v)) \<noteq> []"
  by (auto simp: has_prompt_def first_prompt_def list_ex_iff find_None_iff find_Some_iff split: option.splits)

lemma body_complete_create:
  assumes "form_ok keys st" "cs_step st = SummaryStep" "handle_create st = Some b"
  shows "body_complete keys b"
proof -
  have form: "fv_credential (cs_form st) \<in> keys" "can_submit (cs_form st)" "has_prompt (cs_form st)"
    using assms(1,2) by (simp_all add: form_ok_def pages)
  have b: "b = create_body st" "fv_credential (cs_form st) \<noteq> []"
    using assms(3) by (auto simp: handle_create_def Let_def split: if_splits)
  have "js_get b ''credential_id'' = JStr (fv_credential (cs_form st))"
    "js_get b ''name'' = JStr (js_trim (fv_name (cs_form st)))" "js_get b ''model'' = JStr (fv_model (cs_form st))"
    "js_get b ''system_prompt'' = JStr (first_prompt (fv_prompts (cs_form st)))"
    unfolding b by (simp_all add: create_body_def Let_def)
  then show ?thesis
    using form b(2) has_prompt_first by (auto simp: body_complete_def can_submit_def)
qed

definition wizard_inv :: "string set \<Rightarrow> wizard \<Rightarrow> bool" where
  "wizard_inv keys w \<longleftrightarrow> form_ok keys (wz_state w) \<and> list_all (body_complete keys) (wz_calls w)"

lemma wizard_inv_state: "wizard_inv keys w \<Longrightarrow> form_ok keys (f (wz_state w)) \<Longrightarrow> wizard_inv keys (on_state f w)"
  by (simp add: wizard_inv_def on_state_def)

lemma wizard_inv_submit:
  "wizard_inv keys w \<Longrightarrow> cs_step (wz_state w) = SummaryStep \<Longrightarrow> wizard_inv keys (submit_agent w)"
  by (auto simp: wizard_inv_def submit_agent_def body_complete_create split: option.splits)

lemma wizard_inv_settled: "wizard_inv keys w \<Longrightarrow> wizard_inv keys (submit_settled err w)"
  by (simp add: wizard_inv_def submit_settled_def split: option.splits)

definition offered :: "string set \<Rightarrow> wizard_event \<Rightarrow> bool" where
  "offered keys e = (case picked_key e of None \<Rightarrow> True | Some k \<Rightarrow> k \<in> keys)"

lemma wizard_inv_step:
  assumes "wizard_inv keys w" "offered keys e"
  shows "wizard_inv keys (wizard_step w e)"
proof -
  have ok: "form_ok keys (wz_state w)" using assms(1) by (simp add: wizard_inv_def)
  have key: "k \<in> keys" if "picked_key e = Some k" for k using assms(2) that by (simp add: offered_def)
  show ?thesis
  proof (cases "control e")
    case (Some c)
    obtain page f where c: "c = (page, f)" by (cases c)
    have "form_ok keys (f (wz_state w))" if "cs_step (wz_state w) = page"
      using form_ok_control [OF _ ok key, of e f] that Some c by simp
    then show ?thesis using assms(1) Some c by (simp add: wizard_step_def wizard_inv_state)
  next
    case None
    show ?thesis
    proof (cases e)
      case Forward
      then show ?thesis using assms(1) None form_ok_forward [OF ok]
        by (simp add: wizard_step_def wizard_inv_state split: option.split)
    next
      case Back
      then show ?thesis using assms(1) None form_ok_back [OF ok]
        by (simp add: wizard_step_def wizard_inv_state split: option.split)
    next
      case CreateButton
      then show ?thesis using assms(1) None by (simp add: wizard_step_def wizard_inv_submit)
    next
      case (Submitted err)
      then show ?thesis using assms(1) None by (simp add: wizard_step_def wizard_inv_settled)
    qed (use assms(1) None in \<open>simp_all add: wizard_step_def\<close>)
  qed
qed

text \<open>The pages that show the keys of one organisation.\<close>

definition wizard_step_with :: "string set \<Rightarrow> wizard \<Rightarrow> wizard_event \<Rightarrow> wizard" where
  "wizard_step_with keys w e = (if offered keys e then wizard_step w e else w)"

interpretation wizard: event_machine "wizard_step_with keys" "wizard_inv keys" for keys
  by unfold_locales (simp add: wizard_step_with_def wizard_inv_step)

lemma wizard_inv_init: "wizard_inv keys (wizard_init m)"
  by (simp add: wizard_inv_def wizard_init_def create_init_def form_ok_def pages initial_step_def
      split: option.split creation_mode.split)

lemma wizard_run_with: "list_all (offered keys) es \<Longrightarrow> foldl (wizard_step_with keys) w es = foldl wizard_step w es"
  by (induction es arbitrary: w) (simp_all add: wizard_step_with_def)

section \<open>Properties\<close>

text \<open>
  C18. The wizard cannot submit an incomplete agent. Whatever the user does on its pages, in
  whatever order, back and forth between the two modes included, every request it makes names
  a credential that the key page offered, a trimmed name that is not empty, a model, and a
  system prompt that is not blank, although the submit handler itself checks neither the
  name nor the prompt.
\<close>

theorem wizard_submits_complete:
  assumes "list_all (offered keys) es"
  shows "list_all (body_complete keys) (wz_calls (foldl wizard_step (wizard_init m) es))"
  using wizard.run_inv [OF wizard_inv_init, of keys m es]
  by (simp add: wizard_run_with [OF assms] wizard_inv_def)

definition demo_clicks :: "wizard_event list" where
  "demo_clicks = [PickMode Scratch, PickSandbox False, Forward, Forward, PickKey ''k'', Forward, NameText '' n '',
     PickModel ''m'', Forward, PromptText ''openai'' ''p'', Forward, Forward, Forward, Forward, CreateButton]"

lemma demo_clicks_submit: "length (wz_calls (foldl wizard_step (wizard_init None) demo_clicks)) = 1"
  by code_simp

lemma wizard_submits_complete_witness:
  "length (wz_calls (foldl wizard_step (wizard_init None) demo_clicks)) = 1
   \<and> list_all (body_complete {''k''}) (wz_calls (foldl wizard_step (wizard_init None) demo_clicks))"
proof -
  have "list_all (offered {''k''}) demo_clicks" by (simp add: demo_clicks_def offered_def picked_key_def)
  from wizard_submits_complete [OF this] show ?thesis using demo_clicks_submit by simp
qed

text \<open>
  Going back to the key page and choosing a key of another provider keeps the model of the
  first one: the basics page then lets the pair pass.
\<close>

lemma new_key_keeps_model:
  "fv_model (cs_form (select_key k st)) = fv_model (cs_form st)"
  "can_submit (cs_form st) \<Longrightarrow> next_page (select_key k st) = Some SystemPromptStep"
  by (simp_all add: select_key_def next_page_def can_submit_def)

text \<open>The marketplace pages have no way forward: the install button has no handler.\<close>

lemma marketplace_no_way_forward:
  "cs_step st \<in> {MarketplaceBrowse, MarketplaceDetail} \<Longrightarrow> next_page st = None"
  by (auto simp: next_page_def)

end
