(* ===== verification/SandboxBuild.thy ===== *)
theory SandboxBuild
  imports AuthPages
begin

text \<open>
  Building sandbox templates: the polling hook \<open>apps/web/hooks/use-sandbox-template.ts\<close>, the
  create dialog \<open>sandbox-templates/create-modal.tsx\<close> and the list
  \<open>sandbox-templates-list.tsx\<close> under \<open>apps/web/app/w/settings/_components\<close>. The dialog is a
  state and one operation per handler, answer, poll and timer; the backend's answers are the
  events. Calls are recorded in order.
\<close>

section \<open>The hook\<close>

record template =
  tm_id :: string
  tm_status :: string
  tm_commands :: "string list option"
  tm_logs :: string

definition poll_interval :: "template option \<Rightarrow> int option" where
  "poll_interval d = (case d of
       None \<Rightarrow> None
     | Some t \<Rightarrow> if tm_status t = ''ready'' \<or> tm_status t = ''failed'' then None else Some 3000)"

definition query_enabled :: "bool \<Rightarrow> string option \<Rightarrow> bool" where
  "query_enabled enabled i \<longleftrightarrow> enabled \<and> i \<noteq> None"

text \<open>The number of requests the query makes on a sequence of answers: it asks again while an interval is set.\<close>

fun polls :: "template option list \<Rightarrow> nat" where
  "polls [] = 0"
| "polls (d # ds) = Suc (case poll_interval d of None \<Rightarrow> 0 | Some _ \<Rightarrow> polls ds)"

section \<open>The create dialog\<close>

datatype template_call =
    CreateTemplate string "string list" "string option"
  | TriggerBuild string
  | RetryBuild string "string list"

record build_state =
  bl_open :: bool
  bl_name :: string
  bl_commands :: "string list"
  bl_base :: string
  bl_building :: bool
  bl_retrying :: bool
  bl_template_id :: "string option"
  bl_shown :: bool
  bl_template :: "template option"
  bl_creating :: nat
  bl_triggering :: bool
  bl_retry_pending :: bool
  bl_timers :: nat
  bl_built :: "string list"
  bl_toasts :: "string list"
  bl_calls :: "template_call list"

definition build_init :: build_state where
  "build_init = \<lparr>bl_open = True, bl_name = [], bl_commands = [[]], bl_base = [], bl_building = False, bl_retrying = False,
     bl_template_id = None, bl_shown = False, bl_template = None, bl_creating = 0, bl_triggering = False,
     bl_retry_pending = False, bl_timers = 0, bl_built = [], bl_toasts = [], bl_calls = []\<rparr>"

definition reset_form :: "build_state \<Rightarrow> build_state" where
  "reset_form st = st\<lparr>bl_name := [], bl_commands := [[]], bl_base := [], bl_building := False, bl_retrying := False,
     bl_template_id := None, bl_shown := False, bl_template := None\<rparr>"

text \<open>The data the query has: of the template that is being built, if any.\<close>

definition current_template :: "build_state \<Rightarrow> template option" where
  "current_template st = (if bl_building st then bl_template st else None)"

text \<open>The effect on \<open>[template, isBuilding]\<close>.\<close>

definition success_effect :: "build_state \<Rightarrow> build_state" where
  "success_effect st = (case current_template st of
       None \<Rightarrow> st
     | Some t \<Rightarrow> if bl_shown st \<or> tm_status t \<noteq> ''ready'' then st
         else st\<lparr>bl_shown := True, bl_toasts := bl_toasts st @ [''Sandbox template built successfully!''],
                 bl_built := bl_built st @ [tm_id t], bl_timers := Suc (bl_timers st)\<rparr>)"

definition success_timer :: "build_state \<Rightarrow> build_state" where
  "success_timer st = (case bl_timers st of
       0 \<Rightarrow> st | Suc n \<Rightarrow> (reset_form (st\<lparr>bl_timers := n\<rparr>))\<lparr>bl_open := False\<rparr>)"

definition build_close :: "build_state \<Rightarrow> build_state" where
  "build_close st = (reset_form st)\<lparr>bl_open := False\<rparr>"

definition build_update_command :: "nat \<Rightarrow> string \<Rightarrow> build_state \<Rightarrow> build_state" where
  "build_update_command i v st = st\<lparr>bl_commands := (bl_commands st)[i := v]\<rparr>"

definition build_add_command :: "build_state \<Rightarrow> build_state" where
  "build_add_command st = st\<lparr>bl_commands := bl_commands st @ [[]]\<rparr>"

definition build_remove_command :: "nat \<Rightarrow> build_state \<Rightarrow> build_state" where
  "build_remove_command i st = (if length (bl_commands st) \<le> 1 then st
     else st\<lparr>bl_commands := take i (bl_commands st) @ drop (Suc i) (bl_commands st)\<rparr>)"

definition filtered_commands :: "build_state \<Rightarrow> string list" where
  "filtered_commands st = filter (\<lambda>c. js_trim c \<noteq> []) (bl_commands st)"

definition create_and_build :: "build_state \<Rightarrow> build_state" where
  "create_and_build st =
     (if js_trim (bl_name st) = [] then st\<lparr>bl_toasts := bl_toasts st @ [''Name is required'']\<rparr>
      else if filtered_commands st = [] then st\<lparr>bl_toasts := bl_toasts st @ [''At least one build command is required'']\<rparr>
      else st\<lparr>bl_creating := Suc (bl_creating st),
              bl_calls := bl_calls st @ [CreateTemplate (js_trim (bl_name st)) (filtered_commands st)
                (if bl_base st = [] then None else Some (bl_base st))]\<rparr>)"

definition template_created :: "string \<Rightarrow> build_state \<Rightarrow> build_state" where
  "template_created i st =
     (if bl_creating st = 0 then st
      else let st' = st\<lparr>bl_creating := bl_creating st - 1\<rparr> in
        if i = [] then st'\<lparr>bl_toasts := bl_toasts st @ [''Failed to get template ID'']\<rparr>
        else st'\<lparr>bl_triggering := True, bl_calls := bl_calls st @ [TriggerBuild i],
                 bl_template_id := Some i, bl_building := True, bl_template := None\<rparr>)"

definition template_create_failed :: "build_state \<Rightarrow> build_state" where
  "template_create_failed st =
     (if bl_creating st = 0 then st
      else st\<lparr>bl_creating := bl_creating st - 1, bl_toasts := bl_toasts st @ [''Failed to create template'']\<rparr>)"

definition trigger_settled :: "js option \<Rightarrow> build_state \<Rightarrow> build_state" where
  "trigger_settled err st = (if \<not> bl_triggering st then st
     else (case err of
         None \<Rightarrow> st\<lparr>bl_triggering := False\<rparr>
       | Some e \<Rightarrow> st\<lparr>bl_triggering := False, bl_toasts := bl_toasts st @ [''Failed to trigger build: '' @ js_string e]\<rparr>))"

definition handle_retry :: "build_state \<Rightarrow> build_state" where
  "handle_retry st = (if bl_template_id st = None \<or> bl_template_id st = Some [] then st
     else (let cmds = (case current_template st of None \<Rightarrow> [[]] | Some t \<Rightarrow> (case tm_commands t of None \<Rightarrow> [[]] | Some cs \<Rightarrow> cs))
       in st\<lparr>bl_commands := (if cmds = [] then [[]] else cmds), bl_retrying := True, bl_building := False\<rparr>))"

definition cancel_retry :: "build_state \<Rightarrow> build_state" where
  "cancel_retry st = st\<lparr>bl_retrying := False, bl_commands := [[]]\<rparr>"

definition retry_build :: "build_state \<Rightarrow> build_state" where
  "retry_build st = (case bl_template_id st of
       None \<Rightarrow> st
     | Some i \<Rightarrow> if i = [] \<or> bl_retry_pending st then st
         else st\<lparr>bl_retry_pending := True, bl_calls := bl_calls st @ [RetryBuild i (filtered_commands st)]\<rparr>)"

definition retry_settled :: "js option \<Rightarrow> build_state \<Rightarrow> build_state" where
  "retry_settled err st = (if \<not> bl_retry_pending st then st
     else (case err of
         None \<Rightarrow> st\<lparr>bl_retry_pending := False, bl_retrying := False, bl_building := True\<rparr>
       | Some e \<Rightarrow> st\<lparr>bl_retry_pending := False, bl_retrying := False,
             bl_toasts := bl_toasts st @ [''Failed to retry build: '' @ js_string e]\<rparr>))"

text \<open>An answer of the query: of the template whose build is followed.\<close>

definition polled :: "template \<Rightarrow> build_state \<Rightarrow> build_state" where
  "polled t st = (if query_enabled True (if bl_building st then bl_template_id st else None) \<and> Some (tm_id t) = bl_template_id st
     then st\<lparr>bl_template := Some t\<rparr> else st)"

definition build_logs :: "build_state \<Rightarrow> string list" where
  "build_logs st = (case current_template st of None \<Rightarrow> []
     | Some t \<Rightarrow> filter (\<lambda>l. l \<noteq> []) (js_split (CHR 0x0A) (tm_logs t)))"

datatype build_event =
    SetName string | SetBase string | SetCommand nat string | AddCommand | RemoveCommand nat
  | CreateClick | Created string | CreateFailed | TriggerSettled "js option"
  | RetryClick | CancelRetry | RetryBuildClick | RetrySettled "js option"
  | Polled template | CloseClick | Timer

text \<open>
  The events the dialog offers. A retry is offered once the build has ended. The button that
  closes is disabled while the template builds; the dialog's own closing is not.
\<close>

definition retry_offered :: "build_state \<Rightarrow> bool" where
  "retry_offered st = (case current_template st of None \<Rightarrow> False | Some t \<Rightarrow> tm_status t = ''failed'' \<or> tm_status t = ''ready'')"

definition build_step :: "build_state \<Rightarrow> build_event \<Rightarrow> build_state" where
  "build_step st e = success_effect (case e of
       SetName n \<Rightarrow> if bl_building st \<or> bl_retrying st then st else st\<lparr>bl_name := n\<rparr>
     | SetBase b \<Rightarrow> if bl_building st \<or> bl_retrying st then st else st\<lparr>bl_base := b\<rparr>
     | SetCommand i v \<Rightarrow> if bl_building st then st else build_update_command i v st
     | AddCommand \<Rightarrow> if bl_building st then st else build_add_command st
     | RemoveCommand i \<Rightarrow> if bl_building st then st else build_remove_command i st
     | CreateClick \<Rightarrow> if bl_building st \<or> bl_retrying st \<or> button_disabled (Some (bl_triggering st)) (bl_triggering st) then st
         else create_and_build st
     | Created i \<Rightarrow> template_created i st
     | CreateFailed \<Rightarrow> template_create_failed st
     | TriggerSettled err \<Rightarrow> trigger_settled err st
     | RetryClick \<Rightarrow> if bl_building st \<and> retry_offered st then handle_retry st else st
     | CancelRetry \<Rightarrow> if \<not> bl_building st \<and> bl_retrying st then cancel_retry st else st
     | RetryBuildClick \<Rightarrow> if \<not> bl_building st \<and> bl_retrying st then retry_build st else st
     | RetrySettled err \<Rightarrow> retry_settled err st
     | Polled t \<Rightarrow> polled t st
     | CloseClick \<Rightarrow> build_close st
     | Timer \<Rightarrow> success_timer st)"

section \<open>The list\<close>

definition is_public_template :: "js \<Rightarrow> bool" where
  "is_public_template t = truthy (js_get t ''is_public'')"

definition status_badge :: "string option \<Rightarrow> string" where
  "status_badge s = (if s = Some ''ready'' then ''Ready'' else if s = Some ''building'' then ''Building''
     else if s = Some ''failed'' then ''Failed'' else ''Pending'')"

record list_state =
  ls_deleting :: "(string option \<times> string) option"
  ls_pending :: "string option"
  ls_toasts :: "string list"
  ls_calls :: "string list"

definition list_build :: "string option \<Rightarrow> template_call list" where
  "list_build i = (case i of None \<Rightarrow> [] | Some x \<Rightarrow> if x = [] then [] else [TriggerBuild x])"

definition list_delete :: "list_state \<Rightarrow> list_state" where
  "list_delete st = (case ls_deleting st of
       None \<Rightarrow> st
     | Some (i, n) \<Rightarrow> (case i of
         None \<Rightarrow> st
       | Some x \<Rightarrow> if x = [] then st else st\<lparr>ls_pending := Some n, ls_calls := ls_calls st @ [x]\<rparr>))"

definition list_delete_settled :: "js option \<Rightarrow> list_state \<Rightarrow> list_state" where
  "list_delete_settled err st = (case ls_pending st of
       None \<Rightarrow> st
     | Some n \<Rightarrow> st\<lparr>ls_pending := None, ls_deleting := None, ls_toasts := ls_toasts st @ [case err of
           None \<Rightarrow> ''Deleted \"'' @ n @ ''\"'' | Some e \<Rightarrow> extract_error_message e ''Failed to delete template'']\<rparr>)"

section \<open>Invariants\<close>

fun template_call_ok :: "template_call \<Rightarrow> bool" where
  "template_call_ok (CreateTemplate n cs b) \<longleftrightarrow> n \<noteq> [] \<and> js_trim n = n \<and> cs \<noteq> [] \<and> list_all (\<lambda>c. js_trim c \<noteq> []) cs \<and> b \<noteq> Some []"
| "template_call_ok (TriggerBuild i) \<longleftrightarrow> i \<noteq> []"
| "template_call_ok (RetryBuild i cs) \<longleftrightarrow> i \<noteq> [] \<and> list_all (\<lambda>c. js_trim c \<noteq> []) cs"

text \<open>
  There is always a command row, a build is followed only for a template that was created,
  and every call is complete.
\<close>

definition build_inv :: "build_state \<Rightarrow> bool" where
  "build_inv st \<longleftrightarrow> bl_commands st \<noteq> [] \<and> list_all template_call_ok (bl_calls st)
     \<and> (bl_template_id st \<noteq> None \<longrightarrow> TriggerBuild (the (bl_template_id st)) \<in> set (bl_calls st))
     \<and> (bl_template st \<noteq> None \<longrightarrow> bl_template_id st = Some (tm_id (the (bl_template st))))
     \<and> list_all (\<lambda>i. TriggerBuild i \<in> set (bl_calls st)) (bl_built st)"

lemma filtered_commands_ok: "list_all (\<lambda>c. js_trim c \<noteq> []) (filtered_commands st)"
  by (simp add: filtered_commands_def list_all_iff)

lemma build_inv_init: "build_inv build_init"
  by (simp add: build_inv_def build_init_def)

lemma build_inv_effect: "build_inv st \<Longrightarrow> build_inv (success_effect st)"
  by (auto simp: build_inv_def success_effect_def current_template_def split: option.splits if_splits)

lemma build_inv_more_calls:
  "build_inv st \<Longrightarrow> template_call_ok c \<Longrightarrow> build_inv (st\<lparr>bl_calls := bl_calls st @ [c]\<rparr>)"
  by (auto simp: build_inv_def list_all_iff)

lemmas build_ops = create_and_build_def template_created_def template_create_failed_def trigger_settled_def handle_retry_def
  cancel_retry_def retry_build_def retry_settled_def polled_def build_close_def reset_form_def success_timer_def
  build_update_command_def build_add_command_def build_remove_command_def

lemma build_inv_event:
  assumes "build_inv st"
  shows "build_inv (build_step st e)"
proof -
  have rows: "build_inv (build_remove_command i st)" for i
    using assms by (cases i; cases "bl_commands st") (auto simp: build_inv_def build_remove_command_def)
  have create: "build_inv (create_and_build st)"
    using assms filtered_commands_ok [of st] by (auto simp: build_inv_def create_and_build_def list_all_iff)
  have created: "build_inv (template_created i st)" for i
    using assms by (auto simp: build_inv_def template_created_def Let_def list_all_iff)
  have retry: "build_inv (handle_retry st)"
    using assms by (auto simp: build_inv_def handle_retry_def Let_def split: option.splits)
  have again: "build_inv (retry_build st)"
    using assms filtered_commands_ok [of st] by (auto simp: build_inv_def retry_build_def list_all_iff split: option.splits)
  show ?thesis
    unfolding build_step_def
    using assms rows create created retry again
    by (intro build_inv_effect)
      (cases e; auto simp: build_inv_def template_create_failed_def trigger_settled_def cancel_retry_def retry_settled_def
        polled_def build_close_def reset_form_def success_timer_def build_update_command_def build_add_command_def
        split: option.splits nat.splits)
qed

interpretation build: event_machine build_step build_inv
  by unfold_locales (rule build_inv_event)

text \<open>
  C34. A template is built the way the form says: after any order of clicks, answers, polls and
  timers every create call has a trimmed non-empty name and at least one command and no
  call has a blank command, the form never loses its last command row, and success is
  reported only for templates whose build was triggered.
\<close>

theorem template_build_safe:
  "let st = foldl build_step build_init es in
     list_all template_call_ok (bl_calls st) \<and> 1 \<le> length (bl_commands st)
     \<and> set (bl_built st) \<subseteq> {i. TriggerBuild i \<in> set (bl_calls st)}"
  using build.run_inv [OF build_inv_init, of es]
  by (auto simp: build_inv_def list_all_iff Let_def Suc_le_eq)

text \<open>
  Polling stops: once the build has ended, in success or failure, the hook asks no more;
  until then it asks every three seconds. On any sequence of answers it makes exactly as
  many requests as it takes to see the first final status.
\<close>

theorem polling_stops:
  assumes "list_all (\<lambda>t. tm_status t \<noteq> ''ready'' \<and> tm_status t \<noteq> ''failed'') ts"
  shows "polls (map Some ts @ Some t # rest) =
     (if tm_status t = ''ready'' \<or> tm_status t = ''failed'' then length ts + 1 else length ts + 1 + polls rest)"
  using assms by (induction ts) (simp_all add: poll_interval_def)

theorem polling_stops_witness:
  "polls (map Some [\<lparr>tm_id = ''t'', tm_status = ''building'', tm_commands = None, tm_logs = []\<rparr>]
      @ Some \<lparr>tm_id = ''t'', tm_status = ''failed'', tm_commands = None, tm_logs = []\<rparr> # [None]) =
     (if tm_status \<lparr>tm_id = ''t'', tm_status = ''failed'', tm_commands = None, tm_logs = []\<rparr> = ''ready''
         \<or> tm_status \<lparr>tm_id = ''t'', tm_status = ''failed'', tm_commands = None, tm_logs = []\<rparr> = ''failed''
      then length [\<lparr>tm_id = ''t'', tm_status = ''building'', tm_commands = None, tm_logs = []\<rparr>] + 1
      else length [\<lparr>tm_id = ''t'', tm_status = ''building'', tm_commands = None, tm_logs = []\<rparr>] + 1 + polls [None])"
  by (rule polling_stops) simp

text \<open>The button is free while the create call is under way: two clicks create two templates.\<close>

lemma double_create:
  "bl_calls (foldl build_step build_init [SetName ''t'', SetCommand 0 ''make'', CreateClick, CreateClick]) =
     [CreateTemplate ''t'' [''make''] None, CreateTemplate ''t'' [''make''] None]"
  by (simp add: build_step_def build_init_def success_effect_def current_template_def create_and_build_def
      filtered_commands_def build_update_command_def button_disabled_def js_trim_def trim_start_def trim_end_def is_space_def)

text \<open>The timer of a success outlives its dialog: it clears and closes a form opened meanwhile.\<close>

lemma late_timer_clears_form:
  "0 < bl_timers st \<Longrightarrow> bl_name (success_timer st) = [] \<and> \<not> bl_open (success_timer st)"
  by (cases "bl_timers st") (simp_all add: success_timer_def reset_form_def)

lemma retry_without_commands:
  "bl_template_id st = Some (c # i) \<Longrightarrow> \<not> bl_retry_pending st \<Longrightarrow> bl_commands st = [[]] \<Longrightarrow>
   bl_calls (retry_build st) = bl_calls st @ [RetryBuild (c # i) []]"
  by (simp add: retry_build_def filtered_commands_def js_trim_def trim_start_def trim_end_def)

end
