(* ===== verification/Connections.thy ===== *)
theory Connections
  imports AuthPages
begin

text \<open>
  Connecting third-party integrations, \<open>apps/web/app/w/connections\<close>: the credentials form, the
  dialog that decides whether a form is needed, the page, the table with its two
  dialogs, the empty state's suggestions, and the two hooks that run the connect and the
  reconnect flow. The backend, the Nango library and the evaluation of a field's regular
  expression are parameters; a flow records the calls it makes, in order.
\<close>

section \<open>Integrations\<close>

record field_schema =
  fs_title :: string
  fs_description :: string
  fs_example :: string
  fs_pattern :: string
  fs_automated :: bool

record integration =
  in_id :: "string option"
  in_provider :: string
  in_name :: string
  in_auth_mode :: string
  in_installation :: string
  in_config :: "(string, field_schema) dict"
  in_categories :: "string list"

definition needs_form :: "integration \<Rightarrow> bool" where
  "needs_form i \<longleftrightarrow> in_auth_mode i = ''API_KEY'' \<or> in_auth_mode i = ''BASIC''
     \<or> in_installation i = ''outbound''
     \<or> list_ex (\<lambda>kv. \<not> fs_automated (snd kv)) (in_config i)"

definition max_suggestions :: nat where "max_suggestions = 10"

definition suggestions :: "integration list \<Rightarrow> integration list" where
  "suggestions ins =
     (let popular = filter (\<lambda>i. ''popular'' \<in> set (in_categories i)) ins in
      if max_suggestions \<le> length popular then take max_suggestions popular
      else (let popular_ids = set_of (map in_id popular) [] in
            take max_suggestions (popular @ filter (\<lambda>i. in_id i \<notin> set popular_ids) ins)))"

definition name_matches :: "string \<Rightarrow> integration \<Rightarrow> bool" where
  "name_matches q i \<longleftrightarrow> js_includes q (to_lower (in_name i)) \<or> js_includes q (to_lower (in_provider i))"

definition filter_integrations :: "string \<Rightarrow> integration list \<Rightarrow> integration list" where
  "filter_integrations search ins =
     (if js_trim search = [] then ins else filter (name_matches (to_lower search)) ins)"

section \<open>The credentials form\<close>

record field_config =
  fd_key :: string
  fd_title :: string
  fd_description :: string
  fd_placeholder :: string
  fd_pattern :: string

definition config_fields :: "(string, field_schema) dict \<Rightarrow> field_config list" where
  "config_fields config = map (\<lambda>(k, f). \<lparr>fd_key = k, fd_title = (if fs_title f = [] then k else fs_title f),
       fd_description = fs_description f, fd_placeholder = fs_example f, fd_pattern = fs_pattern f\<rparr>)
     (filter (\<lambda>(k, f). \<not> fs_automated f) config)"

record form_state =
  cf_api_key :: string
  cf_username :: string
  cf_password :: string
  cf_values :: "(string, string) dict"

definition form_init :: form_state where
  "form_init = \<lparr>cf_api_key = [], cf_username = [], cf_password = [], cf_values = []\<rparr>"

definition set_config_value :: "string \<Rightarrow> string \<Rightarrow> form_state \<Rightarrow> form_state" where
  "set_config_value k v st = st\<lparr>cf_values := dict_set k v (cf_values st)\<rparr>"

definition field_value :: "form_state \<Rightarrow> string \<Rightarrow> string" where
  "field_value st k = (case dict_get (cf_values st) k of None \<Rightarrow> [] | Some v \<Rightarrow> v)"

text \<open>\<open>test pattern value\<close> is the regular expression's verdict, \<open>None\<close> when the pattern is invalid.\<close>

definition field_valid :: "(string \<Rightarrow> string \<Rightarrow> bool option) \<Rightarrow> form_state \<Rightarrow> field_config \<Rightarrow> bool" where
  "field_valid test st f \<longleftrightarrow> js_trim (field_value st (fd_key f)) \<noteq> []
     \<and> (fd_pattern f = [] \<or> test (fd_pattern f) (field_value st (fd_key f)) \<noteq> Some False)"

definition form_valid :: "(string \<Rightarrow> string \<Rightarrow> bool option) \<Rightarrow> integration \<Rightarrow> form_state \<Rightarrow> bool" where
  "form_valid test i st \<longleftrightarrow>
     (if in_auth_mode i = ''API_KEY'' then js_trim (cf_api_key st) \<noteq> [] else True)
   \<and> (if in_auth_mode i = ''BASIC'' then js_trim (cf_username st) \<noteq> [] \<and> js_trim (cf_password st) \<noteq> [] else True)
   \<and> list_all (field_valid test st) (config_fields (in_config i))"

record submission =
  sb_credentials :: "(string, string) dict option"
  sb_params :: "(string, string) dict"
  sb_installation :: "string option"

definition form_credentials :: "integration \<Rightarrow> form_state \<Rightarrow> (string, string) dict option" where
  "form_credentials i st =
     (if in_auth_mode i = ''API_KEY'' then Some [(''apiKey'', js_trim (cf_api_key st))]
      else if in_auth_mode i = ''BASIC'' then Some [(''username'', js_trim (cf_username st)), (''password'', js_trim (cf_password st))]
      else if in_installation i = ''outbound'' then Some []
      else None)"

definition form_params :: "integration \<Rightarrow> form_state \<Rightarrow> (string, string) dict" where
  "form_params i st = foldl (\<lambda>ps f. if js_trim (field_value st (fd_key f)) \<noteq> []
       then dict_set (fd_key f) (js_trim (field_value st (fd_key f))) ps else ps) [] (config_fields (in_config i))"

definition form_submit :: "(string \<Rightarrow> string \<Rightarrow> bool option) \<Rightarrow> integration \<Rightarrow> form_state \<Rightarrow> submission option" where
  "form_submit test i st =
     (if form_valid test i st
      then Some \<lparr>sb_credentials = form_credentials i st, sb_params = form_params i st,
             sb_installation = (if in_installation i = ''outbound'' then Some ''outbound'' else None)\<rparr>
      else None)"

section \<open>The dialog and the page\<close>

record hook_options =
  co_credentials :: "(string, string) dict option"
  co_params :: "(string, string) dict option"
  co_installation :: "string option"

definition submission_options :: "submission \<Rightarrow> hook_options option" where
  "submission_options s =
     (let o' = \<lparr>co_credentials = sb_credentials s,
                co_params = (if sb_params s = [] then None else Some (sb_params s)),
                co_installation = sb_installation s\<rparr>
      in if co_credentials o' = None \<and> co_params o' = None \<and> co_installation o' = None then None else Some o')"

record page_state =
  cp_open :: bool
  cp_dialog_search :: string
  cp_preselected :: "string option"
  cp_selected :: "integration option"
  cp_connect :: "(string \<times> hook_options option) list"

definition dialog_click :: "integration \<Rightarrow> page_state \<Rightarrow> page_state" where
  "dialog_click i st =
     (if needs_form i then st\<lparr>cp_selected := Some i\<rparr>
      else st\<lparr>cp_connect := cp_connect st @ [(case in_id i of Some x \<Rightarrow> x | None \<Rightarrow> ''undefined'', None)]\<rparr>)"

definition dialog_submit :: "submission \<Rightarrow> page_state \<Rightarrow> page_state" where
  "dialog_submit s st = (case cp_selected st of
       None \<Rightarrow> st
     | Some i \<Rightarrow> (case in_id i of
         None \<Rightarrow> st
       | Some x \<Rightarrow> if x = [] then st else st\<lparr>cp_connect := cp_connect st @ [(x, submission_options s)]\<rparr>))"

definition dialog_back :: "page_state \<Rightarrow> page_state" where
  "dialog_back st = st\<lparr>cp_selected := None, cp_preselected := None\<rparr>"

definition add_dialog_open_change :: "bool \<Rightarrow> page_state \<Rightarrow> page_state" where
  "add_dialog_open_change b st = (if b then st\<lparr>cp_open := True\<rparr> else (dialog_back st)\<lparr>cp_open := False\<rparr>)"

definition preselect :: "integration list \<Rightarrow> page_state \<Rightarrow> page_state" where
  "preselect ins st = (case cp_preselected st of
       None \<Rightarrow> st
     | Some p \<Rightarrow> if p = [] \<or> ins = [] \<or> cp_selected st \<noteq> None then st
         else (case find (\<lambda>i. in_id i = Some p) ins of
             Some i \<Rightarrow> if needs_form i then st\<lparr>cp_selected := Some i\<rparr> else st
           | None \<Rightarrow> st))"

definition page_connected :: "page_state \<Rightarrow> page_state" where
  "page_connected st = st\<lparr>cp_open := False, cp_dialog_search := [], cp_preselected := None\<rparr>"

definition show_form_for :: "string \<Rightarrow> page_state \<Rightarrow> page_state" where
  "show_form_for i st = st\<lparr>cp_preselected := Some i, cp_open := True\<rparr>"

definition empty_click :: "integration \<Rightarrow> page_state \<Rightarrow> page_state" where
  "empty_click i st = (let x = (case in_id i of Some x \<Rightarrow> x | None \<Rightarrow> ''undefined'') in
     if needs_form i then show_form_for x st else st\<lparr>cp_connect := cp_connect st @ [(x, None)]\<rparr>)"

text \<open>The buttons of the list: disabled while anything connects and for what is connected.\<close>

definition integration_disabled :: "string option list \<Rightarrow> string option \<Rightarrow> integration \<Rightarrow> bool" where
  "integration_disabled connected connecting i \<longleftrightarrow> in_id i \<in> set (set_of connected []) \<or> connecting \<noteq> None"

section \<open>The connect flow\<close>

datatype api_reply = ApiError js | ApiData js | ApiThrew js

datatype auth_reply = AuthOk string | AuthRefused string js

type_synonym auth_args = "(string \<times> js) list"

record connect_api =
  call_session :: "string \<Rightarrow> api_reply"
  nango_auth :: "string \<Rightarrow> string \<Rightarrow> auth_args option \<Rightarrow> auth_reply"
  call_save :: "string \<Rightarrow> string \<Rightarrow> api_reply"
  call_reconnect :: "string \<Rightarrow> api_reply"
  nango_reconnect :: "string \<Rightarrow> string \<Rightarrow> auth_reply"

datatype connect_call =
    SessionCall string
  | AuthCall string string "auth_args option"
  | SaveCall string string
  | ReconnectSession string
  | ReconnectCall string string

text \<open>
  The hook's \<open>connect\<close>: what is left of the argument when \<open>onSuccess\<close> is taken out of it are
  the options, or none when nothing is left.
\<close>

definition connect_args :: "hook_options option \<Rightarrow> hook_options option" where
  "connect_args opts = (case opts of
       None \<Rightarrow> None
     | Some o' \<Rightarrow> if co_credentials o' = None \<and> co_params o' = None \<and> co_installation o' = None then None else Some o')"

datatype connect_failure = Failure string | AuthError string js | OtherError js | MissingData

text \<open>A dictionary as the value handed to another library.\<close>

definition dict_js :: "(string, string) dict \<Rightarrow> js" where
  "dict_js m = JObj (map (\<lambda>(k, v). (k, JStr v)) m)"

definition auth_options :: "hook_options option \<Rightarrow> auth_args option" where
  "auth_options opts = (case opts of
       None \<Rightarrow> None
     | Some o' \<Rightarrow>
         (let args = (case co_credentials o' of None \<Rightarrow> [] | Some c \<Rightarrow> [(''credentials'', dict_js c)])
            @ (case co_params o' of None \<Rightarrow> [] | Some p \<Rightarrow> [(''params'', dict_js p)])
            @ (case co_installation o' of None \<Rightarrow> [] | Some i \<Rightarrow> if i = [] then [] else [(''installation'', JStr i)])
          in if args = [] then None else Some args))"

definition session_fields :: "js \<Rightarrow> (string \<times> string) option" where
  "session_fields d = (if nullish d then None
     else Some (js_string (js_get d ''token''), js_string (js_get d ''provider_config_key'')))"

definition save_connection :: "connect_api \<Rightarrow> string \<Rightarrow> string \<Rightarrow> connect_failure + js" where
  "save_connection api i cid = (case call_save api i cid of
       ApiError e \<Rightarrow> Inl (Failure ''Failed to save connection'')
     | ApiThrew e \<Rightarrow> Inl (OtherError e)
     | ApiData d \<Rightarrow> Inr d)"

definition run_connect :: "connect_api \<Rightarrow> string \<Rightarrow> hook_options option \<Rightarrow> (connect_failure + js) \<times> connect_call list" where
  "run_connect api i opts = (case call_session api i of
       ApiError e \<Rightarrow> (Inl (Failure ''Failed to create session''), [SessionCall i])
     | ApiThrew e \<Rightarrow> (Inl (OtherError e), [SessionCall i])
     | ApiData d \<Rightarrow> (case session_fields d of
         None \<Rightarrow> (Inl MissingData, [SessionCall i])
       | Some (tok, key) \<Rightarrow> (case nango_auth api tok key (auth_options opts) of
           AuthRefused t e \<Rightarrow> (Inl (AuthError t e), [SessionCall i, AuthCall tok key (auth_options opts)])
         | AuthOk cid \<Rightarrow> (save_connection api i cid,
             [SessionCall i, AuthCall tok key (auth_options opts), SaveCall i cid]))))"

definition run_reconnect :: "connect_api \<Rightarrow> string \<Rightarrow> (connect_failure + unit) \<times> connect_call list" where
  "run_reconnect api i = (case call_reconnect api i of
       ApiError e \<Rightarrow> (Inl (Failure ''Failed to create reconnect session''), [ReconnectSession i])
     | ApiThrew e \<Rightarrow> (Inl (OtherError e), [ReconnectSession i])
     | ApiData d \<Rightarrow> (case session_fields d of
         None \<Rightarrow> (Inl MissingData, [ReconnectSession i])
       | Some (tok, key) \<Rightarrow> (case nango_reconnect api tok key of
           AuthRefused t e \<Rightarrow> (Inl (AuthError t e), [ReconnectSession i, ReconnectCall tok key])
         | AuthOk _ \<Rightarrow> (Inr (), [ReconnectSession i, ReconnectCall tok key]))))"

text \<open>
  The toast of a failed flow. An \<open>Error\<close> object has no \<open>error\<close> property, so its own message
  is not the one that is shown.
\<close>

definition failure_toast :: "string \<Rightarrow> connect_failure \<Rightarrow> string option" where
  "failure_toast fallback f = (case f of
       AuthError t e \<Rightarrow> if t = ''window_closed'' then None else Some (extract_error_message e fallback)
     | Failure m \<Rightarrow> Some (extract_error_message (JObj [(''message'', JStr m)]) fallback)
     | OtherError e \<Rightarrow> Some (extract_error_message e fallback)
     | MissingData \<Rightarrow> Some (extract_error_message (JObj [(''message'', JStr ''TypeError'')]) fallback))"

record hook_state =
  hk_busy :: "string option"
  hk_toasts :: "string list"
  hk_invalidated :: nat
  hk_calls :: "connect_call list"

definition hook_start :: "string \<Rightarrow> hook_state \<Rightarrow> hook_state" where
  "hook_start i st = st\<lparr>hk_busy := Some i\<rparr>"

definition hook_settle :: "string \<Rightarrow> string \<Rightarrow> (connect_failure + 'a) \<times> connect_call list \<Rightarrow> hook_state \<Rightarrow> hook_state" where
  "hook_settle ok_toast fallback outcome st =
     (let st' = st\<lparr>hk_calls := hk_calls st @ snd outcome, hk_busy := None\<rparr> in
      (case fst outcome of
         Inr _ \<Rightarrow> st'\<lparr>hk_toasts := hk_toasts st @ [ok_toast], hk_invalidated := Suc (hk_invalidated st)\<rparr>
       | Inl f \<Rightarrow> (case failure_toast fallback f of
           None \<Rightarrow> st' | Some t \<Rightarrow> st'\<lparr>hk_toasts := hk_toasts st @ [t]\<rparr>)))"

definition connect_integration :: "connect_api \<Rightarrow> string \<Rightarrow> hook_options option \<Rightarrow> hook_state \<Rightarrow> hook_state" where
  "connect_integration api i opts st =
     hook_settle ''Connection added successfully'' ''Connection failed. Please try again.'' (run_connect api i (connect_args opts)) (hook_start i st)"

definition reconnect_integration :: "connect_api \<Rightarrow> string \<Rightarrow> hook_state \<Rightarrow> hook_state" where
  "reconnect_integration api i st =
     hook_settle ''Connection refreshed successfully'' ''Reconnect failed. Please try again.'' (run_reconnect api i) (hook_start i st)"

section \<open>The table of connections\<close>

record connection_row =
  cr_id :: "string option"
  cr_provider :: string
  cr_name :: "string option"
  cr_webhook :: "bool option"

datatype table_call = DeleteConnection string | MarkWebhook string

record table_state =
  tb_disconnecting :: "connection_row option"
  tb_configuring :: "connection_row option"
  tb_deleting :: "connection_row option"
  tb_marking :: bool
  tb_toasts :: "string list"
  tb_invalidated :: nat
  tb_calls :: "table_call list"

definition row_id :: "connection_row option \<Rightarrow> string option" where
  "row_id c = Option.bind c (\<lambda>r. Option.bind (cr_id r) (\<lambda>i. if i = [] then None else Some i))"

definition handle_disconnect :: "table_state \<Rightarrow> table_state" where
  "handle_disconnect st = (case row_id (tb_disconnecting st) of
       None \<Rightarrow> st
     | Some i \<Rightarrow> st\<lparr>tb_deleting := tb_disconnecting st, tb_calls := tb_calls st @ [DeleteConnection i]\<rparr>)"

definition disconnected :: "table_state \<Rightarrow> table_state" where
  "disconnected st = (case tb_deleting st of
       None \<Rightarrow> st
     | Some c \<Rightarrow> st\<lparr>tb_deleting := None, tb_disconnecting := None, tb_invalidated := Suc (tb_invalidated st),
         tb_toasts := tb_toasts st @ [(case cr_name c of Some n \<Rightarrow> n | None \<Rightarrow> ''Connection'') @ '' disconnected'']\<rparr>)"

definition disconnect_failed :: "js \<Rightarrow> table_state \<Rightarrow> table_state" where
  "disconnect_failed err st = (if tb_deleting st = None then st else
     st\<lparr>tb_deleting := None, tb_disconnecting := None,
        tb_toasts := tb_toasts st @ [extract_error_message err ''Failed to disconnect'']\<rparr>)"

definition webhook_confirm :: "table_state \<Rightarrow> table_state" where
  "webhook_confirm st = (case row_id (tb_configuring st) of
       None \<Rightarrow> st
     | Some i \<Rightarrow> st\<lparr>tb_marking := True, tb_calls := tb_calls st @ [MarkWebhook i]\<rparr>)"

definition webhook_marked :: "table_state \<Rightarrow> table_state" where
  "webhook_marked st = (if tb_marking st then
     st\<lparr>tb_marking := False, tb_configuring := None, tb_invalidated := Suc (tb_invalidated st),
        tb_toasts := tb_toasts st @ [''Webhook marked as configured'']\<rparr> else st)"

definition webhook_failed :: "js \<Rightarrow> table_state \<Rightarrow> table_state" where
  "webhook_failed err st = (if tb_marking st then
     st\<lparr>tb_marking := False, tb_toasts := tb_toasts st @ [extract_error_message err ''Failed to update connection'']\<rparr> else st)"

definition webhook_warning :: "connection_row \<Rightarrow> bool" where
  "webhook_warning c \<longleftrightarrow> cr_webhook c = Some False"

definition webhook_url :: "string \<Rightarrow> connection_row \<Rightarrow> string" where
  "webhook_url base c = base @ ''/incoming/webhooks/'' @ cr_provider c @ ''/''
     @ (case cr_id c of Some i \<Rightarrow> i | None \<Rightarrow> ''undefined'')"

datatype table_event =
    AskDisconnect connection_row | CancelDisconnect | ConfirmDisconnect | Disconnected | DisconnectFailed js
  | AskWebhook connection_row | CloseWebhook | ConfirmWebhook | WebhookMarked | WebhookFailed js

definition table_step :: "table_state \<Rightarrow> table_event \<Rightarrow> table_state" where
  "table_step st e = (case e of
       AskDisconnect c \<Rightarrow> st\<lparr>tb_disconnecting := Some c\<rparr>
     | CancelDisconnect \<Rightarrow> st\<lparr>tb_disconnecting := None\<rparr>
     | ConfirmDisconnect \<Rightarrow> handle_disconnect st
     | Disconnected \<Rightarrow> disconnected st
     | DisconnectFailed err \<Rightarrow> disconnect_failed err st
     | AskWebhook c \<Rightarrow> if webhook_warning c then st\<lparr>tb_configuring := Some c\<rparr> else st
     | CloseWebhook \<Rightarrow> st\<lparr>tb_configuring := None\<rparr>
     | ConfirmWebhook \<Rightarrow> webhook_confirm st
     | WebhookMarked \<Rightarrow> webhook_marked st
     | WebhookFailed err \<Rightarrow> webhook_failed err st)"

definition table_init :: table_state where
  "table_init = \<lparr>tb_disconnecting = None, tb_configuring = None, tb_deleting = None, tb_marking = False,
     tb_toasts = [], tb_invalidated = 0, tb_calls = []\<rparr>"

section \<open>When a form is shown\<close>

lemma config_fields_Nil: "config_fields c = [] \<longleftrightarrow> \<not> list_ex (\<lambda>kv. \<not> fs_automated (snd kv)) c"
  by (auto simp: config_fields_def filter_empty_conv list_ex_iff case_prod_unfold)

text \<open>
  A credentials form is shown exactly when the integration has something to ask or needs
  the installation hint: without a form nothing is needed, the empty form is valid and
  what it submits is what connecting without a form sends.
\<close>

theorem needs_form_iff_asks:
  "needs_form i \<longleftrightarrow> \<not> (in_auth_mode i \<notin> {''API_KEY'', ''BASIC''} \<and> in_installation i \<noteq> ''outbound''
     \<and> config_fields (in_config i) = []
     \<and> form_submit test i form_init = Some \<lparr>sb_credentials = None, sb_params = [], sb_installation = None\<rparr>
     \<and> map_option submission_options (form_submit test i form_init) = Some None)"
  by (cases "config_fields (in_config i) = []")
    (auto simp: needs_form_def config_fields_Nil [symmetric] form_submit_def form_valid_def form_credentials_def form_params_def
      submission_options_def)

section \<open>What a submitted form carries\<close>

lemma config_keys: "map fd_key (config_fields c) = map fst (filter (\<lambda>kv. \<not> fs_automated (snd kv)) c)"
  by (simp add: config_fields_def o_def case_prod_unfold)

lemma form_params_eq:
  assumes "dict_ok (in_config i)" "list_all (field_valid test st) (config_fields (in_config i))"
  shows "form_params i st = map (\<lambda>f. (fd_key f, js_trim (field_value st (fd_key f)))) (config_fields (in_config i))"
proof -
  have "distinct (map fd_key (config_fields (in_config i)))"
    using assms(1) by (simp add: config_keys dict_ok_def distinct_map_filter)
  moreover have "filter (\<lambda>f. js_trim (field_value st (fd_key f)) \<noteq> []) (config_fields (in_config i)) = config_fields (in_config i)"
    using assms(2) by (auto simp: list_all_iff field_valid_def filter_id_conv)
  ultimately show ?thesis
    using fold_dict_set [of "[]" fd_key "config_fields (in_config i)" "\<lambda>f. js_trim (field_value st (fd_key f)) \<noteq> []"
        "\<lambda>f. js_trim (field_value st (fd_key f))"] by (simp add: form_params_def)
qed


definition demo_integration :: integration where
  "demo_integration = \<lparr>in_id = Some ''jira'', in_provider = ''jira'', in_name = ''Jira'', in_auth_mode = ''BASIC'',
     in_installation = [], in_config =
     [(''subdomain'', \<lparr>fs_title = [], fs_description = [], fs_example = [], fs_pattern = [], fs_automated = False\<rparr>),
      (''cloudId'', \<lparr>fs_title = [], fs_description = [], fs_example = [], fs_pattern = [], fs_automated = True\<rparr>)], in_categories = []\<rparr>"

definition demo_credentials :: form_state where
  "demo_credentials = \<lparr>cf_api_key = [], cf_username = ''ann '', cf_password = ''pw'', cf_values = [(''subdomain'', '' acme'')]\<rparr>"

definition demo_page :: page_state where
  "demo_page = \<lparr>cp_open = True, cp_dialog_search = [], cp_preselected = None, cp_selected = Some demo_integration, cp_connect = []\<rparr>"

definition demo_submission :: submission where
  "demo_submission = \<lparr>sb_credentials = Some [(''username'', ''ann''), (''password'', ''pw'')],
     sb_params = [(''subdomain'', ''acme'')], sb_installation = None\<rparr>"

lemma demo_submits: "form_submit (\<lambda>_ _. None) demo_integration demo_credentials = Some demo_submission"
  by (simp add: form_submit_def form_valid_def form_credentials_def form_params_def config_fields_def field_valid_def
      field_value_def demo_integration_def demo_credentials_def demo_submission_def
      js_trim_def trim_start_def trim_end_def is_space_def)


section \<open>The flow\<close>

text \<open>
  The connect flow is ordered and fails closed: a connection is saved only under the id
  the authorisation returned for the token of this integration's session, a failure stops
  the flow where it happened, and whatever the outcome the button is free again and the list
  is fetched again only after a success.
\<close>

theorem connect_flow_ordered:
  "(case fst (run_connect api i opts) of
      Inr d \<Rightarrow> (\<exists>sd tok key cid. call_session api i = ApiData sd \<and> session_fields sd = Some (tok, key)
          \<and> nango_auth api tok key (auth_options opts) = AuthOk cid \<and> call_save api i cid = ApiData d
          \<and> snd (run_connect api i opts) = [SessionCall i, AuthCall tok key (auth_options opts), SaveCall i cid])
    | Inl f \<Rightarrow> (\<exists>tok key cid. prefix (snd (run_connect api i opts))
          [SessionCall i, AuthCall tok key (auth_options opts), SaveCall i cid]))
   \<and> hk_busy (connect_integration api i opts st) = None
   \<and> hk_invalidated (connect_integration api i opts st) =
       hk_invalidated st + (case fst (run_connect api i (connect_args opts)) of Inr _ \<Rightarrow> 1 | Inl _ \<Rightarrow> 0)"
proof (intro conjI)
  show "hk_busy (connect_integration api i opts st) = None"
    by (simp add: connect_integration_def hook_settle_def Let_def split: sum.split option.split)
  show "hk_invalidated (connect_integration api i opts st) =
       hk_invalidated st + (case fst (run_connect api i (connect_args opts)) of Inr _ \<Rightarrow> 1 | Inl _ \<Rightarrow> 0)"
    by (simp add: connect_integration_def hook_settle_def hook_start_def Let_def split: sum.split option.split)
qed (auto simp: run_connect_def save_connection_def split: api_reply.splits option.splits auth_reply.splits)

lemma own_messages_not_shown:
  "failure_toast fb (Failure m) = Some fb" "failure_toast fb (AuthError ''window_closed'' e) = None"
  by (simp_all add: failure_toast_def extract_error_message_def js_has_def)

text \<open>
  The page closes the dialog itself after a success and leaves the selected integration: the
  dialog opens next time on the form of the integration that was just connected.
\<close>

lemma form_reopens_after_connect:
  "cp_selected (add_dialog_open_change True (page_connected st)) = cp_selected st"
  by (simp add: add_dialog_open_change_def page_connected_def)

section \<open>Suggestions\<close>

text \<open>
  The empty state suggests ten integrations, or all when there are fewer, none twice, and
  the popular ones first.
\<close>

theorem suggestions_sound:
  assumes "distinct (map in_id ins)"
  shows "distinct (suggestions ins) \<and> set (suggestions ins) \<subseteq> set ins
     \<and> length (suggestions ins) = min 10 (length ins)
     \<and> (\<exists>popular rest. suggestions ins = popular @ rest
          \<and> list_all (\<lambda>i. ''popular'' \<in> set (in_categories i)) popular
          \<and> list_all (\<lambda>i. ''popular'' \<notin> set (in_categories i)) rest)"
proof -
  let ?p = "\<lambda>i. ''popular'' \<in> set (in_categories i)"
  have dist: "distinct ins" using assms by (simp add: distinct_map)
  have same: "filter (\<lambda>i. in_id i \<notin> set (set_of (map in_id (filter ?p ins)) [])) ins = filter (\<lambda>i. \<not> ?p i) ins"
    using assms by (intro filter_cong refl) (auto simp: set_set_of distinct_map inj_on_def)
  have sug: "suggestions ins = take 10 (filter ?p ins) @ take (10 - length (filter ?p ins)) (filter (\<lambda>i. \<not> ?p i) ins)"
    by (simp add: suggestions_def Let_def same max_suggestions_def)
  have sum: "length (filter ?p ins) + length (filter (\<lambda>i. \<not> ?p i) ins) = length ins"
    by (rule sum_length_filter_compl)
  have "distinct (suggestions ins)" and sub: "set (suggestions ins) \<subseteq> set ins"
    unfolding sug using dist by (auto dest!: in_set_takeD intro!: distinct_take)
  moreover have "length (suggestions ins) = min 10 (length ins)" unfolding sug using sum by simp
  moreover have "list_all ?p (take 10 (filter ?p ins))"
      "list_all (\<lambda>i. \<not> ?p i) (take (10 - length (filter ?p ins)) (filter (\<lambda>i. \<not> ?p i) ins))"
    by (auto simp: list_all_iff dest!: in_set_takeD)
  ultimately show ?thesis using sug by blast
qed

theorem suggestions_sound_witness:
  "distinct (suggestions [demo_integration]) \<and> set (suggestions [demo_integration]) \<subseteq> set [demo_integration]
     \<and> length (suggestions [demo_integration]) = min 10 (length [demo_integration])
     \<and> (\<exists>popular rest. suggestions [demo_integration] = popular @ rest
          \<and> list_all (\<lambda>i. ''popular'' \<in> set (in_categories i)) popular
          \<and> list_all (\<lambda>i. ''popular'' \<notin> set (in_categories i)) rest)"
  by (rule suggestions_sound) simp

section \<open>Nothing is deleted unasked\<close>

definition asked :: "table_event list \<Rightarrow> string set \<times> string set" where
  "asked es = ({i. \<exists>c. AskDisconnect c \<in> set es \<and> row_id (Some c) = Some i},
     {i. \<exists>c. AskWebhook c \<in> set es \<and> webhook_warning c \<and> row_id (Some c) = Some i})"

definition table_inv :: "table_event list \<Rightarrow> table_state \<Rightarrow> bool" where
  "table_inv es st \<longleftrightarrow> set (tb_calls st) \<subseteq> DeleteConnection ` fst (asked es) \<union> MarkWebhook ` snd (asked es)
     \<and> set_option (row_id (tb_disconnecting st)) \<subseteq> fst (asked es)
     \<and> set_option (row_id (tb_configuring st)) \<subseteq> snd (asked es)"

lemma row_id_None [simp]: "row_id None = None"
  by (simp add: row_id_def)

lemma table_inv_step:
  assumes "table_inv es st"
  shows "table_inv (es @ [e]) (table_step st e)"
proof -
  have mono: "fst (asked es) \<subseteq> fst (asked (es @ [e]))" "snd (asked es) \<subseteq> snd (asked (es @ [e]))"
    by (auto simp: asked_def)
  have ask: "e = AskDisconnect c \<Longrightarrow> set_option (row_id (Some c)) \<subseteq> fst (asked (es @ [e]))"
    "e = AskWebhook c \<Longrightarrow> webhook_warning c \<Longrightarrow> set_option (row_id (Some c)) \<subseteq> snd (asked (es @ [e]))" for c
    by (auto simp: asked_def)
  have st: "table_inv (es @ [e]) st"
    using assms mono unfolding table_inv_def by blast
  show ?thesis
    using st ask
    by (cases e) (auto simp: table_inv_def table_step_def handle_disconnect_def disconnected_def disconnect_failed_def
      webhook_confirm_def webhook_marked_def webhook_failed_def split: option.splits)
qed

text \<open>
  Nothing is disconnected unasked: after any order of clicks and answers, every delete
  call is for a connection the user asked to disconnect, and every webhook is marked for
  a connection whose warning the user opened.
\<close>

theorem table_calls_asked:
  "set (tb_calls (foldl table_step table_init es)) \<subseteq> DeleteConnection ` fst (asked es) \<union> MarkWebhook ` snd (asked es)"
proof -
  have "table_inv es (foldl table_step table_init es)"
  proof (induction es rule: rev_induct)
    case Nil
    then show ?case by (simp add: table_inv_def table_init_def)
  next
    case (snoc e es)
    then show ?case using table_inv_step [OF snoc] by simp
  qed
  then show ?thesis by (simp add: table_inv_def)
qed

end
