(* ===== verification/SkillFiles.thy ===== *)
theory SkillFiles
  imports JsPrelude "HOL-Library.Multiset"
begin

text \<open>
  The skill browser, \<open>apps/web/app/w/settings/_components/skill-detail-dialog.tsx\<close>: the files
  of a skill's bundle, the tree that \<open>buildFileTree\<close> grows by walking and extending the
  nodes in place, its sorting, the rows that \<open>FileTreeItem\<close> shows, the file that is selected,
  and the reset of the selection between renders. The in-place tree is a forest that an
  insertion rebuilds along one path. \<open>localeCompare\<close> is a parameter: \<open>rank\<close> gives the
  position of a name in the collation order.
\<close>

section \<open>Files\<close>

record skill_file =
  sf_path :: string
  sf_body :: string

record skill_bundle =
  sk_content :: string
  sk_references :: "(string \<times> string) list"

definition bundle_files :: "skill_bundle option \<Rightarrow> skill_file list" where
  "bundle_files b = (case b of
       None \<Rightarrow> []
     | Some d \<Rightarrow>
         (if sk_content d = [] then [] else [\<lparr>sf_path = ''SKILL.md'', sf_body = sk_content d\<rparr>])
         @ map (\<lambda>(p, t). \<lparr>sf_path = p, sf_body = t\<rparr>) (filter (\<lambda>(p, t). p \<noteq> [] \<and> t \<noteq> []) (sk_references d)))"

definition selected_file :: "skill_file list \<Rightarrow> string \<Rightarrow> skill_file option" where
  "selected_file files path = (case find (\<lambda>f. sf_path f = path) files of
       Some f \<Rightarrow> Some f
     | None \<Rightarrow> (case files of [] \<Rightarrow> None | f # _ \<Rightarrow> Some f))"

definition is_markdown_file :: "string \<Rightarrow> bool" where
  "is_markdown_file p \<longleftrightarrow> ends_with ''.md'' p \<or> ends_with ''.mdx'' p"

definition language_map :: "(string, string) dict" where
  "language_map =
     [(''sh'', ''bash''), (''bash'', ''bash''), (''zsh'', ''bash''), (''js'', ''javascript''), (''ts'', ''typescript''),
      (''tsx'', ''typescript''), (''jsx'', ''javascript''), (''py'', ''python''), (''rb'', ''ruby''), (''go'', ''go''),
      (''rs'', ''rust''), (''yaml'', ''yaml''), (''yml'', ''yaml''), (''json'', ''json''), (''toml'', ''toml''),
      (''md'', ''markdown''), (''mdx'', ''markdown'')]"

text \<open>(Extensions that are names of \<open>Object.prototype\<close>, such as \<open>constructor\<close>, are left out.)\<close>

definition language_from_path :: "string \<Rightarrow> string" where
  "language_from_path p = (case dict_get language_map (to_lower (last (js_split (CHR ''.'') p))) of
       Some l \<Rightarrow> l | None \<Rightarrow> ''text'')"

section \<open>The tree\<close>

datatype node = Node (node_name: string) (node_path: string) (node_children: "node list") (node_file: "skill_file option")

fun upsert :: "string \<Rightarrow> node \<Rightarrow> (node list \<Rightarrow> node list) \<Rightarrow> node list \<Rightarrow> node list" where
  "upsert p fresh descend [] = [fresh]"
| "upsert p fresh descend (Node n q cs f # ns) =
     (if n = p then Node n q (descend cs) f # ns else Node n q cs f # upsert p fresh descend ns)"

fun insert_path :: "skill_file \<Rightarrow> string list \<Rightarrow> string list \<Rightarrow> node list \<Rightarrow> node list" where
  "insert_path file done [] ns = ns"
| "insert_path file done (p # ps) ns =
     upsert p (Node p (js_join ''/'' (done @ [p])) (insert_path file (done @ [p]) ps []) (if ps = [] then Some file else None))
       (insert_path file (done @ [p]) ps) ns"

definition insert_file :: "node list \<Rightarrow> skill_file \<Rightarrow> node list" where
  "insert_file ns f = insert_path f [] (js_split (CHR ''/'') (sf_path f)) ns"

text \<open>
  The comparator puts directories first and compares names within each group; a stable sort
  by it is a stable sort by name followed by one by kind.
\<close>

definition sort_level :: "(string \<Rightarrow> int) \<Rightarrow> node list \<Rightarrow> node list" where
  "sort_level rank ns = sort_key (\<lambda>n. if node_children n = [] then 1 else 0 :: int) (sort_key (\<lambda>n. rank (node_name n)) ns)"

lemma set_sort_level [simp]: "set (sort_level rank ns) = set ns"
  by (simp add: sort_level_def)

lemma mset_sort_level: "mset (sort_level rank ns) = mset ns"
  by (simp add: sort_level_def)

function sort_node :: "(string \<Rightarrow> int) \<Rightarrow> node \<Rightarrow> node" where
  "sort_node rank (Node n p cs f) = Node n p (map (sort_node rank) (sort_level rank cs)) f"
  by pat_completeness auto
termination
  by (relation "measure (\<lambda>(rank, n). size n)") (auto simp: less_Suc_eq_le dest: size_list_estimation' [where f = size, OF _ order_refl])

definition sort_tree :: "(string \<Rightarrow> int) \<Rightarrow> node list \<Rightarrow> node list" where
  "sort_tree rank ns = map (sort_node rank) (sort_level rank ns)"

definition build_file_tree :: "(string \<Rightarrow> int) \<Rightarrow> skill_file list \<Rightarrow> node list" where
  "build_file_tree rank files = sort_tree rank (foldl insert_file [] files)"

text \<open>The rows of the expanded tree that select a file: a node with children is a folder.\<close>

fun shown_paths :: "node \<Rightarrow> string list" where
  "shown_paths (Node n p cs f) = (if cs = [] then [p] else concat (map shown_paths cs))"

section \<open>Renders\<close>

datatype view_mode = Rendered | Raw

record detail_state =
  dt_open :: bool
  dt_previous :: "string option"
  dt_path :: string
  dt_mode :: view_mode

definition detail_init :: "bool \<Rightarrow> string option \<Rightarrow> detail_state" where
  "detail_init b skill = \<lparr>dt_open = b, dt_previous = skill, dt_path = ''SKILL.md'', dt_mode = Rendered\<rparr>"

text \<open>
  A render with the properties \<open>open\<close> and \<open>skill?.id\<close>. \<open>previousSkillId\<close> is recomputed only when
  \<open>open\<close> changed. When it differs from the id, the states are set during the render, which
  renders again with the same two values: React gives up (\<open>None\<close>).
\<close>

definition render_detail :: "bool \<Rightarrow> string option \<Rightarrow> detail_state \<Rightarrow> detail_state option" where
  "render_detail b skill st =
     (let previous = (if b \<noteq> dt_open st then skill else dt_previous st) in
      if skill \<noteq> previous then None else Some (st\<lparr>dt_open := b, dt_previous := previous\<rparr>))"

section \<open>Every file is shown\<close>

text \<open>A row by the names on its way; the paths of the nodes are the joined names.\<close>

fun leaves :: "node \<Rightarrow> string list list" where
  "leaves (Node n p cs f) = (if cs = [] then [[n]] else map ((#) n) (concat (map leaves cs)))"

abbreviation forest_leaves :: "node list \<Rightarrow> string list list" where
  "forest_leaves ns \<equiv> concat (map leaves ns)"

fun placed :: "string list \<Rightarrow> node \<Rightarrow> bool" where
  "placed done (Node n p cs f) \<longleftrightarrow> p = js_join ''/'' (done @ [n]) \<and> list_all (placed (done @ [n])) cs"

lemma leaves_nonempty: "leaves n \<noteq> []"
proof (induction n)
  case (Node n p cs f)
  then show ?case by (cases cs) auto
qed

lemma insert_path_nonempty: "ps \<noteq> [] \<Longrightarrow> insert_path file done ps ns \<noteq> []"
proof -
  have "upsert p fresh d ns \<noteq> []" for p fresh d by (cases ns; cases "hd ns") auto
  then show "ps \<noteq> [] \<Longrightarrow> insert_path file done ps ns \<noteq> []" by (cases ps) auto
qed

definition apart :: "string list \<Rightarrow> string list list \<Rightarrow> bool" where
  "apart ps ls \<longleftrightarrow> list_all (\<lambda>l. \<not> prefix l ps \<and> \<not> prefix ps l) ls"

lemma insert_path_leaves:
  "ps \<noteq> [] \<Longrightarrow> apart ps (forest_leaves ns) \<Longrightarrow>
   mset (forest_leaves (insert_path file done ps ns)) = add_mset ps (mset (forest_leaves ns))"
proof (induction ps arbitrary: "done" ns)
  case (Cons p ps)
  let ?d = "done @ [p]"
  have fresh: "leaves (Node p q (insert_path file ?d ps []) g) = [p # ps]" for q g
  proof (cases "ps = []")
    case False
    then have "mset (forest_leaves (insert_path file ?d ps [])) = {#ps#}"
      using Cons.IH [of "[]" ?d] by (simp add: apart_def)
    then show ?thesis using insert_path_nonempty [OF False] by auto
  qed simp
  have down: "mset (leaves (Node p q (insert_path file ?d ps cs) g)) = add_mset (p # ps) (mset (leaves (Node p q cs g)))"
    if "apart (p # ps) (leaves (Node p q cs g))" for q cs g
  proof -
    have cs: "cs \<noteq> []" using that by (auto simp: apart_def)
    then obtain l where "l \<in> set (forest_leaves cs)"
      using leaves_nonempty [of "hd cs"] by (cases cs; cases "leaves (hd cs)") auto
    then have ps: "ps \<noteq> []" using that cs by (auto simp: apart_def list_all_iff)
    have "apart ps (forest_leaves cs)" using that cs by (auto simp: apart_def list_all_iff)
    from Cons.IH [OF ps this, of ?d] insert_path_nonempty [OF ps]
    show ?thesis using cs by simp
  qed
  from Cons.prems(2) have "mset (concat (map leaves (upsert p (Node p (js_join ''/'' ?d) (insert_path file ?d ps [])
      (if ps = [] then Some file else None)) (insert_path file ?d ps) ns))) = add_mset (p # ps) (mset (forest_leaves ns))"
  proof (induction ns)
    case Nil
    then show ?case by (simp add: fresh del: leaves.simps)
  next
    case (Cons n ns)
    obtain m q cs g where n: "n = Node m q cs g" by (cases n)
    have "apart (p # ps) (leaves n)" "apart (p # ps) (forest_leaves ns)"
      using Cons.prems by (simp_all add: apart_def del: leaves.simps)
    then show ?case using Cons.IH down [of q cs g] by (cases "m = p") (simp_all add: n del: leaves.simps)
  qed
  then show ?case by simp
qed simp

lemma insert_path_placed:
  "list_all (placed done) ns \<Longrightarrow> list_all (placed done) (insert_path file done ps ns)"
proof (induction ps arbitrary: "done" ns)
  case (Cons p ps)
  have "list_all (placed done) (upsert p (Node p (js_join ''/'' (done @ [p])) (insert_path file (done @ [p]) ps [])
      (if ps = [] then Some file else None)) (insert_path file (done @ [p]) ps) ns)"
    using Cons.prems
  proof (induction ns)
    case Nil
    then show ?case using Cons.IH [of "done @ [p]" "[]"] by simp
  next
    case (Cons n ns)
    then show ?case using Cons.IH \<open>\<And>done ns. list_all (placed done) ns \<Longrightarrow> list_all (placed done) (insert_path file done ps ns)\<close>
      by (cases n) auto
  qed
  then show ?case by simp
qed simp

lemma shown_by_leaves: "placed done n \<Longrightarrow> shown_paths n = map (\<lambda>l. js_join ''/'' (done @ l)) (leaves n)"
proof (induction n arbitrary: "done")
  case (Node n p cs f)
  have "map shown_paths cs = map (\<lambda>c. map (\<lambda>l. js_join ''/'' ((done @ [n]) @ l)) (leaves c)) cs"
    using Node by (auto simp: list_all_iff)
  from arg_cong [OF this, of concat] show ?case using Node.prems by (simp add: map_concat o_def)
qed

lemma sort_level_Nil [simp]: "sort_level rank ns = [] \<longleftrightarrow> ns = []"
  by (metis mset_sort_level mset_zero_iff)

lemma sum_sort_level: "sum_list (map f (sort_level rank ns)) = sum_list (map f ns)" for f :: "node \<Rightarrow> 'b::comm_monoid_add"
  by (simp only: sum_mset_sum_list [symmetric] mset_map mset_sort_level)

lemma sort_node_shown: "mset (shown_paths (sort_node rank n)) = mset (shown_paths n)"
proof (induction n)
  case (Node n p cs f)
  have "sum_list (map (\<lambda>c. mset (shown_paths (sort_node rank c))) (sort_level rank cs)) = sum_list (map (\<lambda>c. mset (shown_paths c)) (sort_level rank cs))"
    using Node by (intro arg_cong [where f = sum_list]) auto
  also have "\<dots> = sum_list (map (\<lambda>c. mset (shown_paths c)) cs)"
    by (rule sum_sort_level)
  finally show ?case
    by (simp add: mset_concat o_def sort_level_Nil)
qed

lemma sort_tree_shown: "mset (concat (map shown_paths (sort_tree rank ns))) = mset (concat (map shown_paths ns))"
proof -
  have "mset (concat (map shown_paths (sort_tree rank ns))) = sum_list (map (\<lambda>n. mset (shown_paths n)) (sort_level rank ns))"
    by (simp add: sort_tree_def mset_concat o_def sort_node_shown)
  also have "\<dots> = sum_list (map (\<lambda>n. mset (shown_paths n)) ns)"
    by (rule sum_sort_level)
  finally show ?thesis by (simp add: mset_concat o_def)
qed

definition path_parts :: "skill_file \<Rightarrow> string list" where
  "path_parts f = js_split (CHR ''/'') (sf_path f)"

definition paths_apart :: "skill_file list \<Rightarrow> bool" where
  "paths_apart files \<longleftrightarrow> sorted_wrt (\<lambda>f g. \<not> prefix (path_parts f) (path_parts g) \<and> \<not> prefix (path_parts g) (path_parts f)) files"

lemma insert_files:
  assumes "paths_apart files"
  shows "mset (forest_leaves (foldl insert_file [] files)) = mset (map path_parts files)
     \<and> list_all (placed []) (foldl insert_file [] files)"
  using assms
proof (induction files rule: rev_induct)
  case (snoc f files)
  have apart: "paths_apart files" and new: "\<forall>g \<in> set files. \<not> prefix (path_parts g) (path_parts f) \<and> \<not> prefix (path_parts f) (path_parts g)"
    using snoc.prems by (auto simp: paths_apart_def sorted_wrt_append)
  note IH = snoc.IH [OF apart]
  have "set (forest_leaves (foldl insert_file [] files)) = path_parts ` set files"
    using arg_cong [OF conjunct1 [OF IH], of set_mset] by (simp del: set_concat)
  then have "apart (path_parts f) (forest_leaves (foldl insert_file [] files))"
    using new by (auto simp: apart_def list_all_iff simp del: set_concat)
  moreover have "path_parts f \<noteq> []" by (simp add: path_parts_def)
  moreover have "insert_file ns f = insert_path f [] (path_parts f) ns" for ns
    by (simp add: insert_file_def path_parts_def)
  ultimately show ?case
    using insert_path_leaves [of "path_parts f" "foldl insert_file [] files" f "[]"] insert_path_placed [of "[]"] IH
    by simp
qed simp

lemma shown_forest: "list_all (placed []) ns \<Longrightarrow> concat (map shown_paths ns) = map (js_join ''/'') (forest_leaves ns)"
  by (induction ns) (simp_all add: shown_by_leaves [of "[]"])

text \<open>
  C29. The skill browser shows every file: when no file's path is a folder of another's, the
  rows of the tree are exactly the paths of the files, each as often as it occurs and
  whatever the collation, and a click on the row of a file shows that file.
\<close>

theorem file_tree_complete:
  assumes "paths_apart files" "f \<in> set files"
  shows "mset (concat (map shown_paths (build_file_tree rank files))) = mset (map sf_path files)
     \<and> selected_file files (sf_path f) = Some f"
proof -
  note ins = insert_files [OF assms(1)]
  have "mset (map (js_join ''/'') (forest_leaves (foldl insert_file [] files))) = mset (map (js_join ''/'') (map path_parts files))"
    using ins by (simp only: mset_map)
  also have "map (js_join ''/'') (map path_parts files) = map sf_path files"
    by (simp add: path_parts_def join_split)
  finally have "mset (concat (map shown_paths (build_file_tree rank files))) = mset (map sf_path files)"
    using ins by (simp only: build_file_tree_def sort_tree_shown shown_forest)
  moreover have "find (\<lambda>g. sf_path g = sf_path f) files = Some f"
    using assms
  proof (induction files)
    case (Cons g files)
    then show ?case by (auto simp: paths_apart_def path_parts_def)
  qed simp
  ultimately show ?thesis by (simp add: selected_file_def)
qed

definition demo_files :: "skill_file list" where
  "demo_files = [\<lparr>sf_path = ''SKILL.md'', sf_body = ''s''\<rparr>, \<lparr>sf_path = ''ref/b.md'', sf_body = ''b''\<rparr>, \<lparr>sf_path = ''ref/a.py'', sf_body = ''a''\<rparr>]"

theorem file_tree_complete_witness:
  "mset (concat (map shown_paths (build_file_tree (\<lambda>n. int (length n)) demo_files))) = mset (map sf_path demo_files)
     \<and> selected_file demo_files (sf_path \<lparr>sf_path = ''ref/a.py'', sf_body = ''a''\<rparr>) = Some \<lparr>sf_path = ''ref/a.py'', sf_body = ''a''\<rparr>"
  by (rule file_tree_complete) (simp_all add: demo_files_def paths_apart_def path_parts_def)

text \<open>A file whose path is also a folder of another file has no row of its own.\<close>

lemma file_under_file_hidden:
  "concat (map shown_paths (build_file_tree rank [\<lparr>sf_path = ''a'', sf_body = ''x''\<rparr>, \<lparr>sf_path = ''a/b'', sf_body = ''y''\<rparr>])) = [''a/b'']"
  by (simp add: build_file_tree_def insert_file_def sort_tree_def sort_level_def)

section \<open>The selection is never reset\<close>

lemma render_keeps_selection:
  "render_detail b skill st = Some st' \<Longrightarrow> dt_path st' = dt_path st \<and> dt_mode st' = dt_mode st"
  by (auto simp: render_detail_def Let_def split: if_splits)

text \<open>
  The reset of the selection when another skill is opened never happens: over every
  sequence of renders that React accepts, the selected path and the view mode stay what they
  were, and changing the skill of an open dialog is not accepted.
\<close>

theorem selection_never_reset:
  "(case foldl (\<lambda>o' r. Option.bind o' (render_detail (fst r) (snd r))) (Some st) renders of
      None \<Rightarrow> True | Some st' \<Rightarrow> dt_path st' = dt_path st \<and> dt_mode st' = dt_mode st)
   \<and> (render_detail (dt_open st) skill st = None \<longleftrightarrow> skill \<noteq> dt_previous st)"
proof
  have "case foldl (\<lambda>o' r. Option.bind o' (render_detail (fst r) (snd r))) None renders of None \<Rightarrow> True | Some (st' :: detail_state) \<Rightarrow> P st'" for P
    by (induction renders) auto
  then show "case foldl (\<lambda>o' r. Option.bind o' (render_detail (fst r) (snd r))) (Some st) renders of
      None \<Rightarrow> True | Some st' \<Rightarrow> dt_path st' = dt_path st \<and> dt_mode st' = dt_mode st"
  proof (induction renders arbitrary: st)
    case (Cons r renders)
    then show ?case
    proof (cases "render_detail (fst r) (snd r) st")
      case (Some st1)
      with Cons.IH [of st1] Cons.prems render_keeps_selection [OF Some] show ?thesis
        by (auto split: option.splits)
    qed simp
  qed simp
qed (simp add: render_detail_def Let_def)

end
