(* ===== verification/Settings.thy ===== *)
theory Settings
  imports SandboxBuild Connections SkillFiles
begin

text \<open>
  The settings dialog, \<open>apps/web/app/w/settings/_components\<close> with the shared
  \<open>components/confirm-dialog.tsx\<close> and \<open>components/settings-dialog.tsx\<close>: creating skills and
  API keys, the confirmed actions on skills, API keys, provider keys and sandbox templates,
  and billing. A list row is an id, which may be missing, and a name. Every page whose
  actions wait for a confirmation satisfies the contract \<open>confirmed_action\<close>.
\<close>

section \<open>Confirmation\<close>

record confirm_state =
  cd_typed :: string

definition confirm_open_change :: "bool \<Rightarrow> confirm_state \<Rightarrow> confirm_state" where
  "confirm_open_change b st = (if b then st else st\<lparr>cd_typed := []\<rparr>)"

definition confirm_enabled :: "string option \<Rightarrow> confirm_state \<Rightarrow> bool" where
  "confirm_enabled confirm_text st = (case confirm_text of
       None \<Rightarrow> True | Some t \<Rightarrow> t = [] \<or> cd_typed st = t)"

definition confirm_disabled :: "string option \<Rightarrow> bool \<Rightarrow> confirm_state \<Rightarrow> bool" where
  "confirm_disabled confirm_text loading st = button_disabled (Some (\<not> confirm_enabled confirm_text st)) loading"

text \<open>The button is free while the action is under way: a second click repeats it.\<close>

lemma confirm_free_while_loading: "confirm_disabled None True st = False"
  by (simp add: confirm_disabled_def button_disabled_def confirm_enabled_def)

section \<open>Rows\<close>

record row =
  rw_id :: "string option"
  rw_name :: string

definition target_id :: "row option \<Rightarrow> string option" where
  "target_id r = Option.bind r (\<lambda>x. Option.bind (rw_id x) (\<lambda>i. if i = [] then None else Some i))"

lemma target_id_None [simp]: "target_id None = None"
  by (simp add: target_id_def)

section \<open>Skills\<close>

datatype source_type = Inline | Git

record skill_form =
  kf_source :: source_type
  kf_name :: string
  kf_description :: string
  kf_repo_url :: string
  kf_repo_subpath :: string
  kf_repo_ref :: string

definition skill_form_init :: skill_form where
  "skill_form_init = \<lparr>kf_source = Inline, kf_name = [], kf_description = [], kf_repo_url = [],
     kf_repo_subpath = [], kf_repo_ref = ''main''\<rparr>"

text \<open>\<open>s.replace(/\s+/g, "-")\<close>: each run of white space becomes one dash.\<close>

fun dash_spaces :: "string \<Rightarrow> string" where
  "dash_spaces [] = []"
| "dash_spaces (c # cs) =
     (if is_space c then (case cs of d # ds \<Rightarrow> if is_space d then dash_spaces cs else CHR ''-'' # dash_spaces cs | [] \<Rightarrow> ''-'')
      else c # dash_spaces cs)"

definition skill_slug :: "string \<Rightarrow> string" where
  "skill_slug name = dash_spaces (to_lower (js_trim name))"

definition text_or :: "string \<Rightarrow> js \<Rightarrow> js" where
  "text_or s other = (if s = [] then other else JStr s)"

datatype skill_refusal = NoName | NoRepository

definition skill_base :: "skill_form \<Rightarrow> (string \<times> js) list" where
  "skill_base f = [(''name'', JStr (js_trim (kf_name f))), (''description'', text_or (js_trim (kf_description f)) JUndefined),
     (''source_type'', JStr (if kf_source f = Git then ''git'' else ''inline''))]"

definition skill_body :: "skill_form \<Rightarrow> skill_refusal + js" where
  "skill_body f =
     (if js_trim (kf_name f) = [] then Inl NoName
      else if kf_source f = Git
        then (if js_trim (kf_repo_url f) = [] then Inl NoRepository
              else Inr (JObj (skill_base f @
                [(''repo_url'', JStr (js_trim (kf_repo_url f))),
                 (''repo_subpath'', text_or (js_trim (kf_repo_subpath f)) JUndefined),
                 (''repo_ref'', text_or (js_trim (kf_repo_ref f)) (JStr ''main''))])))
        else Inr (JObj (skill_base f @
               [(''bundle'', JObj [(''id'', JStr (skill_slug (kf_name f))), (''title'', JStr (js_trim (kf_name f))),
                  (''description'', JStr (js_trim (kf_description f))), (''content'', JStr []), (''references'', JArr [])])])))"

text \<open>Answers of the create call: the form is reset and closed, or the failure shown.\<close>

record skill_dialog =
  sd_form :: skill_form
  sd_open :: bool
  sd_pending :: bool
  sd_toasts :: "string list"
  sd_requests :: "js list"

definition skill_open_change :: "bool \<Rightarrow> skill_dialog \<Rightarrow> skill_dialog" where
  "skill_open_change b st = (if b then st else st\<lparr>sd_form := skill_form_init\<rparr>)\<lparr>sd_open := b\<rparr>"

definition skill_submit :: "skill_dialog \<Rightarrow> skill_dialog" where
  "skill_submit st = (case skill_body (sd_form st) of
       Inl NoName \<Rightarrow> st
     | Inl NoRepository \<Rightarrow> st\<lparr>sd_toasts := sd_toasts st @ [''Repository URL is required for git skills'']\<rparr>
     | Inr b \<Rightarrow> st\<lparr>sd_pending := True, sd_requests := sd_requests st @ [b]\<rparr>)"

definition skill_created :: "js option \<Rightarrow> skill_dialog \<Rightarrow> skill_dialog" where
  "skill_created err st = (if \<not> sd_pending st then st
     else (case err of
         None \<Rightarrow> skill_open_change False (st\<lparr>sd_pending := False, sd_toasts := sd_toasts st @ [''Skill created'']\<rparr>)
       | Some e \<Rightarrow> st\<lparr>sd_pending := False, sd_toasts := sd_toasts st @ [extract_error_message e ''Failed to create skill'']\<rparr>))"

lemma dash_spaces_Cons:
  "dash_spaces (c # cs) = (if is_space c then (if cs \<noteq> [] \<and> is_space (hd cs) then dash_spaces cs else CHR ''-'' # dash_spaces cs)
     else c # dash_spaces cs)"
  by (cases cs) simp_all

lemma dash_spaces_no_space: "list_all (\<lambda>c. \<not> is_space c) (dash_spaces s)"
  by (induction s) (simp_all add: dash_spaces_Cons is_space_def del: dash_spaces.simps(2))

lemma dash_spaces_Nil_iff [simp]: "dash_spaces s = [] \<longleftrightarrow> s = []"
  by (induction s) (simp_all add: dash_spaces_Cons del: dash_spaces.simps(2))

text \<open>
  Submitting the skill form sends nothing for a blank name or, for a git skill, a blank
  repository; otherwise the body carries the trimmed name and the chosen source. A git body
  has its repository and a branch that is never empty, and no bundle; an inline body has a
  bundle whose id is not empty and contains no white space, and no repository.
\<close>

theorem skill_body_wf:
  "case skill_body f of
     Inl NoName \<Rightarrow> js_trim (kf_name f) = []
   | Inl NoRepository \<Rightarrow> kf_source f = Git \<and> js_trim (kf_repo_url f) = []
   | Inr b \<Rightarrow> js_trim (kf_name f) \<noteq> [] \<and> js_get b ''name'' = JStr (js_trim (kf_name f)) \<and>
       (case kf_source f of
          Git \<Rightarrow> js_get b ''source_type'' = JStr ''git'' \<and> js_get b ''repo_url'' = JStr (js_trim (kf_repo_url f))
            \<and> js_trim (kf_repo_url f) \<noteq> [] \<and> (\<exists>ref. js_get b ''repo_ref'' = JStr ref \<and> ref \<noteq> []) \<and> js_get b ''bundle'' = JUndefined
        | Inline \<Rightarrow> js_get b ''source_type'' = JStr ''inline'' \<and> js_get b ''repo_url'' = JUndefined
            \<and> (\<exists>i. js_get (js_get b ''bundle'') ''id'' = JStr i \<and> i \<noteq> [] \<and> list_all (\<lambda>c. \<not> is_space c) i))"
proof (cases "js_trim (kf_name f) = []")
  case False
  have "skill_slug (kf_name f) \<noteq> []" "list_all (\<lambda>c. \<not> is_space c) (skill_slug (kf_name f))"
    using False by (simp_all add: skill_slug_def dash_spaces_no_space to_lower_def)
  with False show ?thesis
    by (cases "kf_source f") (simp_all add: skill_body_def skill_base_def text_or_def)
qed (simp add: skill_body_def)

datatype skill_call = ArchiveSkill string | PublishSkill string | UnpublishSkill string

record skills_state =
  ss_deleting :: "row option"
  ss_publishing :: "row option"
  ss_unpublishing :: "row option"
  ss_pending :: "(skill_call \<times> row) list"
  ss_toasts :: "string list"
  ss_calls :: "skill_call list"

definition quoted :: "string \<Rightarrow> string" where
  "quoted n = ''\"'' @ n @ ''\"''"

definition start_action :: "(string \<Rightarrow> skill_call) \<Rightarrow> row option \<Rightarrow> skills_state \<Rightarrow> skills_state" where
  "start_action c r st = (case (r, target_id r) of
       (Some x, Some i) \<Rightarrow> st\<lparr>ss_calls := ss_calls st @ [c i], ss_pending := ss_pending st @ [(c i, x)]\<rparr>
     | _ \<Rightarrow> st)"

definition skill_delete :: "skills_state \<Rightarrow> skills_state" where
  "skill_delete st = start_action ArchiveSkill (ss_deleting st) st"

definition skill_publish :: "skills_state \<Rightarrow> skills_state" where
  "skill_publish st = start_action PublishSkill (ss_publishing st) st"

definition skill_unpublish :: "skills_state \<Rightarrow> skills_state" where
  "skill_unpublish st = start_action UnpublishSkill (ss_unpublishing st) st"

fun settle_target :: "skill_call \<Rightarrow> skills_state \<Rightarrow> skills_state" where
  "settle_target (ArchiveSkill i) st = st\<lparr>ss_deleting := None\<rparr>"
| "settle_target (PublishSkill i) st = st\<lparr>ss_publishing := None\<rparr>"
| "settle_target (UnpublishSkill i) st = st\<lparr>ss_unpublishing := None\<rparr>"

fun settle_toast :: "skill_call \<Rightarrow> string \<Rightarrow> js option \<Rightarrow> string" where
  "settle_toast (ArchiveSkill i) n None = quoted n @ '' archived''"
| "settle_toast (PublishSkill i) n None = quoted n @ '' published to marketplace''"
| "settle_toast (UnpublishSkill i) n None = quoted n @ '' removed from marketplace''"
| "settle_toast (ArchiveSkill i) n (Some e) = extract_error_message e ''Failed to archive skill''"
| "settle_toast (PublishSkill i) n (Some e) = extract_error_message e ''Failed to publish skill''"
| "settle_toast (UnpublishSkill i) n (Some e) = extract_error_message e ''Failed to unpublish skill''"

definition skill_settled :: "nat \<Rightarrow> js option \<Rightarrow> skills_state \<Rightarrow> skills_state" where
  "skill_settled k err st =
     (if k < length (ss_pending st)
      then (let (c, r) = ss_pending st ! k in
            settle_target c (st\<lparr>ss_pending := take k (ss_pending st) @ drop (Suc k) (ss_pending st),
              ss_toasts := ss_toasts st @ [settle_toast c (rw_name r) err]\<rparr>))
      else st)"

text \<open>The menu offers publishing or its reverse, after the skill's public id.\<close>

definition is_published :: "string option \<Rightarrow> bool" where
  "is_published public_id \<longleftrightarrow> public_id \<noteq> None \<and> public_id \<noteq> Some []"

datatype skill_event =
    AskDelete row | AskPublish row | AskUnpublish row | CancelDelete | CancelPublish | CancelUnpublish
  | ConfirmDelete | ConfirmPublish | ConfirmUnpublish | SkillSettled nat "js option"

definition skill_step :: "skills_state \<Rightarrow> skill_event \<Rightarrow> skills_state" where
  "skill_step st e = (case e of
       AskDelete r \<Rightarrow> st\<lparr>ss_deleting := Some r\<rparr> | AskPublish r \<Rightarrow> st\<lparr>ss_publishing := Some r\<rparr>
     | AskUnpublish r \<Rightarrow> st\<lparr>ss_unpublishing := Some r\<rparr>
     | CancelDelete \<Rightarrow> st\<lparr>ss_deleting := None\<rparr> | CancelPublish \<Rightarrow> st\<lparr>ss_publishing := None\<rparr>
     | CancelUnpublish \<Rightarrow> st\<lparr>ss_unpublishing := None\<rparr>
     | ConfirmDelete \<Rightarrow> skill_delete st | ConfirmPublish \<Rightarrow> skill_publish st | ConfirmUnpublish \<Rightarrow> skill_unpublish st
     | SkillSettled k err \<Rightarrow> skill_settled k err st)"

definition skills_init :: skills_state where
  "skills_init = \<lparr>ss_deleting = None, ss_publishing = None, ss_unpublishing = None, ss_pending = [], ss_toasts = [], ss_calls = []\<rparr>"

fun archived :: "skill_call \<Rightarrow> string option" where
  "archived (ArchiveSkill i) = Some i" | "archived _ = None"

fun published :: "skill_call \<Rightarrow> string option" where
  "published (PublishSkill i) = Some i" | "published _ = None"

fun asks_delete :: "skill_event \<Rightarrow> string option" where
  "asks_delete (AskDelete r) = target_id (Some r)" | "asks_delete _ = None"

fun asks_publish :: "skill_event \<Rightarrow> string option" where
  "asks_publish (AskPublish r) = target_id (Some r)" | "asks_publish _ = None"

lemma start_action_fields [simp]:
  "ss_deleting (start_action c r st) = ss_deleting st" "ss_publishing (start_action c r st) = ss_publishing st"
  "ss_unpublishing (start_action c r st) = ss_unpublishing st"
  "ss_calls (start_action c r st) = ss_calls st @ (case target_id r of None \<Rightarrow> [] | Some i \<Rightarrow> [c i])"
  by (cases r; simp add: start_action_def split: option.split)+

lemma skill_settled_fields:
  "ss_calls (skill_settled k err st) = ss_calls st"
  "ss_deleting (skill_settled k err st) = ss_deleting st \<or> ss_deleting (skill_settled k err st) = None"
  "ss_publishing (skill_settled k err st) = ss_publishing st \<or> ss_publishing (skill_settled k err st) = None"
  by (cases "ss_pending st ! k"; cases "fst (ss_pending st ! k)"; simp add: skill_settled_def)+

lemmas skill_ops = skill_step_def skill_delete_def skill_publish_def skill_unpublish_def

interpretation archive_skill: confirmed_action skill_step "\<lambda>st. target_id (ss_deleting st)"
  "\<lambda>st. List.map_filter archived (ss_calls st)" asks_delete
proof
  show "target_id (ss_deleting (skill_step st e)) = Some i \<Longrightarrow> target_id (ss_deleting st) = Some i \<or> asks_delete e = Some i" for st e i
    by (cases e) (simp_all add: skill_ops, metis skill_settled_fields(2) target_id_None option.distinct(1))
  show "i \<in> set (List.map_filter archived (ss_calls (skill_step st e))) \<Longrightarrow>
      i \<in> set (List.map_filter archived (ss_calls st)) \<or> target_id (ss_deleting st) = Some i" for st e i
    by (cases e) (auto simp: skill_ops skill_settled_fields map_filter_def split: option.splits)
qed

interpretation publish_skill: confirmed_action skill_step "\<lambda>st. target_id (ss_publishing st)"
  "\<lambda>st. List.map_filter published (ss_calls st)" asks_publish
proof
  show "target_id (ss_publishing (skill_step st e)) = Some i \<Longrightarrow> target_id (ss_publishing st) = Some i \<or> asks_publish e = Some i" for st e i
    by (cases e) (simp_all add: skill_ops, metis skill_settled_fields(3) target_id_None option.distinct(1))
  show "i \<in> set (List.map_filter published (ss_calls (skill_step st e))) \<Longrightarrow>
      i \<in> set (List.map_filter published (ss_calls st)) \<or> target_id (ss_publishing st) = Some i" for st e i
    by (cases e) (auto simp: skill_ops skill_settled_fields map_filter_def split: option.splits)
qed

text \<open>
  In any use of the page, a skill is archived or published only after the menu of that
  very skill asked for it: the dialogs never act on another row.
\<close>

theorem skill_actions_asked:
  "let st = foldl skill_step skills_init es in
     Some ` set (List.map_filter archived (ss_calls st)) \<subseteq> asks_delete ` set es
     \<and> Some ` set (List.map_filter published (ss_calls st)) \<subseteq> asks_publish ` set es"
  using archive_skill.run_calls_asked [of skills_init es] publish_skill.run_calls_asked [of skills_init es]
  by (simp add: skills_init_def Let_def map_filter_def)

section \<open>API keys\<close>

definition api_key_scopes :: "string list" where
  "api_key_scopes = [''all'', ''agents'', ''credentials'', ''connect'', ''integrations'', ''tokens'']"

record key_form =
  ak_name :: string
  ak_scopes :: "string list"
  ak_created :: "string option"
  ak_open :: bool
  ak_pending :: bool
  ak_toasts :: "string list"
  ak_requests :: "(string \<times> string list) list"

definition key_form_init :: key_form where
  "key_form_init = \<lparr>ak_name = [], ak_scopes = [''all''], ak_created = None, ak_open = True, ak_pending = False,
     ak_toasts = [], ak_requests = []\<rparr>"

definition key_form_reset :: "key_form \<Rightarrow> key_form" where
  "key_form_reset st = st\<lparr>ak_name := [], ak_scopes := [''all''], ak_created := None\<rparr>"

definition key_open_change :: "bool \<Rightarrow> key_form \<Rightarrow> key_form" where
  "key_open_change b st = (if b then st else key_form_reset st)\<lparr>ak_open := b\<rparr>"

definition toggle_scope :: "string \<Rightarrow> key_form \<Rightarrow> key_form" where
  "toggle_scope sc st = st\<lparr>ak_scopes := (if sc \<in> set (ak_scopes st) then filter (\<lambda>x. x \<noteq> sc) (ak_scopes st) else ak_scopes st @ [sc])\<rparr>"

definition key_submit :: "key_form \<Rightarrow> key_form" where
  "key_submit st = (if js_trim (ak_name st) = [] \<or> ak_scopes st = [] then st
     else st\<lparr>ak_pending := True, ak_requests := ak_requests st @ [(js_trim (ak_name st), ak_scopes st)]\<rparr>)"

definition key_created :: "js \<Rightarrow> key_form \<Rightarrow> key_form" where
  "key_created response st = (if \<not> ak_pending st then st
     else let st' = st\<lparr>ak_pending := False\<rparr> in
       (case js_get response ''key'' of
          JStr k \<Rightarrow> if k \<noteq> [] then st'\<lparr>ak_created := Some k\<rparr>
            else key_open_change False (st'\<lparr>ak_toasts := ak_toasts st @ [''API key created'']\<rparr>)
        | _ \<Rightarrow> key_open_change False (st'\<lparr>ak_toasts := ak_toasts st @ [''API key created'']\<rparr>)))"

definition key_failed :: "js \<Rightarrow> key_form \<Rightarrow> key_form" where
  "key_failed err st = (if \<not> ak_pending st then st
     else st\<lparr>ak_pending := False, ak_toasts := ak_toasts st @ [extract_error_message err ''Failed to create API key'']\<rparr>)"

datatype key_event = KeyName string | KeyScope string | KeySubmit | KeyCreated js | KeyFailed js | KeyOpen bool

text \<open>Once a key is shown, the form is not; scopes are the buttons of the list.\<close>

definition key_step :: "key_form \<Rightarrow> key_event \<Rightarrow> key_form" where
  "key_step st e = (case e of
       KeyName n \<Rightarrow> if ak_created st = None then st\<lparr>ak_name := n\<rparr> else st
     | KeyScope sc \<Rightarrow> if ak_created st = None \<and> sc \<in> set api_key_scopes then toggle_scope sc st else st
     | KeySubmit \<Rightarrow> if ak_created st = None
           \<and> \<not> button_disabled (Some (js_trim (ak_name st) = [] \<or> ak_scopes st = [])) (ak_pending st) then key_submit st else st
     | KeyCreated r \<Rightarrow> key_created r st
     | KeyFailed err \<Rightarrow> key_failed err st
     | KeyOpen b \<Rightarrow> key_open_change b st)"

definition key_request_ok :: "string \<times> string list \<Rightarrow> bool" where
  "key_request_ok r \<longleftrightarrow> fst r \<noteq> [] \<and> js_trim (fst r) = fst r \<and> snd r \<noteq> [] \<and> distinct (snd r) \<and> set (snd r) \<subseteq> set api_key_scopes"

definition key_inv :: "key_form \<Rightarrow> bool" where
  "key_inv st \<longleftrightarrow> distinct (ak_scopes st) \<and> set (ak_scopes st) \<subseteq> set api_key_scopes \<and> list_all key_request_ok (ak_requests st)"

lemma key_inv_fields:
  "ak_scopes st' = ak_scopes st \<or> ak_scopes st' = [''all''] \<Longrightarrow> ak_requests st' = ak_requests st \<Longrightarrow> key_inv st \<Longrightarrow> key_inv st'"
  by (auto simp: key_inv_def api_key_scopes_def)

lemma key_open_change_fields:
  "ak_scopes (key_open_change b st) = (if b then ak_scopes st else [''all''])" "ak_requests (key_open_change b st) = ak_requests st"
  by (simp_all add: key_open_change_def key_form_reset_def)

lemma key_answer_fields:
  "ak_scopes (key_created r st) = ak_scopes st \<or> ak_scopes (key_created r st) = [''all'']"
  "ak_requests (key_created r st) = ak_requests st"
  "ak_scopes (key_failed r st) = ak_scopes st" "ak_requests (key_failed r st) = ak_requests st"
  by (simp_all add: key_created_def key_failed_def key_open_change_fields Let_def split: js.split)

lemma key_inv_scope: "key_inv st \<Longrightarrow> sc \<in> set api_key_scopes \<Longrightarrow> key_inv (toggle_scope sc st)"
  by (auto simp: key_inv_def toggle_scope_def)

lemma key_inv_submit: "key_inv st \<Longrightarrow> key_inv (key_submit st)"
  by (simp add: key_inv_def key_submit_def key_request_ok_def)

lemma key_inv_step: "key_inv st \<Longrightarrow> key_inv (key_step st e)"
proof (cases e)
  case (KeyCreated r)
  then show "key_inv st \<Longrightarrow> ?thesis"
    using key_inv_fields [OF key_answer_fields(1,2)] by (simp add: key_step_def)
next
  case (KeyFailed r)
  then show "key_inv st \<Longrightarrow> ?thesis"
    using key_inv_fields [of "key_failed r st" st] by (simp add: key_step_def key_answer_fields)
next
  case (KeyOpen b)
  then show "key_inv st \<Longrightarrow> ?thesis"
    using key_inv_fields [of "key_open_change b st" st] by (simp add: key_step_def key_open_change_fields)
next
  case (KeyName n)
  then show "key_inv st \<Longrightarrow> ?thesis" by (simp add: key_step_def key_inv_def)
qed (simp_all add: key_step_def key_inv_scope key_inv_submit)

interpretation key_form: event_machine key_step key_inv
  by unfold_locales (rule key_inv_step)

text \<open>
  An API key is asked for only with a trimmed name and at least one of the offered scopes,
  none twice, after any use of the form; and the key the backend returned is gone from
  the page's state once the dialog is closed.
\<close>

theorem api_key_form_safe:
  "let st = foldl key_step key_form_init es in
     list_all key_request_ok (ak_requests st) \<and> ak_created (key_step st (KeyOpen False)) = None
     \<and> ak_scopes (key_step st (KeyOpen False)) = [''all'']"
proof -
  have "key_inv key_form_init" by (simp add: key_inv_def key_form_init_def api_key_scopes_def)
  then have "key_inv (foldl key_step key_form_init es)" by (rule key_form.run_inv)
  then show ?thesis by (simp add: key_inv_def key_step_def key_open_change_def key_form_reset_def Let_def)
qed

text \<open>Choosing a scope adds it to the full access that is preselected.\<close>

lemma adding_scope_keeps_all:
  "ak_scopes (key_step key_form_init (KeyScope ''agents'')) = [''all'', ''agents'']"
  by (simp add: key_step_def toggle_scope_def key_form_init_def api_key_scopes_def)

section \<open>Removing keys\<close>

text \<open>
  Revoking an API key and deleting a provider key are the same code on two lists: after a
  success the row is filtered out of the cached list.
\<close>

record keys_state =
  ks_rows :: "row list option"
  ks_target :: "row option"
  ks_pending :: "row option"
  ks_calls :: "string list"
  ks_toasts :: "string list"

definition keys_confirm :: "keys_state \<Rightarrow> keys_state" where
  "keys_confirm st = (case target_id (ks_target st) of
       None \<Rightarrow> st | Some i \<Rightarrow> st\<lparr>ks_pending := ks_target st, ks_calls := ks_calls st @ [i]\<rparr>)"

definition keys_settled :: "string \<Rightarrow> string \<Rightarrow> js option \<Rightarrow> keys_state \<Rightarrow> keys_state" where
  "keys_settled done_word failure err st = (case ks_pending st of
       None \<Rightarrow> st
     | Some r \<Rightarrow> (case err of
         None \<Rightarrow> st\<lparr>ks_pending := None, ks_target := None, ks_toasts := ks_toasts st @ [quoted (rw_name r) @ done_word],
           ks_rows := map_option (filter (\<lambda>x. rw_id x \<noteq> rw_id r)) (ks_rows st)\<rparr>
       | Some e \<Rightarrow> st\<lparr>ks_pending := None, ks_target := None, ks_toasts := ks_toasts st @ [extract_error_message e failure]\<rparr>))"

definition revoke_settled :: "js option \<Rightarrow> keys_state \<Rightarrow> keys_state" where
  "revoke_settled = keys_settled '' revoked'' ''Failed to revoke API key''"

definition credential_delete_settled :: "js option \<Rightarrow> keys_state \<Rightarrow> keys_state" where
  "credential_delete_settled = keys_settled '' deleted'' ''Failed to delete credential''"

datatype keys_event = AskRemove row | CancelRemove | ConfirmRemove | Removed "js option" | Fetched "row list"

definition keys_step :: "(js option \<Rightarrow> keys_state \<Rightarrow> keys_state) \<Rightarrow> keys_state \<Rightarrow> keys_event \<Rightarrow> keys_state" where
  "keys_step settle st e = (case e of
       AskRemove r \<Rightarrow> st\<lparr>ks_target := Some r\<rparr> | CancelRemove \<Rightarrow> st\<lparr>ks_target := None\<rparr>
     | ConfirmRemove \<Rightarrow> keys_confirm st | Removed err \<Rightarrow> settle err st | Fetched rs \<Rightarrow> st\<lparr>ks_rows := Some rs\<rparr>)"

fun asks_remove :: "keys_event \<Rightarrow> string option" where
  "asks_remove (AskRemove r) = target_id (Some r)" | "asks_remove _ = None"

lemma keys_settled_fields [simp]:
  "ks_calls (keys_settled d f err st) = ks_calls st"
  "ks_target (keys_settled d f err st) = (if ks_pending st = None then ks_target st else None)"
  by (simp_all add: keys_settled_def split: option.split)

lemma keys_target_asked:
  "target_id (ks_target (keys_step (keys_settled d f) st e)) = Some i \<Longrightarrow> target_id (ks_target st) = Some i \<or> asks_remove e = Some i"
  by (cases e) (simp_all add: keys_step_def keys_confirm_def split: option.splits if_splits)

lemma keys_calls_target:
  "i \<in> set (ks_calls (keys_step (keys_settled d f) st e)) \<Longrightarrow> i \<in> set (ks_calls st) \<or> target_id (ks_target st) = Some i"
  by (cases e) (auto simp: keys_step_def keys_confirm_def split: option.splits)

lemmas keys_confirmed = keys_target_asked keys_calls_target

interpretation revoke_key: confirmed_action "keys_step revoke_settled" "\<lambda>st. target_id (ks_target st)" ks_calls asks_remove
  by unfold_locales (auto simp: revoke_settled_def dest: keys_confirmed)

interpretation delete_credential: confirmed_action "keys_step credential_delete_settled" "\<lambda>st. target_id (ks_target st)" ks_calls asks_remove
  by unfold_locales (auto simp: credential_delete_settled_def dest: keys_confirmed)

text \<open>Rows that were not removed stay, whatever order the answers come in.\<close>

lemma keys_settled_keeps:
  "r \<in> set rs \<Longrightarrow> ks_rows st = Some rs \<Longrightarrow> ks_pending st = Some p \<Longrightarrow> rw_id r \<noteq> rw_id p \<Longrightarrow>
   \<exists>rs'. ks_rows (keys_settled d f err st) = Some rs' \<and> r \<in> set rs'"
  by (auto simp: keys_settled_def split: option.split)

section \<open>Billing\<close>

datatype browser_move = GoTo string | OpenTab string | Refresh | ShowError string

definition handle_upgrade :: "string \<Rightarrow> string \<Rightarrow> js" where
  "handle_upgrade origin product_type =
     JObj [(''product_type'', JStr product_type), (''success_url'', JStr (origin @ ''/w?checkout=success''))]"

definition upgrade_settled :: "js + js \<Rightarrow> browser_move list" where
  "upgrade_settled r = (case r of
       Inl err \<Rightarrow> [ShowError (extract_error_message err ''Failed to start checkout'')]
     | Inr response \<Rightarrow> (case js_get response ''checkout_url'' of JStr u \<Rightarrow> if u = [] then [] else [GoTo u] | _ \<Rightarrow> []))"

definition portal_settled :: "js + js \<Rightarrow> browser_move list" where
  "portal_settled r = (case r of
       Inl err \<Rightarrow> [ShowError (extract_error_message err ''Failed to open billing portal'')]
     | Inr response \<Rightarrow> (case js_get response ''portal_url'' of JStr u \<Rightarrow> if u = [] then [] else [OpenTab u, Refresh] | _ \<Rightarrow> []))"

section \<open>The settings dialog\<close>

definition settings_groups :: "(string \<times> (string \<times> string) list) list" where
  "settings_groups =
    [(''Workspace'', [(''general'', ''General''), (''members'', ''Members''), (''billing'', ''Billing'')]),
     (''Account'', [(''profile'', ''Profile''), (''notifications'', ''Notifications''), (''security'', ''Security'')]),
     (''Developer'', [(''llm-keys'', ''LLM Keys''), (''api-keys'', ''API Keys''), (''skills'', ''Skills''), (''sandboxes'', ''Sandboxes'')])]"

definition all_items :: "(string \<times> string) list" where
  "all_items = concat (map snd settings_groups)"

datatype settings_page = GeneralSettings | ProfileSettings | MembersSettings | BillingSettings | NotificationsSettings
  | LlmKeysSettings | ApiKeysSettings | SkillsSettings | SecuritySettings | SandboxTemplatesList

definition section_components :: "string \<rightharpoonup> settings_page" where
  "section_components = map_of
    [(''general'', GeneralSettings), (''profile'', ProfileSettings), (''members'', MembersSettings), (''billing'', BillingSettings),
     (''notifications'', NotificationsSettings), (''llm-keys'', LlmKeysSettings), (''api-keys'', ApiKeysSettings),
     (''skills'', SkillsSettings), (''security'', SecuritySettings), (''sandboxes'', SandboxTemplatesList)]"

definition section_init :: "string option \<Rightarrow> string" where
  "section_init initial = (case initial of None \<Rightarrow> ''general'' | Some i \<Rightarrow> i)"

definition section_effect :: "bool \<Rightarrow> string option \<Rightarrow> string \<Rightarrow> string" where
  "section_effect dialog_open initial active = (case initial of Some (c # i) \<Rightarrow> if dialog_open then c # i else active | _ \<Rightarrow> active)"

definition active_label :: "string \<Rightarrow> string" where
  "active_label active = (case find (\<lambda>x. fst x = active) all_items of None \<Rightarrow> ''Settings'' | Some x \<Rightarrow> snd x)"

text \<open>Every entry of the menu has a page and every page an entry, under one id each.\<close>

lemma settings_menu_total:
  "dom section_components = fst ` set all_items" "distinct (map fst all_items)" "inj_on section_components (fst ` set all_items)"
  by (auto simp: section_components_def all_items_def settings_groups_def)

end
