(* ===== verification/EditAgent.thy ===== *)
theory EditAgent
  imports CreateAgent
begin

text \<open>
  Editing an existing agent: the panel's state and its save
  (\<open>apps/web/app/w/agents/[id]/_components/edit-agent-panel/context.tsx\<close>) and the tool
  permissions (\<open>tool-permissions.tsx\<close>). The agent is the JavaScript value the API
  returned; the code casts its loosely typed members and this model reads them the same
  way. \<open>Object.entries\<close> of an array yields its indices.
\<close>

section \<open>Reading the agent\<close>

fun js_entries :: "js \<Rightarrow> (string \<times> js) list" where
  "js_entries (JObj kvs) = kvs"
| "js_entries (JArr vs) = zip (map (\<lambda>i. int_str (int i)) [0..<length vs]) vs"
| "js_entries _ = []"

definition js_text :: "js \<Rightarrow> string" where
  "js_text v = (if nullish v then [] else js_string v)"

definition js_items :: "js \<Rightarrow> js list" where
  "js_items v = (case v of JArr vs \<Rightarrow> vs | _ \<Rightarrow> [])"

definition parse_condition :: "js \<Rightarrow> condition" where
  "parse_condition v = \<lparr>c_path = js_text (js_get v ''path''), c_operator = js_text (js_get v ''operator''),
     c_value = js_get v ''value''\<rparr>"

text \<open>The schema of \<open>conditions\<close> is an object with a mode and a list, or null.\<close>

definition parse_conditions :: "js \<Rightarrow> conditions_config option" where
  "parse_conditions v =
     (if nullish v then None
      else Some \<lparr>cc_mode = (if js_get v ''mode'' = JStr ''any'' then Any else All),
                 cc_conditions = map parse_condition (js_items (js_get v ''conditions''))\<rparr>)"

definition parse_trigger :: "js \<Rightarrow> trigger" where
  "parse_trigger v = \<lparr>tg_connection = js_text (js_get v ''connection_id''),
     tg_connection_name = js_text (js_get v ''provider''), tg_provider = js_text (js_get v ''provider''),
     tg_keys = map js_string (js_items (js_get v ''trigger_keys'')),
     tg_names = map js_string (js_items (js_get v ''trigger_keys'')),
     tg_conditions = parse_conditions (js_get v ''conditions'')\<rparr>"

definition parse_agent_triggers :: "js \<Rightarrow> trigger list" where
  "parse_agent_triggers agent = map parse_trigger (js_items (js_get agent ''triggers''))"

type_synonym agent_integrations = "(string, string list) dict"

definition parse_agent_integrations :: "js \<Rightarrow> agent_integrations" where
  "parse_agent_integrations raw =
     (if \<not> truthy raw \<or> \<not> is_object raw then []
      else foldl (\<lambda>m (i, cfg). dict_set i (map js_string (js_items (js_get cfg ''actions''))) m) [] (js_entries raw))"

datatype permission = Allow | Deny | RequireApproval

definition permission_of :: "js \<Rightarrow> permission option" where
  "permission_of v =
     (if v = JStr ''allow'' then Some Allow
      else if v = JStr ''deny'' then Some Deny
      else if v = JStr ''require_approval'' then Some RequireApproval
      else None)"

fun permission_text :: "permission \<Rightarrow> string" where
  "permission_text Allow = ''allow''"
| "permission_text Deny = ''deny''"
| "permission_text RequireApproval = ''require_approval''"

section \<open>The panel's state\<close>

record edit_values =
  ef_name :: string
  ef_description :: string
  ef_credential :: string
  ef_model :: string
  ef_sandbox :: string
  ef_prompts :: "(string, string) dict"
  ef_instructions :: string
  ef_team :: string
  ef_shared_memory :: bool
  ef_permissions :: "(string, permission) dict"

record edit_state =
  es_form :: edit_values
  es_integrations :: agent_integrations
  es_triggers :: "trigger list"
  es_skills :: "string jsset"

definition parse_prompts :: "js \<Rightarrow> (string, string) dict" where
  "parse_prompts raw = foldl (\<lambda>m (k, cfg). dict_set k (js_text (js_get cfg ''system_prompt'')) m) [] (js_entries raw)"

definition parse_permissions :: "js \<Rightarrow> (string, permission) dict" where
  "parse_permissions raw =
     foldl (\<lambda>m (k, v). if permission_of v \<noteq> None then dict_set k (the (permission_of v)) m else m) [] (js_entries raw)"

definition parse_skills :: "js \<Rightarrow> string jsset" where
  "parse_skills raw = set_of (filter (\<lambda>i. i \<noteq> []) (map (\<lambda>s. js_text (js_get s ''id'')) (js_items raw))) []"

text \<open>The effect that resets the panel when it opens.\<close>

definition load_agent :: "js \<Rightarrow> edit_state" where
  "load_agent agent =
     \<lparr>es_form = \<lparr>ef_name = js_text (js_get agent ''name''),
        ef_description = js_text (js_get agent ''description''),
        ef_credential = js_text (js_get agent ''credential_id''),
        ef_model = js_text (js_get agent ''model''),
        ef_sandbox = js_text (coalesce (js_get agent ''sandbox_type'') (JStr ''shared'')),
        ef_prompts = parse_prompts (coalesce (js_get agent ''provider_prompts'') (JObj [])),
        ef_instructions = js_text (js_get agent ''instructions''),
        ef_team = js_text (js_get agent ''team''),
        ef_shared_memory = truthy (js_get agent ''shared_memory''),
        ef_permissions = parse_permissions (coalesce (js_get agent ''permissions'') (JObj []))\<rparr>,
      es_integrations = parse_agent_integrations (js_get agent ''integrations''),
      es_triggers = parse_agent_triggers agent,
      es_skills = parse_skills (js_get agent ''attached_skills'')\<rparr>"

definition edit_add_trigger :: "trigger \<Rightarrow> edit_state \<Rightarrow> edit_state" where
  "edit_add_trigger t st = st\<lparr>es_triggers := add_trigger t (es_triggers st)\<rparr>"

definition edit_remove_trigger :: "nat \<Rightarrow> edit_state \<Rightarrow> edit_state" where
  "edit_remove_trigger i st = st\<lparr>es_triggers := remove_trigger i (es_triggers st)\<rparr>"

definition edit_update_trigger :: "nat \<Rightarrow> trigger list \<Rightarrow> edit_state \<Rightarrow> edit_state" where
  "edit_update_trigger i new st = st\<lparr>es_triggers := update_trigger i new (es_triggers st)\<rparr>"

definition edit_toggle_skill :: "string \<Rightarrow> edit_state \<Rightarrow> edit_state" where
  "edit_toggle_skill s st = st\<lparr>es_skills := toggle_member s (es_skills st)\<rparr>"

definition edit_remove_integration :: "string \<Rightarrow> edit_state \<Rightarrow> edit_state" where
  "edit_remove_integration i st = st\<lparr>es_integrations := dict_delete i (es_integrations st)\<rparr>"

section \<open>Saving\<close>

definition actions_js :: "string list \<Rightarrow> js" where
  "actions_js as = JObj [(''actions'', js_strings as)]"

definition update_body :: "edit_state \<Rightarrow> js" where
  "update_body st =
     (let v = es_form st in
      JObj [(''name'', JStr (js_trim (ef_name v))),
            (''description'', optional_text (js_trim (ef_description v))),
            (''credential_id'', optional_text (ef_credential v)),
            (''model'', optional_text (ef_model v)),
            (''sandbox_type'', JStr (ef_sandbox v)),
            (''system_prompt'', JStr (first_prompt (ef_prompts v))),
            (''provider_prompts'', JObj (prompts_payload (ef_prompts v))),
            (''instructions'', optional_text (ef_instructions v)),
            (''integrations'', JObj (foldl (\<lambda>m (i, as). dict_set i (actions_js as) m) [] (es_integrations st))),
            (''triggers'', JArr (map trigger_js (es_triggers st))),
            (''shared_memory'', JBool (ef_shared_memory v)),
            (''team'', optional_text (js_trim (ef_team v))),
            (''permissions'', JObj (map (\<lambda>(k, p). (k, JStr (permission_text p))) (ef_permissions v))),
            (''skill_ids'', js_strings (es_skills st))])"

definition handle_save :: "js \<Rightarrow> edit_state \<Rightarrow> (string \<times> js) option" where
  "handle_save agent st =
     (let i = js_get agent ''id'' in
      if \<not> truthy i then None else Some (js_string i, update_body st))"

section \<open>Tool permissions\<close>

definition category_order :: "string list" where
  "category_order = [''filesystem'', ''shell'', ''web'', ''orchestration'', ''tasks'', ''journal'',
     ''code_intelligence'', ''memory'', ''codedb'']"

fun next_permission :: "permission \<Rightarrow> permission" where
  "next_permission Allow = RequireApproval"
| "next_permission RequireApproval = Deny"
| "next_permission Deny = Allow"

record tool =
  tl_id :: string
  tl_category :: "string option"
  tl_locked :: bool

definition group_tools :: "tool list \<Rightarrow> (string, tool list) dict" where
  "group_tools tools =
     foldl (\<lambda>g t.
       (let c = (case tl_category t of None \<Rightarrow> ''other'' | Some c \<Rightarrow> c);
            l = (case dict_get g c of None \<Rightarrow> [] | Some l \<Rightarrow> l)
        in dict_set c (l @ [t]) g)) [] tools"

definition shown_tools :: "tool list \<Rightarrow> tool list" where
  "shown_tools tools =
     (let g = group_tools tools in
      concat (map (\<lambda>c. case dict_get g c of None \<Rightarrow> [] | Some l \<Rightarrow> l)
        (filter (\<lambda>c. dict_has g c) category_order)))"

definition get_permission :: "(string, permission) dict \<Rightarrow> string \<Rightarrow> permission" where
  "get_permission ps i = (case dict_get ps i of None \<Rightarrow> Allow | Some p \<Rightarrow> p)"

definition toggle_permission :: "string \<Rightarrow> permission \<Rightarrow> (string, permission) dict \<Rightarrow> (string, permission) dict" where
  "toggle_permission i current ps =
     (if next_permission current = Allow then dict_delete i ps else dict_set i (next_permission current) ps)"

text \<open>A click on a tool's card; a locked tool's card does nothing.\<close>

definition click_tool :: "tool \<Rightarrow> (string, permission) dict \<Rightarrow> (string, permission) dict" where
  "click_tool t ps =
     (if tl_locked t then ps else toggle_permission (tl_id t) (get_permission ps (tl_id t)) ps)"

section \<open>Lemmas\<close>

lemma fold_set_pairs:
  "distinct (map fst xs) \<Longrightarrow> foldl (\<lambda>m (k, v). dict_set k (f v) m) [] xs = map (\<lambda>(k, v). (k, f v)) xs"
  using fold_dict_set [of "[]" fst xs "\<lambda>_. True" "\<lambda>(k, v). f v"] by (simp add: case_prod_unfold)

lemma map_js_string [simp]: "map (js_string \<circ> JStr) xs = xs" "map js_string (map JStr xs) = xs"
  by (induction xs) auto

lemma js_items_strings [simp]: "js_items (js_strings xs) = map JStr xs"
  by (simp add: js_items_def js_strings_def)

lemma js_text_JStr [simp]: "js_text (JStr s) = s"
  by (simp add: js_text_def)

lemma parse_conditions_js: "parse_conditions (conditions_js c) = c"
proof (cases c)
  case (Some x)
  have "map parse_condition (map condition_js cs) = cs" for cs
    by (induction cs) (auto simp: parse_condition_def condition_js_def)
  then show ?thesis
    using Some by (cases "cc_mode x") (simp_all add: conditions_js_def parse_conditions_def js_items_def)
qed (simp add: conditions_js_def parse_conditions_def)

section \<open>Properties\<close>

text \<open>What the API returns for an agent.\<close>

record backend_agent =
  ba_id :: string
  ba_name :: string
  ba_model :: string
  ba_prompts :: "(string, string) dict"
  ba_permissions :: "(string, permission) dict"
  ba_integrations :: agent_integrations
  ba_triggers :: "trigger list"
  ba_skills :: "string list"

definition agent_js :: "backend_agent \<Rightarrow> js" where
  "agent_js a = JObj [(''id'', JStr (ba_id a)), (''name'', JStr (ba_name a)), (''model'', JStr (ba_model a)),
     (''provider_prompts'', JObj (map (\<lambda>(k, p). (k, JObj [(''system_prompt'', JStr p)])) (ba_prompts a))),
     (''permissions'', JObj (map (\<lambda>(k, p). (k, JStr (permission_text p))) (ba_permissions a))),
     (''integrations'', JObj (map (\<lambda>(i, as). (i, actions_js as)) (ba_integrations a))),
     (''triggers'', JArr (map (\<lambda>t. JObj [(''connection_id'', JStr (tg_connection t)),
        (''provider'', JStr (tg_provider t)), (''trigger_keys'', js_strings (tg_keys t)),
        (''conditions'', conditions_js (tg_conditions t))]) (ba_triggers a))),
     (''attached_skills'', JArr (map (\<lambda>s. JObj [(''id'', JStr s)]) (ba_skills a)))]"

definition agent_ok :: "backend_agent \<Rightarrow> bool" where
  "agent_ok a \<longleftrightarrow> ba_id a \<noteq> [] \<and> dict_ok (ba_prompts a) \<and> dict_ok (ba_permissions a)
     \<and> dict_ok (ba_integrations a) \<and> distinct (ba_skills a) \<and> [] \<notin> set (ba_skills a)"

lemma load_parts:
  assumes "agent_ok a"
  shows "es_integrations (load_agent (agent_js a)) = ba_integrations a"
    and "ef_prompts (es_form (load_agent (agent_js a))) = ba_prompts a"
    and "ef_permissions (es_form (load_agent (agent_js a))) = ba_permissions a"
    and "es_skills (load_agent (agent_js a)) = ba_skills a"
    and "map trigger_js (es_triggers (load_agent (agent_js a))) = map trigger_js (ba_triggers a)"
proof -
  have keys: "map fst (map (\<lambda>(k, v). (k, g v)) m) = map fst m" for g :: "'a \<Rightarrow> 'b" and m :: "(string \<times> 'a) list"
    by auto
  have acts: "map js_string (js_items (js_get (actions_js as) ''actions'')) = as" for as
    by (simp add: actions_js_def)
  show "es_integrations (load_agent (agent_js a)) = ba_integrations a"
    using assms fold_set_pairs [of "map (\<lambda>(i, as). (i, actions_js as)) (ba_integrations a)"
        "\<lambda>cfg. map js_string (js_items (js_get cfg ''actions''))"]
    by (simp add: load_agent_def agent_js_def parse_agent_integrations_def agent_ok_def dict_ok_def
        case_prod_unfold o_def acts del: map_map)
      (simp add: o_def acts)
  show "ef_prompts (es_form (load_agent (agent_js a))) = ba_prompts a"
    using assms fold_set_pairs [of "map (\<lambda>(k, p). (k, JObj [(''system_prompt'', JStr p)])) (ba_prompts a)"
        "\<lambda>cfg. js_text (js_get cfg ''system_prompt'')"]
    by (simp add: load_agent_def agent_js_def parse_prompts_def agent_ok_def dict_ok_def case_prod_unfold o_def)
  have perm: "permission_of (JStr (permission_text p)) = Some p" for p
    by (cases p) (simp_all add: permission_of_def)
  show "ef_permissions (es_form (load_agent (agent_js a))) = ba_permissions a"
    using assms fold_dict_set [of "[]" fst "map (\<lambda>(k, p). (k, JStr (permission_text p))) (ba_permissions a)"
        "\<lambda>x. permission_of (snd x) \<noteq> None" "\<lambda>x. the (permission_of (snd x))"]
    by (simp add: load_agent_def agent_js_def parse_permissions_def agent_ok_def dict_ok_def
        case_prod_unfold o_def perm)
  show "es_skills (load_agent (agent_js a)) = ba_skills a"
  proof -
    have "filter (\<lambda>i. i \<noteq> []) (ba_skills a) = ba_skills a"
      using assms by (auto simp: agent_ok_def filter_id_conv)
    then show ?thesis
      using assms
      by (simp add: load_agent_def agent_js_def parse_skills_def js_items_def o_def agent_ok_def set_of_id)
  qed
  show "map trigger_js (es_triggers (load_agent (agent_js a))) = map trigger_js (ba_triggers a)"
    by (simp add: load_agent_def agent_js_def parse_agent_triggers_def js_items_def parse_trigger_def o_def
        trigger_js_def parse_conditions_js)
      (simp add: js_strings_def js_items_def)
qed


definition demo_agent :: backend_agent where
  "demo_agent = \<lparr>ba_id = ''a1'', ba_name = ''Bot'', ba_model = ''m1'', ba_prompts = [(''openai'', ''Be brief'')],
     ba_permissions = [(''bash'', Deny)], ba_integrations = [(''c1'', [''read'', ''write''])],
     ba_triggers = [demo_trigger], ba_skills = [''s1'', ''s2'']\<rparr>"


text \<open>
  Clicking a tool cycles its permission from allowed over approval to denied and back,
  leaves every other tool alone, and never touches a locked one; an allowed tool is never
  stored.
\<close>

theorem permission_cycle:
  "get_permission (click_tool t ps) i =
     (if i = tl_id t \<and> \<not> tl_locked t then next_permission (get_permission ps i) else get_permission ps i)
   \<and> get_permission (click_tool t (click_tool t (click_tool t ps))) i = get_permission ps i"
proof -
  have one: "get_permission (click_tool t qs) j =
      (if j = tl_id t \<and> \<not> tl_locked t then next_permission (get_permission qs j) else get_permission qs j)" for qs j
    by (auto simp: click_tool_def toggle_permission_def get_permission_def update_conv' delete_conv'
        split: option.split)
  moreover have "next_permission (next_permission (next_permission p)) = p" for p
    by (cases p) simp_all
  ultimately show ?thesis by auto
qed

text \<open>
  An emptied description, instruction or team is not sent at all, so that the backend, which
  updates the members it is given, keeps the old text; and a tool whose category is not one
  of the listed ones is never shown.
\<close>

lemma cleared_text_not_sent:
  "js_trim (ef_description (es_form st)) = [] \<Longrightarrow> ef_instructions (es_form st) = [] \<Longrightarrow>
   js_get (update_body st) ''description'' = JUndefined \<and> js_get (update_body st) ''instructions'' = JUndefined"
  by (simp add: update_body_def Let_def optional_text_def)

lemma uncategorised_tool_hidden:
  "tl_category t = None \<Longrightarrow> shown_tools [t] = []"
  by (simp add: shown_tools_def group_tools_def category_order_def dict_has_def Let_def)

end
