(* ===== verification/AgentDialogs.thy ===== *)
theory AgentDialogs
  imports EditAgent
begin

text \<open>
  The dialogs that edit parts of an agent, in \<open>apps/web/app/w/agents/_components\<close>: which
  integrations and actions it may use (\<open>manage-integrations-dialog.tsx\<close>), which resources
  of its connections (\<open>configure-resources-dialog.tsx\<close>), its environment variables
  (\<open>env-vars-dialog.tsx\<close>) and its setup commands (\<open>setup-commands-dialog.tsx\<close>). The lists
  the API returns are arguments; rendering and the list virtualiser are not modelled.
\<close>

section \<open>Integrations\<close>

record manage_state =
  mi_selected :: "string jsset"
  mi_actions :: "(string, string jsset) dict"
  mi_search :: string
  mi_detail :: "string option"
  mi_action_search :: string
  mi_direction :: int

definition manage_open :: "agent_integrations \<Rightarrow> manage_state \<Rightarrow> manage_state" where
  "manage_open ints st =
     st\<lparr>mi_selected := set_of (dict_keys ints) [],
        mi_actions := foldl (\<lambda>m (i, as). dict_set i (set_of as []) m) [] ints,
        mi_search := [], mi_detail := None, mi_action_search := []\<rparr>"

record in_connection =
  ic_id :: string
  ic_display :: string
  ic_provider :: string

definition filter_connections :: "string \<Rightarrow> in_connection list \<Rightarrow> in_connection list" where
  "filter_connections search cs =
     (if js_trim search = [] then cs
      else (let q = to_lower search in
        filter (\<lambda>c. js_includes q (to_lower (ic_display c)) \<or> js_includes q (to_lower (ic_provider c))) cs))"

definition manage_toggle :: "string \<Rightarrow> manage_state \<Rightarrow> manage_state" where
  "manage_toggle i st =
     (if i \<in> set (mi_selected st)
      then st\<lparr>mi_selected := set_remove i (mi_selected st), mi_actions := dict_delete i (mi_actions st)\<rparr>
      else st\<lparr>mi_selected := set_add i (mi_selected st)\<rparr>)"

definition manage_toggle_action :: "string \<Rightarrow> string \<Rightarrow> manage_state \<Rightarrow> manage_state" where
  "manage_toggle_action i a st =
     st\<lparr>mi_actions := dict_set i
       (toggle_member a (case dict_get (mi_actions st) i of None \<Rightarrow> [] | Some s \<Rightarrow> s)) (mi_actions st)\<rparr>"

definition open_detail :: "string \<Rightarrow> manage_state \<Rightarrow> manage_state" where
  "open_detail i st =
     (let st1 = (if i \<in> set (mi_selected st) then st else manage_toggle i st)
      in st1\<lparr>mi_direction := 1, mi_detail := Some i, mi_action_search := []\<rparr>)"

definition close_detail :: "manage_state \<Rightarrow> manage_state" where
  "close_detail st = st\<lparr>mi_direction := -1, mi_detail := None, mi_action_search := []\<rparr>"

definition manage_remove :: "string \<Rightarrow> manage_state \<Rightarrow> manage_state" where
  "manage_remove i st = close_detail (if i \<in> set (mi_selected st) then manage_toggle i st else st)"

definition manage_save :: "manage_state \<Rightarrow> agent_integrations" where
  "manage_save st =
     foldl (\<lambda>m i. dict_set i (case dict_get (mi_actions st) i of None \<Rightarrow> [] | Some s \<Rightarrow> s) m) [] (mi_selected st)"

section \<open>Resources\<close>

text \<open>
  A resource item is the value the API returned; the filter keeps the objects that have an
  id and a name.
\<close>

type_synonym agent_resources = "(string, (string, js list) dict) dict"

definition is_resource_item :: "js \<Rightarrow> bool" where
  "is_resource_item v \<longleftrightarrow> js_has v ''id'' \<and> js_has v ''name''"

definition parse_resource_types :: "js \<Rightarrow> (string, js list) dict" where
  "parse_resource_types v =
     foldl (\<lambda>m (k, items). (case items of JArr vs \<Rightarrow> dict_set k (filter is_resource_item vs) m | _ \<Rightarrow> m))
       [] (js_entries v)"

definition parse_agent_resources :: "js \<Rightarrow> agent_resources" where
  "parse_agent_resources raw =
     (if \<not> truthy raw \<or> \<not> is_object raw then []
      else foldl (\<lambda>m (c, types). if \<not> truthy types \<or> \<not> is_object types then m
          else dict_set c (parse_resource_types types) m) [] (js_entries raw))"

record resources_state =
  rs_resources :: agent_resources
  rs_connection :: "string option"
  rs_type :: "string option"
  rs_direction :: int

definition resources_open :: "js \<Rightarrow> resources_state \<Rightarrow> resources_state" where
  "resources_open raw st =
     st\<lparr>rs_resources := parse_agent_resources raw, rs_connection := None, rs_type := None\<rparr>"

definition resource_items :: "agent_resources \<Rightarrow> string \<Rightarrow> string \<Rightarrow> js list" where
  "resource_items rs c t =
     (case dict_get rs c of None \<Rightarrow> [] | Some ts \<Rightarrow> (case dict_get ts t of None \<Rightarrow> [] | Some is \<Rightarrow> is))"

definition same_item :: "js \<Rightarrow> js \<Rightarrow> bool" where
  "same_item a b \<longleftrightarrow> strict_eq (js_get a ''id'') (js_get b ''id'')"

definition toggle_resource :: "string \<Rightarrow> string \<Rightarrow> js \<Rightarrow> agent_resources \<Rightarrow> agent_resources" where
  "toggle_resource c t item rs =
     (let types = (case dict_get rs c of None \<Rightarrow> [] | Some ts \<Rightarrow> ts);
          items = (case dict_get types t of None \<Rightarrow> [] | Some is \<Rightarrow> is);
          next = (if list_ex (\<lambda>e. same_item e item) items
                  then filter (\<lambda>e. \<not> same_item e item) items else items @ [item])
      in dict_set c (dict_set t next types) rs)"

definition open_connection :: "string \<Rightarrow> resources_state \<Rightarrow> resources_state" where
  "open_connection c st = st\<lparr>rs_direction := 1, rs_connection := Some c, rs_type := None\<rparr>"

definition open_resource_type :: "string \<Rightarrow> resources_state \<Rightarrow> resources_state" where
  "open_resource_type t st = st\<lparr>rs_direction := 1, rs_type := Some t\<rparr>"

definition back_to_connections :: "resources_state \<Rightarrow> resources_state" where
  "back_to_connections st = st\<lparr>rs_direction := -1, rs_connection := None, rs_type := None\<rparr>"

definition back_to_types :: "resources_state \<Rightarrow> resources_state" where
  "back_to_types st = st\<lparr>rs_direction := -1, rs_type := None\<rparr>"

definition selected_count :: "agent_resources \<Rightarrow> string \<Rightarrow> nat" where
  "selected_count rs c =
     (case dict_get rs c of None \<Rightarrow> 0 | Some ts \<Rightarrow> foldl (\<lambda>n (t, is). n + length is) 0 ts)"

definition type_selected_count :: "agent_resources \<Rightarrow> string \<Rightarrow> string \<Rightarrow> nat" where
  "type_selected_count rs c t = length (resource_items rs c t)"

definition is_selected :: "agent_resources \<Rightarrow> string \<Rightarrow> string \<Rightarrow> js \<Rightarrow> bool" where
  "is_selected rs c t i \<longleftrightarrow> list_ex (\<lambda>item. strict_eq (js_get item ''id'') i) (resource_items rs c t)"

definition clean_types :: "(string, js list) dict \<Rightarrow> (string, js list) dict" where
  "clean_types ts = foldl (\<lambda>m (t, is). if is \<noteq> [] then dict_set t is m else m) [] ts"

definition clean_resources :: "agent_resources \<Rightarrow> agent_resources" where
  "clean_resources rs =
     foldl (\<lambda>m (c, ts). if clean_types ts \<noteq> [] then dict_set c (clean_types ts) m else m) [] rs"

definition resources_js :: "agent_resources \<Rightarrow> js" where
  "resources_js rs = JObj (map (\<lambda>(c, ts). (c, JObj (map (\<lambda>(t, is). (t, JArr is)) ts))) rs)"

definition resources_save :: "js \<Rightarrow> resources_state \<Rightarrow> (string \<times> js) option" where
  "resources_save agent st =
     (let i = js_get agent ''id'' in
      if \<not> truthy i then None
      else Some (js_string i, JObj [(''resources'', resources_js (clean_resources (rs_resources st)))]))"

section \<open>Environment variables and setup commands\<close>

record env_var =
  env_key :: string
  env_value :: string

definition is_quote :: "char \<Rightarrow> bool" where
  "is_quote c \<longleftrightarrow> c = CHR 0x22 \<or> c = CHR 0x27"

text \<open>\<open>replace(/^["']|["']$/g, "")\<close> removes a quote at the start and one at the end.\<close>

definition drop_first_quote :: "string \<Rightarrow> string" where
  "drop_first_quote s = (case s of [] \<Rightarrow> [] | c # cs \<Rightarrow> if is_quote c then cs else s)"

definition strip_quotes :: "string \<Rightarrow> string" where
  "strip_quotes s = rev (drop_first_quote (rev (drop_first_quote s)))"

definition parse_env_line :: "string \<Rightarrow> env_var option" where
  "parse_env_line line =
     (let i = index_of (CHR ''='') line in
      if i = -1 then None
      else
        (let k = js_trim (take (nat i) line);
             v = strip_quotes (js_trim (drop (nat i + 1) line))
         in if k \<noteq> [] then Some \<lparr>env_key = k, env_value = v\<rparr> else None))"

definition parse_env_paste :: "string \<Rightarrow> env_var list" where
  "parse_env_paste text =
     List.map_filter parse_env_line
       (filter (\<lambda>l. l \<noteq> [] \<and> \<not> starts_with ''#'' l) (map js_trim (js_split (CHR 0x0A) text)))"

record env_state =
  en_vars :: "env_var list"
  en_paste_mode :: bool
  en_paste_text :: string

definition env_init :: env_state where
  "env_init = \<lparr>en_vars = [\<lparr>env_key = [], env_value = []\<rparr>], en_paste_mode = False, en_paste_text = []\<rparr>"

definition env_add_row :: "env_state \<Rightarrow> env_state" where
  "env_add_row st = st\<lparr>en_vars := en_vars st @ [\<lparr>env_key = [], env_value = []\<rparr>]\<rparr>"

definition env_remove_row :: "nat \<Rightarrow> env_state \<Rightarrow> env_state" where
  "env_remove_row i st = st\<lparr>en_vars := remove_at i (en_vars st)\<rparr>"

definition env_update_row :: "nat \<Rightarrow> (env_var \<Rightarrow> env_var) \<Rightarrow> env_state \<Rightarrow> env_state" where
  "env_update_row i f st =
     st\<lparr>en_vars := map (\<lambda>(r, j). if j = i then f r else r) (zip (en_vars st) [0..<length (en_vars st)])\<rparr>"

definition env_apply_paste :: "env_state \<Rightarrow> env_state" where
  "env_apply_paste st =
     (let parsed = parse_env_paste (en_paste_text st);
          only_empty = (case en_vars st of [r] \<Rightarrow> env_key r = [] \<and> env_value r = [] | _ \<Rightarrow> False)
      in if parsed = [] then st
         else st\<lparr>en_vars := (if only_empty then parsed else en_vars st @ parsed),
                 en_paste_text := [], en_paste_mode := False\<rparr>)"

definition add_command :: "string list \<Rightarrow> string list" where
  "add_command cs = cs @ [[]]"

definition remove_command :: "nat \<Rightarrow> string list \<Rightarrow> string list" where
  "remove_command i cs = remove_at i cs"

definition update_command :: "nat \<Rightarrow> string \<Rightarrow> string list \<Rightarrow> string list" where
  "update_command i v cs = map (\<lambda>(c, j). if j = i then v else c) (zip cs [0..<length cs])"

section \<open>Properties\<close>

lemma manage_save_eq:
  "distinct (mi_selected st) \<Longrightarrow> manage_save st =
     map (\<lambda>i. (i, case dict_get (mi_actions st) i of None \<Rightarrow> [] | Some s \<Rightarrow> s)) (mi_selected st)"
  using fold_dict_set [of "[]" "\<lambda>i. i" "mi_selected st" "\<lambda>_. True"
      "\<lambda>i. case dict_get (mi_actions st) i of None \<Rightarrow> [] | Some s \<Rightarrow> s"]
  by (simp add: manage_save_def)

text \<open>
  The integrations dialog is lossless: opening it and saving gives back the agent's
  integrations with their actions, and toggling an integration off and on again keeps the
  others as they were and leaves that one without actions.
\<close>

theorem manage_roundtrip:
  assumes "dict_ok ints" "\<forall>(i, as) \<in> set ints. distinct as" and has: "dict_has ints c"
  shows "manage_save (manage_open ints st) = ints
     \<and> dict_get (manage_save (manage_toggle c (manage_toggle c (manage_open ints st)))) k =
          (if k = c then Some [] else dict_get ints k)"
proof -
  let ?st = "manage_open ints st"
  have sel: "mi_selected ?st = dict_keys ints"
    using assms(1) by (simp add: manage_open_def set_of_id dict_ok_def dict_keys_def)
  have acts: "mi_actions ?st = ints"
  proof -
    have "map (\<lambda>(i, as). (i, set_of as [])) ints = ints"
      using assms(2) by (induction ints) (auto simp: set_of_id)
    then show ?thesis
      using assms(1) by (simp add: manage_open_def fold_set_pairs dict_ok_def)
  qed
  have dist: "distinct (dict_keys ints)" using assms(1) by (simp add: dict_ok_def dict_keys_def)
  have get: "dict_get (map (\<lambda>i. (i, f i)) xs) k = (if k \<in> set xs then Some (f k) else None)" for f :: "string \<Rightarrow> string list" and xs k
    by (induction xs) auto
  have "dict_get ints (fst x) = Some (snd x)" if "x \<in> set ints" for x
    using that assms(1) by (simp add: dict_ok_def)
  then have "map (\<lambda>i. (i, case dict_get ints i of None \<Rightarrow> [] | Some s \<Rightarrow> s)) (map fst ints) = ints"
    by (simp add: o_def map_idI)
  then have "manage_save ?st = ints"
    using manage_save_eq [of ?st] dist by (simp add: sel acts dict_keys_def)
  moreover have "dict_get (manage_save (manage_toggle c (manage_toggle c ?st))) k =
      (if k = c then Some [] else dict_get ints k)"
  proof -
    have c: "c \<in> set (dict_keys ints)" using has by (simp add: dict_has_def set_dict_keys)
    let ?t = "manage_toggle c (manage_toggle c ?st)"
    have t: "mi_selected ?t = set_add c (set_remove c (dict_keys ints))" "mi_actions ?t = dict_delete c ints"
      using c by (simp_all add: manage_toggle_def sel acts set_set_remove)
    have "distinct (mi_selected ?t)" by (simp add: t distinct_set_add distinct_set_remove dist)
    then show ?thesis
      using c by (auto simp: manage_save_eq t get set_set_add set_set_remove delete_conv' set_dict_keys split: option.split)
  qed
  ultimately show ?thesis by blast
qed

definition demo_manage :: manage_state where
  "demo_manage = \<lparr>mi_selected = [], mi_actions = [], mi_search = [], mi_detail = None,
     mi_action_search = [], mi_direction = 1\<rparr>"

lemma manage_roundtrip_witness:
  "manage_save (manage_open [(''c1'', [''read'']), (''c2'', [])] demo_manage) = [(''c1'', [''read'']), (''c2'', [])]
     \<and> dict_get (manage_save (manage_toggle ''c1'' (manage_toggle ''c1'' (manage_open [(''c1'', [''read'']), (''c2'', [])] demo_manage)))) ''c2'' =
          (if ''c2'' = ''c1'' then Some [] else dict_get [(''c1'', [''read'']), (''c2'', [])] ''c2'')"
  by (rule manage_roundtrip) (simp_all add: dict_ok_def dict_has_def)

definition item_ok :: "js \<Rightarrow> bool" where
  "item_ok v \<longleftrightarrow> is_resource_item v \<and> (\<exists>x. js_get v ''id'' = JStr x)"

definition resources_ok :: "agent_resources \<Rightarrow> bool" where
  "resources_ok rs \<longleftrightarrow> dict_ok rs \<and> (\<forall>(c, ts) \<in> set rs. dict_ok ts \<and> (\<forall>(t, is) \<in> set ts. list_all item_ok is))"

text \<open>
  Toggling a resource flips exactly that resource of that connection and type, and no
  other selection.
\<close>

theorem toggle_resource_flips:
  assumes "js_get item ''id'' = JStr x"
  shows "is_selected (toggle_resource c t item rs) c' t' (JStr i) =
     (if c' = c \<and> t' = t \<and> i = x then \<not> is_selected rs c t (JStr x) else is_selected rs c' t' (JStr i))"
proof -
  let ?items = "resource_items rs c t"
  let ?next = "if list_ex (\<lambda>e. same_item e item) ?items
      then filter (\<lambda>e. \<not> same_item e item) ?items else ?items @ [item]"
  have items: "resource_items (toggle_resource c t item rs) c' t' =
      (if c' = c \<and> t' = t then ?next else resource_items rs c' t')"
    by (auto simp: resource_items_def toggle_resource_def Let_def update_conv' split: option.split)
  have same: "same_item e item \<longleftrightarrow> js_get e ''id'' = JStr x" for e
    by (simp add: same_item_def assms)
  show ?thesis
    unfolding is_selected_def items by (auto simp: same list_ex_iff assms)
qed

lemma toggle_resource_flips_witness:
  "is_selected (toggle_resource ''c'' ''repo'' (JObj [(''id'', JStr ''r1''), (''name'', JStr ''R'')]) []) ''c'' ''repo'' (JStr ''r1'') =
     (if ''c'' = ''c'' \<and> ''repo'' = ''repo'' \<and> ''r1'' = ''r1'' then \<not> is_selected [] ''c'' ''repo'' (JStr ''r1'')
      else is_selected [] ''c'' ''repo'' (JStr ''r1''))"
  by (rule toggle_resource_flips) simp

lemma clean_types_eq: "dict_ok ts \<Longrightarrow> clean_types ts = filter (\<lambda>x. snd x \<noteq> []) ts"
  using fold_dict_set [of "[]" fst ts "\<lambda>x. snd x \<noteq> []" snd]
  by (simp add: clean_types_def dict_ok_def case_prod_unfold)

lemma clean_resources_eq:
  "resources_ok rs \<Longrightarrow> clean_resources rs =
     filter (\<lambda>x. snd x \<noteq> []) (map (\<lambda>x. (fst x, filter (\<lambda>y. snd y \<noteq> []) (snd x))) rs)"
proof -
  assume ok: "resources_ok rs"
  have "clean_resources rs = map (\<lambda>x. (fst x, clean_types (snd x))) (filter (\<lambda>x. clean_types (snd x) \<noteq> []) rs)"
    using ok fold_dict_set [of "[]" fst rs "\<lambda>x. clean_types (snd x) \<noteq> []" "\<lambda>x. clean_types (snd x)"]
    by (simp add: clean_resources_def resources_ok_def dict_ok_def case_prod_unfold)
  also have "\<dots> = filter (\<lambda>x. snd x \<noteq> []) (map (\<lambda>x. (fst x, clean_types (snd x))) rs)"
    by (simp add: filter_map o_def)
  also have "map (\<lambda>x. (fst x, clean_types (snd x))) rs = map (\<lambda>x. (fst x, filter (\<lambda>y. snd y \<noteq> []) (snd x))) rs"
    using ok by (auto simp: resources_ok_def clean_types_eq)
  finally show ?thesis .
qed

lemma parse_types_js:
  assumes "dict_ok ts" "\<forall>(t, is) \<in> set ts. list_all item_ok is"
  shows "parse_resource_types (JObj (map (\<lambda>(t, is). (t, JArr is)) ts)) = ts"
proof -
  have "foldl (\<lambda>m (k, items). (case items of JArr vs \<Rightarrow> dict_set k (filter is_resource_item vs) m | _ \<Rightarrow> m))
      m0 (map (\<lambda>(t, is). (t, JArr is)) xs) = m0 @ xs"
    if "distinct (map fst m0 @ map fst xs)" "\<forall>(t, is) \<in> set xs. list_all item_ok is" for m0 xs
    using that
  proof (induction xs arbitrary: m0)
    case (Cons x xs)
    obtain t "is" where x: "x = (t, is)" by (rule prod.exhaust)
    have "filter is_resource_item is = is"
      using Cons.prems(2) x by (auto simp: filter_id_conv list_all_iff item_ok_def)
    then show ?case
      using Cons.IH [of "m0 @ [(t, is)]"] Cons.prems x by (auto simp: dict_set_new)
  qed simp
  from this [of "[]" ts] assms show ?thesis by (simp add: parse_resource_types_def dict_ok_def)
qed

lemma parse_resources_js:
  assumes "resources_ok rs"
  shows "parse_agent_resources (resources_js rs) = rs"
proof -
  have "foldl (\<lambda>m (c, types). if \<not> truthy types \<or> \<not> is_object types then m
        else dict_set c (parse_resource_types types) m) m0
      (map (\<lambda>(c, ts). (c, JObj (map (\<lambda>(t, is). (t, JArr is)) ts))) xs) = m0 @ xs"
    if "distinct (map fst m0 @ map fst xs)"
      "\<forall>(c, ts) \<in> set xs. dict_ok ts \<and> (\<forall>(t, is) \<in> set ts. list_all item_ok is)" for m0 xs
    using that
  proof (induction xs arbitrary: m0)
    case (Cons x xs)
    obtain c ts where x: "x = (c, ts)" by (rule prod.exhaust)
    then show ?case
      using Cons.IH [of "m0 @ [(c, ts)]"] Cons.prems by (auto simp: dict_set_new parse_types_js)
  qed simp
  from this [of "[]" rs] assms show ?thesis
    by (simp add: parse_agent_resources_def resources_js_def resources_ok_def dict_ok_def)
qed

lemma clean_ok: "resources_ok rs \<Longrightarrow> resources_ok (clean_resources rs)"
proof -
  assume ok: "resources_ok rs"
  have d: "dict_ok (filter P m)" if "dict_ok m" for P and m :: "(string, 'v) dict"
    using that by (simp add: dict_ok_def distinct_map_filter)
  have "dict_ok (map (\<lambda>x. (fst x, filter (\<lambda>y. snd y \<noteq> []) (snd x))) rs)"
    using ok by (simp add: resources_ok_def dict_ok_def o_def)
  then show ?thesis
    unfolding clean_resources_eq [OF ok]
    using ok by (fastforce simp: resources_ok_def d)
qed

text \<open>
  C22. Saving resources keeps the selection: what is sent has no empty list, reads back when
  the dialog opens again as exactly what was sent, and every resource is selected in it
  exactly when it was selected before.
\<close>

theorem resources_save_roundtrip:
  assumes "resources_ok rs"
  shows "parse_agent_resources (resources_js (clean_resources rs)) = clean_resources rs
     \<and> list_all (\<lambda>(c, ts). ts \<noteq> [] \<and> list_all (\<lambda>(t, is). is \<noteq> []) ts) (clean_resources rs)
     \<and> is_selected (clean_resources rs) c t i = is_selected rs c t i"
proof (intro conjI)
  show "parse_agent_resources (resources_js (clean_resources rs)) = clean_resources rs"
    by (rule parse_resources_js [OF clean_ok [OF assms]])
  show "list_all (\<lambda>(c, ts). ts \<noteq> [] \<and> list_all (\<lambda>(t, is). is \<noteq> []) ts) (clean_resources rs)"
    unfolding clean_resources_eq [OF assms] by (auto simp: list_all_iff)
  have types: "dict_get (filter (\<lambda>y. snd y \<noteq> []) ts) t = (case dict_get ts t of None \<Rightarrow> None | Some is \<Rightarrow> if is = [] then None else Some is)"
    if "dict_ok ts" for ts :: "(string, js list) dict"
    using that by (induction ts) (auto simp: dict_ok_def map_of_eq_None_iff split: option.split)
  have items: "resource_items (filter (\<lambda>x. snd x \<noteq> []) (map (\<lambda>x. (fst x, filter (\<lambda>y. snd y \<noteq> []) (snd x))) xs)) c t
      = resource_items xs c t" if "resources_ok xs" for xs
    using that
  proof (induction xs)
    case (Cons x xs)
    obtain c1 ts where x: "x = (c1, ts)" by (rule prod.exhaust)
    have ok: "resources_ok xs" "dict_ok ts" "c1 \<notin> fst ` set xs"
      using Cons.prems x by (auto simp: resources_ok_def dict_ok_def)
    have none: "dict_get (filter (\<lambda>x. snd x \<noteq> []) (map (\<lambda>x. (fst x, filter (\<lambda>y. snd y \<noteq> []) (snd x))) xs)) c1 = None"
      using ok(3) by (force simp: map_of_eq_None_iff)
    show ?case
    proof (cases "c = c1")
      case True
      let ?f = "filter (\<lambda>y. snd y \<noteq> []) ts"
      have "resource_items (filter (\<lambda>x. snd x \<noteq> []) (map (\<lambda>x. (fst x, filter (\<lambda>y. snd y \<noteq> []) (snd x))) (x # xs))) c1 t
          = (case dict_get ?f t of None \<Rightarrow> [] | Some is \<Rightarrow> is)"
        using none by (cases "?f = []") (simp_all add: x resource_items_def)
      then show ?thesis
        by (simp add: True types [OF ok(2)] x resource_items_def split: option.split)
    next
      case False
      then show ?thesis using Cons.IH [OF ok(1)] by (simp add: x resource_items_def)
    qed
  qed (simp add: resource_items_def)
  show "is_selected (clean_resources rs) c t i = is_selected rs c t i"
    unfolding is_selected_def clean_resources_eq [OF assms] items [OF assms] ..
qed

lemma resources_save_roundtrip_witness:
  "parse_agent_resources (resources_js (clean_resources [(''c'', [(''repo'', []), (''team'', [JObj [(''id'', JStr ''t''), (''name'', JStr ''T'')]])])]))
       = clean_resources [(''c'', [(''repo'', []), (''team'', [JObj [(''id'', JStr ''t''), (''name'', JStr ''T'')]])])]
     \<and> list_all (\<lambda>(c, ts). ts \<noteq> [] \<and> list_all (\<lambda>(t, is). is \<noteq> []) ts)
         (clean_resources [(''c'', [(''repo'', []), (''team'', [JObj [(''id'', JStr ''t''), (''name'', JStr ''T'')]])])])
     \<and> is_selected (clean_resources [(''c'', [(''repo'', []), (''team'', [JObj [(''id'', JStr ''t''), (''name'', JStr ''T'')]])])]) ''c'' ''team'' (JStr ''t'')
       = is_selected [(''c'', [(''repo'', []), (''team'', [JObj [(''id'', JStr ''t''), (''name'', JStr ''T'')]])])] ''c'' ''team'' (JStr ''t'')"
  by (rule resources_save_roundtrip) (simp add: resources_ok_def dict_ok_def item_ok_def is_resource_item_def js_has_def)

text \<open>The lines of an environment file.\<close>

definition print_env :: "env_var list \<Rightarrow> string" where
  "print_env vs = js_join [CHR 0x0A] (map (\<lambda>v. env_key v @ CHR ''='' # env_value v) vs)"

definition env_ok :: "env_var \<Rightarrow> bool" where
  "env_ok v \<longleftrightarrow> env_key v \<noteq> [] \<and> js_trim (env_key v) = env_key v \<and> js_trim (env_value v) = env_value v
     \<and> CHR ''='' \<notin> set (env_key v) \<and> CHR 0x0A \<notin> set (env_key v) \<and> CHR 0x0A \<notin> set (env_value v)
     \<and> hd (env_key v) \<noteq> CHR ''#'' \<and> strip_quotes (env_value v) = env_value v"

lemma trim_edges:
  assumes "js_trim s = s" "s \<noteq> []"
  shows "\<not> is_space (hd s)" "\<not> is_space (last s)"
proof -
  have "trim_start s = s" using js_trim_start_id [of s] assms(1) by simp
  then show "\<not> is_space (hd s)" using hd_trim_start [of s] assms(2) by simp
  have "trim_end s = s" using assms(1) \<open>trim_start s = s\<close> by (simp add: js_trim_def)
  then have "dropWhile is_space (rev s) = rev s" by (simp add: trim_end_def rev_swap)
  then have "\<not> is_space (hd (rev s))" using hd_dropWhile [of is_space "rev s"] assms(2) by simp
  then show "\<not> is_space (last s)" by (simp add: hd_rev)
qed

lemma edges_trim: "\<not> is_space (hd s) \<Longrightarrow> \<not> is_space (last s) \<Longrightarrow> js_trim s = s"
  by (simp add: js_trim_def trim_start_id trim_end_id)

lemma index_of_append: "c \<notin> set k \<Longrightarrow> index_of c (k @ c # v) = int (length k)"
  by (induction k) (auto simp: Let_def)

definition env_line :: "env_var \<Rightarrow> string" where
  "env_line v = env_key v @ CHR ''='' # env_value v"

lemma env_line_trim: "env_ok v \<Longrightarrow> js_trim (env_line v) = env_line v"
proof (rule edges_trim)
  assume ok: "env_ok v"
  then show "\<not> is_space (hd (env_line v))"
    using trim_edges(1) [of "env_key v"] by (cases "env_key v") (auto simp: env_ok_def env_line_def)
  show "\<not> is_space (last (env_line v))"
    using ok trim_edges(2) [of "env_value v"] by (auto simp: env_ok_def env_line_def is_space_def)
qed

lemma parse_env_line_print: "env_ok v \<Longrightarrow> parse_env_line (env_line v) = Some v"
  by (simp add: parse_env_line_def env_line_def env_ok_def index_of_append Let_def)

text \<open>
  Pasting an environment file reads back every well-formed variable: for any list of
  variables with trimmed, unquoted values and keys without an equals sign, parsing the file
  that lists them gives the list, in order.
\<close>

theorem env_paste_roundtrip:
  assumes "list_all env_ok vs"
  shows "parse_env_paste (print_env vs) = vs"
proof (cases "vs = []")
  case True
  then show ?thesis
    by (simp add: parse_env_paste_def print_env_def map_filter_simps js_trim_def trim_start_def trim_end_def)
next
  case False
  have nonl: "CHR 0x0A \<notin> set p" if "p \<in> set (map env_line vs)" for p
    using that assms by (auto simp: env_line_def env_ok_def list_all_iff)
  have "js_split (CHR 0x0A) (print_env vs) = map env_line vs"
    using split_join [of "map env_line vs" "CHR 0x0A"] nonl False
    by (simp add: print_env_def env_line_def [abs_def])
  moreover have "map js_trim (map env_line vs) = map env_line vs"
    using assms by (simp add: list_all_iff env_line_trim)
  moreover have "l \<noteq> [] \<and> \<not> starts_with ''#'' l" if "l \<in> set (map env_line vs)" for l
    using that assms by (auto simp: list_all_iff env_line_def env_ok_def starts_with_def neq_Nil_conv)
  then have "filter (\<lambda>l. l \<noteq> [] \<and> \<not> starts_with ''#'' l) (map env_line vs) = map env_line vs"
    by (simp add: filter_id_conv del: set_map)
  moreover have "List.map_filter parse_env_line (map env_line vs) = vs"
    using assms by (induction vs) (simp_all add: map_filter_simps parse_env_line_print)
  ultimately show ?thesis by (simp only: parse_env_paste_def)
qed

lemma env_paste_roundtrip_witness:
  "parse_env_paste (print_env [\<lparr>env_key = ''A'', env_value = ''x=1''\<rparr>, \<lparr>env_key = ''B'', env_value = []\<rparr>])
     = [\<lparr>env_key = ''A'', env_value = ''x=1''\<rparr>, \<lparr>env_key = ''B'', env_value = []\<rparr>]"
  by (rule env_paste_roundtrip)
    (simp add: env_ok_def js_trim_def trim_start_def trim_end_def is_space_def strip_quotes_def
      drop_first_quote_def is_quote_def)

end
