(* ===== verification/AgentPages.thy ===== *)
theory AgentPages
  imports ConversationView Settings AgentDialogs
begin

text \<open>
  The pages around an agent: the list \<open>agents/page.tsx\<close> with its table and row menu, the page
  of one agent \<open>agents/[id]/page.tsx\<close> with its runs, the side bar of its conversations
  \<open>conversations/layout.tsx\<close>, and the header of the workspace \<open>w/layout.tsx\<close>. Deleting an
  agent waits for its name; the table satisfies the contract \<open>confirmed_action\<close>. The calendar is
  a parameter.
\<close>

section \<open>Runs of an agent\<close>

datatype run_status = RunRunning | WaitingApproval | RunCompleted | RunError

definition map_status :: "string option \<Rightarrow> run_status" where
  "map_status s = (if s = Some ''active'' then RunRunning else if s = Some ''error'' then RunError else RunCompleted)"

text \<open>From the age in milliseconds.\<close>

definition time_ago :: "int \<Rightarrow> string" where
  "time_ago diff = (let seconds = diff div 1000; minutes = seconds div 60; hours = minutes div 60; days = hours div 24 in
     if seconds < 60 then ''Just now'' else if minutes < 60 then int_str minutes @ ''m ago''
     else if hours < 24 then int_str hours @ ''h ago'' else int_str days @ ''d ago'')"

record conversation =
  cv_id :: "string option"
  cv_name :: "string option"
  cv_status :: "string option"
  cv_created :: "string option"

record run_row =
  rr_id :: string
  rr_subject :: string
  rr_status :: run_status
  rr_started :: string

definition em_dash :: string where "em_dash = [CHR 0xE2, CHR 0x80, CHR 0x94]"

text \<open>\<open>age\<close> is the time since a date. Tokens, cost and duration of a run are constants.\<close>

definition conversation_to_run :: "(string \<Rightarrow> int) \<Rightarrow> conversation \<Rightarrow> run_row" where
  "conversation_to_run age c = (let i = (case cv_id c of None \<Rightarrow> [] | Some i \<Rightarrow> i) in
     \<lparr>rr_id = i, rr_subject = ''Run '' @ take 8 i, rr_status = map_status (cv_status c),
      rr_started = (case cv_created c of None \<Rightarrow> em_dash | Some d \<Rightarrow> if d = [] then em_dash else time_ago (age d))\<rparr>)"

text \<open>The loop of the page, in two accumulators.\<close>

fun split_runs :: "(string \<Rightarrow> int) \<Rightarrow> conversation list \<Rightarrow> run_row list \<times> run_row list \<Rightarrow> run_row list \<times> run_row list" where
  "split_runs age [] acc = acc"
| "split_runs age (c # cs) (active, recent) =
     (let run = conversation_to_run age c in
      if cv_status c = Some ''active'' then split_runs age cs (active @ [run], recent)
      else split_runs age cs (active, recent @ [run]))"

lemma split_runs_filter:
  "split_runs age cs (xs, ys) = (xs @ map (conversation_to_run age) (filter (\<lambda>c. cv_status c = Some ''active'') cs),
     ys @ map (conversation_to_run age) (filter (\<lambda>c. cv_status c \<noteq> Some ''active'') cs))"
  by (induction cs arbitrary: xs ys) (simp_all add: Let_def)

datatype run_badge = Badge string bool

definition run_badge_of :: "bool \<Rightarrow> run_status \<Rightarrow> run_badge" where
  "run_badge_of pending_approval s = (if pending_approval then Badge ''Approval needed'' True
     else (case s of RunRunning \<Rightarrow> Badge ''Running'' True | WaitingApproval \<Rightarrow> Badge ''Approval needed'' True
       | RunCompleted \<Rightarrow> Badge ''Completed'' False | RunError \<Rightarrow> Badge ''Error'' False))"

record run_stats =
  rs_total :: nat
  rs_active :: nat
  rs_spend :: nat
  rs_tokens :: nat

definition run_stats_of :: "conversation list \<Rightarrow> run_row list \<Rightarrow> run_stats" where
  "run_stats_of cs active = \<lparr>rs_total = length cs, rs_active = length active, rs_spend = 0, rs_tokens = 0\<rparr>"

definition stat_tokens :: "nat \<Rightarrow> string" where
  "stat_tokens n = (if 1000000 \<le> n then with_decimal (fixed_units 100000 1000000 n) @ ''M''
     else if 1000 \<le> n then nat_digits (fixed_units 1000 1000 n) @ ''k'' else nat_digits n)"

text \<open>The trend of a card: its size with the direction of the arrow.\<close>

definition trend_badge :: "int option \<Rightarrow> (nat \<times> bool) option" where
  "trend_badge t = map_option (\<lambda>n. (nat \<bar>n\<bar>, 0 \<le> n)) t"

text \<open>
  Every conversation of the agent is one run of the page, active or recent and never both;
  the active ones are exactly those shown as running, both lists keep the backend's order, and the
  numbers on the page count them.\<close>

theorem runs_partitioned:
  "let (active, recent) = split_runs age cs ([], []) in
     mset active + mset recent = image_mset (conversation_to_run age) (mset cs)
     \<and> list_all (\<lambda>r. rr_status r = RunRunning) active \<and> list_all (\<lambda>r. rr_status r \<noteq> RunRunning) recent
     \<and> subseq active (map (conversation_to_run age) cs) \<and> subseq recent (map (conversation_to_run age) cs)
     \<and> rs_total (run_stats_of cs active) = length active + length recent"
proof -
  have order: "subseq (map f (filter P xs)) (map f xs)" for f :: "conversation \<Rightarrow> run_row" and P xs
    by (rule subseq_map) (rule subseq_filter_left)
  have "length (filter P xs) + length (filter (\<lambda>x. \<not> P x) xs) = length xs" for P and xs :: "conversation list"
    by (rule sum_length_filter_compl)
  moreover have "mset (filter P xs) + mset (filter (\<lambda>x. \<not> P x) xs) = mset xs" for P and xs :: "conversation list"
    by (induction xs) auto
  ultimately show ?thesis using order
    by (simp add: split_runs_filter run_stats_of_def conversation_to_run_def Let_def map_status_def list_all_iff
        flip: image_mset_union)
qed

section \<open>Starting, choosing and closing a run\<close>

record agent_page =
  gp_agent :: string
  gp_route :: "string option"
  gp_starting :: bool
  gp_edit :: bool
  gp_calls :: nat
  gp_refetch :: nat
  gp_toasts :: "string list"

definition handle_start_run :: "agent_page \<Rightarrow> agent_page" where
  "handle_start_run st = st\<lparr>gp_starting := True, gp_calls := Suc (gp_calls st)\<rparr>"

definition start_settled :: "(js, js) sum \<Rightarrow> agent_page \<Rightarrow> agent_page" where
  "start_settled r st = (if \<not> gp_starting st then st else
     let st' = st\<lparr>gp_starting := False\<rparr> in
     (case r of
        Inl e \<Rightarrow> st'\<lparr>gp_toasts := gp_toasts st @ [extract_error_message e ''Failed to start run'']\<rparr>
      | Inr data \<Rightarrow> (let st2 = st'\<lparr>gp_refetch := Suc (gp_refetch st)\<rparr> in
          if truthy (js_get data ''id'') then st2\<lparr>gp_route := Some (js_string (js_get data ''id''))\<rparr> else st2)))"

definition handle_select_run :: "string \<Rightarrow> agent_page \<Rightarrow> agent_page" where
  "handle_select_run i st = st\<lparr>gp_route := Some i\<rparr>"

definition handle_close_run :: "agent_page \<Rightarrow> agent_page" where
  "handle_close_run st = st\<lparr>gp_route := None\<rparr>"

definition agent_url :: "string \<Rightarrow> string option \<Rightarrow> string" where
  "agent_url agent run = ''/w/agents/'' @ agent @ (case run of None \<Rightarrow> [] | Some i \<Rightarrow> ''?run='' @ i)"

text \<open>The panel is there for a run that is named and not empty.\<close>

definition panel_run :: "agent_page \<Rightarrow> string option" where
  "panel_run st = (case gp_route st of None \<Rightarrow> None | Some i \<Rightarrow> if i = [] then None else Some i)"

lemma started_run_opens:
  "gp_starting st \<Longrightarrow> js_get data ''id'' = JStr i \<Longrightarrow> i \<noteq> [] \<Longrightarrow> panel_run (start_settled (Inr data) st) = Some i"
  by (simp add: start_settled_def panel_run_def Let_def)

lemma failed_start_stays:
  "panel_run (start_settled (Inl e) st) = panel_run st \<and> gp_refetch (start_settled (Inl e) st) = gp_refetch st"
  by (simp add: start_settled_def panel_run_def Let_def)

lemma close_run_closes: "panel_run (handle_close_run (handle_select_run i st)) = None"
  by (simp add: handle_close_run_def panel_run_def)

section \<open>The conversations of an agent\<close>

text \<open>
  \<open>day\<close> is the calendar day of a date, \<open>date_text\<close> its text; a conversation without a date
  counts as today's.
\<close>

definition day_label :: "(string \<Rightarrow> string) \<Rightarrow> (string \<Rightarrow> string) \<Rightarrow> string \<Rightarrow> string \<Rightarrow> string \<Rightarrow> conversation \<Rightarrow> string" where
  "day_label day date_text now today yesterday c =
     (let d = (case cv_created c of None \<Rightarrow> now | Some t \<Rightarrow> if t = [] then now else t) in
      if day d = today then ''Today'' else if day d = yesterday then ''Yesterday'' else date_text d)"

definition group_step :: "('a \<Rightarrow> string) \<Rightarrow> (string, 'a list) dict \<Rightarrow> 'a \<Rightarrow> (string, 'a list) dict" where
  "group_step label groups c = (let l = label c; old = (case dict_get groups l of None \<Rightarrow> [] | Some xs \<Rightarrow> xs) in
     dict_set l (old @ [c]) groups)"

definition grouped :: "('a \<Rightarrow> string) \<Rightarrow> 'a list \<Rightarrow> (string, 'a list) dict" where
  "grouped label cs = foldl (group_step label) [] cs"

record conversation_item =
  im_id :: string
  im_title :: string
  im_dot :: string
  im_active :: bool

definition conversation_item_of :: "string option \<Rightarrow> conversation \<Rightarrow> conversation_item" where
  "conversation_item_of active c = (let i = (case cv_id c of None \<Rightarrow> [] | Some i \<Rightarrow> i);
       s = (case cv_status c of None \<Rightarrow> ''active'' | Some s \<Rightarrow> s) in
     \<lparr>im_id = i, im_title = (case cv_name c of Some n \<Rightarrow> if n \<noteq> [] then n else take 8 i | None \<Rightarrow> take 8 i),
      im_dot = (if s = ''active'' then ''green'' else if s = ''error'' then ''destructive'' else ''muted''),
      im_active = (Some i = active)\<rparr>)"

lemma grouped_get: "dict_get (grouped label cs) l =
    (if l \<in> label ` set cs then Some (filter (\<lambda>c. label c = l) cs) else None)"
proof (induction cs rule: rev_induct)
  case (snoc c cs)
  have "grouped label (cs @ [c]) = group_step label (grouped label cs) c" by (simp add: grouped_def)
  moreover have "filter (\<lambda>x. label x = label c) cs = [] " if "label c \<notin> label ` set cs"
  proof (rule filter_False)
    show "\<forall>x \<in> set cs. label x \<noteq> label c" using that by (metis imageI)
  qed
  ultimately show ?case using snoc by (auto simp: group_step_def Let_def dict_simps)
qed (simp add: grouped_def)

lemma grouped_ok: "dict_ok (grouped label cs)"
proof (induction cs rule: rev_induct)
  case (snoc c cs)
  then show ?case by (simp add: grouped_def group_step_def Let_def dict_ok_set)
qed (simp add: grouped_def dict_ok_def)

text \<open>
  The side bar lists every conversation exactly once, under the label of its day, each day
  once and no day empty, and within a day in the backend's order.\<close>

theorem conversations_grouped:
  "distinct (dict_keys (grouped label cs)) \<and> set (dict_keys (grouped label cs)) = label ` set cs
   \<and> (\<forall>l \<in> label ` set cs. dict_get (grouped label cs) l = Some (filter (\<lambda>c. label c = l) cs) \<and> filter (\<lambda>c. label c = l) cs \<noteq> [])
   \<and> (\<forall>c \<in> set cs. \<exists>!l. \<exists>xs. dict_get (grouped label cs) l = Some xs \<and> c \<in> set xs)"
proof -
  have "distinct (dict_keys (grouped label cs))" using grouped_ok [of label cs] by (simp add: dict_ok_def dict_keys_def)
  moreover have "set (dict_keys (grouped label cs)) = label ` set cs"
    by (simp add: set_dict_keys grouped_get)
  ultimately show ?thesis by (auto simp: grouped_get filter_empty_conv)
qed

lemma conversations_grouped_witness:
  "dict_get (grouped (\<lambda>c. if cv_created c = None then ''Today'' else ''Yesterday'')
     [\<lparr>cv_id = Some ''a'', cv_name = None, cv_status = None, cv_created = None\<rparr>]) ''Today''
     = Some [\<lparr>cv_id = Some ''a'', cv_name = None, cv_status = None, cv_created = None\<rparr>]"
  using conversations_grouped [of "\<lambda>c. if cv_created c = None then ''Today'' else ''Yesterday''"
    "[\<lparr>cv_id = Some ''a'', cv_name = None, cv_status = None, cv_created = None\<rparr>]"] by simp

section \<open>The list of agents\<close>

record agent_row =
  gr_id :: "string option"
  gr_name :: "string option"
  gr_model :: "string option"
  gr_provider :: "string option"
  gr_status :: "string option"
  gr_sandbox :: "string option"
  gr_integrations :: js
  gr_resources :: js

definition field_matches :: "string \<Rightarrow> string option \<Rightarrow> bool" where
  "field_matches q v = js_includes q (to_lower (case v of None \<Rightarrow> [] | Some s \<Rightarrow> s))"

definition filtered_agents :: "string \<Rightarrow> agent_row list \<Rightarrow> agent_row list" where
  "filtered_agents search agents = (if js_trim search = [] then agents
     else let q = to_lower search in
       filter (\<lambda>a. field_matches q (gr_name a) \<or> field_matches q (gr_model a) \<or> field_matches q (gr_provider a)) agents)"

lemma filtered_agents_subseq: "subseq (filtered_agents s as) as"
  by (simp add: filtered_agents_def Let_def subseq_filter_left)

text \<open>Only the test for an empty search trims it: a blank in front of a name finds nothing.\<close>

lemma leading_blank_finds_nothing:
  "filtered_agents '' bot'' [\<lparr>gr_id = Some ''1'', gr_name = Some ''bot'', gr_model = None, gr_provider = None, gr_status = None,
     gr_sandbox = None, gr_integrations = JNull, gr_resources = JNull\<rparr>] = []"
  by (simp add: filtered_agents_def field_matches_def js_trim_def trim_start_def trim_end_def is_space_def to_lower_def lower_char_def
    starts_with_def)

record connection_name =
  cx_provider :: "string option"
  cx_display :: "string option"

record integration_summary =
  is_provider :: string
  is_name :: string
  is_actions :: "js list"

definition summary_of :: "(string \<Rightarrow> connection_name option) \<Rightarrow> string \<times> js \<Rightarrow> integration_summary option" where
  "summary_of connections e = (case connections (fst e) of
       None \<Rightarrow> None
     | Some c \<Rightarrow> (case cx_provider c of
         None \<Rightarrow> None
       | Some p \<Rightarrow> if p = [] then None else Some
           \<lparr>is_provider = p, is_name = (case cx_display c of None \<Rightarrow> p | Some n \<Rightarrow> n),
            is_actions = (case js_get (snd e) ''actions'' of JArr xs \<Rightarrow> xs | _ \<Rightarrow> [])\<rparr>))"

definition integration_summaries :: "js \<Rightarrow> (string \<Rightarrow> connection_name option) \<Rightarrow> integration_summary list" where
  "integration_summaries integrations connections =
     (if \<not> truthy integrations \<or> \<not> is_object integrations then []
      else List.map_filter (summary_of connections) (object_entries integrations))"

text \<open>The logos: at most \<open>max\<close>, and the number of the others.\<close>

definition logos_shown :: "nat \<Rightarrow> integration_summary list \<Rightarrow> (string list \<times> nat option) option" where
  "logos_shown most xs = (if xs = [] then None
     else Some (map is_provider (take most xs), if most < length xs then Some (length xs - most) else None))"

lemma logos_count:
  "logos_shown most xs = Some (ps, more_logos) \<Longrightarrow> length ps + (case more_logos of None \<Rightarrow> 0 | Some n \<Rightarrow> n) = length xs"
  by (auto simp: logos_shown_def split: if_splits)

text \<open>The logos are keyed by provider: two connections of one provider share a key.\<close>

lemma logo_keys_collide:
  "logos_shown 4 (integration_summaries (JObj [(''c1'', JNull), (''c2'', JNull)])
     (\<lambda>_. Some \<lparr>cx_provider = Some ''github'', cx_display = None\<rparr>)) = Some ([''github'', ''github''], None)"
  by (simp add: logos_shown_def integration_summaries_def object_entries_def summary_of_def map_filter_simps)

definition nonempty_object :: "js \<Rightarrow> bool" where
  "nonempty_object v \<longleftrightarrow> truthy v \<and> is_object v \<and> object_entries v \<noteq> []"

definition status_config :: "(string \<times> string) list" where
  "status_config = [(''active'', ''Active''), (''forging'', ''Forging''), (''draft'', ''Draft''), (''archived'', ''Archived'')]"

text \<open>\<open>None\<close> is the TypeError on a status that is not in the table.\<close>

definition status_text :: "agent_row \<Rightarrow> string option" where
  "status_text a = (let s = (case gr_status a of None \<Rightarrow> ''active'' | Some s \<Rightarrow> s) in
     if s = ''active'' \<and> nonempty_object (gr_integrations a) \<and> \<not> nonempty_object (gr_resources a)
     then Some ''No resources configured'' else map_of status_config s)"

lemma status_text_total: "gr_status a = None \<or> gr_status a \<in> Some ` set (map fst status_config) \<Longrightarrow> status_text a \<noteq> None"
  by (auto simp: status_text_def status_config_def Let_def)

lemma unknown_status_throws: "gr_status a = Some ''error'' \<Longrightarrow> status_text a = None"
  by (simp add: status_text_def status_config_def)

section \<open>The table's menus and dialogs\<close>

text \<open>The entries of a row's menu and whether they do anything.\<close>

definition agent_menu :: "bool \<Rightarrow> agent_row \<Rightarrow> (string \<times> bool) list" where
  "agent_menu resources_handler a =
     [(''Edit agent'', True), (''Start run'', False), (''Duplicate'', False), (''Configure resources'', resources_handler)]
     @ (if gr_sandbox a = Some ''dedicated'' then [(''Add environment variables'', True), (''Add setup commands'', True)] else [])
     @ [(''Archive'', False), (''Delete'', True)]"

record agents_table =
  at_deleting :: "row option"
  at_env :: "row option"
  at_setup :: "row option"
  at_resources :: "row option"
  at_confirm :: confirm_state
  at_pending :: "row option"
  at_calls :: "string list"
  at_toasts :: "string list"
  at_refetch :: nat

definition agents_table_init :: agents_table where
  "agents_table_init = \<lparr>at_deleting = None, at_env = None, at_setup = None, at_resources = None, at_confirm = \<lparr>cd_typed = []\<rparr>,
     at_pending = None, at_calls = [], at_toasts = [], at_refetch = 0\<rparr>"

definition handle_delete_agent :: "agents_table \<Rightarrow> agents_table" where
  "handle_delete_agent st = (case target_id (at_deleting st) of
       None \<Rightarrow> st | Some i \<Rightarrow> st\<lparr>at_pending := at_deleting st, at_calls := at_calls st @ [i]\<rparr>)"

text \<open>The closures of the call hold the row it was made for.\<close>

definition delete_agent_settled :: "js option \<Rightarrow> agents_table \<Rightarrow> agents_table" where
  "delete_agent_settled err st = (case at_pending st of
       None \<Rightarrow> st
     | Some r \<Rightarrow> (let st' = st\<lparr>at_pending := None, at_deleting := None\<rparr> in
         (case err of
            None \<Rightarrow> st'\<lparr>at_toasts := at_toasts st @ [[CHR 0x22] @ rw_name r @ [CHR 0x22] @ '' deleted''], at_refetch := Suc (at_refetch st)\<rparr>
          | Some e \<Rightarrow> st'\<lparr>at_toasts := at_toasts st @ [extract_error_message e ''Failed to delete agent'']\<rparr>)))"

datatype agents_event = AskDeleteAgent row | TypeConfirm string | DismissDelete | ConfirmDeleteAgent | AgentDeleted "js option"
  | EnvVars row | SetupCommands row | ConfigureResources row | DialogClosed

definition agents_step :: "agents_table \<Rightarrow> agents_event \<Rightarrow> agents_table" where
  "agents_step st e = (case e of
       AskDeleteAgent r \<Rightarrow> st\<lparr>at_deleting := Some r\<rparr>
     | TypeConfirm s \<Rightarrow> if at_deleting st = None then st else st\<lparr>at_confirm := (at_confirm st)\<lparr>cd_typed := s\<rparr>\<rparr>
     | DismissDelete \<Rightarrow> st\<lparr>at_confirm := confirm_open_change False (at_confirm st), at_deleting := None\<rparr>
     | ConfirmDeleteAgent \<Rightarrow> (case at_deleting st of
         None \<Rightarrow> st
       | Some r \<Rightarrow> if confirm_disabled (Some (rw_name r)) (at_pending st \<noteq> None) (at_confirm st) then st else handle_delete_agent st)
     | AgentDeleted err \<Rightarrow> delete_agent_settled err st
     | EnvVars r \<Rightarrow> st\<lparr>at_env := Some r\<rparr> | SetupCommands r \<Rightarrow> st\<lparr>at_setup := Some r\<rparr>
     | ConfigureResources r \<Rightarrow> st\<lparr>at_resources := Some r\<rparr>
     | DialogClosed \<Rightarrow> st\<lparr>at_env := None, at_setup := None, at_resources := None\<rparr>)"

fun asks_agent_delete :: "agents_event \<Rightarrow> string option" where
  "asks_agent_delete (AskDeleteAgent r) = target_id (Some r)"
| "asks_agent_delete _ = None"

lemma agent_settled_fields:
  "at_calls (delete_agent_settled err st) = at_calls st" "at_confirm (delete_agent_settled err st) = at_confirm st"
  "at_deleting (delete_agent_settled err st) = (if at_pending st = None then at_deleting st else None)"
  by (simp_all add: delete_agent_settled_def Let_def split: option.split)

lemma agents_step_calls:
  assumes "at_calls (agents_step st e) \<noteq> at_calls st"
  shows "\<exists>r i. at_deleting st = Some r \<and> target_id (Some r) = Some i \<and> at_calls (agents_step st e) = at_calls st @ [i]
    \<and> (rw_name r = [] \<or> cd_typed (at_confirm st) = rw_name r)"
proof (cases e)
  case ConfirmDeleteAgent
  then show ?thesis using assms
    by (auto simp: agents_step_def handle_delete_agent_def confirm_disabled_def confirm_enabled_def button_disabled_def
        split: option.splits if_splits)
qed (use assms in \<open>auto simp: agents_step_def agent_settled_fields split: if_splits\<close>)

lemma agents_step_deleting:
  "target_id (at_deleting (agents_step st e)) = Some i \<Longrightarrow> target_id (at_deleting st) = Some i \<or> asks_agent_delete e = Some i"
proof (cases e)
  case ConfirmDeleteAgent
  then show "target_id (at_deleting (agents_step st e)) = Some i \<Longrightarrow> ?thesis"
    by (auto simp: agents_step_def handle_delete_agent_def split: option.splits if_splits)
qed (auto simp: agents_step_def agent_settled_fields split: if_splits)

interpretation delete_agent: confirmed_action agents_step "\<lambda>st. target_id (at_deleting st)" at_calls asks_agent_delete
proof
  show "target_id (at_deleting (agents_step st e)) = Some i \<Longrightarrow> target_id (at_deleting st) = Some i \<or> asks_agent_delete e = Some i"
    for st e i by (rule agents_step_deleting)
  show "i \<in> set (at_calls (agents_step st e)) \<Longrightarrow> i \<in> set (at_calls st) \<or> target_id (at_deleting st) = Some i" for st e i
    using agents_step_calls [of st e] by (cases "at_calls (agents_step st e) = at_calls st") auto
qed

text \<open>
  C23. An agent is deleted only after the user asked about it and typed its name: in every run
  the calls are for agents asked about, and the click that makes one happens while the dialog is
  open for that agent with its name in the field.\<close>

theorem agent_delete_needs_name:
  assumes "st = foldl agents_step agents_table_init es" "at_calls (agents_step st e) \<noteq> at_calls st"
  shows "\<exists>r i. at_deleting st = Some r \<and> target_id (Some r) = Some i \<and> at_calls (agents_step st e) = at_calls st @ [i]
    \<and> (rw_name r = [] \<or> cd_typed (at_confirm st) = rw_name r)
    \<and> Some ` set (at_calls (agents_step st e)) \<subseteq> asks_agent_delete ` set (es @ [e])"
proof -
  have "Some ` set (at_calls (foldl agents_step agents_table_init (es @ [e]))) \<subseteq> asks_agent_delete ` set (es @ [e])"
    by (rule delete_agent.run_calls_asked) (simp_all add: agents_table_init_def)
  then show ?thesis using agents_step_calls [OF assms(2)] assms(1) by fastforce
qed

lemma agent_delete_needs_name_witness:
  "\<exists>r i. at_deleting (foldl agents_step agents_table_init [AskDeleteAgent \<lparr>rw_id = Some ''a1'', rw_name = ''bot''\<rparr>, TypeConfirm ''bot''])
       = Some r \<and> target_id (Some r) = Some i"
proof -
  let ?es = "[AskDeleteAgent \<lparr>rw_id = Some ''a1'', rw_name = ''bot''\<rparr>, TypeConfirm ''bot'']"
  have "at_calls (agents_step (foldl agents_step agents_table_init ?es) ConfirmDeleteAgent) \<noteq> at_calls (foldl agents_step agents_table_init ?es)"
    by (simp add: agents_step_def agents_table_init_def confirm_disabled_def confirm_enabled_def button_disabled_def
        handle_delete_agent_def target_id_def)
  from agent_delete_needs_name [OF refl this] show ?thesis by blast
qed

text \<open>
  The answer closes the dialog without its own close handler, so the typed name stays: asking
  about another agent of that name finds the button enabled.
\<close>

lemma typed_name_stays:
  "at_calls (foldl agents_step agents_table_init
     [AskDeleteAgent \<lparr>rw_id = Some ''a1'', rw_name = ''bot''\<rparr>, TypeConfirm ''bot'', ConfirmDeleteAgent, AgentDeleted None,
      AskDeleteAgent \<lparr>rw_id = Some ''a2'', rw_name = ''bot''\<rparr>, ConfirmDeleteAgent]) = [''a1'', ''a2'']"
  by (simp add: agents_step_def agents_table_init_def confirm_disabled_def confirm_enabled_def button_disabled_def
      handle_delete_agent_def target_id_def delete_agent_settled_def)

section \<open>The header of the workspace\<close>

definition nav_items :: "(string \<times> string) list" where
  "nav_items = [(''Agents'', ''/w/agents''), (''Connections'', ''/w/connections''), (''Observe'', ''/w/observe'')]"

definition active_items :: "string \<Rightarrow> string list" where
  "active_items pathname = map fst (filter (\<lambda>x. starts_with (snd x) pathname) nav_items)"

lemma starts_with_nth: "starts_with p s \<Longrightarrow> i < length p \<Longrightarrow> s ! i = p ! i"
  unfolding starts_with_def by (metis nth_take)

lemma one_nav_item: "length (active_items pathname) \<le> 1"
  using starts_with_nth [of "''/w/agents''" pathname 3] starts_with_nth [of "''/w/connections''" pathname 3]
    starts_with_nth [of "''/w/observe''" pathname 3]
  by (auto simp: active_items_def nav_items_def)

text \<open>The first letters of the words, at most two; an empty word has none.\<close>

definition initials :: "string option \<Rightarrow> string" where
  "initials name = (case name of
       None \<Rightarrow> ''?''
     | Some n \<Rightarrow> if n = [] then ''?''
         else to_upper (take 2 (concat (map (\<lambda>w. take 1 w) (js_split (CHR '' '') n)))))"

lemma initials_short: "length (initials name) \<le> 2"
  by (simp add: initials_def to_upper_def split: option.split)

lemma initials_two_words: "initials (Some ''ada  byron lovelace'') = ''AB'' \<and> initials (Some '' '') = []"
  by code_simp

record workspace_header =
  wh_create :: bool
  wh_settings :: bool
  wh_section :: "string option"
  wh_impersonate :: bool

datatype header_event = CreateWorkspace bool | OpenSettings | OpenBilling | SettingsChange bool | ImpersonateDialog bool

text \<open>The impersonation entry is there for a platform admin who is not impersonating.\<close>

definition header_step :: "bool \<Rightarrow> bool \<Rightarrow> workspace_header \<Rightarrow> header_event \<Rightarrow> workspace_header" where
  "header_step admin impersonating st e = (case e of
       CreateWorkspace b \<Rightarrow> st\<lparr>wh_create := b\<rparr>
     | OpenSettings \<Rightarrow> st\<lparr>wh_settings := True\<rparr>
     | OpenBilling \<Rightarrow> st\<lparr>wh_section := Some ''billing'', wh_settings := True\<rparr>
     | SettingsChange b \<Rightarrow> (let st' = st\<lparr>wh_settings := b\<rparr> in if b then st' else st'\<lparr>wh_section := None\<rparr>)
     | ImpersonateDialog b \<Rightarrow> if b \<and> \<not> (admin \<and> \<not> impersonating) then st else st\<lparr>wh_impersonate := b\<rparr>)"

definition header_inv :: "workspace_header \<Rightarrow> bool" where
  "header_inv st \<longleftrightarrow> (wh_section st = None \<or> wh_settings st)"

lemma header_inv_step: "header_inv st \<Longrightarrow> header_inv (header_step admin impersonating st e)"
  by (cases e) (auto simp: header_inv_def header_step_def Let_def)

interpretation header: event_machine "header_step admin impersonating" header_inv for admin impersonating
  by unfold_locales (rule header_inv_step)

text \<open>The impersonation dialog never opens for anyone else.\<close>

lemma impersonation_needs_admin:
  "\<not> (admin \<and> \<not> impersonating) \<Longrightarrow> \<not> wh_impersonate st \<Longrightarrow> \<not> wh_impersonate (foldl (header_step admin impersonating) st es)"
proof (induction es arbitrary: st)
  case (Cons e es)
  have "\<not> wh_impersonate (header_step admin impersonating st e)"
    using Cons.prems by (cases e) (auto simp: header_step_def Let_def)
  then show ?case using Cons by simp
qed simp

text \<open>The banner of an impersonation, and the toast after a checkout with the return to \<open>/w\<close>.\<close>

definition impersonation_banner :: "bool \<Rightarrow> (string \<times> string) option \<Rightarrow> string option" where
  "impersonation_banner impersonating user = (if \<not> impersonating then None
     else map_option (\<lambda>(n, e). ''Viewing as '' @ n @ '' ('' @ e @ '')'') user)"

definition checkout_effect :: "string option \<Rightarrow> (string \<times> string) option" where
  "checkout_effect checkout = (if checkout = Some ''success'' then Some (''Subscription activated! You're on the Pro plan.'', ''/w'') else None)"

end
