(* ===== verification/WizardPickers.thy ===== *)
theory WizardPickers
  imports WizardFlow AgentPages
begin

text \<open>
  What the pages of the agent wizard show and pick from: the integrations page with its list of
  actions (\<open>step-integrations.tsx\<close>), the dialog for a new key (\<open>add-llm-key-dialog.tsx\<close>), the
  listings of skills and sub-agents (\<open>step-skills.tsx\<close>, \<open>step-subagents.tsx\<close>), the events of a
  connection (\<open>step-trigger/*-picker.tsx\<close>), the prompt editor (\<open>provider-prompt-editor.tsx\<close>), the
  marketplace (\<open>step-marketplace.tsx\<close>) and the totals of the summary. The lists that the
  backend returns are arguments, as is the collation of names.
\<close>

section \<open>Integrations and their actions\<close>

record action_view =
  av_state :: create_state
  av_query :: string
  av_detail :: "string option"
  av_search :: string

record catalog_action =
  ca_key :: string
  ca_display :: string
  ca_description :: string

definition integrations_shown :: "string jsset \<Rightarrow> string \<Rightarrow> in_connection list \<Rightarrow> in_connection list" where
  "integrations_shown sel search cs =
     sort_key (\<lambda>c. if ic_id c \<in> set sel then 0 else 1 :: nat) (filter_connections search cs)"

definition show_actions :: "string \<Rightarrow> action_view \<Rightarrow> action_view" where
  "show_actions i st = st\<lparr>av_state := open_integration i (av_state st), av_detail := Some i, av_search := []\<rparr>"

definition hide_actions :: "action_view \<Rightarrow> action_view" where
  "hide_actions st = st\<lparr>av_detail := None, av_search := []\<rparr>"

definition remove_shown :: "string \<Rightarrow> action_view \<Rightarrow> action_view" where
  "remove_shown i st = hide_actions (st\<lparr>av_state := drop_integration i (av_state st)\<rparr>)"

definition filter_actions :: "string \<Rightarrow> catalog_action list \<Rightarrow> catalog_action list" where
  "filter_actions search as = (if js_trim search = [] then as
     else (let q = to_lower search in filter (\<lambda>a. js_includes q (to_lower (ca_display a))
       \<or> js_includes q (to_lower (ca_description a)) \<or> js_includes q (to_lower (ca_key a))) as))"

definition actions_of :: "create_state \<Rightarrow> string \<Rightarrow> string jsset" where
  "actions_of st i = (case dict_get (cs_actions st) i of None \<Rightarrow> [] | Some s \<Rightarrow> s)"

definition all_actions_selected :: "string jsset \<Rightarrow> catalog_action list \<Rightarrow> bool" where
  "all_actions_selected sel as \<longleftrightarrow> as \<noteq> [] \<and> list_all (\<lambda>a. ca_key a \<in> set sel) as"

text \<open>The loop tests the selection of the render it was created in, not the one it builds.\<close>

definition toggle_all :: "string \<Rightarrow> catalog_action list \<Rightarrow> create_state \<Rightarrow> create_state" where
  "toggle_all i as st = (let sel = actions_of st i; whole = all_actions_selected sel as in
     foldl (\<lambda>s a. if (ca_key a \<in> set sel) = whole then toggle_action i (ca_key a) s else s) st as)"

lemma actions_toggle: "actions_of (toggle_action i a st) j = (if i = j then toggle_member a (actions_of st i) else actions_of st j)"
  by (simp add: actions_of_def toggle_action_def dict_simps)

lemma set_toggle_member: "set (toggle_member x s) = (if x \<in> set s then set s - {x} else insert x (set s))"
  by (auto simp: toggle_member_def set_set_remove set_set_add)

lemma toggle_run:
  "distinct (map ca_key as) \<Longrightarrow> set (actions_of (foldl (\<lambda>s a. if P (ca_key a) then toggle_action i (ca_key a) s else s) st as) i)
   = {k. (k \<in> set (actions_of st i)) \<noteq> (k \<in> ca_key ` set as \<and> P k)}"
proof (induction as arbitrary: st)
  case (Cons a as)
  then show ?case by (auto simp: actions_toggle set_toggle_member image_iff)
qed simp

lemma toggle_run_others:
  "j \<noteq> i \<Longrightarrow> actions_of (foldl (\<lambda>s a. if P (ca_key a) then toggle_action i (ca_key a) s else s) st as) j = actions_of st j"
  by (induction as arbitrary: st) (simp_all add: actions_toggle)

text \<open>
  Select all: the button selects every action of the integration when one of them is
  not selected, and deselects every one of them when all are, whatever the search shows;
  actions that the integration does not list, and other integrations, are left alone.\<close>

theorem toggle_all_settles:
  assumes "distinct (map ca_key as)" "as \<noteq> []"
  shows "set (actions_of (toggle_all i as st) j) =
      (if j \<noteq> i then set (actions_of st j)
       else if all_actions_selected (actions_of st i) as then set (actions_of st i) - ca_key ` set as
       else set (actions_of st i) \<union> ca_key ` set as)"
proof (cases "j = i")
  case True
  let ?whole = "all_actions_selected (actions_of st i) as"
  have "set (actions_of (toggle_all i as st) i) =
      {k. (k \<in> set (actions_of st i)) \<noteq> (k \<in> ca_key ` set as \<and> (k \<in> set (actions_of st i)) = ?whole)}"
    unfolding toggle_all_def Let_def by (rule toggle_run [OF assms(1), of "\<lambda>k. (k \<in> set (actions_of st i)) = ?whole"])
  then show ?thesis using True assms(2) by (auto simp: all_actions_selected_def list_all_iff)
next
  case False
  have "actions_of (toggle_all i as st) j = actions_of st j"
    unfolding toggle_all_def Let_def
    by (rule toggle_run_others [OF False, of "\<lambda>k. (k \<in> set (actions_of st i)) = all_actions_selected (actions_of st i) as"])
  then show ?thesis using False by simp
qed

definition demo_actions :: "catalog_action list" where
  "demo_actions = [\<lparr>ca_key = ''read'', ca_display = ''Read'', ca_description = []\<rparr>,
     \<lparr>ca_key = ''write'', ca_display = ''Write'', ca_description = []\<rparr>]"

lemma toggle_all_settles_witness:
  "let st = toggle_action ''c'' ''read'' (create_init None); st1 = toggle_all ''c'' demo_actions st in
     set (actions_of st1 ''c'') = {''read'', ''write''} \<and> set (actions_of (toggle_all ''c'' demo_actions st1) ''c'') = {}"
proof -
  let ?st = "toggle_action ''c'' ''read'' (create_init None)"
  have d: "distinct (map ca_key demo_actions)" "demo_actions \<noteq> []" by (simp_all add: demo_actions_def)
  have k: "ca_key ` set demo_actions = {''read'', ''write''}" by (auto simp: demo_actions_def)
  have s: "actions_of ?st ''c'' = [''read'']"
    by (simp add: actions_of_def toggle_action_def create_init_def toggle_member_def set_add_def dict_simps)
  have one: "set (actions_of (toggle_all ''c'' demo_actions ?st) ''c'') = {''read'', ''write''}"
    unfolding toggle_all_settles [OF d] k s by (auto simp: all_actions_selected_def demo_actions_def)
  moreover have "all_actions_selected (actions_of (toggle_all ''c'' demo_actions ?st) ''c'') demo_actions"
    by (simp add: all_actions_selected_def list_all_iff one d(2)) (simp add: demo_actions_def)
  ultimately show ?thesis unfolding Let_def toggle_all_settles [OF d, of _ "toggle_all _ _ _"] k by simp
qed

text \<open>The list puts the selected integrations first and loses none.\<close>

lemma integrations_shown_order:
  "sorted (map (\<lambda>c. if ic_id c \<in> set sel then 0 else 1 :: nat) (integrations_shown sel search cs))"
  "mset (integrations_shown sel search cs) = mset (filter_connections search cs)"
  by (simp_all add: integrations_shown_def)

section \<open>Listings of skills and sub-agents\<close>

record skill_response =
  kr_id :: "string option"
  kr_slug :: "string option"
  kr_name :: "string option"
  kr_description :: "string option"
  kr_source :: "string option"
  kr_org :: "string option"
  kr_tags :: "string list option"
  kr_installs :: "int option"
  kr_featured :: "bool option"

record skill_listing = skill_preview +
  sk_description :: string
  sk_git :: bool
  sk_public :: bool
  sk_tags :: "string list"
  sk_installs :: int
  sk_featured :: bool

definition present :: "string option \<Rightarrow> bool" where
  "present s \<longleftrightarrow> s \<noteq> None \<and> s \<noteq> Some []"

definition or_default :: "'a \<Rightarrow> 'a option \<Rightarrow> 'a" where
  "or_default d v = (case v of None \<Rightarrow> d | Some x \<Rightarrow> x)"

definition to_skill_preview :: "skill_response \<Rightarrow> skill_listing option" where
  "to_skill_preview k = (if \<not> present (kr_id k) \<or> \<not> present (kr_name k) \<or> \<not> present (kr_slug k) then None
     else Some \<lparr>sk_id = the (kr_id k), sk_slug = the (kr_slug k), sk_name = the (kr_name k),
       sk_description = or_default [] (kr_description k), sk_git = (kr_source k = Some ''git''),
       sk_public = (\<not> present (kr_org k)), sk_tags = or_default [] (kr_tags k),
       sk_installs = or_default 0 (kr_installs k), sk_featured = or_default False (kr_featured k)\<rparr>)"

record subagent_response =
  gr_id :: "string option"
  gr_name :: "string option"
  gr_description :: "string option"
  gr_model :: "string option"
  gr_org :: "string option"

record subagent_listing = subagent_preview +
  sa_description :: string
  sa_public :: bool

definition to_subagent_preview :: "subagent_response \<Rightarrow> subagent_listing option" where
  "to_subagent_preview g = (if \<not> present (gr_id g) \<or> \<not> present (gr_name g) then None
     else Some \<lparr>sa_id = the (gr_id g), sa_name = the (gr_name g), sa_model = or_default [] (gr_model g),
       sa_description = or_default [] (gr_description g), sa_public = (\<not> present (gr_org g))\<rparr>)"

text \<open>
  The loop over the pages fetched so far: rows without what a preview needs are left out, and
  so is an id seen before (a row can move to a later page between two fetches).
\<close>

fun merge_rows :: "('r \<Rightarrow> 'p option) \<Rightarrow> ('p \<Rightarrow> string) \<Rightarrow> 'r list \<Rightarrow> string set \<times> 'p list \<Rightarrow> string set \<times> 'p list" where
  "merge_rows view ident [] acc = acc"
| "merge_rows view ident (r # rs) (seen, rows) = (case view r of
       None \<Rightarrow> merge_rows view ident rs (seen, rows)
     | Some p \<Rightarrow> if ident p \<in> seen then merge_rows view ident rs (seen, rows)
         else merge_rows view ident rs (insert (ident p) seen, rows @ [p]))"

text \<open>The comparators are lexicographic: a stable sort by each key in turn, the last one first.\<close>

definition skill_rows :: "(string, skill_preview) dict \<Rightarrow> skill_response list list \<Rightarrow> skill_listing list" where
  "skill_rows sel pages = sort_key (\<lambda>s. if dict_has sel (sk_id s) then 0 else 1 :: nat)
     (sort_key (\<lambda>s. if sk_featured s then 0 else 1 :: nat)
       (sort_key (\<lambda>s. - sk_installs s) (snd (merge_rows to_skill_preview sk_id (concat pages) ({}, [])))))"

definition subagent_rows :: "(string \<Rightarrow> int) \<Rightarrow> (string, subagent_preview) dict \<Rightarrow> subagent_response list list \<Rightarrow> subagent_listing list" where
  "subagent_rows rank sel pages = sort_key (\<lambda>g. if dict_has sel (sa_id g) then 0 else 1 :: nat)
     (sort_key (\<lambda>g. rank (sa_name g)) (snd (merge_rows to_subagent_preview sa_id (concat pages) ({}, []))))"

definition continue_label :: "string \<Rightarrow> nat \<Rightarrow> string" where
  "continue_label what n = (if 0 < n then ''Continue with '' @ nat_digits n @ '' '' @ what @ (if 1 < n then ''s'' else [])
     else ''Skip for now'')"

text \<open>The next page is fetched when its marker is in sight and no fetch is running.\<close>

definition fetches_next :: "bool \<Rightarrow> bool \<Rightarrow> bool \<Rightarrow> bool" where
  "fetches_next has_next in_sight fetching \<longleftrightarrow> has_next \<and> in_sight \<and> \<not> fetching"

lemma merge_rows_inv:
  assumes "distinct (map ident rows)" "seen = ident ` set rows"
  shows "distinct (map ident (snd (merge_rows view ident rs (seen, rows)))) \<and>
     ident ` set (snd (merge_rows view ident rs (seen, rows))) = ident ` set rows \<union> ident ` set (List.map_filter view rs) \<and>
     set (snd (merge_rows view ident rs (seen, rows))) \<subseteq> set rows \<union> set (List.map_filter view rs)"
  using assms
proof (induction rs arbitrary: seen rows)
  case (Cons r rs)
  show ?case
  proof (cases "view r")
    case None
    then show ?thesis using Cons by (simp add: map_filter_simps)
  next
    case (Some p)
    show ?thesis
    proof (cases "ident p \<in> seen")
      case True
      then show ?thesis using Some Cons.IH [OF Cons.prems] Cons.prems(2) by (auto simp: map_filter_simps)
    next
      case False
      have "distinct (map ident (rows @ [p]))" "insert (ident p) seen = ident ` set (rows @ [p])"
        using Cons.prems False by auto
      from Cons.IH [OF this] show ?thesis using Some False by (auto simp: map_filter_simps)
    qed
  qed
qed (simp add: map_filter_simps)

lemmas merged = merge_rows_inv [of _ "[]" "{}", simplified]

text \<open>
  The listing of skills shows every skill of the fetched pages that can be shown, each
  one once although pages can overlap, and the chosen ones before the others; nothing else
  is listed.\<close>

theorem skills_listed_once:
  "let rows = skill_rows sel pages in
     distinct (map sk_id rows)
     \<and> sk_id ` set rows = sk_id ` set (List.map_filter to_skill_preview (concat pages))
     \<and> set rows \<subseteq> set (List.map_filter to_skill_preview (concat pages))
     \<and> sorted (map (\<lambda>s. if dict_has sel (sk_id s) then 0 else 1 :: nat) rows)"
proof -
  let ?rows = "snd (merge_rows to_skill_preview sk_id (concat pages) ({}, []))"
  have set: "set (skill_rows sel pages) = set ?rows" by (simp add: skill_rows_def)
  have "mset (map sk_id (skill_rows sel pages)) = mset (map sk_id ?rows)" by (simp add: skill_rows_def)
  then have "distinct (map sk_id (skill_rows sel pages)) = distinct (map sk_id ?rows)" by (rule mset_eq_imp_distinct_iff)
  then show ?thesis using merged [of sk_id to_skill_preview "concat pages"]
    by (simp add: set Let_def) (simp add: skill_rows_def)
qed

lemma subagents_listed_once:
  "distinct (map sa_id (subagent_rows rank sel pages))"
  "sa_id ` set (subagent_rows rank sel pages) = sa_id ` set (List.map_filter to_subagent_preview (concat pages))"
proof -
  let ?rows = "snd (merge_rows to_subagent_preview sa_id (concat pages) ({}, []))"
  have "mset (map sa_id (subagent_rows rank sel pages)) = mset (map sa_id ?rows)" by (simp add: subagent_rows_def)
  then have "distinct (map sa_id (subagent_rows rank sel pages)) = distinct (map sa_id ?rows)" by (rule mset_eq_imp_distinct_iff)
  then show "distinct (map sa_id (subagent_rows rank sel pages))"
    using merged [of sa_id to_subagent_preview "concat pages"] by simp
  show "sa_id ` set (subagent_rows rank sel pages) = sa_id ` set (List.map_filter to_subagent_preview (concat pages))"
    using merged [of sa_id to_subagent_preview "concat pages"] by (simp add: subagent_rows_def)
qed

section \<open>A new key\<close>

record llm_provider =
  lp_id :: string
  lp_name :: string
  lp_api :: "string option"

record key_dialog =
  kd_open :: bool
  kd_provider :: "llm_provider option"
  kd_search :: string
  kd_label :: string
  kd_key :: string
  kd_url :: string
  kd_advanced :: bool
  kd_pending :: "string option"
  kd_calls :: "js list"
  kd_toasts :: "string list"
  kd_created :: "string list"

definition key_dialog_init :: key_dialog where
  "key_dialog_init = \<lparr>kd_open = False, kd_provider = None, kd_search = [], kd_label = [], kd_key = [], kd_url = [],
     kd_advanced = False, kd_pending = None, kd_calls = [], kd_toasts = [], kd_created = []\<rparr>"

definition filter_providers :: "string \<Rightarrow> llm_provider list \<Rightarrow> llm_provider list" where
  "filter_providers search ps = (if js_trim search = [] then ps
     else (let q = to_lower search in filter (\<lambda>p. js_includes q (to_lower (lp_name p)) \<or> js_includes q (to_lower (lp_id p))) ps))"

definition pick_provider :: "llm_provider \<Rightarrow> key_dialog \<Rightarrow> key_dialog" where
  "pick_provider p st = st\<lparr>kd_provider := Some p, kd_label := [], kd_key := [],
     kd_url := or_default [] (lp_api p), kd_advanced := False\<rparr>"

definition leave_provider :: "key_dialog \<Rightarrow> key_dialog" where
  "leave_provider st = st\<lparr>kd_provider := None\<rparr>"

definition reset_key_dialog :: "key_dialog \<Rightarrow> key_dialog" where
  "reset_key_dialog st = st\<lparr>kd_provider := None, kd_search := [], kd_label := [], kd_key := [], kd_url := [], kd_advanced := False\<rparr>"

definition key_dialog_change :: "bool \<Rightarrow> key_dialog \<Rightarrow> key_dialog" where
  "key_dialog_change b st = (if b then st else reset_key_dialog st)\<lparr>kd_open := b\<rparr>"

definition credential_body :: "llm_provider \<Rightarrow> key_dialog \<Rightarrow> js" where
  "credential_body p st = JObj [(''provider_id'', JStr (lp_id p)), (''api_key'', JStr (js_trim (kd_key st))),
     (''label'', JStr (if js_trim (kd_label st) = [] then lp_name p @ '' key'' else js_trim (kd_label st))),
     (''base_url'', optional_text (js_trim (kd_url st)))]"

definition submit_key :: "key_dialog \<Rightarrow> key_dialog" where
  "submit_key st = (case kd_provider st of
       None \<Rightarrow> st
     | Some p \<Rightarrow> if js_trim (kd_key st) = [] then st
         else st\<lparr>kd_calls := kd_calls st @ [credential_body p st], kd_pending := Some (lp_name p)\<rparr>)"

text \<open>The callbacks of the latest request; they hold the provider it was made for.\<close>

definition key_settled :: "(js, js) sum \<Rightarrow> key_dialog \<Rightarrow> key_dialog" where
  "key_settled r st = (case kd_pending st of
       None \<Rightarrow> st
     | Some name \<Rightarrow> (case r of
         Inl e \<Rightarrow> st\<lparr>kd_pending := None, kd_toasts := kd_toasts st @ [extract_error_message e ''Failed to save credential'']\<rparr>
       | Inr data \<Rightarrow> (let st1 = (reset_key_dialog st)\<lparr>kd_pending := None, kd_open := False,
             kd_toasts := kd_toasts st @ [name @ '' key added'']\<rparr> in
           if truthy (js_get data ''id'') then st1\<lparr>kd_created := kd_created st @ [js_string (js_get data ''id'')]\<rparr> else st1)))"

datatype key_dialog_event =
    AddKeyButton | ChangeOpen bool | ProviderSearch string | PickProvider llm_provider | LeaveProvider | LabelInput string
  | KeyInput string | UrlInput string | AdvancedToggle | SaveKey | KeySettled "(js, js) sum"

text \<open>The inputs exist while the dialog is open, those of the form once a provider is chosen.\<close>

definition key_dialog_step :: "key_dialog \<Rightarrow> key_dialog_event \<Rightarrow> key_dialog" where
  "key_dialog_step st e = (case e of
       AddKeyButton \<Rightarrow> st\<lparr>kd_open := True\<rparr>
     | KeySettled r \<Rightarrow> key_settled r st
     | _ \<Rightarrow> if \<not> kd_open st then st else
        (case e of
           ChangeOpen b \<Rightarrow> key_dialog_change b st
         | ProviderSearch s \<Rightarrow> if kd_provider st = None then st\<lparr>kd_search := s\<rparr> else st
         | PickProvider p \<Rightarrow> if kd_provider st = None then pick_provider p st else st
         | _ \<Rightarrow> if kd_provider st = None then st else
           (case e of
              LeaveProvider \<Rightarrow> leave_provider st
            | LabelInput s \<Rightarrow> st\<lparr>kd_label := s\<rparr>
            | KeyInput s \<Rightarrow> st\<lparr>kd_key := s\<rparr>
            | UrlInput s \<Rightarrow> if kd_advanced st then st\<lparr>kd_url := s\<rparr> else st
            | AdvancedToggle \<Rightarrow> st\<lparr>kd_advanced := \<not> kd_advanced st\<rparr>
            | SaveKey \<Rightarrow> if button_disabled (Some (js_trim (kd_key st) = [])) (kd_pending st \<noteq> None) then st else submit_key st
            | _ \<Rightarrow> st)))"

definition credential_ok :: "js \<Rightarrow> bool" where
  "credential_ok b \<longleftrightarrow> (\<exists>k l. js_get b ''api_key'' = JStr k \<and> k \<noteq> [] \<and> js_trim k = k
     \<and> js_get b ''label'' = JStr l \<and> l \<noteq> [] \<and> js_get b ''base_url'' \<noteq> JStr [])"

lemma credential_ok_body: "js_trim (kd_key st) \<noteq> [] \<Longrightarrow> credential_ok (credential_body p st)"
  by (simp add: credential_ok_def credential_body_def optional_text_def)

definition key_dialog_inv :: "key_dialog \<Rightarrow> bool" where
  "key_dialog_inv st \<longleftrightarrow> list_all credential_ok (kd_calls st)
     \<and> (kd_open st \<or> (kd_provider st = None \<and> kd_key st = [] \<and> kd_label st = [] \<and> kd_url st = [] \<and> kd_search st = []))
     \<and> length (kd_created st) \<le> length (kd_toasts st)"

lemma key_dialog_inv_step: "key_dialog_inv st \<Longrightarrow> key_dialog_inv (key_dialog_step st e)"
proof (cases e)
  case (KeySettled r)
  assume "key_dialog_inv st"
  then show ?thesis using KeySettled
    by (auto simp: key_dialog_inv_def key_dialog_step_def key_settled_def reset_key_dialog_def Let_def split: option.split sum.split)
next
  case SaveKey
  assume "key_dialog_inv st"
  then show ?thesis using SaveKey
    by (auto simp: key_dialog_inv_def key_dialog_step_def submit_key_def credential_ok_body split: option.split)
qed (auto simp: key_dialog_inv_def key_dialog_step_def key_dialog_change_def reset_key_dialog_def pick_provider_def leave_provider_def)

interpretation key_dialog: event_machine key_dialog_step key_dialog_inv
  by unfold_locales (rule key_dialog_inv_step)

text \<open>
  Adding a key: every request carries a trimmed key that is not empty and a label that is
  not empty, without an empty base URL; and a closed dialog holds nothing that was typed, the
  key above all, however it was closed.\<close>

theorem key_dialog_safe:
  "let st = foldl key_dialog_step key_dialog_init es in
     list_all credential_ok (kd_calls st)
     \<and> (kd_open st \<or> (kd_provider st = None \<and> kd_key st = [] \<and> kd_label st = [] \<and> kd_url st = [] \<and> kd_search st = []))"
  using key_dialog.run_inv [of key_dialog_init es]
  by (simp add: key_dialog_inv_def key_dialog_init_def Let_def)

text \<open>
  Two flaws of its requests. The button stays enabled while a request runs, so two clicks
  create two credentials; and the answer to a request resets whatever was typed after the
  dialog had been closed and opened again.
\<close>

definition demo_provider :: llm_provider where
  "demo_provider = \<lparr>lp_id = ''openai'', lp_name = ''OpenAI'', lp_api = None\<rparr>"

lemma two_clicks_two_keys:
  "length (kd_calls (foldl key_dialog_step key_dialog_init
     [AddKeyButton, PickProvider demo_provider, KeyInput ''sk'', SaveKey, SaveKey])) = 2"
  by code_simp

lemma late_answer_drops_entry:
  "let st = foldl key_dialog_step key_dialog_init
     [AddKeyButton, PickProvider demo_provider, KeyInput ''sk'', SaveKey, ChangeOpen False, AddKeyButton,
      PickProvider demo_provider, KeyInput ''other''] in
   kd_key st = ''other'' \<and> kd_key (key_dialog_step st (KeySettled (Inr (JObj [(''id'', JStr ''c'')])))) = []
     \<and> \<not> kd_open (key_dialog_step st (KeySettled (Inr (JObj [(''id'', JStr ''c'')]))))
     \<and> kd_created (key_dialog_step st (KeySettled (Inr (JObj [(''id'', JStr ''c'')])))) = [''c'']"
  by code_simp

section \<open>The events of a connection\<close>

record event_row =
  er_key :: string
  er_display :: string
  er_description :: string
  er_resource :: "string option"

definition conversational_keys :: "string set" where
  "conversational_keys = {''app_mention'', ''message.im'', ''message.channels'', ''message.groups''}"

definition filter_events :: "string \<Rightarrow> event_row list \<Rightarrow> event_row list" where
  "filter_events search rows = (let ts = filter (\<lambda>t. er_key t \<notin> conversational_keys) rows in
     if js_trim search = [] then ts
     else (let q = to_lower search in filter (\<lambda>t. js_includes q (to_lower (er_display t))
       \<or> js_includes q (to_lower (er_description t)) \<or> js_includes q (to_lower (er_key t))) ts))"

definition resource_group :: "event_row \<Rightarrow> string" where
  "resource_group t = (case er_resource t of None \<Rightarrow> ''other'' | Some r \<Rightarrow> if r = [] then ''other'' else r)"

definition event_groups :: "(string, 'e) dict \<Rightarrow> event_row list \<Rightarrow> (string, event_row list) dict" where
  "event_groups sel rows = map (\<lambda>(r, ts). (r, sort_key (\<lambda>t. if dict_has sel (er_key t) then 0 else 1 :: nat) ts))
     (grouped resource_group rows)"

definition connections_offered :: "string jsset option \<Rightarrow> string \<Rightarrow> in_connection list \<Rightarrow> in_connection list" where
  "connections_offered ids search cs = filter_connections search
     (case ids of None \<Rightarrow> cs | Some s \<Rightarrow> filter (\<lambda>c. ic_id c \<in> set s) cs)"

lemma map_of_mapped: "map_of (map (\<lambda>(k, v). (k, f v)) xs) k = map_option f (map_of xs k)"
  by (induction xs) auto

text \<open>Under its heading, every event of the resource, the chosen ones first.\<close>

lemma event_groups_get:
  "dict_get (event_groups sel rows) r = (if r \<in> resource_group ` set rows
     then Some (sort_key (\<lambda>t. if dict_has sel (er_key t) then 0 else 1 :: nat) (filter (\<lambda>t. resource_group t = r) rows)) else None)"
  using grouped_get [of resource_group rows r] by (simp add: event_groups_def map_of_mapped split: if_splits)

text \<open>Only a connection that the agent may use can be listened on, when the page names them.\<close>

lemma offered_selected: "c \<in> set (connections_offered (Some sel) search cs) \<Longrightarrow> ic_id c \<in> set sel"
  by (auto simp: connections_offered_def filter_connections_def Let_def split: if_splits)

section \<open>System prompts\<close>

definition prompt_providers :: "string list" where
  "prompt_providers = [''anthropic'', ''openai'', ''gemini'', ''glm'', ''kimi'', ''minimax'']"

record prompt_editor =
  pe_index :: nat
  pe_value :: "(string, string) dict"

definition prompt_left :: "prompt_editor \<Rightarrow> prompt_editor" where
  "prompt_left st = st\<lparr>pe_index := (pe_index st + (length prompt_providers - 1)) mod length prompt_providers\<rparr>"

definition prompt_right :: "prompt_editor \<Rightarrow> prompt_editor" where
  "prompt_right st = st\<lparr>pe_index := (pe_index st + 1) mod length prompt_providers\<rparr>"

definition prompt_change :: "string option \<Rightarrow> prompt_editor \<Rightarrow> prompt_editor" where
  "prompt_change s st = st\<lparr>pe_value := dict_set (prompt_providers ! pe_index st) (or_default [] s) (pe_value st)\<rparr>"

definition prompt_of :: "(string, string) dict \<Rightarrow> string \<Rightarrow> string" where
  "prompt_of v p = or_default [] (dict_get v p)"

definition filled_count :: "(string, string) dict \<Rightarrow> nat" where
  "filled_count v = length (filter (\<lambda>p. js_trim (prompt_of v p) \<noteq> []) prompt_providers)"

datatype prompt_event = PromptLeft | PromptRight | PromptDot nat | EditorText "string option"

definition prompt_step :: "prompt_editor \<Rightarrow> prompt_event \<Rightarrow> prompt_editor" where
  "prompt_step st e = (case e of
       PromptLeft \<Rightarrow> prompt_left st
     | PromptRight \<Rightarrow> prompt_right st
     | PromptDot i \<Rightarrow> if i < length prompt_providers then st\<lparr>pe_index := i\<rparr> else st
     | EditorText s \<Rightarrow> prompt_change s st)"

definition prompt_inv :: "prompt_editor \<Rightarrow> bool" where
  "prompt_inv st \<longleftrightarrow> pe_index st < length prompt_providers \<and> dict_ok (pe_value st)
     \<and> set (dict_keys (pe_value st)) \<subseteq> set prompt_providers"

lemma prompt_inv_step: "prompt_inv st \<Longrightarrow> prompt_inv (prompt_step st e)"
proof -
  assume inv: "prompt_inv st"
  have pos: "0 < length prompt_providers" by (simp add: prompt_providers_def)
  show ?thesis
  proof (cases e)
    case (EditorText s)
    let ?p = "prompt_providers ! pe_index st" and ?v = "or_default [] s"
    have "?p \<in> set prompt_providers" "set (dict_keys (pe_value st)) \<subseteq> set prompt_providers"
      using inv by (simp_all add: prompt_inv_def)
    then have "insert ?p (set (dict_keys (pe_value st))) \<subseteq> set prompt_providers" by simp
    moreover have "set (dict_keys (dict_set ?p ?v (pe_value st))) \<subseteq> insert ?p (set (dict_keys (pe_value st)))"
      using image_mono [OF set_dict_set, of fst ?p ?v "pe_value st"] by (simp add: dict_keys_def)
    ultimately have "set (dict_keys (dict_set ?p ?v (pe_value st))) \<subseteq> set prompt_providers" by (rule order_trans [rotated])
    then show ?thesis using inv EditorText
      by (simp add: prompt_inv_def prompt_step_def prompt_change_def dict_ok_set)
  qed (use inv pos in \<open>simp_all add: prompt_inv_def prompt_step_def prompt_left_def prompt_right_def\<close>)
qed

interpretation prompt_editor: event_machine prompt_step prompt_inv
  by unfold_locales (rule prompt_inv_step)

lemma filled_has_prompt:
  assumes "dict_ok v" "set (dict_keys v) \<subseteq> set prompt_providers"
  shows "0 < filled_count v \<longleftrightarrow> list_ex (\<lambda>p. js_trim p \<noteq> []) (map snd v)"
proof -
  have ex: "\<exists>p \<in> set prompt_providers. js_trim (prompt_of v p) \<noteq> []" if "(k, s) \<in> set v" "js_trim s \<noteq> []" for k s
  proof -
    have "prompt_of v k = s" using that(1) assms(1) by (simp add: prompt_of_def or_default_def dict_ok_def)
    moreover have "k \<in> set prompt_providers" using that(1) assms(2) by (force simp: dict_keys_def)
    ultimately show ?thesis using that(2) by blast
  qed
  have filled: "\<exists>s \<in> snd ` set v. js_trim s \<noteq> []" if "js_trim (prompt_of v p) \<noteq> []" for p
  proof (cases "dict_get v p")
    case None
    then show ?thesis using that by (simp add: prompt_of_def or_default_def js_trim_def trim_start_def trim_end_def)
  next
    case (Some s)
    then have "(p, s) \<in> set v" by (simp add: map_of_SomeD)
    then show ?thesis using that Some by (force simp: prompt_of_def or_default_def)
  qed
  have "0 < filled_count v \<longleftrightarrow> (\<exists>p \<in> set prompt_providers. js_trim (prompt_of v p) \<noteq> [])"
    by (simp add: filled_count_def filter_empty_conv)
  also have "\<dots> \<longleftrightarrow> (\<exists>s \<in> snd ` set v. js_trim s \<noteq> [])" using ex filled by force
  finally show ?thesis by (simp add: list_ex_iff)
qed

text \<open>
  The prompt editor: whatever is clicked and typed, the shown provider is one of the six,
  the counter never exceeds them, and it is zero exactly when the page holds the user back
  because no prompt is filled in.\<close>

theorem prompt_editor_bounds:
  "let st = foldl prompt_step \<lparr>pe_index = 0, pe_value = []\<rparr> es; v = default_values\<lparr>fv_prompts := pe_value st\<rparr> in
     pe_index st < 6 \<and> filled_count (pe_value st) \<le> 6 \<and> (0 < filled_count (pe_value st) \<longleftrightarrow> has_prompt v)"
proof -
  let ?st = "foldl prompt_step \<lparr>pe_index = 0, pe_value = []\<rparr> es"
  have "prompt_inv \<lparr>pe_index = 0, pe_value = []\<rparr>" by (simp add: prompt_inv_def prompt_providers_def dict_keys_def)
  then have inv: "prompt_inv ?st" by (rule prompt_editor.run_inv)
  have six: "length prompt_providers = 6" by (simp add: prompt_providers_def)
  have "filled_count (pe_value ?st) \<le> length prompt_providers" unfolding filled_count_def by (rule length_filter_le)
  moreover have "0 < filled_count (pe_value ?st) \<longleftrightarrow> list_ex (\<lambda>p. js_trim p \<noteq> []) (map snd (pe_value ?st))"
    using inv by (intro filled_has_prompt) (simp_all add: prompt_inv_def)
  ultimately show ?thesis using inv six by (simp add: Let_def prompt_inv_def has_prompt_def)
qed

lemma prompt_left_right:
  "pe_index st < length prompt_providers \<Longrightarrow> prompt_left (prompt_right st) = st \<and> prompt_right (prompt_left st) = st"
  by (simp add: prompt_left_def prompt_right_def mod_simps prompt_providers_def)

section \<open>The marketplace and the summary\<close>

record listing =
  ml_slug :: string
  ml_name :: string
  ml_description :: string
  ml_integrations :: "string list"

definition format_installs :: "nat \<Rightarrow> string" where
  "format_installs n = (if 1000 \<le> n
     then (if n mod 1000 = 0 then nat_digits (fixed_units 1000 1000 n) else with_decimal (fixed_units 100 1000 n)) @ ''k''
     else nat_digits n)"

definition filter_listings :: "string \<Rightarrow> listing list \<Rightarrow> listing list" where
  "filter_listings search ls = (let q = to_lower search in filter (\<lambda>l. js_includes q (to_lower (ml_name l))
     \<or> js_includes q (to_lower (ml_description l)) \<or> list_ex (\<lambda>i. js_includes q (to_lower i)) (ml_integrations l)) ls)"

definition missing_integrations :: "string set \<Rightarrow> listing \<Rightarrow> string list" where
  "missing_integrations available l = filter (\<lambda>i. i \<notin> available) (ml_integrations l)"

definition can_install :: "string set \<Rightarrow> listing \<Rightarrow> bool" where
  "can_install available l \<longleftrightarrow> missing_integrations available l = []"

lemma can_install_all: "can_install available l \<longleftrightarrow> set (ml_integrations l) \<subseteq> available"
  by (auto simp: can_install_def missing_integrations_def filter_empty_conv)

text \<open>Thousands are printed exactly.\<close>

lemma format_installs_thousands: "0 < k \<Longrightarrow> format_installs (1000 * k) = nat_digits k @ ''k''"
  by (simp add: format_installs_def fixed_units_def)

text \<open>The row of the summary: connections of the agent, actions chosen, actions there are.\<close>

definition summary_totals :: "create_state \<Rightarrow> (in_connection \<times> nat) list \<Rightarrow> nat \<times> nat \<times> nat" where
  "summary_totals st cs = (let chosen = filter (\<lambda>(c, _). ic_id c \<in> set (cs_integrations st)) cs in
     (length chosen, sum_list (map (\<lambda>(_, s). length s) (cs_actions st)), sum_list (map snd chosen)))"

text \<open>
  The chosen actions are counted over every entry, those of a connection that has
  since been removed at the backend included, so the row can read \<open>2/1 actions\<close>.
\<close>

lemma totals_count_removed:
  "summary_totals (toggle_action ''gone'' ''a'' (toggle_action ''c'' ''x'' (open_integration ''c''
     (open_integration ''gone'' (create_init None))))) [(\<lparr>ic_id = ''c'', ic_display = [], ic_provider = []\<rparr>, 1)] = (1, 2, 1)"
  by code_simp

text \<open>The dialog of the wizard is open as its owner says, or as it says itself without one.\<close>

definition dialog_open :: "bool option \<Rightarrow> bool \<Rightarrow> bool" where
  "dialog_open controlled internal = (case controlled of Some b \<Rightarrow> b | None \<Rightarrow> internal)"

definition dialog_change :: "bool option \<Rightarrow> bool \<Rightarrow> bool \<Rightarrow> bool \<times> bool list" where
  "dialog_change controlled next internal = (if controlled \<noteq> None then (internal, [next]) else (next, []))"

end
