(* ===== verification/EditPanel.thy ===== *)
theory EditPanel
  imports WizardPickers
begin

text \<open>
  The edit panel as a whole, \<open>edit-agent-panel/index.tsx\<close> with \<open>skills-section.tsx\<close> and the
  dialog \<open>manage-integrations-dialog.tsx\<close> that it opens: one machine over the state of
  \<open>EditAgent\<close> and the dialog state of \<open>AgentDialogs\<close>. The models a key offers are a parameter
  (an answer of the backend). The main result is that the panel never sends a model together
  with a key it was not chosen for.
\<close>

section \<open>Models of a key\<close>

text \<open>\<open>provider-model-combobox.tsx\<close>: the ids of the answer that are not empty; disabled without any.\<close>

definition model_ids :: "string option list \<Rightarrow> string list" where
  "model_ids items = filter (\<lambda>m. m \<noteq> []) (map (or_default []) items)"

definition combobox_disabled :: "bool \<Rightarrow> string option list \<Rightarrow> bool" where
  "combobox_disabled loading items \<longleftrightarrow> loading \<or> model_ids items = []"

definition combobox_label :: "bool \<Rightarrow> string \<Rightarrow> string" where
  "combobox_label loading selected = (if loading then ''Loading models...''
     else if selected \<noteq> [] then selected else ''Select a model...'')"

text \<open>A click on a key: another key drops the model.\<close>

definition choose_credential :: "string \<Rightarrow> edit_values \<Rightarrow> edit_values" where
  "choose_credential i v = (if ef_credential v \<noteq> i then v\<lparr>ef_model := []\<rparr> else v)\<lparr>ef_credential := i\<rparr>"

section \<open>The dialog of the integrations\<close>

text \<open>
  \<open>toggleAll\<close> of the dialog: as on the page of the wizard, the loop tests the selection of the
  render it was created in.
\<close>

definition manage_actions_of :: "manage_state \<Rightarrow> string \<Rightarrow> string jsset" where
  "manage_actions_of m i = or_default [] (dict_get (mi_actions m) i)"

definition manage_toggle_all :: "string \<Rightarrow> catalog_action list \<Rightarrow> manage_state \<Rightarrow> manage_state" where
  "manage_toggle_all i as m = (let sel = manage_actions_of m i; whole = all_actions_selected sel as in
     foldl (\<lambda>s a. if (ca_key a \<in> set sel) = whole then manage_toggle_action i (ca_key a) s else s) m as)"

datatype manage_event =
    OpenActions string | BackToList | RemoveConnection string | FlipAction string | FlipAll "catalog_action list"
  | SearchConnections string | SearchActions string

text \<open>The controls on the actions are those of the connection whose actions are open.\<close>

definition manage_step :: "manage_state \<Rightarrow> manage_event \<Rightarrow> manage_state" where
  "manage_step m e = (case mi_detail m of
       None \<Rightarrow> (case e of OpenActions i \<Rightarrow> open_detail i m | SearchConnections s \<Rightarrow> m\<lparr>mi_search := s\<rparr> | _ \<Rightarrow> m)
     | Some i \<Rightarrow> (case e of
           BackToList \<Rightarrow> close_detail m
         | RemoveConnection j \<Rightarrow> if j = i then manage_remove i m else m
         | FlipAction a \<Rightarrow> manage_toggle_action i a m
         | FlipAll as \<Rightarrow> manage_toggle_all i as m
         | SearchActions s \<Rightarrow> m\<lparr>mi_action_search := s\<rparr>
         | _ \<Rightarrow> m))"

definition manage_init :: manage_state where
  "manage_init = \<lparr>mi_selected = [], mi_actions = [], mi_search = [], mi_detail = None, mi_action_search = [], mi_direction = 1\<rparr>"

text \<open>
  The page of the wizard does the same with the wizard's state. \<open>page_step\<close> is that page as a
  machine over the same clicks, and the dialog refines it: what is selected, what is open and
  what is searched for correspond after every run.
\<close>

definition page_step :: "action_view \<Rightarrow> manage_event \<Rightarrow> action_view" where
  "page_step v e = (case av_detail v of
       None \<Rightarrow> (case e of OpenActions i \<Rightarrow> show_actions i v | SearchConnections s \<Rightarrow> v\<lparr>av_query := s\<rparr> | _ \<Rightarrow> v)
     | Some i \<Rightarrow> (case e of
           BackToList \<Rightarrow> hide_actions v
         | RemoveConnection j \<Rightarrow> if j = i then remove_shown i v else v
         | FlipAction a \<Rightarrow> v\<lparr>av_state := toggle_action i a (av_state v)\<rparr>
         | FlipAll as \<Rightarrow> v\<lparr>av_state := toggle_all i as (av_state v)\<rparr>
         | SearchActions s \<Rightarrow> v\<lparr>av_search := s\<rparr>
         | _ \<Rightarrow> v))"

definition as_create :: "manage_state \<Rightarrow> create_state" where
  "as_create m = (create_init None)\<lparr>cs_integrations := mi_selected m, cs_actions := mi_actions m\<rparr>"

definition as_page :: "manage_state \<Rightarrow> action_view" where
  "as_page m = \<lparr>av_state = as_create m, av_query = mi_search m, av_detail = mi_detail m, av_search = mi_action_search m\<rparr>"

lemma as_create_action: "as_create (manage_toggle_action i a m) = toggle_action i a (as_create m)"
  by (simp add: as_create_def manage_toggle_action_def toggle_action_def create_init_def)

lemma as_create_actions: "actions_of (as_create m) i = manage_actions_of m i"
  by (simp add: as_create_def actions_of_def manage_actions_of_def or_default_def)

lemma as_create_fold:
  "as_create (foldl (\<lambda>s a. if P (ca_key a) then manage_toggle_action i (ca_key a) s else s) m as)
   = foldl (\<lambda>s a. if P (ca_key a) then toggle_action i (ca_key a) s else s) (as_create m) as"
  by (induction as arbitrary: m) (simp_all add: as_create_action)

lemma as_create_all: "as_create (manage_toggle_all i as m) = toggle_all i as (as_create m)"
  unfolding manage_toggle_all_def toggle_all_def Let_def as_create_actions
  by (rule as_create_fold [of "\<lambda>k. (k \<in> set (manage_actions_of m i)) = all_actions_selected (manage_actions_of m i) as"])

lemma manage_fold_view:
  "let m' = foldl (\<lambda>s a. if P a then manage_toggle_action i (ca_key a) s else s) m as in
     mi_search m' = mi_search m \<and> mi_detail m' = mi_detail m \<and> mi_action_search m' = mi_action_search m"
  by (induction as arbitrary: m) (simp_all add: manage_toggle_action_def Let_def)

lemma manage_all_view [simp]:
  "mi_search (manage_toggle_all i as m) = mi_search m" "mi_detail (manage_toggle_all i as m) = mi_detail m"
  "mi_action_search (manage_toggle_all i as m) = mi_action_search m"
  using manage_fold_view [of "\<lambda>a. (ca_key a \<in> set (manage_actions_of m i)) = all_actions_selected (manage_actions_of m i) as" i m as]
  by (simp_all add: manage_toggle_all_def Let_def)

lemma as_page_open: "as_page (open_detail i m) = show_actions i (as_page m)"
  by (simp add: as_page_def as_create_def open_detail_def manage_toggle_def show_actions_def open_integration_def
      toggle_integration_def Let_def create_init_def)

lemma as_page_remove: "as_page (manage_remove i m) = remove_shown i (as_page m)"
  by (simp add: as_page_def as_create_def manage_remove_def close_detail_def manage_toggle_def remove_shown_def
      hide_actions_def drop_integration_def toggle_integration_def create_init_def)

lemma as_page_close: "as_page (close_detail m) = hide_actions (as_page m)"
  by (simp add: as_page_def as_create_def close_detail_def hide_actions_def)

lemma as_page_action: "as_page (manage_toggle_action i a m) = (as_page m)\<lparr>av_state := toggle_action i a (as_create m)\<rparr>"
  unfolding as_page_def as_create_action by (simp add: manage_toggle_action_def)

lemma as_page_all: "as_page (manage_toggle_all i as m) = (as_page m)\<lparr>av_state := toggle_all i as (as_create m)\<rparr>"
  by (simp add: as_page_def as_create_all)

lemma as_page_fields [simp]: "av_detail (as_page m) = mi_detail m" "av_state (as_page m) = as_create m"
  by (simp_all add: as_page_def)

lemma as_page_text: "as_page (m\<lparr>mi_search := s\<rparr>) = (as_page m)\<lparr>av_query := s\<rparr>"
  "as_page (m\<lparr>mi_action_search := s\<rparr>) = (as_page m)\<lparr>av_search := s\<rparr>"
  by (simp_all add: as_page_def as_create_def)

lemma manage_simulates: "as_page (manage_step m e) = page_step (as_page m) e"
  by (cases "mi_detail m"; cases e)
    (simp_all add: manage_step_def page_step_def as_page_open as_page_remove as_page_close as_page_action as_page_all as_page_text)

interpretation manage: refined_machine manage_step "\<lambda>_. True" as_page page_step
  by unfold_locales (simp_all add: manage_simulates)

text \<open>What the dialog saves is what the wizard sends for the same selection.\<close>

lemma map_dict_set: "map (\<lambda>(k, v). (k, f v)) (dict_set k v m) = dict_set k (f v) (map (\<lambda>(k, v). (k, f v)) m)"
  by (induction m) auto

lemma manage_save_payload:
  "map (\<lambda>(i, as). (i, actions_js as)) (manage_save m) = integrations_payload (mi_selected m) (mi_actions m)"
proof -
  have "map (\<lambda>(i, as). (i, actions_js as)) (foldl (\<lambda>d i. dict_set i (f i) d) d0 ids)
      = foldl (\<lambda>d i. dict_set i (actions_js (f i)) d) (map (\<lambda>(i, as). (i, actions_js as)) d0) ids"
    for f :: "string \<Rightarrow> string list" and ids d0
    by (induction ids arbitrary: d0) (simp_all add: map_dict_set)
  from this [of _ "[]"] show ?thesis
    by (simp add: manage_save_def integrations_payload_def actions_js_def)
qed

text \<open>
  C21. The dialog of an existing agent and the page of the wizard agree: after the same clicks
  from the same selection, the dialog saves exactly the integrations, each with exactly the
  actions in the same order, that the wizard would send.\<close>

theorem dialog_agrees_with_wizard:
  "map (\<lambda>(i, as). (i, actions_js as)) (manage_save (foldl manage_step m es))
   = (let st = av_state (foldl page_step (as_page m) es) in integrations_payload (cs_integrations st) (cs_actions st))"
proof -
  have "as_page (foldl manage_step m es) = foldl page_step (as_page m) es" by (rule manage.run_simulation) simp
  then have "av_state (foldl page_step (as_page m) es) = as_create (foldl manage_step m es)"
    by (metis as_page_fields(2))
  then show ?thesis by (simp add: manage_save_payload Let_def) (simp add: as_create_def)
qed

section \<open>The panel\<close>

record edit_panel =
  ep_agent :: "js option"
  ep_open :: bool
  ep_data :: edit_state
  ep_manage_open :: bool
  ep_manage :: manage_state
  ep_pending :: "string option"
  ep_calls :: "(string \<times> js) list"
  ep_toasts :: "string list"

definition blank_values :: edit_values where
  "blank_values = \<lparr>ef_name = [], ef_description = [], ef_credential = [], ef_model = [], ef_sandbox = ''shared'',
     ef_prompts = [], ef_instructions = [], ef_team = [], ef_shared_memory = False, ef_permissions = []\<rparr>"

definition edit_panel_init :: edit_panel where
  "edit_panel_init = \<lparr>ep_agent = None, ep_open = False,
     ep_data = \<lparr>es_form = blank_values, es_integrations = [], es_triggers = [], es_skills = []\<rparr>,
     ep_manage_open = False, ep_manage = manage_init, ep_pending = None, ep_calls = [], ep_toasts = []\<rparr>"

definition on_data :: "(edit_state \<Rightarrow> edit_state) \<Rightarrow> edit_panel \<Rightarrow> edit_panel" where
  "on_data f st = st\<lparr>ep_data := f (ep_data st)\<rparr>"

definition on_values :: "(edit_values \<Rightarrow> edit_values) \<Rightarrow> edit_panel \<Rightarrow> edit_panel" where
  "on_values f = on_data (\<lambda>d. d\<lparr>es_form := f (es_form d)\<rparr>)"

text \<open>The effect that loads the agent: on opening, and whenever the agent is another object.\<close>

definition panel_load :: "js \<Rightarrow> edit_panel \<Rightarrow> edit_panel" where
  "panel_load agent st = st\<lparr>ep_agent := Some agent, ep_data := load_agent agent\<rparr>"

definition save_agent :: "edit_panel \<Rightarrow> edit_panel" where
  "save_agent st = (case ep_agent st of
       None \<Rightarrow> st
     | Some agent \<Rightarrow> (case handle_save agent (ep_data st) of
         None \<Rightarrow> st
       | Some call \<Rightarrow> st\<lparr>ep_calls := ep_calls st @ [call], ep_pending := Some (ef_name (es_form (ep_data st)))\<rparr>))"

definition save_settled :: "js option \<Rightarrow> edit_panel \<Rightarrow> edit_panel" where
  "save_settled err st = (case ep_pending st of None \<Rightarrow> st | Some name \<Rightarrow> (case err of
       None \<Rightarrow> st\<lparr>ep_pending := None, ep_open := False,
         ep_toasts := ep_toasts st @ [''Agent '' @ [CHR 0x22] @ name @ [CHR 0x22] @ '' updated'']\<rparr>
     | Some e \<Rightarrow> st\<lparr>ep_pending := None, ep_toasts := ep_toasts st @ [extract_error_message e ''Failed to update agent'']\<rparr>))"

datatype edit_panel_event =
    OpenPanel js | ClosePanel | AgentRefetched js | EditName string | EditDescription string | EditInstructions string
  | EditTeam string | EditMemory bool | EditKey string | EditModel string | EditSandbox bool
  | EditPrompts "(string, string) dict" | EditDropIntegration string | ManageButton | ManageClick manage_event
  | ManageSave | ManageDismiss | EditAddTrigger trigger | EditRemoveTrigger nat | EditUpdateTrigger nat "trigger list"
  | EditSkill string | EditTool tool | SaveClick | SaveAnswered "js option"

text \<open>The controls of the panel, each as what it does to the data.\<close>

definition panel_control :: "(string \<Rightarrow> string option list) \<Rightarrow> edit_panel_event \<Rightarrow> edit_panel \<Rightarrow> edit_panel" where
  "panel_control models e st = (case e of
       EditName s \<Rightarrow> on_values (\<lambda>v. v\<lparr>ef_name := s\<rparr>) st
     | EditDescription s \<Rightarrow> on_values (\<lambda>v. v\<lparr>ef_description := s\<rparr>) st
     | EditInstructions s \<Rightarrow> on_values (\<lambda>v. v\<lparr>ef_instructions := s\<rparr>) st
     | EditTeam s \<Rightarrow> on_values (\<lambda>v. v\<lparr>ef_team := s\<rparr>) st
     | EditMemory b \<Rightarrow> on_values (\<lambda>v. v\<lparr>ef_shared_memory := b\<rparr>) st
     | EditKey i \<Rightarrow> on_values (choose_credential i) st
     | EditModel m \<Rightarrow> (let c = ef_credential (es_form (ep_data st)) in
         if c \<noteq> [] \<and> m \<in> set (model_ids (models c)) then on_values (\<lambda>v. v\<lparr>ef_model := m\<rparr>) st else st)
     | EditSandbox b \<Rightarrow> on_values (\<lambda>v. v\<lparr>ef_sandbox := (if b then ''dedicated'' else ''shared'')\<rparr>) st
     | EditPrompts p \<Rightarrow> on_values (\<lambda>v. v\<lparr>ef_prompts := p\<rparr>) st
     | EditTool t \<Rightarrow> on_values (\<lambda>v. v\<lparr>ef_permissions := click_tool t (ef_permissions v)\<rparr>) st
     | EditDropIntegration i \<Rightarrow> on_data (edit_remove_integration i) st
     | EditAddTrigger t \<Rightarrow> on_data (edit_add_trigger t) st
     | EditRemoveTrigger n \<Rightarrow> on_data (edit_remove_trigger n) st
     | EditUpdateTrigger n ts \<Rightarrow> on_data (edit_update_trigger n ts) st
     | EditSkill i \<Rightarrow> on_data (edit_toggle_skill i) st
     | _ \<Rightarrow> st)"

definition edit_panel_step :: "(string \<Rightarrow> string option list) \<Rightarrow> edit_panel \<Rightarrow> edit_panel_event \<Rightarrow> edit_panel" where
  "edit_panel_step models st e = (case e of
       OpenPanel agent \<Rightarrow> (panel_load agent st)\<lparr>ep_open := True\<rparr>
     | SaveAnswered err \<Rightarrow> save_settled err st
     | _ \<Rightarrow> if \<not> ep_open st then st else (case e of
         ClosePanel \<Rightarrow> st\<lparr>ep_open := False\<rparr>
       | AgentRefetched agent \<Rightarrow> panel_load agent st
       | ManageButton \<Rightarrow> st\<lparr>ep_manage_open := True, ep_manage := manage_open (es_integrations (ep_data st)) (ep_manage st)\<rparr>
       | ManageClick m \<Rightarrow> if ep_manage_open st then st\<lparr>ep_manage := manage_step (ep_manage st) m\<rparr> else st
       | ManageDismiss \<Rightarrow> st\<lparr>ep_manage_open := False\<rparr>
       | ManageSave \<Rightarrow> if ep_manage_open st
           then (on_data (\<lambda>d. d\<lparr>es_integrations := manage_save (ep_manage st)\<rparr>) st)\<lparr>ep_manage_open := False\<rparr> else st
       | SaveClick \<Rightarrow> if button_disabled None (ep_pending st \<noteq> None) then st else save_agent st
       | _ \<Rightarrow> panel_control models e st))"

section \<open>A model goes with its key\<close>

definition loaded_pair :: "js option \<Rightarrow> (string \<times> string) option" where
  "loaded_pair agent = map_option (\<lambda>a. (js_text (js_get a ''credential_id''), js_text (js_get a ''model''))) agent"

definition pair_ok :: "(string \<Rightarrow> string option list) \<Rightarrow> edit_panel \<Rightarrow> bool" where
  "pair_ok models st \<longleftrightarrow> (let v = es_form (ep_data st) in
     ef_model v = [] \<or> (ef_credential v \<noteq> [] \<and> ef_model v \<in> set (model_ids (models (ef_credential v))))
     \<or> loaded_pair (ep_agent st) = Some (ef_credential v, ef_model v))"

lemma on_data_fields [simp]:
  "ep_agent (on_data f st) = ep_agent st" "ep_data (on_data f st) = f (ep_data st)" "ep_calls (on_data f st) = ep_calls st"
  by (simp_all add: on_data_def)

lemma data_form [simp]:
  "es_form (edit_remove_integration i d) = es_form d" "es_form (edit_add_trigger t d) = es_form d"
  "es_form (edit_remove_trigger n d) = es_form d" "es_form (edit_update_trigger n ts d) = es_form d"
  "es_form (edit_toggle_skill s d) = es_form d"
  by (simp_all add: edit_remove_integration_def edit_add_trigger_def edit_remove_trigger_def edit_update_trigger_def
      edit_toggle_skill_def)

lemma pair_ok_load: "pair_ok models ((panel_load agent st)\<lparr>ep_open := b\<rparr>)" "pair_ok models (panel_load agent st)"
  by (simp_all add: pair_ok_def panel_load_def loaded_pair_def load_agent_def)

lemma pair_ok_control: "pair_ok models st \<Longrightarrow> pair_ok models (panel_control models e st)"
  by (cases e) (auto simp: panel_control_def pair_ok_def on_values_def choose_credential_def Let_def)

lemma save_agent_fields: "ep_data (save_agent st) = ep_data st" "ep_agent (save_agent st) = ep_agent st"
  by (simp_all add: save_agent_def split: option.split)

lemma save_settled_fields:
  "ep_data (save_settled err st) = ep_data st" "ep_agent (save_settled err st) = ep_agent st" "ep_calls (save_settled err st) = ep_calls st"
  by (simp_all add: save_settled_def split: option.split)

lemma pair_ok_step: "pair_ok models st \<Longrightarrow> pair_ok models (edit_panel_step models st e)"
proof -
  assume ok: "pair_ok models st"
  note control = pair_ok_control [OF ok, of e]
  show ?thesis
    using ok control
    by (cases e) (simp_all add: edit_panel_step_def pair_ok_load, simp_all add: pair_ok_def save_agent_fields save_settled_fields)
qed

interpretation edit_panel: event_machine "edit_panel_step models" "pair_ok models" for models
  by unfold_locales (rule pair_ok_step)

lemma control_calls: "ep_calls (panel_control models e st) = ep_calls st"
  by (cases e) (simp_all add: panel_control_def on_values_def Let_def)

lemma edit_panel_calls:
  assumes "ep_calls (edit_panel_step models st e) \<noteq> ep_calls st"
  shows "e = SaveClick \<and> ep_open st \<and> ep_pending st = None
    \<and> (\<exists>agent. ep_agent st = Some agent \<and> truthy (js_get agent ''id'')
      \<and> ep_calls (edit_panel_step models st e) = ep_calls st @ [(js_string (js_get agent ''id''), update_body (ep_data st))])"
proof (cases "e = SaveClick")
  case True
  then show ?thesis using assms
    by (auto simp: edit_panel_step_def save_agent_def handle_save_def button_disabled_def Let_def split: if_splits option.splits)
next
  case False
  then show ?thesis using assms control_calls [of models e st]
    by (cases e) (simp_all add: edit_panel_step_def save_settled_fields panel_load_def split: if_splits)
qed

text \<open>
  C20. The edit panel never sends a model with a key it does not go with: whatever was clicked
  before, a save is for the agent that is shown, one at a time, and its body has no model, or
  a model that its key offers, or the key and the model the agent came with.\<close>

theorem panel_model_fits_key:
  assumes "st = foldl (edit_panel_step models) edit_panel_init es"
    and "ep_calls (edit_panel_step models st e) \<noteq> ep_calls st"
  shows "\<exists>agent body. ep_open st \<and> ep_pending st = None \<and> ep_agent st = Some agent
    \<and> ep_calls (edit_panel_step models st e) = ep_calls st @ [(js_string (js_get agent ''id''), body)]
    \<and> (js_get body ''model'' = JUndefined
      \<or> (\<exists>c m. js_get body ''credential_id'' = JStr c \<and> js_get body ''model'' = JStr m \<and> m \<in> set (model_ids (models c)))
      \<or> (js_get body ''credential_id'' = optional_text (js_text (js_get agent ''credential_id''))
        \<and> js_get body ''model'' = optional_text (js_text (js_get agent ''model''))))"
proof -
  have "pair_ok models edit_panel_init" by (simp add: pair_ok_def edit_panel_init_def blank_values_def Let_def)
  then have ok: "pair_ok models st" unfolding assms(1) by (rule edit_panel.run_inv)
  let ?v = "es_form (ep_data st)"
  have body: "js_get (update_body (ep_data st)) ''credential_id'' = optional_text (ef_credential ?v)"
    "js_get (update_body (ep_data st)) ''model'' = optional_text (ef_model ?v)"
    by (simp_all add: update_body_def Let_def)
  show ?thesis
    using edit_panel_calls [OF assms(2)] ok body
    by (auto simp: pair_ok_def loaded_pair_def optional_text_def Let_def)
qed

definition demo_panel :: "edit_panel_event list" where
  "demo_panel = [OpenPanel (agent_js demo_agent), EditKey ''k2'', EditModel ''m2'']"

lemma demo_panel_saves:
  "ep_calls (edit_panel_step (\<lambda>_. [Some ''m2'']) (foldl (edit_panel_step (\<lambda>_. [Some ''m2''])) edit_panel_init demo_panel) SaveClick)
   \<noteq> ep_calls (foldl (edit_panel_step (\<lambda>_. [Some ''m2''])) edit_panel_init demo_panel)"
  by (simp add: demo_panel_def edit_panel_step_def panel_load_def save_agent_def handle_save_def panel_control_def on_values_def
      on_data_def edit_panel_init_def button_disabled_def Let_def agent_js_def demo_agent_def)

lemma panel_model_fits_key_witness:
  "\<exists>agent. ep_agent (foldl (edit_panel_step (\<lambda>_. [Some ''m2''])) edit_panel_init demo_panel) = Some agent"
  using panel_model_fits_key [OF refl demo_panel_saves] by blast

text \<open>
  Four observations. A blank name is saved as an empty one; a key without a model is saved with
  the model left as it was; when the agent is fetched again while the panel is open, what was
  edited is gone; and the answer to a save closes the panel although it has been opened for
  another agent meanwhile.
\<close>

lemma blank_name_saved: "js_get (update_body (d\<lparr>es_form := (es_form d)\<lparr>ef_name := '' ''\<rparr>\<rparr>)) ''name'' = JStr []"
  by (simp add: update_body_def Let_def js_trim_def trim_start_def trim_end_def is_space_def)

lemma key_without_model:
  "i \<noteq> ef_credential (es_form d) \<Longrightarrow> js_get (update_body (d\<lparr>es_form := choose_credential i (es_form d)\<rparr>)) ''model'' = JUndefined"
  by (simp add: update_body_def Let_def choose_credential_def optional_text_def)

lemma refetch_drops_edits:
  "ep_open st \<Longrightarrow> ep_data (edit_panel_step models st (AgentRefetched agent)) = load_agent agent"
  by (simp add: edit_panel_step_def panel_load_def)

lemma late_save_closes_other:
  "ep_pending st \<noteq> None \<Longrightarrow>
   \<not> ep_open (foldl (edit_panel_step models) st [ClosePanel, OpenPanel other, SaveAnswered None])"
  by (auto simp: edit_panel_step_def panel_load_def save_settled_def)

section \<open>Rows of the panel\<close>

definition plural :: "nat \<Rightarrow> string \<Rightarrow> string" where
  "plural n what = nat_digits n @ '' '' @ what @ (if n \<noteq> 1 then ''s'' else [])"

definition integration_rows :: "in_connection list \<Rightarrow> agent_integrations \<Rightarrow> (string \<times> string \<times> string) list" where
  "integration_rows conns ints = map (\<lambda>(i, as). (i,
     (case find (\<lambda>c. ic_id c = i) (rev conns) of None \<Rightarrow> i | Some c \<Rightarrow> ic_display c), plural (length as) ''action'' @ '' enabled'')) ints"

definition trigger_filters :: "trigger \<Rightarrow> string option" where
  "trigger_filters t = (case tg_conditions t of
       None \<Rightarrow> None
     | Some c \<Rightarrow> if cc_conditions c = [] then None else Some (plural (length (cc_conditions c)) ''filter''))"

text \<open>The rows are the integrations that a save sends, in the same order.\<close>

lemma integration_rows_ids: "map fst (integration_rows conns ints) = dict_keys ints"
  by (simp add: integration_rows_def dict_keys_def comp_def case_prod_unfold)

end
