(* ===== verification/WorkspacePages.thy ===== *)
theory WorkspacePages
  imports EditPanel
begin

text \<open>
  Operations of the workspace pages that belong to no larger component: the two states of the
  agents page around its wizard and its edit panel (\<open>agents/page.tsx\<close>), which connections the
  resources dialog offers (\<open>configure-resources-dialog.tsx\<close>), the search of the connections page,
  the copy button of a webhook address (\<open>connections-table.tsx\<close>), and the badges of skills and
  API keys.
\<close>

section \<open>The agents page\<close>

record agents_page =
  gl_agents :: "js list option"
  gl_create_open :: bool
  gl_create_mode :: "creation_mode option"
  gl_wizard :: "wizard option"
  gl_editing :: "js option"

definition agents_page_init :: agents_page where
  "agents_page_init = \<lparr>gl_agents = None, gl_create_open = False, gl_create_mode = None, gl_wizard = None, gl_editing = None\<rparr>"

datatype agents_view = AgentsLoading | AgentsNone | AgentsList

definition agents_view_of :: "agents_page \<Rightarrow> agents_view" where
  "agents_view_of st = (case gl_agents st of None \<Rightarrow> AgentsLoading | Some [] \<Rightarrow> AgentsNone | Some _ \<Rightarrow> AgentsList)"

text \<open>
  The dialog's content, and with it the wizard, is mounted when the dialog opens, or when the
  page that holds an open dialog comes back.
\<close>

definition mount_wizard :: "agents_page \<Rightarrow> agents_page" where
  "mount_wizard st = (if gl_create_open st \<and> gl_wizard st = None
     then st\<lparr>gl_wizard := Some (wizard_init (gl_create_mode st))\<rparr> else st)"

definition open_create_with :: "creation_mode \<Rightarrow> agents_page \<Rightarrow> agents_page" where
  "open_create_with m st = mount_wizard (st\<lparr>gl_create_mode := Some m, gl_create_open := True\<rparr>)"

definition create_open_change :: "bool \<Rightarrow> agents_page \<Rightarrow> agents_page" where
  "create_open_change b st = (if b then mount_wizard (st\<lparr>gl_create_open := True\<rparr>)
     else st\<lparr>gl_create_open := False, gl_create_mode := None, gl_wizard := None\<rparr>)"

definition edit_agent :: "js \<Rightarrow> agents_page \<Rightarrow> agents_page" where
  "edit_agent a st = st\<lparr>gl_editing := Some a\<rparr>"

definition edit_open_change :: "bool \<Rightarrow> agents_page \<Rightarrow> agents_page" where
  "edit_open_change b st = (if b then st else st\<lparr>gl_editing := None\<rparr>)"

datatype agents_page_event =
    Listed "js list" | CreateWith creation_mode | CreateDialog bool | Wizard wizard_event | EditClick js | EditDialog bool

text \<open>A wizard that has closed itself has called \<open>onClose\<close>.\<close>

definition wizard_click :: "wizard_event \<Rightarrow> agents_page \<Rightarrow> agents_page" where
  "wizard_click e st = (case gl_wizard st of
       None \<Rightarrow> st
     | Some w \<Rightarrow> (let w' = wizard_step w e in
         if wz_open w' then st\<lparr>gl_wizard := Some w'\<rparr> else create_open_change False st))"

definition agents_page_step :: "agents_page \<Rightarrow> agents_page_event \<Rightarrow> agents_page" where
  "agents_page_step st e = (case e of
       Listed as \<Rightarrow> (let st' = st\<lparr>gl_agents := Some as\<rparr> in
         if agents_view_of st' = AgentsNone then mount_wizard st' else st'\<lparr>gl_wizard := None\<rparr>)
     | CreateWith m \<Rightarrow> if agents_view_of st = AgentsNone \<and> gl_wizard st = None then open_create_with m st else st
     | CreateDialog b \<Rightarrow> if agents_view_of st = AgentsNone then create_open_change b st else st
     | Wizard e \<Rightarrow> wizard_click e st
     | EditClick a \<Rightarrow> if agents_view_of st = AgentsList then edit_agent a st else st
     | EditDialog b \<Rightarrow> if agents_view_of st = AgentsList then edit_open_change b st else st)"

text \<open>
  The wizard of the page is a run of the wizard that began on the chosen page, so its guarantees
  carry over: what it has submitted so far is complete.
\<close>

definition offered_page :: "string set \<Rightarrow> agents_page_event \<Rightarrow> bool" where
  "offered_page keys e = (case e of Wizard w \<Rightarrow> offered keys w | _ \<Rightarrow> True)"

definition agents_page_inv :: "string set \<Rightarrow> agents_page \<Rightarrow> bool" where
  "agents_page_inv keys st \<longleftrightarrow> (case gl_wizard st of None \<Rightarrow> True | Some w \<Rightarrow> wizard_inv keys w \<and> wz_open w)"

lemma agents_page_inv_mount: "agents_page_inv keys st \<Longrightarrow> agents_page_inv keys (mount_wizard st)"
  by (simp add: mount_wizard_def agents_page_inv_def wizard_inv_init) (simp add: wizard_init_def)

lemma agents_page_inv_fields [simp]:
  "agents_page_inv keys (st\<lparr>gl_create_mode := m, gl_create_open := b\<rparr>) = agents_page_inv keys st"
  "agents_page_inv keys (st\<lparr>gl_create_open := b\<rparr>) = agents_page_inv keys st"
  "agents_page_inv keys (st\<lparr>gl_agents := as\<rparr>) = agents_page_inv keys st"
  "agents_page_inv keys (st\<lparr>gl_editing := a\<rparr>) = agents_page_inv keys st"
  by (simp_all add: agents_page_inv_def)

lemma agents_page_inv_unmounted [simp]: "gl_wizard st = None \<Longrightarrow> agents_page_inv keys st"
  by (simp add: agents_page_inv_def)

lemma agents_page_inv_step:
  assumes "agents_page_inv keys st" "offered_page keys e"
  shows "agents_page_inv keys (agents_page_step st e)"
proof (cases e)
  case (Wizard w)
  show ?thesis
  proof (cases "gl_wizard st")
    case None
    then show ?thesis using Wizard by (simp add: agents_page_step_def wizard_click_def agents_page_inv_def)
  next
    case (Some v)
    have "wizard_inv keys (wizard_step v w)"
      using assms Some Wizard by (intro wizard_inv_step) (simp_all add: agents_page_inv_def offered_page_def)
    then show ?thesis using Wizard Some
      by (simp add: agents_page_step_def wizard_click_def agents_page_inv_def create_open_change_def Let_def)
  qed
qed (use assms(1) in \<open>simp_all add: agents_page_step_def open_create_with_def create_open_change_def edit_agent_def
    edit_open_change_def agents_page_inv_mount Let_def\<close>)

text \<open>
  The wizard opened from the empty page has only submitted complete agents, and begins where the
  clicked card says.
\<close>

theorem empty_page_wizard:
  assumes "list_all (offered_page keys) es" "gl_wizard (foldl agents_page_step agents_page_init es) = Some w"
  shows "list_all (body_complete keys) (wz_calls w)"
proof -
  have "agents_page_inv keys st \<Longrightarrow> agents_page_inv keys (foldl agents_page_step st es)" for st
    using assms(1) by (induction es arbitrary: st) (simp_all add: agents_page_inv_step)
  then have "agents_page_inv keys (foldl agents_page_step agents_page_init es)"
    by (simp add: agents_page_inv_def agents_page_init_def)
  then show ?thesis using assms(2) by (simp add: agents_page_inv_def wizard_inv_def)
qed

lemma empty_page_wizard_witness:
  "gl_wizard (foldl agents_page_step agents_page_init [Listed [], CreateWith Scratch]) = Some (wizard_init (Some Scratch))
   \<and> list_all (body_complete {}) (wz_calls (wizard_init (Some Scratch)))"
proof -
  have w: "gl_wizard (foldl agents_page_step agents_page_init [Listed [], CreateWith Scratch]) = Some (wizard_init (Some Scratch))"
    by (simp add: agents_page_step_def agents_page_init_def agents_view_of_def open_create_with_def mount_wizard_def Let_def)
  have "list_all (offered_page {}) [Listed [], CreateWith Scratch]" by (simp add: offered_page_def)
  from empty_page_wizard [OF this w] show ?thesis using w by simp
qed

text \<open>The list takes the place of the empty page when another agent appears, and the wizard with it.\<close>

lemma listing_drops_wizard: "gl_wizard (agents_page_step st (Listed (a # as))) = None"
  by (simp add: agents_page_step_def agents_view_of_def Let_def)

section \<open>Connections with resources\<close>

record resource_connection =
  rn_id :: "string option"
  rn_resources :: js

definition configurable_resources :: "resource_connection \<Rightarrow> js list" where
  "configurable_resources c = js_items (rn_resources c)"

text \<open>\<open>new Map\<close> keeps the last of two connections with one id.\<close>

definition connections_by_id :: "resource_connection list \<Rightarrow> string \<Rightarrow> resource_connection option" where
  "connections_by_id cs i = find (\<lambda>c. rn_id c = Some i) (rev (filter (\<lambda>c. present (rn_id c)) cs))"

definition configurable_connections :: "js \<Rightarrow> resource_connection list \<Rightarrow> resource_connection list" where
  "configurable_connections integrations cs =
     filter (\<lambda>c. configurable_resources c \<noteq> [])
       (List.map_filter (connections_by_id cs) (if truthy integrations \<and> is_object integrations then map fst (js_entries integrations) else []))"

lemma find_sound: "find P xs = Some x \<Longrightarrow> x \<in> set xs \<and> P x"
  by (induction xs) (auto split: if_splits)

lemma connections_by_id_Some: "connections_by_id cs i = Some c \<Longrightarrow> c \<in> set cs \<and> rn_id c = Some i"
  unfolding connections_by_id_def by (drule find_sound) simp

text \<open>Only connections that the agent uses, that exist and that have something to configure.\<close>

lemma configurable_sound:
  "c \<in> set (configurable_connections integrations cs) \<Longrightarrow>
   c \<in> set cs \<and> configurable_resources c \<noteq> [] \<and> (\<exists>i. rn_id c = Some i \<and> i \<in> fst ` set (js_entries integrations))"
proof -
  assume "c \<in> set (configurable_connections integrations cs)"
  then obtain p where p: "p \<in> set (js_entries integrations)" "connections_by_id cs (fst p) = Some c" "configurable_resources c \<noteq> []"
    by (auto simp: configurable_connections_def List.map_filter_def split: if_splits)
  then show ?thesis using connections_by_id_Some [of cs "fst p" c] by auto
qed

section \<open>Searching, copying, badges\<close>

text \<open>The dialogs and the pages of connections search alike.\<close>

definition connections_listed :: "string \<Rightarrow> in_connection list \<Rightarrow> in_connection list" where
  "connections_listed search cs = (if js_trim search = [] then cs
     else (let q = to_lower search in
       filter (\<lambda>c. js_includes q (to_lower (ic_display c)) \<or> js_includes q (to_lower (ic_provider c))) cs))"

lemma connections_listed_eq: "connections_listed = filter_connections"
  by (intro ext) (simp add: connections_listed_def filter_connections_def)

record copy_button =
  cb_copied :: bool
  cb_timers :: "nat list"
  cb_now :: nat
  cb_clipboard :: "string option"

definition copy_click :: "string \<Rightarrow> copy_button \<Rightarrow> copy_button" where
  "copy_click url st = st\<lparr>cb_clipboard := Some url, cb_copied := True, cb_timers := cb_timers st @ [cb_now st + 2000]\<rparr>"

definition copy_time :: "nat \<Rightarrow> copy_button \<Rightarrow> copy_button" where
  "copy_time t st = (let due = filter (\<lambda>d. d \<le> t) (cb_timers st) in
     st\<lparr>cb_now := t, cb_timers := filter (\<lambda>d. t < d) (cb_timers st), cb_copied := (if due = [] then cb_copied st else False)\<rparr>)"

lemma copied_shown: "t < cb_now st + 2000 \<Longrightarrow> cb_timers st = [] \<Longrightarrow> cb_copied (copy_time t (copy_click url st))"
  by (simp add: copy_time_def copy_click_def)

text \<open>The timer of the first click takes back the mark of the second.\<close>

lemma second_copy_cleared_early:
  "let st = copy_click u (copy_time 1900 (copy_click u \<lparr>cb_copied = False, cb_timers = [], cb_now = 0, cb_clipboard = None\<rparr>)) in
     cb_copied st \<and> \<not> cb_copied (copy_time 2000 st)"
  by (simp add: copy_click_def copy_time_def Let_def)

datatype hydration_badge = HydrationError string | HydrationPending | HydrationReady

definition hydration_badge_of :: "string option \<Rightarrow> string option \<Rightarrow> hydration_badge" where
  "hydration_badge_of status err = (let s = or_default ''pending'' status in
     if s = ''error'' then HydrationError (or_default ''Unknown error'' err)
     else if s = ''pending'' then HydrationPending else HydrationReady)"

datatype scope_badge = NoScopes | AllScopes | Scopes nat string

definition scope_badge_of :: "string list option \<Rightarrow> scope_badge" where
  "scope_badge_of scopes = (case scopes of
       None \<Rightarrow> NoScopes
     | Some ss \<Rightarrow> if ss = [] then NoScopes else if ss = [''all''] then AllScopes else Scopes (length ss) (js_join '', '' ss))"

text \<open>
  A key that has the full scope beside another is not marked as a full key: the badge counts two
  scopes (and the form makes such keys).
\<close>

lemma full_key_shown_as_two: "scope_badge_of (Some [''all'', ''agents'']) = Scopes 2 ''all, agents''"
  by code_simp

end
