(* ===== verification/SettingsViews.thy ===== *)
theory SettingsViews
  imports AdminDialogs WorkspacePages Settings
begin

text \<open>
  What the settings pages and the table of connections show, \<open>apps/web/app/w/settings/_components\<close>
  and \<open>apps/web/app/w/connections/_components/connections-table.tsx\<close>: the lists with their rows on
  a wide and on a narrow screen, the entries of the rows' menus, the dialogs that ask before an
  action, and the forms. A row is the object of the answer; the page of skills is a machine whose
  clicks are those that its list offers. The platform's formatting of a date is a parameter.
\<close>

section \<open>Lists\<close>

text \<open>
  A column is what stands in it from left to right. The offer of an empty list is the title, the
  text and whether its button works; each row has its key, its columns and its lines.
\<close>

datatype settings_rows =
    ListSkeletons nat
  | ListOffer string string "string \<times> string \<times> bool"
  | ListShown "string list" "(string \<times> cell list list \<times> cell list list) list"

definition settings_list ::
  "bool \<Rightarrow> string \<Rightarrow> string \<Rightarrow> string \<times> string \<times> bool \<Rightarrow> string list \<Rightarrow> (js \<Rightarrow> cell list list) \<Rightarrow> (js \<Rightarrow> cell list list) \<Rightarrow> js list \<Rightarrow> settings_rows" where
  "settings_list loading title hint offer heads wide narrow rows =
     (if loading then ListSkeletons 3
      else if rows = [] then ListOffer title hint offer
      else ListShown heads (map (\<lambda>r. (record_id r, wide r, narrow r)) rows))"

definition text_or_none :: "js \<Rightarrow> string \<Rightarrow> string" where
  "text_or_none r k = opt_or [] (text_at r k)"

text \<open>\<open>x ? formatDate(x) : "\<dots>"\<close> with a long dash.\<close>

definition day_or_dash :: "(string \<Rightarrow> string) \<Rightarrow> js \<Rightarrow> string \<Rightarrow> string" where
  "day_or_dash day r k = (if text_or_none r k = [] then long_dash else day (text_or_none r k))"

definition menu_of :: "string list \<Rightarrow> cell" where
  "menu_of items = Menu False [] items"

section \<open>Skills\<close>

definition skill_published :: "js \<Rightarrow> bool" where
  "skill_published r = is_published (text_at r ''public_skill_id'')"

definition skill_row_menu :: "js \<Rightarrow> string list" where
  "skill_row_menu r = [if skill_published r then ''Unpublish from marketplace'' else ''Publish to marketplace'', ''Archive'']"

definition skill_source :: "js \<Rightarrow> string" where
  "skill_source r = (if text_at r ''source_type'' = Some ''git'' then ''git'' else ''inline'')"

definition skill_label :: "js \<Rightarrow> cell list" where
  "skill_label r = [Mark (skill_source r), Text (text_or_none r ''name'')]
     @ (if skill_published r then [Mark ''Published to marketplace''] else [])
     @ (if text_or_none r ''description'' = [] then [] else [Text (text_or_none r ''description'')])"

definition skill_status :: "js \<Rightarrow> cell" where
  "skill_status r = (case hydration_badge_of (text_at r ''hydration_status'') (text_at r ''hydration_error'') of
       HydrationError e \<Rightarrow> Lines ''error'' e | HydrationPending \<Rightarrow> Mark ''pending'' | HydrationReady \<Rightarrow> Mark ''ready'')"

definition skill_wide :: "(string \<Rightarrow> string) \<Rightarrow> js \<Rightarrow> cell list list" where
  "skill_wide day r = [skill_label r, [Chip ''secondary'' (skill_source r)], [skill_status r],
     [Text (day_or_dash day r ''created_at'')], [menu_of (skill_row_menu r)]]"

definition skill_narrow :: "(string \<Rightarrow> string) \<Rightarrow> js \<Rightarrow> cell list list" where
  "skill_narrow day r = [skill_label r @ [menu_of (skill_row_menu r)],
     [Chip ''secondary'' (skill_source r), skill_status r, Text (day_or_dash day r ''created_at'')]]"

definition skills_view :: "(string \<Rightarrow> string) \<Rightarrow> bool \<Rightarrow> js list option \<Rightarrow> settings_rows" where
  "skills_view day loading data = settings_list loading ''No skills yet'' ''Create a skill to give your agents reusable capabilities.''
     (''Create a skill'', ''Write inline instructions or sync from a Git repository.'', True)
     [''Name'', ''Source'', ''Status'', ''Created'', []] (skill_wide day) (skill_narrow day) (answer_rows data)"

section \<open>API keys and provider keys\<close>

definition string_list :: "js \<Rightarrow> string list option" where
  "string_list v = (case v of JArr xs \<Rightarrow> Some (map js_string xs) | _ \<Rightarrow> None)"

definition scope_cell :: "js \<Rightarrow> cell" where
  "scope_cell r = (case scope_badge_of (string_list (js_get r ''scopes'')) of
       NoScopes \<Rightarrow> Text long_dash | AllScopes \<Rightarrow> Chip ''secondary'' ''all''
     | Scopes n all_scopes \<Rightarrow> Lines (nat_digits n @ '' scopes'') all_scopes)"

definition prefix_text :: "js \<Rightarrow> string" where
  "prefix_text r = (if text_or_none r ''key_prefix'' = [] then long_dash else text_or_none r ''key_prefix'' @ ''...'')"

definition api_key_menu :: "string list" where
  "api_key_menu = [''Deactivate'', ''Revoke'']"

definition api_key_wide :: "(string \<Rightarrow> string) \<Rightarrow> js \<Rightarrow> cell list list" where
  "api_key_wide day r = [[Text (text_or_none r ''name'')], [Text (prefix_text r)], [scope_cell r],
     [Text (day_or_dash day r ''created_at'')], [menu_of api_key_menu]]"

definition api_key_narrow :: "(string \<Rightarrow> string) \<Rightarrow> js \<Rightarrow> cell list list" where
  "api_key_narrow day r = [[Lines (text_or_none r ''name'') (prefix_text r), menu_of api_key_menu],
     [Text (day_or_dash day r ''created_at''), scope_cell r]]"

definition api_keys_view :: "(string \<Rightarrow> string) \<Rightarrow> bool \<Rightarrow> js list option \<Rightarrow> settings_rows" where
  "api_keys_view day loading data = settings_list loading ''No API keys yet'' ''Create a key to access the API programmatically.''
     (''Create API key'', ''Generate a key to authenticate requests to the Ziraloop API.'', True)
     [''Name'', ''Key'', ''Scopes'', ''Created'', []] (api_key_wide day) (api_key_narrow day) (answer_rows data)"

definition credential_menu :: "string list" where
  "credential_menu = [''Deactivate'', ''Delete'']"

definition credential_label :: "js \<Rightarrow> cell list" where
  "credential_label r = [Mark (text_or_none r ''provider_id''), Lines (text_or_none r ''label'') (text_or_none r ''provider_id'')]"

definition request_count :: "js \<Rightarrow> string" where
  "request_count r = nat_digits (opt_or 0 (figure_at r ''request_count''))"

definition credential_wide :: "(string \<Rightarrow> string) \<Rightarrow> js \<Rightarrow> cell list list" where
  "credential_wide day r = [credential_label r, [Text (request_count r)], [Text (day_or_dash day r ''last_used_at'')],
     [Text (day_or_dash day r ''created_at'')], [menu_of credential_menu]]"

definition credential_narrow :: "(string \<Rightarrow> string) \<Rightarrow> js \<Rightarrow> cell list list" where
  "credential_narrow day r = [credential_label r @ [menu_of credential_menu],
     [Text (request_count r @ '' requests''), Text (day_or_dash day r ''created_at'')]]"

definition llm_keys_view :: "(string \<Rightarrow> string) \<Rightarrow> bool \<Rightarrow> js list option \<Rightarrow> settings_rows" where
  "llm_keys_view day loading data = settings_list loading ''No LLM keys yet'' ''Add a provider key to start running agents.''
     (''Add LLM key'', ''Connect a provider like OpenAI or Anthropic to power your agents.'', True)
     [''Label'', ''Requests'', ''Last used'', ''Created'', []] (credential_wide day) (credential_narrow day) (answer_rows data)"

section \<open>Connections\<close>

definition connection_menu :: "string option \<Rightarrow> js \<Rightarrow> (string \<times> bool) list" where
  "connection_menu reconnecting r = [(''Settings'', False), (''Reconnect'', reconnecting \<noteq> None \<and> reconnecting = text_at r ''id''), (''Disconnect'', False)]"

definition connection_mark :: "js \<Rightarrow> cell" where
  "connection_mark r = (if js_get r ''webhook_configured'' = JBool False then Buttons [(''Manual webhook configuration required'', False)]
     else Mark ''connected'')"

definition connection_label :: "js \<Rightarrow> cell list" where
  "connection_label r = [Mark (text_or_none r ''provider''), Text (text_or_none r ''display_name'')]"

definition connection_wide :: "(string \<Rightarrow> string) \<Rightarrow> string option \<Rightarrow> js \<Rightarrow> cell list list" where
  "connection_wide day reconnecting r = [connection_label r, [Text ''0''], [Text (day_or_dash day r ''created_at'')],
     [connection_mark r], [Buttons (connection_menu reconnecting r)]]"

definition connection_narrow :: "(string \<Rightarrow> string) \<Rightarrow> string option \<Rightarrow> js \<Rightarrow> cell list list" where
  "connection_narrow day reconnecting r = [connection_label r @ [connection_mark r],
     [Text ''0 agents'', Text (day_or_dash day r ''created_at''), Buttons (connection_menu reconnecting r)]]"

definition connections_view :: "(string \<Rightarrow> string) \<Rightarrow> string option \<Rightarrow> js list \<Rightarrow> settings_rows" where
  "connections_view day reconnecting rows = (if rows = [] then ListOffer ''No connections found'' [] ([], [], False)
     else ListShown [''Provider'', ''Agents'', ''Connected'', [], []]
       (map (\<lambda>r. (record_id r, connection_wide day reconnecting r, connection_narrow day reconnecting r)) rows))"

section \<open>Dialogs that ask\<close>

text \<open>\<open>ConfirmDialog\<close>: the text to type if there is one, with what is typed, and the button.\<close>

record confirm_view =
  cw_title :: string
  cw_description :: string
  cw_prompt :: "(string \<times> string) option"
  cw_button :: string
  cw_destructive :: bool
  cw_disabled :: bool

definition confirm_dialog :: "string \<Rightarrow> string \<Rightarrow> string option \<Rightarrow> string \<Rightarrow> bool \<Rightarrow> bool \<Rightarrow> confirm_state \<Rightarrow> confirm_view" where
  "confirm_dialog title description word button destructive loading st =
     \<lparr>cw_title = title, cw_description = description,
      cw_prompt = (if opt_or [] word = [] then None else Some (opt_or [] word, cd_typed st)),
      cw_button = button, cw_destructive = destructive, cw_disabled = confirm_disabled word loading st\<rparr>"

definition archive_dialog :: "bool \<Rightarrow> confirm_state \<Rightarrow> row option \<Rightarrow> confirm_view option" where
  "archive_dialog loading c target = map_option (\<lambda>r. confirm_dialog ''Archive skill''
     (''This will archive '' @ quoted (rw_name r) @ ''. Agents using this skill will no longer be able to invoke it.'')
     (Some ''archive'') ''Archive skill'' True loading c) target"

definition publish_dialog :: "bool \<Rightarrow> confirm_state \<Rightarrow> row option \<Rightarrow> confirm_view option" where
  "publish_dialog loading c target = map_option (\<lambda>r. confirm_dialog ''Publish to marketplace''
     (''This will make '' @ quoted (rw_name r) @ '' publicly available in the marketplace. Other users will be able to discover and install it.'')
     None ''Publish'' False loading c) target"

definition unpublish_dialog :: "bool \<Rightarrow> confirm_state \<Rightarrow> row option \<Rightarrow> confirm_view option" where
  "unpublish_dialog loading c target = map_option (\<lambda>r. confirm_dialog ''Unpublish from marketplace''
     (''This will remove '' @ quoted (rw_name r) @ '' from the public marketplace. Agents that already have it installed will no longer receive updates.'')
     None ''Unpublish'' True loading c) target"

definition revoke_dialog :: "bool \<Rightarrow> confirm_state \<Rightarrow> row option \<Rightarrow> confirm_view option" where
  "revoke_dialog loading c target = map_option (\<lambda>r. confirm_dialog ''Revoke API key''
     (''This will permanently revoke '' @ quoted (rw_name r) @ ''. Any requests using this key will be rejected immediately.'')
     (Some ''delete'') ''Revoke key'' True loading c) target"

definition delete_key_dialog :: "bool \<Rightarrow> confirm_state \<Rightarrow> row option \<Rightarrow> confirm_view option" where
  "delete_key_dialog loading c target = map_option (\<lambda>r. confirm_dialog ''Delete LLM key''
     (''This will permanently delete '' @ quoted (rw_name r) @ '' and any agents using it will no longer be able to make LLM calls.'')
     (Some ''delete'') ''Delete key'' True loading c) target"

definition disconnect_dialog :: "bool \<Rightarrow> confirm_state \<Rightarrow> connection_row option \<Rightarrow> confirm_view option" where
  "disconnect_dialog loading c target = map_option (\<lambda>r. confirm_dialog ''Disconnect integration''
     (''Are you sure you want to disconnect '' @ opt_or ''this integration'' (cr_name r) @ ''? Agents using this connection will lose access immediately.'')
     None ''Disconnect'' True loading c) target"

definition delete_template_dialog :: "bool \<Rightarrow> confirm_state \<Rightarrow> (string option \<times> string) option \<Rightarrow> confirm_view option" where
  "delete_template_dialog loading c target = map_option (\<lambda>(i, n). confirm_dialog ''Delete sandbox template''
     (''This will permanently delete '' @ quoted n @ '' and all its data. This action cannot be undone.'')
     (Some n) ''Delete'' True loading c) target"

text \<open>The dialog that shows where an integration has to send its events.\<close>

record webhook_view =
  wv_provider :: string
  wv_description :: string
  wv_url :: string
  wv_copy :: string
  wv_steps :: "string list"
  wv_button :: "string \<times> bool"

definition right_arrow :: string where
  "right_arrow = [CHR 0xE2, CHR 0x86, CHR 0x92]"

definition webhook_dialog :: "string \<Rightarrow> bool \<Rightarrow> bool \<Rightarrow> connection_row option \<Rightarrow> webhook_view option" where
  "webhook_dialog base copied loading target = map_option (\<lambda>r. (let name = opt_or [] (cr_name r) in
     \<lparr>wv_provider = cr_provider r,
      wv_description = name @ '' requires a webhook URL to be configured manually in the provider dashboard.'',
      wv_url = webhook_url base r, wv_copy = (if copied then ''Copied'' else ''Copy''),
      wv_steps = [''Open your '' @ name @ '' project dashboard'', ''Go to Settings '' @ right_arrow @ '' Webhooks'', ''Paste the webhook URL shown above'', ''Click Save''],
      wv_button = (if loading then ''Saving...'' else ''I have configured the webhook'', loading)\<rparr>)) target"

section \<open>Forms\<close>

fun source_value :: "source_type \<Rightarrow> string" where
  "source_value Inline = ''inline''" | "source_value Git = ''git''"

definition skill_tabs :: "skill_form form_control" where
  "skill_tabs = select_control [] [(''inline'', ''Inline''), (''git'', ''Git'')] (\<lambda>f. source_value (kf_source f))
     (\<lambda>s f. f\<lparr>kf_source := (if s = ''git'' then Git else Inline)\<rparr>)"

definition inline_controls :: "skill_form form_control list" where
  "inline_controls = [text_control ''Name'' kf_name (\<lambda>s f. f\<lparr>kf_name := s\<rparr>),
     text_control ''Description'' kf_description (\<lambda>s f. f\<lparr>kf_description := s\<rparr>)]"

definition git_controls :: "skill_form form_control list" where
  "git_controls = [text_control ''Name'' kf_name (\<lambda>s f. f\<lparr>kf_name := s\<rparr>),
     text_control ''Description'' kf_description (\<lambda>s f. f\<lparr>kf_description := s\<rparr>),
     text_control ''Repository URL'' kf_repo_url (\<lambda>s f. f\<lparr>kf_repo_url := s\<rparr>),
     text_control ''Subpath'' kf_repo_subpath (\<lambda>s f. f\<lparr>kf_repo_subpath := s\<rparr>),
     text_control ''Ref'' kf_repo_ref (\<lambda>s f. f\<lparr>kf_repo_ref := s\<rparr>)]"

definition own_skill_controls :: "skill_form \<Rightarrow> skill_form form_control list" where
  "own_skill_controls f = skill_tabs # (if kf_source f = Git then git_controls else inline_controls)"

definition skill_form_view :: "skill_dialog \<Rightarrow> form_view option" where
  "skill_form_view st = (if \<not> sd_open st then None else Some
     \<lparr>fv_title = ''Create skill'', fv_description = [], fv_fields = fields_of (own_skill_controls (sd_form st)) (sd_form st),
      fv_error = None, fv_button = ''Create skill'',
      fv_disabled = button_disabled (Some (js_trim (kf_name (sd_form st)) = [])) (sd_pending st)\<rparr>)"

definition scope_texts :: "(string \<times> string \<times> string) list" where
  "scope_texts = [(''all'', ''All'', ''Full access to every resource''), (''agents'', ''Agents'', ''Create, update, and run agents''),
     (''credentials'', ''Credentials'', ''Manage LLM provider keys''), (''connect'', ''Connect'', ''Manage OAuth connections''),
     (''integrations'', ''Integrations'', ''Configure third-party integrations''), (''tokens'', ''Tokens'', ''Issue and revoke tokens'')]"

lemma scope_ids: "map fst scope_texts = api_key_scopes"
  by (simp add: scope_texts_def api_key_scopes_def)

datatype key_view =
    KeyShown string string
  | KeyAsked string string "(string \<times> string \<times> string \<times> bool) list" bool

definition scope_cards :: "key_form \<Rightarrow> (string \<times> string \<times> string \<times> bool) list" where
  "scope_cards st = map (\<lambda>(i, l, d). (i, l, d, i \<in> set (ak_scopes st))) scope_texts"

definition new_key_view :: "key_form \<Rightarrow> key_view option" where
  "new_key_view st = (if \<not> ak_open st then None else Some (case ak_created st of
       Some k \<Rightarrow> KeyShown ''API key created'' k
     | None \<Rightarrow> KeyAsked ''Create API key'' (ak_name st) (scope_cards st)
         (button_disabled (Some (js_trim (ak_name st) = [] \<or> ak_scopes st = [])) (ak_pending st))))"

text \<open>The cards that are highlighted are the scopes that are sent: none is chosen and not shown.\<close>

definition highlighted :: "key_form \<Rightarrow> string set" where
  "highlighted st = set (map fst (filter (\<lambda>(i, l, d, b). b) (scope_cards st)))"

lemma highlighted_scopes: "highlighted st = set api_key_scopes \<inter> set (ak_scopes st)"
proof -
  have "map fst (filter (\<lambda>(i, l, d, b). b) (map (\<lambda>(i, l, d). (i, l, d, i \<in> S)) xs)) = filter (\<lambda>i. i \<in> S) (map fst xs)"
    for S and xs :: "(string \<times> string \<times> string) list"
    by (induction xs) (simp_all split: prod.split)
  then show ?thesis
    by (auto simp: highlighted_def scope_cards_def scope_ids)
qed

lemma highlighted_sent: "key_inv st \<Longrightarrow> highlighted st = set (ak_scopes st)"
  by (auto simp: highlighted_scopes key_inv_def)

section \<open>Sandbox templates\<close>

text \<open>
  Nothing can be built or deleted of a public template; a build is not repeated once ready. The
  list has no headings, and its rows are the same on every screen.
\<close>

definition template_tags :: "js \<Rightarrow> string list" where
  "template_tags r = (case js_get r ''tags'' of JArr ts \<Rightarrow> map js_string ts | _ \<Rightarrow> [])"

definition template_buttons :: "bool \<Rightarrow> js \<Rightarrow> (string \<times> bool) list" where
  "template_buttons building r = (if is_public_template r \<or> text_at r ''build_status'' = Some ''ready'' then []
     else [(''Build'', button_disabled (Some (text_at r ''build_status'' = Some ''building'')) building)])"

definition template_menu :: "js \<Rightarrow> string list" where
  "template_menu r = (if is_public_template r then [] else [''Delete''])"

definition template_wide :: "bool \<Rightarrow> js \<Rightarrow> cell list list" where
  "template_wide building r =
     [[Text (text_or_none r ''name''), Mark (status_badge (text_at r ''build_status''))]
        @ (if is_public_template r then [Chip ''secondary'' ''Public''] else []) @ map Text (template_tags r),
      [Buttons (template_buttons building r), menu_of (template_menu r)]]"

datatype templates_page =
    TemplatesLoading nat
  | TemplatesPage "string \<times> bool" settings_rows

definition templates_view :: "bool \<Rightarrow> bool \<Rightarrow> js list option \<Rightarrow> templates_page" where
  "templates_view loading building data = (if loading then TemplatesLoading 3
     else TemplatesPage (''New Template'', True)
       (settings_list False ''No sandbox templates yet'' ''Create a template to define custom sandbox environments for your agents.''
          (''Create template'', ''Define a custom environment with build commands and dependencies.'', False) []
          (template_wide building) (template_wide building) (answer_rows data)))"

text \<open>The dialog in which a template is made and built.\<close>

datatype build_body =
    BuildForm "(string \<times> string) list option" "string option" "(string \<times> bool) list"
  | BuildProgress string string bool "string option" string

record build_view =
  bv_title :: string
  bv_description :: string
  bv_body :: build_body
  bv_buttons :: "(string \<times> bool) list"

definition base_options :: "js list \<Rightarrow> (string \<times> string) list" where
  "base_options public = ([], ''None (default base image)'')
     # map (\<lambda>r. (record_id r, text_or_none r ''name'' @ '' ('' @ text_or_none r ''size'' @ '')'')) public"

definition build_form :: "js list \<Rightarrow> build_state \<Rightarrow> build_body" where
  "build_form public st = BuildForm (if bl_retrying st \<or> public = [] then None else Some (base_options public))
     (if bl_retrying st then None else Some (bl_name st))
     (map (\<lambda>c. (c, 1 < length (bl_commands st))) (bl_commands st))"

definition build_progress :: "bool \<Rightarrow> string option \<Rightarrow> build_state \<Rightarrow> build_body" where
  "build_progress loading err st = BuildProgress (bl_name st) (status_badge (map_option tm_status (current_template st))) loading
     (if map_option tm_status (current_template st) = Some ''failed'' \<and> opt_or [] err \<noteq> [] then err else None)
     (if build_logs st = [] then ''# Waiting for logs...'' @ [CHR 0x0A] else js_join [CHR 0x0A] (build_logs st))"

definition build_buttons :: "build_state \<Rightarrow> (string \<times> bool) list" where
  "build_buttons st = (if \<not> bl_building st
     then (if bl_retrying st
       then [(''Cancel'', False), (''Retry Build'', button_disabled (Some (bl_retry_pending st)) (bl_retry_pending st))]
       else [(''Cancel'', False), (''Create & Build'', button_disabled (Some (bl_triggering st)) (bl_triggering st))])
     else (if retry_offered st then [(''Retry'', False)] else [])
       @ [(''Close'', map_option tm_status (current_template st) = Some ''building'')])"

definition build_view_of :: "js list \<Rightarrow> bool \<Rightarrow> string option \<Rightarrow> build_state \<Rightarrow> build_view" where
  "build_view_of public loading err st =
     \<lparr>bv_title = (if bl_building st then ''Building Sandbox Template'' else ''Create Sandbox Template''),
      bv_description = (if bl_building st then ''Your template is being built. Watch the logs below.''
        else ''Create a custom sandbox template with your own build commands.''),
      bv_body = (if bl_building st then build_progress loading err st else build_form public st),
      bv_buttons = build_buttons st\<rparr>"

text \<open>
  A click on a button of the dialog is one of its events; a button that is not shown or is
  disabled would be ignored. No button closes a build under way.
\<close>

definition button_event :: "build_state \<Rightarrow> string \<Rightarrow> build_event" where
  "button_event st b = (if b = ''Create & Build'' then CreateClick else if b = ''Retry Build'' then RetryBuildClick
     else if b = ''Retry'' then RetryClick else if b = ''Cancel'' \<and> bl_retrying st then CancelRetry else CloseClick)"

lemma build_buttons_enabled:
  "(''Create & Build'', False) \<in> set (build_buttons st) \<longleftrightarrow> \<not> bl_building st \<and> \<not> bl_retrying st \<and> \<not> bl_triggering st"
  "(''Retry Build'', False) \<in> set (build_buttons st) \<longleftrightarrow> \<not> bl_building st \<and> bl_retrying st \<and> \<not> bl_retry_pending st"
  "(''Retry'', d) \<in> set (build_buttons st) \<longleftrightarrow> bl_building st \<and> retry_offered st \<and> \<not> d"
  "(''Cancel'', d) \<in> set (build_buttons st) \<longleftrightarrow> \<not> bl_building st \<and> \<not> d"
  "(''Close'', False) \<in> set (build_buttons st) \<longleftrightarrow> bl_building st \<and> map_option tm_status (current_template st) \<noteq> Some ''building''"
  by (auto simp: build_buttons_def button_disabled_def)

lemma disabled_buttons_ignored:
  assumes "(''Create & Build'', False) \<notin> set (build_buttons st)"
  shows "build_step st CreateClick = success_effect st"
  using assms by (auto simp: build_buttons_enabled build_step_def button_disabled_def)

lemma hidden_retry_ignored:
  assumes "(''Retry'', False) \<notin> set (build_buttons st)"
  shows "build_step st RetryClick = success_effect st"
  using assms by (auto simp: build_buttons_enabled build_step_def)

text \<open>
  A failed retry leaves the form of a new template in the place of the failed build: the template
  is kept in the state, but no button leads back to it.
\<close>

lemma failed_retry_shows_new_form:
  assumes "bl_retry_pending st" "\<not> bl_building st"
  shows "''Create & Build'' \<in> fst ` set (build_buttons (build_step st (RetrySettled (Some e))))
    \<and> ''Retry Build'' \<notin> fst ` set (build_buttons (build_step st (RetrySettled (Some e))))
    \<and> bl_template_id (build_step st (RetrySettled (Some e))) = bl_template_id st"
  using assms by (simp add: build_step_def retry_settled_def build_buttons_def success_effect_def current_template_def)

section \<open>The triggers of an agent\<close>

definition filter_note :: "trigger \<Rightarrow> string option" where
  "filter_note t = (case tg_conditions t of
       None \<Rightarrow> None
     | Some c \<Rightarrow> if cc_conditions c = [] then None
         else Some (nat_digits (length (cc_conditions c)) @ '' filter'' @ (if length (cc_conditions c) = 1 then [] else ''s'')
           @ '' ('' @ (case cc_mode c of All \<Rightarrow> ''all'' | Any \<Rightarrow> ''any'') @ '')''))"

definition trigger_row :: "trigger \<Rightarrow> cell list" where
  "trigger_row t = [Mark (tg_provider t), Text (tg_connection_name t), Chips (map (\<lambda>n. (''secondary'', n)) (tg_names t))]
     @ (case filter_note t of None \<Rightarrow> [] | Some n \<Rightarrow> [Text n]) @ [Buttons [(''Edit'', False), (''Remove'', False)]]"

datatype trigger_list = NoTriggers string | TriggerRows "(string \<times> cell list) list"

definition trigger_list_view :: "trigger list \<Rightarrow> trigger_list" where
  "trigger_list_view ts = (if ts = []
     then NoTriggers ''No triggers configured. Add one to invoke this agent automatically on webhook events.''
     else TriggerRows (map (\<lambda>(i, t). (tg_connection t @ ''-'' @ nat_digits i, trigger_row t)) (enumerate 0 ts)))"

text \<open>What the dialog that edits triggers shows: its picture is blank where a view lacks its data.\<close>

datatype dialog_picture =
    TriggerList trigger_list | PickConnection string | PickTriggers connection | BuildConditions string string "(string, string) dict"
  | NothingShown

definition configuring_event :: "picker \<Rightarrow> selected_event option" where
  "configuring_event st = (case pk_configuring st of
       None \<Rightarrow> None | Some k \<Rightarrow> if k = [] then None else dict_get (pk_events st) k)"

definition trigger_content :: "trigger list \<Rightarrow> picker \<Rightarrow> dialog_picture" where
  "trigger_content ts st = (case pk_view st of
       ListView \<Rightarrow> TriggerList (trigger_list_view ts)
     | ConnectionsView \<Rightarrow> PickConnection (pk_search st)
     | TriggersView \<Rightarrow> (case pk_connection st of None \<Rightarrow> NothingShown | Some c \<Rightarrow> PickTriggers c)
     | ConditionsView \<Rightarrow> (case configuring_event st of
         None \<Rightarrow> NothingShown
       | Some e \<Rightarrow> BuildConditions (case pk_connection st of None \<Rightarrow> [] | Some c \<Rightarrow> cn_provider c) (se_name e) (se_refs e))
     | ChoiceView \<Rightarrow> NothingShown)"

section \<open>The page of skills\<close>

text \<open>
  The page with its list, its menus and its dialogs. A click in a row also reaches the row's own
  handler, which opens the details, unless the menu's library stops it: \<open>bubbles\<close> says whether
  it does not. The code itself stops no event here.
\<close>

record skills_page =
  sp_state :: skills_state
  sp_loading :: bool
  sp_data :: "js list option"
  sp_create :: bool
  sp_viewing :: "js option"
  sp_typed :: confirm_state

definition skills_page_init :: skills_page where
  "skills_page_init = \<lparr>sp_state = skills_init, sp_loading = True, sp_data = None, sp_create = False, sp_viewing = None,
     sp_typed = \<lparr>cd_typed = []\<rparr>\<rparr>"

datatype skills_click =
    SkillRow js | SkillMenu js string | AddSkill | OfferSkill | CreateChanged bool | CloseViewed | TypeArchive string
  | SkillDialog skill_event | SkillAnswer nat "js option" | SkillsFetched "js list option"

definition skill_target :: "js \<Rightarrow> row" where
  "skill_target r = \<lparr>rw_id = text_at r ''id'', rw_name = text_or_none r ''name''\<rparr>"

definition skill_menu_event :: "js \<Rightarrow> string \<Rightarrow> skill_event" where
  "skill_menu_event r l = (if l = ''Archive'' then AskDelete (skill_target r)
     else if skill_published r then AskUnpublish (skill_target r) else AskPublish (skill_target r))"

definition rows_shown :: "skills_page \<Rightarrow> js list" where
  "rows_shown st = (if sp_loading st then [] else answer_rows (sp_data st))"

definition archive_pending :: "skills_page \<Rightarrow> bool" where
  "archive_pending st = list_ex (\<lambda>(c, r). archived c \<noteq> None) (ss_pending (sp_state st))"

definition run_skill_event :: "skill_event \<Rightarrow> skills_page \<Rightarrow> skills_page" where
  "run_skill_event e st = st\<lparr>sp_state := skill_step (sp_state st) e\<rparr>"

definition skill_dialog_click :: "skill_event \<Rightarrow> skills_page \<Rightarrow> skills_page" where
  "skill_dialog_click e st = (case e of
       ConfirmDelete \<Rightarrow> if ss_deleting (sp_state st) = None \<or> confirm_disabled (Some ''archive'') (archive_pending st) (sp_typed st)
         then st else run_skill_event e st
     | CancelDelete \<Rightarrow> (run_skill_event e st)\<lparr>sp_typed := confirm_open_change False (sp_typed st)\<rparr>
     | ConfirmPublish \<Rightarrow> run_skill_event e st | ConfirmUnpublish \<Rightarrow> run_skill_event e st | CancelPublish \<Rightarrow> run_skill_event e st | CancelUnpublish \<Rightarrow> run_skill_event e st
     | _ \<Rightarrow> st)"

definition skills_page_step :: "bool \<Rightarrow> skills_page \<Rightarrow> skills_click \<Rightarrow> skills_page" where
  "skills_page_step bubbles st e = (case e of
       SkillRow r \<Rightarrow> if r \<in> set (rows_shown st) then st\<lparr>sp_viewing := Some r\<rparr> else st
     | SkillMenu r l \<Rightarrow> if r \<in> set (rows_shown st) \<and> l \<in> set (skill_row_menu r)
         then (run_skill_event (skill_menu_event r l) st)\<lparr>sp_viewing := (if bubbles then Some r else sp_viewing st)\<rparr> else st
     | AddSkill \<Rightarrow> st\<lparr>sp_create := True\<rparr>
     | OfferSkill \<Rightarrow> if \<not> sp_loading st \<and> rows_shown st = [] then st\<lparr>sp_create := True\<rparr> else st
     | CreateChanged b \<Rightarrow> st\<lparr>sp_create := b\<rparr>
     | CloseViewed \<Rightarrow> st\<lparr>sp_viewing := None\<rparr>
     | TypeArchive s \<Rightarrow> if ss_deleting (sp_state st) = None then st else st\<lparr>sp_typed := \<lparr>cd_typed = s\<rparr>\<rparr>
     | SkillDialog d \<Rightarrow> skill_dialog_click d st
     | SkillAnswer k err \<Rightarrow> run_skill_event (SkillSettled k err) st
     | SkillsFetched d \<Rightarrow> st\<lparr>sp_loading := False, sp_data := d\<rparr>)"

text \<open>The clicks that ask for an action, with the skill.\<close>

fun publish_clicks :: "skills_click \<Rightarrow> string option" where
  "publish_clicks (SkillMenu r l) = (if l = ''Publish to marketplace'' \<and> \<not> skill_published r then target_id (Some (skill_target r)) else None)"
| "publish_clicks _ = None"

fun archive_clicks :: "skills_click \<Rightarrow> string option" where
  "archive_clicks (SkillMenu r l) = (if l = ''Archive'' then target_id (Some (skill_target r)) else None)"
| "archive_clicks _ = None"

fun word_typed :: "skills_click \<Rightarrow> unit option" where
  "word_typed (TypeArchive s) = (if s = ''archive'' then Some () else None)"
| "word_typed _ = None"

lemmas page_step_defs = skills_page_step_def skill_dialog_click_def run_skill_event_def

text \<open>A step of the page is at most one step of the actions, asked for by the click.\<close>

lemma page_step_skill:
  obtains "sp_state (skills_page_step b st e) = sp_state st"
  | d where "sp_state (skills_page_step b st e) = skill_step (sp_state st) d"
      "\<And>i. asks_publish d = Some i \<Longrightarrow> publish_clicks e = Some i" "\<And>i. asks_delete d = Some i \<Longrightarrow> archive_clicks e = Some i"
proof (cases "sp_state (skills_page_step b st e) = sp_state st")
  case False
  show ?thesis
  proof (cases e)
    case (SkillMenu r l)
    with False have "l \<in> set (skill_row_menu r)" "sp_state (skills_page_step b st e) = skill_step (sp_state st) (skill_menu_event r l)"
      by (auto simp: page_step_defs split: if_splits)
    then show ?thesis
      using SkillMenu that(2) [of "skill_menu_event r l"] by (auto simp: skill_menu_event_def skill_row_menu_def split: if_splits)
  next
    case (SkillDialog d)
    with False have "sp_state (skills_page_step b st e) = skill_step (sp_state st) d" "asks_publish d = None" "asks_delete d = None"
      by (auto simp: page_step_defs split: skill_event.splits if_splits)
    then show ?thesis using that(2) [of d] by simp
  next
    case (SkillAnswer k err)
    then show ?thesis using that(2) [of "SkillSettled k err"] by (simp add: page_step_defs)
  qed (use False in \<open>auto simp: page_step_defs split: if_splits\<close>)
qed (rule that(1))

interpretation page_publish: confirmed_action "skills_page_step b" "\<lambda>st. target_id (ss_publishing (sp_state st))"
  "\<lambda>st. List.map_filter published (ss_calls (sp_state st))" publish_clicks
proof
  show "target_id (ss_publishing (sp_state (skills_page_step b st e))) = Some i \<Longrightarrow>
      target_id (ss_publishing (sp_state st)) = Some i \<or> publish_clicks e = Some i" for st e i
    by (rule page_step_skill [of b st e]) (use publish_skill.target_step in fastforce)+
  show "i \<in> set (List.map_filter published (ss_calls (sp_state (skills_page_step b st e)))) \<Longrightarrow>
      i \<in> set (List.map_filter published (ss_calls (sp_state st))) \<or> target_id (ss_publishing (sp_state st)) = Some i" for st e i
    by (rule page_step_skill [of b st e]) (use publish_skill.calls_step in fastforce)+
qed

interpretation page_archive: confirmed_action "skills_page_step b" "\<lambda>st. target_id (ss_deleting (sp_state st))"
  "\<lambda>st. List.map_filter archived (ss_calls (sp_state st))" archive_clicks
proof
  show "target_id (ss_deleting (sp_state (skills_page_step b st e))) = Some i \<Longrightarrow>
      target_id (ss_deleting (sp_state st)) = Some i \<or> archive_clicks e = Some i" for st e i
    by (rule page_step_skill [of b st e]) (use archive_skill.target_step in fastforce)+
  show "i \<in> set (List.map_filter archived (ss_calls (sp_state (skills_page_step b st e)))) \<Longrightarrow>
      i \<in> set (List.map_filter archived (ss_calls (sp_state st))) \<or> target_id (ss_deleting (sp_state st)) = Some i" for st e i
    by (rule page_step_skill [of b st e]) (use archive_skill.calls_step in fastforce)+
qed

text \<open>An archive call waits for the word: until it was typed no step makes one.\<close>

definition archive_calls :: "skills_page \<Rightarrow> string list" where
  "archive_calls st = List.map_filter archived (ss_calls (sp_state st))"

lemma no_archive_call:
  "d \<noteq> ConfirmDelete \<Longrightarrow> List.map_filter archived (ss_calls (skill_step s d)) = List.map_filter archived (ss_calls s)"
  by (cases d) (simp_all add: skill_ops skill_settled_fields map_filter_def split: option.split)

lemma archive_call_typed:
  "archive_calls (skills_page_step b st e) = archive_calls st \<or> cd_typed (sp_typed st) = ''archive''"
proof (cases e)
  case (SkillDialog d)
  then show ?thesis
    by (cases d) (auto simp: page_step_defs archive_calls_def no_archive_call confirm_disabled_def confirm_enabled_def button_disabled_def)
qed (auto simp: page_step_defs archive_calls_def no_archive_call skill_menu_event_def)

lemma typed_is_word: "word_typed e = Some () \<Longrightarrow> e = TypeArchive ''archive''"
  by (cases e) (simp_all split: if_splits)

lemma typed_word: "cd_typed (sp_typed (skills_page_step b st e)) = ''archive'' \<Longrightarrow> cd_typed (sp_typed st) = ''archive'' \<or> word_typed e = Some ()"
  by (cases e) (auto simp: page_step_defs confirm_open_change_def split: if_splits skill_event.splits)

interpretation archive_word: confirmed_action "skills_page_step b"
  "\<lambda>st. if cd_typed (sp_typed st) = ''archive'' then Some () else None" "\<lambda>st. map (\<lambda>_. ()) (archive_calls st)" word_typed
proof
  show "(if cd_typed (sp_typed (skills_page_step b st e)) = ''archive'' then Some () else None) = Some i \<Longrightarrow>
      (if cd_typed (sp_typed st) = ''archive'' then Some () else None) = Some i \<or> word_typed e = Some i" for st e i
    using typed_word [of b st e] by (auto split: if_splits)
  show "i \<in> set (map (\<lambda>_. ()) (archive_calls (skills_page_step b st e))) \<Longrightarrow>
      i \<in> set (map (\<lambda>_. ()) (archive_calls st)) \<or> (if cd_typed (sp_typed st) = ''archive'' then Some () else None) = Some i" for st e i
    using archive_call_typed [of b st e] by auto
qed

text \<open>
  C30. In any use of the page of skills, with any answers and any refreshes of its list, a skill is
  published only if the menu of its row, which stood there as not published, asked for it; a skill
  is archived only if the menu of its row asked for it, and only after the word archive was typed.
\<close>

theorem skills_page_guarded:
  "let st = foldl (skills_page_step b) skills_page_init es in
     Some ` set (List.map_filter published (ss_calls (sp_state st))) \<subseteq> publish_clicks ` set es
     \<and> Some ` set (archive_calls st) \<subseteq> archive_clicks ` set es
     \<and> (if archive_calls st = [] then True else TypeArchive ''archive'' \<in> set es)"
proof -
  let ?st = "foldl (skills_page_step b) skills_page_init es"
  have init: "sp_state skills_page_init = skills_init" "ss_publishing skills_init = None" "ss_deleting skills_init = None"
    "ss_calls skills_init = []" "cd_typed (sp_typed skills_page_init) = []"
    by (simp_all add: skills_page_init_def skills_init_def)
  have "Some ` set (map (\<lambda>_. ()) (archive_calls ?st)) \<subseteq> word_typed ` set es"
    using archive_word.run_calls_asked [of skills_page_init b es] by (simp add: init archive_calls_def map_filter_def)
  then have "archive_calls ?st = [] \<or> TypeArchive ''archive'' \<in> set es"
    by (cases "archive_calls ?st") (auto dest: typed_is_word [OF sym])
  moreover have "Some ` set (List.map_filter published (ss_calls (sp_state ?st))) \<subseteq> publish_clicks ` set es"
    by (rule page_publish.run_calls_asked) (simp_all add: init map_filter_def)
  moreover have "Some ` set (archive_calls ?st) \<subseteq> archive_clicks ` set es"
    unfolding archive_calls_def by (rule page_archive.run_calls_asked) (simp_all add: init map_filter_def)
  ultimately show ?thesis by (simp add: Let_def) blast
qed

text \<open>The answer closes the dialog, not its close handler: the word stays typed for the next skill.\<close>

lemma archive_word_stays:
  assumes "ss_pending (sp_state st) = [(ArchiveSkill i, r)]"
  shows "let st' = skills_page_step b st (SkillAnswer 0 None) in
     ss_deleting (sp_state st') = None \<and> sp_typed st' = sp_typed st"
  using assms by (simp add: page_step_defs skill_step_def skill_settled_def)

lemma next_skill_preconfirmed:
  "let r1 = JObj [(''id'', JStr ''a''), (''name'', JStr ''A'')]; r2 = JObj [(''id'', JStr ''b''), (''name'', JStr ''B'')];
     st = foldl (skills_page_step False) skills_page_init [SkillsFetched (Some [r1, r2]), SkillMenu r1 ''Archive'', TypeArchive ''archive'',
       SkillDialog ConfirmDelete, SkillAnswer 0 None, SkillMenu r2 ''Archive'']
   in map_option cw_disabled (archive_dialog False (sp_typed st) (ss_deleting (sp_state st))) = Some False"
  by code_simp

text \<open>Where the menu's library lets the click through, the details open over the dialog that asks.\<close>

lemma menu_opens_details:
  assumes "r \<in> set (rows_shown st)"
  shows "sp_viewing (skills_page_step True st (SkillMenu r ''Archive'')) = Some r
    \<and> ss_deleting (sp_state (skills_page_step True st (SkillMenu r ''Archive''))) = Some (skill_target r)"
  using assms by (simp add: page_step_defs skill_row_menu_def skill_menu_event_def skill_step_def)

section \<open>Lists show what they got\<close>

definition columns_fit :: "settings_rows \<Rightarrow> bool" where
  "columns_fit l = (case l of ListShown heads rows \<Rightarrow> list_all (\<lambda>(k, wide, narrow). length wide = length heads) rows | _ \<Rightarrow> True)"

definition keys_shown :: "settings_rows \<Rightarrow> string list" where
  "keys_shown l = (case l of ListShown heads rows \<Rightarrow> map fst rows | _ \<Rightarrow> [])"

lemma columns_settings_list: "(\<And>r. length (wide r) = length heads) \<Longrightarrow> columns_fit (settings_list l t h f heads wide narrow rows)"
  by (simp add: columns_fit_def settings_list_def list_all_iff)

lemma keys_settings_list: "keys_shown (settings_list False t h f heads wide narrow rows) = map record_id rows"
  by (simp add: keys_shown_def settings_list_def comp_def)

theorem settings_columns_fit:
  "columns_fit (skills_view day l data)" "columns_fit (api_keys_view day l data)" "columns_fit (llm_keys_view day l data)"
  "columns_fit (connections_view day rec rows)"
  unfolding skills_view_def api_keys_view_def llm_keys_view_def
  by (rule columns_settings_list, simp add: skill_wide_def api_key_wide_def credential_wide_def)+
    (simp add: connections_view_def columns_fit_def list_all_iff connection_wide_def)

theorem settings_rows_shown:
  "keys_shown (skills_view day False (Some rs)) = map record_id rs" "keys_shown (api_keys_view day False (Some rs)) = map record_id rs"
  "keys_shown (llm_keys_view day False (Some rs)) = map record_id rs" "keys_shown (connections_view day rec rs) = map record_id rs"
  by (simp_all add: skills_view_def api_keys_view_def llm_keys_view_def keys_settings_list answer_rows_def opt_or_def)
    (simp add: connections_view_def keys_shown_def comp_def)

text \<open>
  None of the three pages looks at a failure: a request that failed reads as an empty list. The
  number of agents of a connection is a constant, and no button makes a sandbox template.
\<close>

lemma failed_settings_empty:
  "keys_shown (skills_view day False None) = []" "keys_shown (api_keys_view day False None) = []" "keys_shown (llm_keys_view day False None) = []"
  by (simp_all add: skills_view_def api_keys_view_def llm_keys_view_def settings_list_def keys_shown_def answer_rows_def opt_or_def)

lemma templates_never_offered:
  "case templates_view l building data of TemplatesLoading n \<Rightarrow> True
   | TemplatesPage button list \<Rightarrow> snd button \<and> (case list of ListOffer t h (a, b, enabled) \<Rightarrow> \<not> enabled | _ \<Rightarrow> True)"
  by (simp add: templates_view_def settings_list_def split: settings_rows.split)

text \<open>A template without a name is deleted without typing one.\<close>

lemma unnamed_template_unguarded: "map_option cw_disabled (delete_template_dialog False st (Some (i, []))) = Some False"
  by (simp add: delete_template_dialog_def confirm_dialog_def confirm_disabled_def confirm_enabled_def button_disabled_def)

lemma public_template_untouched: "is_public_template r \<Longrightarrow> template_buttons b r = [] \<and> template_menu r = []"
  by (simp add: template_buttons_def template_menu_def)

end
