(* ===== verification/PolarPricing.thy ===== *)
theory PolarPricing
  imports JsPrelude
begin

text \<open>
  The pricing setup script, \<open>apps/web/scripts/setup-polar-pricing.ts\<close>: the configured meters,
  benefits and products, the three find-or-create operations and \<open>main\<close>. The Polar service is
  a parameter (\<open>polar_api\<close>) over a state of its own; what the script relies on is stated in
  \<open>polar_contract\<close>. The two \<open>Promise.all\<close> phases are run under a schedule, the order in
  which the service answers, so the theorems hold for every interleaving.
\<close>

section \<open>Configuration\<close>

record meter_config =
  mc_name :: string
  mc_filter :: js
  mc_aggregation :: js

record benefit_config =
  bc_description :: string
  bc_meter :: string
  bc_units :: int
  bc_rollover :: bool

datatype price_config =
    FreePrice
  | FixedPrice int js
  | MeteredPrice string int

record product_config =
  pc_name :: string
  pc_description :: string
  pc_prices :: "price_config list"
  pc_benefits :: "string list"

definition filter_clause :: "string \<Rightarrow> string \<Rightarrow> js" where
  "filter_clause p v = JObj [(''property'', JStr p), (''operator'', JStr ''eq''), (''value'', JStr v)]"

definition run_filter :: "string \<Rightarrow> js" where
  "run_filter sandbox = JObj [(''conjunction'', JStr ''and''),
     (''clauses'', JArr [filter_clause ''name'' ''agent_run'', filter_clause ''sandbox_type'' sandbox])]"

definition meters :: "meter_config list" where
  "meters =
     [\<lparr>mc_name = ''shared_agent_runs'', mc_filter = run_filter ''shared'',
       mc_aggregation = JObj [(''func'', JStr ''count'')]\<rparr>,
      \<lparr>mc_name = ''dedicated_agent_runs'', mc_filter = run_filter ''dedicated'',
       mc_aggregation = JObj [(''func'', JStr ''count'')]\<rparr>]"

definition benefits :: "benefit_config list" where
  "benefits =
     [\<lparr>bc_description = ''Free: 100 shared runs/month'', bc_meter = ''shared_agent_runs'', bc_units = 100, bc_rollover = False\<rparr>,
      \<lparr>bc_description = ''Pro: 300 shared runs/month'', bc_meter = ''shared_agent_runs'', bc_units = 300, bc_rollover = False\<rparr>,
      \<lparr>bc_description = ''Pro: 300 dedicated runs/month'', bc_meter = ''dedicated_agent_runs'', bc_units = 300, bc_rollover = False\<rparr>]"

definition products :: "product_config list" where
  "products =
     [\<lparr>pc_name = ''Free'', pc_description = ''1 agent, 100 runs/month. For exploring and prototyping.'',
       pc_prices = [FreePrice], pc_benefits = [''Free: 100 shared runs/month'']\<rparr>,
      \<lparr>pc_name = ''Pro Shared'',
       pc_description = ''$4.99/agent/month. 300 runs included, $0.01/run overage. Shared sandbox.'',
       pc_prices = [FixedPrice 499 (JStr ''usd''), MeteredPrice ''shared_agent_runs'' 1],
       pc_benefits = [''Pro: 300 shared runs/month'']\<rparr>,
      \<lparr>pc_name = ''Pro Dedicated'',
       pc_description = ''$6.99/agent/month. 300 runs included, $0.05/run overage. Dedicated sandbox with full system access.'',
       pc_prices = [FixedPrice 699 (JStr ''usd''), MeteredPrice ''dedicated_agent_runs'' 5],
       pc_benefits = [''Pro: 300 dedicated runs/month'']\<rparr>]"

section \<open>The service\<close>

datatype kind = Meter | Benefit | Product

record item =
  it_id :: string
  it_name :: string
  it_description :: string

fun item_label :: "kind \<Rightarrow> item \<Rightarrow> string" where
  "item_label Benefit i = it_description i"
| "item_label _ i = it_name i"

fun label_field :: "kind \<Rightarrow> string" where
  "label_field Benefit = ''description''"
| "label_field _ = ''name''"

datatype polar_error = TokenMissing | ServiceError string | MeterNotFound string

record 's polar_api =
  pa_list :: "kind \<Rightarrow> js \<Rightarrow> 's \<Rightarrow> string + item list"
  pa_create :: "kind \<Rightarrow> js \<Rightarrow> 's \<Rightarrow> (string + item) \<times> 's"
  pa_update_benefits :: "js \<Rightarrow> 's \<Rightarrow> (string + unit) \<times> 's"

record polar_env =
  env_token :: "string option"
  env_org :: "string option"

type_synonym ('s, 'a) act = "'s \<Rightarrow> (polar_error + 'a) \<times> 's"

definition act_return :: "'a \<Rightarrow> ('s, 'a) act" where
  "act_return x s = (Inr x, s)"

definition act_fail :: "polar_error \<Rightarrow> ('s, 'a) act" where
  "act_fail e s = (Inl e, s)"

definition act_bind :: "('s, 'a) act \<Rightarrow> ('a \<Rightarrow> ('s, 'b) act) \<Rightarrow> ('s, 'b) act" where
  "act_bind m f s = (case m s of (Inl e, s') \<Rightarrow> (Inl e, s') | (Inr x, s') \<Rightarrow> f x s')"

definition polar_call :: "('s \<Rightarrow> (string + 'a) \<times> 's) \<Rightarrow> ('s, 'a) act" where
  "polar_call f s = (case f s of (Inl e, s') \<Rightarrow> (Inl (ServiceError e), s') | (Inr x, s') \<Rightarrow> (Inr x, s'))"

lemma act_bind_Inr:
  "act_bind m f s = (Inr y, s') \<longleftrightarrow> (\<exists>x s1. m s = (Inr x, s1) \<and> f x s1 = (Inr y, s'))"
  by (auto simp: act_bind_def split: prod.splits sum.splits)

section \<open>Find or create\<close>

text \<open>\<open>...(organizationId ? \{ organizationId \} : \{\})\<close>\<close>

definition org_entry :: "string option \<Rightarrow> (string \<times> js) list" where
  "org_entry org = (case org of None \<Rightarrow> [] | Some o' \<Rightarrow> if o' = [] then [] else [(''organizationId'', JStr o')])"

fun list_request :: "string option \<Rightarrow> kind \<Rightarrow> string \<Rightarrow> js" where
  "list_request org Meter n = JObj ([(''query'', JStr n), (''limit'', JNum 100)] @ org_entry org)"
| "list_request org Benefit n =
     JObj ([(''query'', JStr n), (''typeFilter'', JStr ''meter_credit''), (''limit'', JNum 100)] @ org_entry org)"
| "list_request org Product n =
     JObj ([(''query'', JStr n), (''isRecurring'', JBool True), (''limit'', JNum 100)] @ org_entry org)"

text \<open>One find-or-create: what to list under which name, what to create.\<close>

record job =
  jb_kind :: kind
  jb_name :: string
  jb_create :: js

definition find_item :: "'s polar_api \<Rightarrow> string option \<Rightarrow> kind \<Rightarrow> string \<Rightarrow> ('s, item option) act" where
  "find_item api org k n s = (case pa_list api k (list_request org k n) s of
       Inl e \<Rightarrow> (Inl (ServiceError e), s)
     | Inr xs \<Rightarrow> (Inr (find (\<lambda>i. item_label k i = n) xs), s))"

definition create_item :: "'s polar_api \<Rightarrow> job \<Rightarrow> ('s, item) act" where
  "create_item api j = polar_call (pa_create api (jb_kind j) (jb_create j))"

definition meter_job :: "string option \<Rightarrow> meter_config \<Rightarrow> job" where
  "meter_job org c = \<lparr>jb_kind = Meter, jb_name = mc_name c,
     jb_create = JObj ([(''name'', JStr (mc_name c)), (''filter'', mc_filter c), (''aggregation'', mc_aggregation c)] @ org_entry org)\<rparr>"

definition benefit_job :: "string option \<Rightarrow> string \<Rightarrow> benefit_config \<Rightarrow> job" where
  "benefit_job org meter_id c = \<lparr>jb_kind = Benefit, jb_name = bc_description c,
     jb_create = JObj ([(''type'', JStr ''meter_credit''), (''description'', JStr (bc_description c)),
       (''properties'', JObj [(''meterId'', JStr meter_id), (''units'', JNum (bc_units c)), (''rollover'', JBool (bc_rollover c))])]
       @ org_entry org)\<rparr>"

text \<open>
  \<open>Promise.all(configs.map(findOrCreate))\<close>. Each task awaits its list call and then, when
  nothing of that name was found, its create call; a step of task \<open>i\<close> is the answer to the
  call it waits for. The first failing call rejects the whole phase.
\<close>

datatype task = Listing | Creating | Finished item

definition task_step :: "'s polar_api \<Rightarrow> string option \<Rightarrow> job \<Rightarrow> task \<Rightarrow> ('s, task) act" where
  "task_step api org j t = (case t of
       Listing \<Rightarrow> act_bind (find_item api org (jb_kind j) (jb_name j))
         (\<lambda>r. act_return (case r of Some i \<Rightarrow> Finished i | None \<Rightarrow> Creating))
     | Creating \<Rightarrow> act_bind (create_item api j) (\<lambda>i. act_return (Finished i))
     | Finished i \<Rightarrow> act_return (Finished i))"

fun run_tasks :: "'s polar_api \<Rightarrow> string option \<Rightarrow> job list \<Rightarrow> nat list \<Rightarrow> task list \<Rightarrow> ('s, task list) act" where
  "run_tasks api org js [] ts = act_return ts"
| "run_tasks api org js (i # is) ts =
     (if i < length js
      then act_bind (task_step api org (js ! i) (ts ! i)) (\<lambda>t. run_tasks api org js is (ts[i := t]))
      else run_tasks api org js is ts)"

text \<open>
  A schedule names the tasks in the order of their answers; two further answers for every
  task complete it (a finished task ignores them), so each complete interleaving is one
  of these and none ends early.
\<close>

definition complete :: "nat \<Rightarrow> nat list \<Rightarrow> nat list" where
  "complete n sched = sched @ concat (map (\<lambda>i. [i, i]) [0..<n])"

definition finished_items :: "task list \<Rightarrow> item list" where
  "finished_items ts = List.map_filter (\<lambda>t. case t of Finished i \<Rightarrow> Some i | _ \<Rightarrow> None) ts"

definition run_phase :: "'s polar_api \<Rightarrow> string option \<Rightarrow> job list \<Rightarrow> nat list \<Rightarrow> ('s, item list) act" where
  "run_phase api org js sched =
     act_bind (run_tasks api org js (complete (length js) sched) (replicate (length js) Listing))
       (\<lambda>ts. act_return (finished_items ts))"

section \<open>Products\<close>

fun resolve_price :: "(string, string) dict \<Rightarrow> price_config \<Rightarrow> polar_error + js" where
  "resolve_price mids FreePrice = Inr (JObj [(''amountType'', JStr ''free'')])"
| "resolve_price mids (FixedPrice a c) =
     Inr (JObj [(''amountType'', JStr ''fixed''), (''priceAmount'', JNum a), (''priceCurrency'', c)])"
| "resolve_price mids (MeteredPrice m u) = (case dict_get mids m of
       Some i \<Rightarrow> if i = [] then Inl (MeterNotFound m)
         else Inr (JObj [(''amountType'', JStr ''metered_unit''), (''meterId'', JStr i), (''unitAmount'', JNum u)])
     | None \<Rightarrow> Inl (MeterNotFound m))"

fun collect :: "('a \<Rightarrow> 'e + 'b) \<Rightarrow> 'a list \<Rightarrow> 'e + 'b list" where
  "collect f [] = Inr []"
| "collect f (x # xs) = (case f x of Inl e \<Rightarrow> Inl e | Inr y \<Rightarrow>
     (case collect f xs of Inl e \<Rightarrow> Inl e | Inr ys \<Rightarrow> Inr (y # ys)))"

definition product_job :: "string option \<Rightarrow> product_config \<Rightarrow> js list \<Rightarrow> job" where
  "product_job org c prices = \<lparr>jb_kind = Product, jb_name = pc_name c,
     jb_create = JObj ([(''name'', JStr (pc_name c)), (''description'', JStr (pc_description c)),
       (''recurringInterval'', JStr ''month''), (''prices'', JArr prices)] @ org_entry org)\<rparr>"

definition benefit_ids :: "(string, string) dict \<Rightarrow> product_config \<Rightarrow> string list" where
  "benefit_ids bids c = List.map_filter (dict_get bids) (pc_benefits c)"

definition attach_benefits :: "'s polar_api \<Rightarrow> item \<Rightarrow> string list \<Rightarrow> ('s, item) act" where
  "attach_benefits api p ids =
     (if ids = [] then act_return p
      else act_bind (polar_call (pa_update_benefits api (JObj [(''id'', JStr (it_id p)),
             (''productBenefitsUpdate'', JObj [(''benefits'', JArr (map JStr ids))])])))
           (\<lambda>_. act_return p))"

definition find_or_create_product ::
  "'s polar_api \<Rightarrow> string option \<Rightarrow> (string, string) dict \<Rightarrow> (string, string) dict \<Rightarrow> product_config \<Rightarrow> ('s, item) act" where
  "find_or_create_product api org mids bids c =
     act_bind (find_item api org Product (pc_name c)) (\<lambda>r. case r of
       Some p \<Rightarrow> act_return p
     | None \<Rightarrow> (case collect (resolve_price mids) (pc_prices c) of
         Inl e \<Rightarrow> act_fail e
       | Inr ps \<Rightarrow> act_bind (create_item api (product_job org c ps))
           (\<lambda>p. attach_benefits api p (benefit_ids bids c))))"

fun product_loop ::
  "'s polar_api \<Rightarrow> string option \<Rightarrow> (string, string) dict \<Rightarrow> (string, string) dict \<Rightarrow> product_config list \<Rightarrow> ('s, item list) act" where
  "product_loop api org mids bids [] = act_return []"
| "product_loop api org mids bids (c # cs) =
     act_bind (find_or_create_product api org mids bids c)
       (\<lambda>p. act_bind (product_loop api org mids bids cs) (\<lambda>ps. act_return (p # ps)))"

section \<open>Main\<close>

record setup_result =
  sr_meters :: "item list"
  sr_benefits :: "item list"
  sr_products :: "item list"

definition ids_by_label :: "kind \<Rightarrow> item list \<Rightarrow> (string, string) dict" where
  "ids_by_label k is = foldl (\<lambda>m i. dict_set (item_label k i) (it_id i) m) [] is"

definition benefit_jobs :: "string option \<Rightarrow> (string, string) dict \<Rightarrow> polar_error + job list" where
  "benefit_jobs org mids = collect (\<lambda>c. case dict_get mids (bc_meter c) of
       Some i \<Rightarrow> if i = [] then Inl (MeterNotFound (bc_meter c)) else Inr (benefit_job org i c)
     | None \<Rightarrow> Inl (MeterNotFound (bc_meter c))) benefits"

definition setup_products :: "'s polar_api \<Rightarrow> string option \<Rightarrow> item list \<Rightarrow> item list \<Rightarrow> ('s, setup_result) act" where
  "setup_products api org ms bs =
     act_bind (product_loop api org (ids_by_label Meter ms) (ids_by_label Benefit bs) products)
       (\<lambda>ps. act_return \<lparr>sr_meters = ms, sr_benefits = bs, sr_products = ps\<rparr>)"

definition setup_benefits :: "'s polar_api \<Rightarrow> string option \<Rightarrow> nat list \<Rightarrow> item list \<Rightarrow> ('s, setup_result) act" where
  "setup_benefits api org sched ms = (case benefit_jobs org (ids_by_label Meter ms) of
       Inl e \<Rightarrow> act_fail e
     | Inr js \<Rightarrow> act_bind (run_phase api org js sched) (setup_products api org ms))"

definition main :: "'s polar_api \<Rightarrow> polar_env \<Rightarrow> nat list \<Rightarrow> nat list \<Rightarrow> ('s, setup_result) act" where
  "main api env sched1 sched2 =
     (if env_token env = None \<or> env_token env = Some [] then act_fail TokenMissing
      else act_bind (run_phase api (env_org env) (map (meter_job (env_org env)) meters) sched1)
             (setup_benefits api (env_org env) sched2))"

section \<open>What the script relies on\<close>

text \<open>
  \<open>polar_view\<close> is what the script can see of the account: the item found under a name. The contract:
  a list call answers; an item is created under its name, with an id, and nothing else is
  seen to change; attaching benefits changes no item that is found.
\<close>

definition polar_view :: "'s polar_api \<Rightarrow> string option \<Rightarrow> 's \<Rightarrow> kind \<times> string \<Rightarrow> item option" where
  "polar_view api org s kn = (case pa_list api (fst kn) (list_request org (fst kn) (snd kn)) s of
       Inl e \<Rightarrow> None | Inr xs \<Rightarrow> find (\<lambda>i. item_label (fst kn) i = snd kn) xs)"

definition polar_contract :: "'s polar_api \<Rightarrow> string option \<Rightarrow> bool" where
  "polar_contract api org \<longleftrightarrow>
     (\<forall>k q s. \<exists>xs. pa_list api k q s = Inr xs)
   \<and> (\<forall>k n q s i s'. js_get q (label_field k) = JStr n \<longrightarrow> polar_view api org s (k, n) = None \<longrightarrow>
        pa_create api k q s = (Inr i, s') \<longrightarrow> polar_view api org s' = (polar_view api org s)((k, n) \<mapsto> i))
   \<and> (\<forall>q s s'. pa_update_benefits api q s = (Inr (), s') \<longrightarrow> polar_view api org s' = polar_view api org s)
   \<and> (\<forall>s k n i. polar_view api org s (k, n) = Some i \<longrightarrow> it_id i \<noteq> [])"

definition polar_answers :: "'s polar_api \<Rightarrow> bool" where
  "polar_answers api \<longleftrightarrow> (\<forall>k q s. \<exists>i s'. pa_create api k q s = (Inr i, s'))
     \<and> (\<forall>q s. \<exists>s'. pa_update_benefits api q s = (Inr (), s'))"

definition job_ok :: "job \<Rightarrow> bool" where
  "job_ok j \<longleftrightarrow> js_get (jb_create j) (label_field (jb_kind j)) = JStr (jb_name j)"

abbreviation job_key :: "job \<Rightarrow> kind \<times> string" where
  "job_key j \<equiv> (jb_kind j, jb_name j)"

lemma view_label: "polar_view api org s (k, n) = Some i \<Longrightarrow> item_label k i = n"
  by (auto simp: polar_view_def find_Some_iff split: sum.splits)

lemma find_item_view:
  "polar_contract api org \<Longrightarrow> find_item api org k n s = (Inr (polar_view api org s (k, n)), s)"
proof -
  assume "polar_contract api org"
  then obtain xs where "pa_list api k (list_request org k n) s = Inr xs"
    unfolding polar_contract_def by blast
  then show ?thesis by (simp add: find_item_def polar_view_def)
qed

lemma create_item_view:
  assumes "polar_contract api org" "job_ok j" "polar_view api org s (job_key j) = None" "create_item api j s = (Inr i, s')"
  shows "polar_view api org s' = (polar_view api org s)(job_key j \<mapsto> i)"
proof -
  have "pa_create api (jb_kind j) (jb_create j) s = (Inr i, s')"
    using assms(4) by (auto simp: create_item_def polar_call_def split: prod.splits sum.splits)
  then show ?thesis using assms(1-3) unfolding polar_contract_def job_ok_def by blast
qed

lemma job_ok_simps [simp]: "job_ok (meter_job org c)" "job_ok (benefit_job org m b)" "job_ok (product_job org p ps)"
  by (simp_all add: job_ok_def meter_job_def benefit_job_def product_job_def)

lemma map_leD: "m \<subseteq>\<^sub>m m' \<Longrightarrow> m x = Some y \<Longrightarrow> m' x = Some y"
  by (metis domI map_le_def)

section \<open>The parallel phase\<close>

fun progress :: "task \<Rightarrow> nat" where
  "progress Listing = 0"
| "progress Creating = 1"
| "progress (Finished i) = 2"

text \<open>What a task knows of the account, under any interleaving with the other tasks.\<close>

definition task_ok :: "'s polar_api \<Rightarrow> string option \<Rightarrow> 's \<Rightarrow> job \<Rightarrow> task \<Rightarrow> bool" where
  "task_ok api org s j t \<longleftrightarrow> (case t of Listing \<Rightarrow> True
     | Creating \<Rightarrow> polar_view api org s (job_key j) = None | Finished i \<Rightarrow> polar_view api org s (job_key j) = Some i)"

definition tasks_ok :: "'s polar_api \<Rightarrow> string option \<Rightarrow> job list \<Rightarrow> 's \<Rightarrow> task list \<Rightarrow> bool" where
  "tasks_ok api org js s ts \<longleftrightarrow> length ts = length js \<and> (\<forall>k < length js. task_ok api org s (js ! k) (ts ! k))"

lemma task_step_effect:
  assumes "polar_contract api org" "job_ok j" "task_ok api org s j t" "task_step api org j t s = (Inr t', s')"
  shows "task_ok api org s' j t'" "min 2 (progress t + 1) \<le> progress t'"
    "polar_view api org s' = polar_view api org s
     \<or> polar_view api org s (job_key j) = None \<and> (\<exists>i. polar_view api org s' = (polar_view api org s)(job_key j \<mapsto> i))"
proof -
  note defs = task_ok_def task_step_def act_bind_def act_return_def find_item_view [OF assms(1)]
  have "task_ok api org s' j t' \<and> min 2 (progress t + 1) \<le> progress t'
    \<and> (polar_view api org s' = polar_view api org s
     \<or> polar_view api org s (job_key j) = None \<and> (\<exists>i. polar_view api org s' = (polar_view api org s)(job_key j \<mapsto> i)))"
  proof (cases t)
    case Listing
    then show ?thesis using assms(4) by (cases "polar_view api org s (job_key j)") (auto simp: defs)
  next
    case Creating
    then obtain i where c: "create_item api j s = (Inr i, s')" and t': "t' = Finished i"
      using assms(4) by (auto simp: defs split: prod.splits sum.splits)
    have none: "polar_view api org s (job_key j) = None" using assms(3) Creating by (simp add: task_ok_def)
    have "polar_view api org s' = (polar_view api org s)(job_key j \<mapsto> i)"
      by (rule create_item_view [OF assms(1,2) none c])
    then show ?thesis using none by (auto simp: t' task_ok_def)
  next
    case (Finished i)
    then show ?thesis using assms(3,4) by (auto simp: defs)
  qed
  then show "task_ok api org s' j t'" "min 2 (progress t + 1) \<le> progress t'"
    "polar_view api org s' = polar_view api org s
     \<or> polar_view api org s (job_key j) = None \<and> (\<exists>i. polar_view api org s' = (polar_view api org s)(job_key j \<mapsto> i))"
    by blast+
qed

lemma run_tasks_effect:
  assumes "polar_contract api org" "list_all job_ok js" "distinct (map job_key js)" "tasks_ok api org js s ts"
    and "run_tasks api org js sched ts s = (Inr ts', s')"
  shows "tasks_ok api org js s' ts' \<and> polar_view api org s \<subseteq>\<^sub>m polar_view api org s'
     \<and> (\<forall>k < length js. min 2 (progress (ts ! k) + count_list sched k) \<le> progress (ts' ! k))"
  using assms(4,5)
proof (induction sched arbitrary: ts s)
  case Nil
  then show ?case by (simp add: act_return_def)
next
  case (Cons i sched)
  show ?case
  proof (cases "i < length js")
    case False
    with Cons.prems Cons.IH show ?thesis by auto
  next
    case True
    obtain t s1 where step: "task_step api org (js ! i) (ts ! i) s = (Inr t, s1)"
      and rest: "run_tasks api org js sched (ts[i := t]) s1 = (Inr ts', s')"
      using Cons.prems(2) True by (auto simp: act_bind_Inr)
    have ji: "job_ok (js ! i)" using assms(2) True by (simp add: list_all_length)
    have ti: "task_ok api org s (js ! i) (ts ! i)" and len: "length ts = length js"
      using Cons.prems(1) True by (simp_all add: tasks_ok_def)
    note eff = task_step_effect [OF assms(1) ji ti step]
    have "task_ok api org s1 (js ! k) (ts ! k)" if "k < length js" "k \<noteq> i" for k
    proof -
      have "job_key (js ! k) \<noteq> job_key (js ! i)"
        using nth_eq_iff_index_eq [OF assms(3), of k i] that True by simp
      then show ?thesis
        using Cons.prems(1) that eff(3) by (auto simp: tasks_ok_def task_ok_def split: task.splits)
    qed
    then have "tasks_ok api org js s1 (ts[i := t])"
      unfolding tasks_ok_def using eff(1) len by (metis length_list_update nth_list_update_eq nth_list_update_neq)
    note IH = Cons.IH [OF this rest]
    have "polar_view api org s \<subseteq>\<^sub>m polar_view api org s1"
      using eff(3) by (auto simp: map_le_def)
    moreover have "min 2 (progress (ts ! k) + count_list (i # sched) k) \<le> progress (ts' ! k)" if "k < length js" for k
      using IH that eff(2) len by (cases "k = i") auto
    ultimately show ?thesis using IH map_le_trans by blast
  qed
qed

lemma count_complete: "k < n \<Longrightarrow> 2 \<le> count_list (complete n sched) k"
proof -
  have "k < n \<Longrightarrow> count_list (concat (map (\<lambda>i. [i, i]) [0..<n])) k = 2" for n
    by (induction n) (auto simp: less_Suc_eq count_list_append intro: count_notin)
  then show "k < n \<Longrightarrow> 2 \<le> count_list (complete n sched) k"
    by (simp add: complete_def)
qed

lemma finished_items_all:
  assumes "length ts = length js" "\<And>k. k < length js \<Longrightarrow> \<exists>i. ts ! k = Finished i \<and> f (js ! k) = Some i"
  shows "map f js = map Some (finished_items ts)"
  using assms
proof (induction js arbitrary: ts)
  case (Cons j js)
  then obtain t ts' where ts: "ts = t # ts'" "length ts' = length js" by (cases ts) auto
  have "map f js = map Some (finished_items ts')"
    using Cons.prems(2) ts by (intro Cons.IH) force+
  moreover obtain i where "t = Finished i" "f j = Some i" using Cons.prems(2) [of 0] ts by auto
  ultimately show ?case by (simp add: ts finished_items_def map_filter_simps)
qed (simp add: finished_items_def map_filter_simps)

lemma tasks_ok_init: "tasks_ok api org js s (replicate (length js) Listing)"
  by (simp add: tasks_ok_def task_ok_def)

text \<open>Whatever the schedule, a phase that succeeds leaves every item under its name.\<close>

lemma run_phase_effect:
  assumes "polar_contract api org" "list_all job_ok js" "distinct (map job_key js)"
    and "run_phase api org js sched s = (Inr items, s')"
  shows "map (\<lambda>j. polar_view api org s' (job_key j)) js = map Some items \<and> polar_view api org s \<subseteq>\<^sub>m polar_view api org s'"
proof -
  obtain ts where run: "run_tasks api org js (complete (length js) sched) (replicate (length js) Listing) s = (Inr ts, s')"
    and items: "items = finished_items ts"
    using assms(4) by (auto simp: run_phase_def act_bind_Inr act_return_def)
  note eff = run_tasks_effect [OF assms(1-3) tasks_ok_init run]
  have "\<exists>i. ts ! k = Finished i \<and> polar_view api org s' (job_key (js ! k)) = Some i" if "k < length js" for k
  proof -
    have "2 \<le> progress (ts ! k)" using eff that count_complete [OF that, of sched] by force
    then show ?thesis using eff that by (cases "ts ! k") (auto simp: tasks_ok_def task_ok_def)
  qed
  with eff show ?thesis
    unfolding items by (intro conjI finished_items_all) (auto simp: tasks_ok_def)
qed

text \<open>A phase whose names are all there changes nothing and finds the same items.\<close>

lemma run_tasks_found:
  assumes "polar_contract api org" "\<forall>j \<in> set js. polar_view api org s (job_key j) \<noteq> None"
    and "length ts = length js" "Creating \<notin> set ts"
  shows "\<exists>ts'. run_tasks api org js sched ts s = (Inr ts', s)"
  using assms(3,4)
proof (induction sched arbitrary: ts)
  case (Cons i sched)
  show ?case
  proof (cases "i < length js")
    case True
    then obtain v where v: "polar_view api org s (job_key (js ! i)) = Some v" using assms(2) by force
    have "ts ! i \<noteq> Creating" using Cons.prems True by (metis nth_mem)
    then obtain x where "task_step api org (js ! i) (ts ! i) s = (Inr (Finished x), s)"
      using v by (cases "ts ! i") (auto simp: task_step_def act_bind_def act_return_def find_item_view [OF assms(1)])
    moreover have "Creating \<notin> set (ts[i := Finished x])"
      using Cons.prems(2) by (metis insert_iff set_update_subset_insert subsetD task.distinct(5))
    ultimately show ?thesis
      using Cons.IH [of "ts[i := Finished x]"] Cons.prems True by (simp add: act_bind_def)
  qed (use Cons in simp)
qed (simp add: act_return_def)

lemma run_phase_found:
  assumes "polar_contract api org" "list_all job_ok js" "distinct (map job_key js)"
    and "map (\<lambda>j. polar_view api org s (job_key j)) js = map Some items"
  shows "run_phase api org js sched s = (Inr items, s)"
proof -
  have "\<forall>j \<in> set js. polar_view api org s (job_key j) \<noteq> None"
    using assms(4) by (metis (mono_tags, lifting) imageE image_eqI image_set option.distinct(1))
  from run_tasks_found [OF assms(1) this, of "replicate (length js) Listing" "complete (length js) sched"]
  obtain ts where run: "run_tasks api org js (complete (length js) sched) (replicate (length js) Listing) s = (Inr ts, s)"
    by (auto simp: in_set_replicate)
  then have phase: "run_phase api org js sched s = (Inr (finished_items ts), s)"
    by (simp add: run_phase_def act_bind_def act_return_def)
  have "map Some (finished_items ts) = map Some items"
    using run_phase_effect [OF assms(1-3) phase] assms(4) by simp
  then show ?thesis using phase by (simp add: inj_map_eq_map)
qed

section \<open>Products\<close>

lemma find_or_create_product_effect:
  assumes "polar_contract api org" "find_or_create_product api org mids bids c s = (Inr p, s')"
  shows "polar_view api org s' (Product, pc_name c) = Some p \<and> polar_view api org s \<subseteq>\<^sub>m polar_view api org s'"
proof (cases "polar_view api org s (Product, pc_name c)")
  case (Some q)
  then show ?thesis
    using assms by (simp add: find_or_create_product_def act_bind_def act_return_def find_item_view)
next
  case None
  obtain ps q s1 where create: "create_item api (product_job org c ps) s = (Inr q, s1)"
    and att: "attach_benefits api q (benefit_ids bids c) s1 = (Inr p, s')"
    using assms(2) None
    by (auto simp: find_or_create_product_def act_bind_Inr find_item_view [OF assms(1)] act_fail_def split: sum.splits)
  have s1: "polar_view api org s1 = (polar_view api org s)((Product, pc_name c) \<mapsto> q)"
    using create_item_view [OF assms(1) job_ok_simps(3) _ create] None by (simp add: product_job_def)
  have "p = q \<and> polar_view api org s' = polar_view api org s1"
  proof (cases "benefit_ids bids c = []")
    case True
    then show ?thesis using att by (simp add: attach_benefits_def act_return_def)
  next
    case False
    then obtain q' where upd: "pa_update_benefits api q' s1 = (Inr (), s')" and "p = q"
      using att by (auto simp: attach_benefits_def act_bind_Inr polar_call_def act_return_def split: prod.splits sum.splits)
    then show ?thesis using assms(1) unfolding polar_contract_def by blast
  qed
  then show ?thesis using s1 None by (auto simp: map_le_def)
qed

lemma find_or_create_product_found:
  assumes "polar_contract api org" "polar_view api org s (Product, pc_name c) = Some p"
  shows "find_or_create_product api org mids bids c s = (Inr p, s)"
  using assms by (simp add: find_or_create_product_def act_bind_def act_return_def find_item_view)

lemma product_loop_effect:
  assumes "polar_contract api org" "product_loop api org mids bids cs s = (Inr ps, s')"
  shows "map (\<lambda>c. polar_view api org s' (Product, pc_name c)) cs = map Some ps \<and> polar_view api org s \<subseteq>\<^sub>m polar_view api org s'"
  using assms(2)
proof (induction cs arbitrary: s ps)
  case (Cons c cs)
  then obtain p s1 qs where one: "find_or_create_product api org mids bids c s = (Inr p, s1)"
    and rest: "product_loop api org mids bids cs s1 = (Inr qs, s')" and ps: "ps = p # qs"
    by (auto simp: act_bind_Inr act_return_def)
  note e1 = find_or_create_product_effect [OF assms(1) one] and e2 = Cons.IH [OF rest]
  have "polar_view api org s' (Product, pc_name c) = Some p" using e1 e2 by (metis map_leD)
  then show ?case using e1 e2 map_le_trans by (auto simp: ps)
qed (simp add: act_return_def)

lemma product_loop_found:
  assumes "polar_contract api org" "map (\<lambda>c. polar_view api org s (Product, pc_name c)) cs = map Some ps"
  shows "product_loop api org mids bids cs s = (Inr ps, s)"
  using assms(2)
proof (induction cs arbitrary: ps)
  case (Cons c cs)
  then obtain p qs where "ps = p # qs" by (cases ps) auto
  with Cons show ?case by (simp add: act_bind_def act_return_def find_or_create_product_found [OF assms(1)])
qed (simp add: act_return_def)

lemma map_le_Some: "m \<subseteq>\<^sub>m m' \<Longrightarrow> map (\<lambda>x. m (f x)) xs = map Some ys \<Longrightarrow> map (\<lambda>x. m' (f x)) xs = map Some ys"
proof (induction xs arbitrary: ys)
  case (Cons x xs)
  then show ?case by (cases ys) (auto dest: map_leD)
qed simp

section \<open>The whole script\<close>

lemma collect_Inr: "collect f xs = Inr ys \<Longrightarrow> list_all2 (\<lambda>x y. f x = Inr y) xs ys"
  by (induction xs arbitrary: ys) (auto split: sum.splits)

lemma collect_total: "(\<And>x. x \<in> set xs \<Longrightarrow> \<exists>y. f x = Inr y) \<Longrightarrow> \<exists>ys. collect f xs = Inr ys"
proof (induction xs)
  case (Cons x xs)
  then obtain y ys where "f x = Inr y" "collect f xs = Inr ys" by (metis list.set_intros)
  then show ?case by simp
qed simp

lemma benefit_jobs_keys:
  assumes "benefit_jobs org mids = Inr js"
  shows "list_all job_ok js" "map job_key js = map (\<lambda>c. (Benefit, bc_description c)) benefits"
proof -
  have "list_all2 (\<lambda>c j. \<exists>i. j = benefit_job org i c) benefits js"
    using collect_Inr [OF assms [unfolded benefit_jobs_def]]
    by (rule list_all2_mono) (auto split: option.splits if_splits)
  then have "list_all job_ok js \<and> map job_key js = map (\<lambda>c. (Benefit, bc_description c)) benefits"
    by (induction rule: list_all2_induct) (auto simp: benefit_job_def [of _ _ c for c] job_ok_def)
  then show "list_all job_ok js" "map job_key js = map (\<lambda>c. (Benefit, bc_description c)) benefits" by auto
qed

lemma meter_jobs_keys:
  "list_all job_ok (map (meter_job org) meters)" "distinct (map job_key (map (meter_job org) meters))"
  by (simp_all add: list_all_iff meters_def meter_job_def job_ok_def)

lemma benefit_names_distinct: "distinct (map (\<lambda>c. (Benefit, bc_description c)) benefits)"
  by (simp add: benefits_def)

lemma main_run:
  assumes "main api env sched1 sched2 s = (Inr r, s')"
  obtains js s1 s2 where "env_token env \<noteq> None" "env_token env \<noteq> Some []"
    "run_phase api (env_org env) (map (meter_job (env_org env)) meters) sched1 s = (Inr (sr_meters r), s1)"
    "benefit_jobs (env_org env) (ids_by_label Meter (sr_meters r)) = Inr js"
    "run_phase api (env_org env) js sched2 s1 = (Inr (sr_benefits r), s2)"
    "product_loop api (env_org env) (ids_by_label Meter (sr_meters r)) (ids_by_label Benefit (sr_benefits r)) products s2
       = (Inr (sr_products r), s')"
proof -
  obtain ms s1 where a: "env_token env \<noteq> None" "env_token env \<noteq> Some []"
      "run_phase api (env_org env) (map (meter_job (env_org env)) meters) sched1 s = (Inr ms, s1)"
      "setup_benefits api (env_org env) sched2 ms s1 = (Inr r, s')"
    using assms by (auto simp: main_def act_bind_Inr act_fail_def split: if_splits)
  obtain js bs s2 where b: "benefit_jobs (env_org env) (ids_by_label Meter ms) = Inr js"
      "run_phase api (env_org env) js sched2 s1 = (Inr bs, s2)"
      "setup_products api (env_org env) ms bs s2 = (Inr r, s')"
    using a(4) by (auto simp: setup_benefits_def act_bind_Inr act_fail_def split: sum.splits)
  show thesis
    using b(3) by (auto simp: setup_products_def act_bind_Inr act_return_def intro!: that a b)
qed


section \<open>The script ends\<close>

lemma task_step_total:
  assumes "polar_contract api org" "polar_answers api"
  shows "\<exists>t' s'. task_step api org j t s = (Inr t', s')"
proof -
  obtain i s' where "pa_create api (jb_kind j) (jb_create j) s = (Inr i, s')"
    using assms(2) unfolding polar_answers_def by blast
  then show ?thesis
    by (cases t) (simp_all add: task_step_def act_bind_def act_return_def find_item_view [OF assms(1)] create_item_def polar_call_def)
qed

lemma run_tasks_total:
  assumes "polar_contract api org" "polar_answers api"
  shows "\<exists>ts' s'. run_tasks api org js sched ts s = (Inr ts', s')"
proof (induction sched arbitrary: ts s)
  case (Cons i sched)
  show ?case
  proof (cases "i < length js")
    case True
    obtain t s1 where "task_step api org (js ! i) (ts ! i) s = (Inr t, s1)"
      using task_step_total [OF assms] by blast
    then show ?thesis using Cons [of "ts[i := t]" s1] True by (simp add: act_bind_def)
  qed (simp add: Cons)
qed (simp add: act_return_def)

lemma run_phase_total:
  assumes "polar_contract api org" "polar_answers api"
  obtains xs s' where "run_phase api org js sched s = (Inr xs, s')"
  using run_tasks_total [OF assms, of js "complete (length js) sched" "replicate (length js) Listing" s]
  by (auto simp: run_phase_def act_bind_def act_return_def)

lemma ids_by_label_get:
  assumes "dict_get (ids_by_label k is) n = None"
  shows "n \<notin> item_label k ` set is"
proof -
  have *: "dict_get (foldl (\<lambda>m i. dict_set (item_label k i) (it_id i) m) m0 is) n \<noteq> None"
    if "n \<in> item_label k ` set is \<or> dict_get m0 n \<noteq> None" for m0
    using that by (induction "is" arbitrary: m0) (auto simp: dict_simps)
  show ?thesis using assms * [of "[]"] by (auto simp: ids_by_label_def)
qed

lemma ids_by_label_in:
  "dict_get (ids_by_label k is) n = Some x \<Longrightarrow> \<exists>i \<in> set is. x = it_id i"
proof -
  have "dict_get (foldl (\<lambda>m i. dict_set (item_label k i) (it_id i) m) m0 is) n = Some x \<Longrightarrow>
     dict_get m0 n = Some x \<or> (\<exists>i \<in> set is. x = it_id i)" for m0
    by (induction "is" arbitrary: m0) (fastforce simp: dict_simps split: if_splits)+
  then show "dict_get (ids_by_label k is) n = Some x \<Longrightarrow> \<exists>i \<in> set is. x = it_id i"
    by (force simp: ids_by_label_def)
qed

lemma phase_items:
  assumes "polar_contract api org" "map (\<lambda>j. polar_view api org s (job_key j)) js = map Some is" "\<forall>j \<in> set js. jb_kind j = k"
  shows "map (item_label k) is = map jb_name js" "\<forall>i \<in> set is. it_id i \<noteq> []"
  using assms(2,3)
proof (induction js arbitrary: "is")
  case (Cons j js)
  { case 1 then show ?case using Cons by (cases "is") (auto simp: view_label) }
  { case 2 then show ?case using Cons assms(1) by (cases "is") (auto simp: polar_contract_def) }
qed auto

lemma product_loop_total:
  assumes "polar_contract api org" "polar_answers api"
    and "\<forall>c \<in> set cs. \<exists>ps. collect (resolve_price mids) (pc_prices c) = Inr ps"
  shows "\<exists>ps s'. product_loop api org mids bids cs s = (Inr ps, s')"
  using assms(3)
proof (induction cs arbitrary: s)
  case (Cons c cs)
  obtain ps where ps: "collect (resolve_price mids) (pc_prices c) = Inr ps" using Cons.prems by auto
  have att: "\<exists>s'. attach_benefits api p ids t = (Inr p, s')" for p ids t
  proof -
    obtain s' where "pa_update_benefits api (JObj [(''id'', JStr (it_id p)),
             (''productBenefitsUpdate'', JObj [(''benefits'', JArr (map JStr ids))])]) t = (Inr (), s')"
      using assms(2) unfolding polar_answers_def by blast
    then show ?thesis by (simp add: attach_benefits_def act_return_def act_bind_def polar_call_def)
  qed
  obtain i s1 where "pa_create api Product (jb_create (product_job org c ps)) s = (Inr i, s1)"
    using assms(2) unfolding polar_answers_def by blast
  then have "create_item api (product_job org c ps) s = (Inr i, s1)"
    by (simp add: create_item_def polar_call_def product_job_def)
  then have "\<exists>p s2. find_or_create_product api org mids bids c s = (Inr p, s2)"
    using ps att [of i "benefit_ids bids c" s1]
    by (cases "polar_view api org s (Product, pc_name c)")
      (auto simp: find_or_create_product_def act_bind_def act_return_def find_item_view [OF assms(1)])
  then obtain p s2 where "find_or_create_product api org mids bids c s = (Inr p, s2)" by blast
  moreover obtain qs s' where "product_loop api org mids bids cs s2 = (Inr qs, s')"
    using Cons by (metis list.set_intros(2))
  ultimately show ?case by (simp add: act_bind_def act_return_def)
qed (simp add: act_return_def)

lemma setup_total:
  assumes "polar_contract api (env_org env)" "polar_answers api" and "env_token env = Some t" "t \<noteq> []"
  shows "\<exists>r s'. main api env m b s = (Inr r, s')
     \<and> map it_name (sr_meters r) = map mc_name meters
     \<and> map it_description (sr_benefits r) = map bc_description benefits
     \<and> map it_name (sr_products r) = map pc_name products"
proof -
  note con = assms(1) and ans = assms(2)
  let ?o = "env_org env"
  obtain ms s1 where m: "run_phase api ?o (map (meter_job ?o) meters) m s = (Inr ms, s1)"
    by (rule run_phase_total [OF con ans])
  note em = conjunct1 [OF run_phase_effect [OF con meter_jobs_keys m]]
  have mi: "map it_name ms = map mc_name meters" "\<forall>i \<in> set ms. it_id i \<noteq> []"
    using phase_items [OF con em, of Meter] by (simp_all add: meter_job_def o_def cong: map_cong)
  let ?mids = "ids_by_label Meter ms"
  have mids: "\<exists>i. dict_get ?mids n = Some i \<and> i \<noteq> []" if "n \<in> set (map mc_name meters)" for n
  proof -
    have "n \<in> item_label Meter ` set ms" using that arg_cong [OF mi(1), of set] by (auto simp: image_iff)
    then obtain i where "dict_get ?mids n = Some i" using ids_by_label_get by (metis not_None_eq)
    moreover from ids_by_label_in [OF this] mi(2) have "i \<noteq> []" by auto
    ultimately show ?thesis by simp
  qed
  note shared = mids [of "''shared_agent_runs''"] and dedicated = mids [of "''dedicated_agent_runs''"]
  have "\<exists>js. benefit_jobs ?o ?mids = Inr js"
    unfolding benefit_jobs_def using shared dedicated by (intro collect_total) (auto simp: benefits_def meters_def)
  then obtain js where js: "benefit_jobs ?o ?mids = Inr js" by blast
  have dist: "distinct (map job_key js)" using benefit_jobs_keys(2) [OF js] benefit_names_distinct by simp
  obtain bs s2 where b: "run_phase api ?o js b s1 = (Inr bs, s2)" by (rule run_phase_total [OF con ans])
  note eb = conjunct1 [OF run_phase_effect [OF con benefit_jobs_keys(1) [OF js] dist b]]
  have keys: "map jb_name js = map bc_description benefits" "\<forall>j \<in> set js. jb_kind j = Benefit"
    using benefit_jobs_keys(2) [OF js] by (auto simp: list_eq_iff_nth_eq in_set_conv_nth)
  have bi: "map it_description bs = map bc_description benefits"
    using phase_items(1) [OF con eb keys(2)] keys(1) by (simp cong: map_cong)
  have "\<forall>c \<in> set products. \<exists>ps. collect (resolve_price ?mids) (pc_prices c) = Inr ps"
    using shared dedicated by (auto simp: products_def meters_def)
  then obtain ps s3 where p: "product_loop api ?o ?mids (ids_by_label Benefit bs) products s2 = (Inr ps, s3)"
    using product_loop_total [OF con ans] by blast
  have "map it_name ps = map pc_name products"
    using phase_items(1) [OF con, of s3 "map (\<lambda>c. \<lparr>jb_kind = Product, jb_name = pc_name c, jb_create = JNull\<rparr>) products" ps Product]
      product_loop_effect [OF con p] by (simp add: o_def cong: map_cong)
  then show ?thesis
    using assms(3,4) m js b p mi bi
    by (simp add: main_def act_bind_def act_return_def setup_benefits_def setup_products_def)
qed


text \<open>A service that keeps the contract: the account is the list of what was created.\<close>

definition demo_item :: "string \<Rightarrow> item" where
  "demo_item n = \<lparr>it_id = ''id-'' @ n, it_name = n, it_description = n\<rparr>"

definition demo_api :: "(kind \<times> string) list polar_api" where
  "demo_api = \<lparr>pa_list = \<lambda>k q s. Inr (map (\<lambda>x. demo_item (snd x)) (filter (\<lambda>x. fst x = k) s)),
     pa_create = \<lambda>k q s. (let n = (case js_get q (label_field k) of JStr n \<Rightarrow> n | _ \<Rightarrow> []) in (Inr (demo_item n), s @ [(k, n)])),
     pa_update_benefits = \<lambda>q s. (Inr (), s)\<rparr>"

definition demo_polar_env :: polar_env where
  "demo_polar_env = \<lparr>env_token = Some ''polar_oat'', env_org = None\<rparr>"

lemma demo_view: "polar_view demo_api org s kn = (if kn \<in> set s then Some (demo_item (snd kn)) else None)"
proof -
  have "item_label k (demo_item n) = n" for k n by (cases k) (simp_all add: demo_item_def)
  then have "find (\<lambda>i. item_label (fst kn) i = snd kn) (map (\<lambda>x. demo_item (snd x)) (filter (\<lambda>x. fst x = fst kn) s))
    = (if kn \<in> set s then Some (demo_item (snd kn)) else None)"
    by (induction s) (auto simp: prod_eq_iff)
  then show ?thesis by (simp add: polar_view_def demo_api_def)
qed

lemma demo_contract: "polar_contract demo_api org" "polar_answers demo_api"
  by (auto simp: polar_contract_def polar_answers_def demo_view fun_eq_iff split: if_splits)
    (auto simp: demo_api_def demo_item_def Let_def)



end
