(* ===== verification/SdkClient.thy ===== *)
theory SdkClient
  imports SessionStore
begin

text \<open>
  The TypeScript SDK, \<open>packages/sdk/src\<close>: the client and its fifteen resources. A method
  of a resource is a constructor of the resource's call type, with the method's arguments;
  \<open>..._request\<close> is the request it hands to \<open>openapi-fetch\<close>: method, path template, path
  parameters, query and body. What that library does with it (filling the template, encoding
  the query, the transport) is not modelled. An optional query is a value that may be
  \<open>undefined\<close>. \<open>stream\<close>, the one method that builds its own URL, is modelled in full.
\<close>

record api_request =
  rq_method :: string
  rq_template :: string
  rq_params :: "(string \<times> string) list"
  rq_query :: js
  rq_body :: js

definition api :: "string \<Rightarrow> string \<Rightarrow> (string \<times> string) list \<Rightarrow> js \<Rightarrow> js \<Rightarrow> api_request" where
  "api m t ps q b = \<lparr>rq_method = m, rq_template = t, rq_params = ps, rq_query = q, rq_body = b\<rparr>"

datatype decision = Approve | Deny

fun decision_js :: "decision \<Rightarrow> js" where
  "decision_js Approve = JStr ''approve''"
| "decision_js Deny = JStr ''deny''"

section \<open>Resources\<close>

datatype agents_call =
    AgentsCreate js
  | AgentsList js
  | AgentsGet string
  | AgentsUpdate string js
  | AgentsDelete string
  | AgentsGetSetup string
  | AgentsUpdateSetup string js

fun agents_request :: "agents_call \<Rightarrow> api_request" where
  "agents_request (AgentsCreate b) = api ''POST'' ''/v1/agents'' [] JUndefined b"
| "agents_request (AgentsList q) = api ''GET'' ''/v1/agents'' [] q JUndefined"
| "agents_request (AgentsGet i) = api ''GET'' ''/v1/agents/{id}'' [(''id'', i)] JUndefined JUndefined"
| "agents_request (AgentsUpdate i b) = api ''PUT'' ''/v1/agents/{id}'' [(''id'', i)] JUndefined b"
| "agents_request (AgentsDelete i) = api ''DELETE'' ''/v1/agents/{id}'' [(''id'', i)] JUndefined JUndefined"
| "agents_request (AgentsGetSetup i) = api ''GET'' ''/v1/agents/{id}/setup'' [(''id'', i)] JUndefined JUndefined"
| "agents_request (AgentsUpdateSetup i b) = api ''PUT'' ''/v1/agents/{id}/setup'' [(''id'', i)] JUndefined b"

datatype api_keys_call =
    ApiKeysCreate js
  | ApiKeysList js
  | ApiKeysDelete string

fun api_keys_request :: "api_keys_call \<Rightarrow> api_request" where
  "api_keys_request (ApiKeysCreate b) = api ''POST'' ''/v1/api-keys'' [] JUndefined b"
| "api_keys_request (ApiKeysList q) = api ''GET'' ''/v1/api-keys'' [] q JUndefined"
| "api_keys_request (ApiKeysDelete i) = api ''DELETE'' ''/v1/api-keys/{id}'' [(''id'', i)] JUndefined JUndefined"

datatype audit_call =
    AuditList js

fun audit_request :: "audit_call \<Rightarrow> api_request" where
  "audit_request (AuditList q) = api ''GET'' ''/v1/audit'' [] q JUndefined"

datatype catalog_call =
    CatalogListIntegrations
  | CatalogGetIntegration string
  | CatalogListActions string

fun catalog_request :: "catalog_call \<Rightarrow> api_request" where
  "catalog_request CatalogListIntegrations = api ''GET'' ''/v1/catalog/integrations'' [] JUndefined JUndefined"
| "catalog_request (CatalogGetIntegration i) = api ''GET'' ''/v1/catalog/integrations/{id}'' [(''id'', i)] JUndefined JUndefined"
| "catalog_request (CatalogListActions i) = api ''GET'' ''/v1/catalog/integrations/{id}/actions'' [(''id'', i)] JUndefined JUndefined"

datatype conversations_call =
    ConversationsCreate string
  | ConversationsList string js
  | ConversationsGet string
  | ConversationsSendMessage string string
  | ConversationsAbort string
  | ConversationsEnd string
  | ConversationsListApprovals string
  | ConversationsResolveApproval string string decision
  | ConversationsListEvents string js

fun conversations_request :: "conversations_call \<Rightarrow> api_request" where
  "conversations_request (ConversationsCreate a) = api ''POST'' ''/v1/agents/{agentID}/conversations'' [(''agentID'', a)] JUndefined JUndefined"
| "conversations_request (ConversationsList a q) = api ''GET'' ''/v1/agents/{agentID}/conversations'' [(''agentID'', a)] q JUndefined"
| "conversations_request (ConversationsGet c) = api ''GET'' ''/v1/conversations/{convID}'' [(''convID'', c)] JUndefined JUndefined"
| "conversations_request (ConversationsSendMessage c t) = api ''POST'' ''/v1/conversations/{convID}/messages'' [(''convID'', c)] JUndefined (JObj [(''content'', JStr t)])"
| "conversations_request (ConversationsAbort c) = api ''POST'' ''/v1/conversations/{convID}/abort'' [(''convID'', c)] JUndefined JUndefined"
| "conversations_request (ConversationsEnd c) = api ''DELETE'' ''/v1/conversations/{convID}'' [(''convID'', c)] JUndefined JUndefined"
| "conversations_request (ConversationsListApprovals c) = api ''GET'' ''/v1/conversations/{convID}/approvals'' [(''convID'', c)] JUndefined JUndefined"
| "conversations_request (ConversationsResolveApproval c r d) = api ''POST'' ''/v1/conversations/{convID}/approvals/{requestID}'' [(''convID'', c), (''requestID'', r)] JUndefined (JObj [(''decision'', decision_js d)])"
| "conversations_request (ConversationsListEvents c q) = api ''GET'' ''/v1/conversations/{convID}/events'' [(''convID'', c)] q JUndefined"

datatype credentials_call =
    CredentialsCreate js
  | CredentialsList js
  | CredentialsGet string
  | CredentialsDelete string

fun credentials_request :: "credentials_call \<Rightarrow> api_request" where
  "credentials_request (CredentialsCreate b) = api ''POST'' ''/v1/credentials'' [] JUndefined b"
| "credentials_request (CredentialsList q) = api ''GET'' ''/v1/credentials'' [] q JUndefined"
| "credentials_request (CredentialsGet i) = api ''GET'' ''/v1/credentials/{id}'' [(''id'', i)] JUndefined JUndefined"
| "credentials_request (CredentialsDelete i) = api ''DELETE'' ''/v1/credentials/{id}'' [(''id'', i)] JUndefined JUndefined"

datatype custom_domains_call =
    CustomDomainsCreate js
  | CustomDomainsList
  | CustomDomainsVerify string
  | CustomDomainsDelete string

fun custom_domains_request :: "custom_domains_call \<Rightarrow> api_request" where
  "custom_domains_request (CustomDomainsCreate b) = api ''POST'' ''/v1/custom-domains'' [] JUndefined b"
| "custom_domains_request CustomDomainsList = api ''GET'' ''/v1/custom-domains'' [] JUndefined JUndefined"
| "custom_domains_request (CustomDomainsVerify i) = api ''POST'' ''/v1/custom-domains/{id}/verify'' [(''id'', i)] JUndefined JUndefined"
| "custom_domains_request (CustomDomainsDelete i) = api ''DELETE'' ''/v1/custom-domains/{id}'' [(''id'', i)] JUndefined JUndefined"

datatype generations_call =
    GenerationsList js
  | GenerationsGet string

fun generations_request :: "generations_call \<Rightarrow> api_request" where
  "generations_request (GenerationsList q) = api ''GET'' ''/v1/generations'' [] q JUndefined"
| "generations_request (GenerationsGet i) = api ''GET'' ''/v1/generations/{id}'' [(''id'', i)] JUndefined JUndefined"

datatype org_call =
    OrgCreate js
  | OrgGetCurrent

fun org_request :: "org_call \<Rightarrow> api_request" where
  "org_request (OrgCreate b) = api ''POST'' ''/v1/orgs'' [] JUndefined b"
| "org_request OrgGetCurrent = api ''GET'' ''/v1/orgs/current'' [] JUndefined JUndefined"

datatype providers_call =
    ProvidersList
  | ProvidersGet string
  | ProvidersListModels string

fun providers_request :: "providers_call \<Rightarrow> api_request" where
  "providers_request ProvidersList = api ''GET'' ''/v1/providers'' [] JUndefined JUndefined"
| "providers_request (ProvidersGet i) = api ''GET'' ''/v1/providers/{id}'' [(''id'', i)] JUndefined JUndefined"
| "providers_request (ProvidersListModels i) = api ''GET'' ''/v1/providers/{id}/models'' [(''id'', i)] JUndefined JUndefined"

datatype reporting_call =
    ReportingGet js

fun reporting_request :: "reporting_call \<Rightarrow> api_request" where
  "reporting_request (ReportingGet q) = api ''GET'' ''/v1/reporting'' [] q JUndefined"

datatype sandboxes_call =
    SandboxesList js
  | SandboxesGet string
  | SandboxesStop string
  | SandboxesExec string "string list"
  | SandboxesDelete string

fun sandboxes_request :: "sandboxes_call \<Rightarrow> api_request" where
  "sandboxes_request (SandboxesList q) = api ''GET'' ''/v1/sandboxes'' [] q JUndefined"
| "sandboxes_request (SandboxesGet i) = api ''GET'' ''/v1/sandboxes/{id}'' [(''id'', i)] JUndefined JUndefined"
| "sandboxes_request (SandboxesStop i) = api ''POST'' ''/v1/sandboxes/{id}/stop'' [(''id'', i)] JUndefined JUndefined"
| "sandboxes_request (SandboxesExec i cs) = api ''POST'' ''/v1/sandboxes/{id}/exec'' [(''id'', i)] JUndefined (JObj [(''commands'', JArr (map JStr cs))])"
| "sandboxes_request (SandboxesDelete i) = api ''DELETE'' ''/v1/sandboxes/{id}'' [(''id'', i)] JUndefined JUndefined"

datatype sandbox_templates_call =
    SandboxTemplatesCreate js
  | SandboxTemplatesList js
  | SandboxTemplatesGet string
  | SandboxTemplatesUpdate string js
  | SandboxTemplatesDelete string

fun sandbox_templates_request :: "sandbox_templates_call \<Rightarrow> api_request" where
  "sandbox_templates_request (SandboxTemplatesCreate b) = api ''POST'' ''/v1/sandbox-templates'' [] JUndefined b"
| "sandbox_templates_request (SandboxTemplatesList q) = api ''GET'' ''/v1/sandbox-templates'' [] q JUndefined"
| "sandbox_templates_request (SandboxTemplatesGet i) = api ''GET'' ''/v1/sandbox-templates/{id}'' [(''id'', i)] JUndefined JUndefined"
| "sandbox_templates_request (SandboxTemplatesUpdate i b) = api ''PUT'' ''/v1/sandbox-templates/{id}'' [(''id'', i)] JUndefined b"
| "sandbox_templates_request (SandboxTemplatesDelete i) = api ''DELETE'' ''/v1/sandbox-templates/{id}'' [(''id'', i)] JUndefined JUndefined"

datatype tokens_call =
    TokensCreate js
  | TokensList js
  | TokensDelete string

fun tokens_request :: "tokens_call \<Rightarrow> api_request" where
  "tokens_request (TokensCreate b) = api ''POST'' ''/v1/tokens'' [] JUndefined b"
| "tokens_request (TokensList q) = api ''GET'' ''/v1/tokens'' [] q JUndefined"
| "tokens_request (TokensDelete i) = api ''DELETE'' ''/v1/tokens/{jti}'' [(''jti'', i)] JUndefined JUndefined"

datatype usage_call =
    UsageGet

fun usage_request :: "usage_call \<Rightarrow> api_request" where
  "usage_request UsageGet = api ''GET'' ''/v1/usage'' [] JUndefined JUndefined"

section \<open>The client\<close>

datatype sdk_call =
    Agents agents_call
  | ApiKeys api_keys_call
  | Audit audit_call
  | Catalog catalog_call
  | Conversations conversations_call
  | Credentials credentials_call
  | CustomDomains custom_domains_call
  | Generations generations_call
  | Org org_call
  | Providers providers_call
  | Reporting reporting_call
  | Sandboxes sandboxes_call
  | SandboxTemplates sandbox_templates_call
  | Tokens tokens_call
  | Usage usage_call

fun sdk_request :: "sdk_call \<Rightarrow> api_request" where
  "sdk_request (Agents x) = agents_request x"
| "sdk_request (ApiKeys x) = api_keys_request x"
| "sdk_request (Audit x) = audit_request x"
| "sdk_request (Catalog x) = catalog_request x"
| "sdk_request (Conversations x) = conversations_request x"
| "sdk_request (Credentials x) = credentials_request x"
| "sdk_request (CustomDomains x) = custom_domains_request x"
| "sdk_request (Generations x) = generations_request x"
| "sdk_request (Org x) = org_request x"
| "sdk_request (Providers x) = providers_request x"
| "sdk_request (Reporting x) = reporting_request x"
| "sdk_request (Sandboxes x) = sandboxes_request x"
| "sdk_request (SandboxTemplates x) = sandbox_templates_request x"
| "sdk_request (Tokens x) = tokens_request x"
| "sdk_request (Usage x) = usage_request x"

record client_config =
  cl_api_key :: string
  cl_base_url :: "string option"

text \<open>
  The constructor: the base URL, the header every request carries, and the fields the
  conversations resource keeps for its stream.
\<close>

record client =
  client_base :: string
  client_headers :: "(string \<times> string) list"
  stream_base :: string
  stream_key :: string

definition new_client :: "client_config \<Rightarrow> client" where
  "new_client cfg =
     (let base = (case cl_base_url cfg of None \<Rightarrow> ''https://api.ziraloop.com'' | Some u \<Rightarrow> u) in
      \<lparr>client_base = base, client_headers = [(''Authorization'', ''Bearer '' @ cl_api_key cfg)],
       stream_base = base, stream_key = cl_api_key cfg\<rparr>)"

definition stream_url :: "client \<Rightarrow> string \<Rightarrow> string" where
  "stream_url cl conv = stream_base cl @ ''/v1/conversations/'' @ encode_uri conv @ ''/stream''"

definition stream_request :: "client \<Rightarrow> string \<Rightarrow> string \<times> (string \<times> string) list" where
  "stream_request cl conv = (stream_url cl conv,
     [(''Authorization'', ''Bearer '' @ stream_key cl), (''Accept'', ''text/event-stream'')])"

section \<open>Every request is well formed\<close>

text \<open>The names in braces, in order.\<close>

fun placeholders :: "string \<Rightarrow> string list" where
  "placeholders [] = []"
| "placeholders (c # cs) = (if c = CHR ''{'' then takeWhile (\<lambda>d. d \<noteq> CHR ''}'') cs # placeholders cs else placeholders cs)"

definition request_ok :: "api_request \<Rightarrow> bool" where
  "request_ok r \<longleftrightarrow> placeholders (rq_template r) = map fst (rq_params r)
     \<and> starts_with ''/v1/'' (rq_template r)
     \<and> rq_method r \<in> {''GET'', ''POST'', ''PUT'', ''DELETE''}
     \<and> (rq_body r = JUndefined \<or> rq_method r = ''POST'' \<or> rq_method r = ''PUT'')
     \<and> (rq_query r = JUndefined \<or> rq_method r = ''GET'')"


section \<open>No two calls send the same request\<close>

lemma decision_inj: "inj decision_js"
proof (rule injI)
  show "decision_js x = decision_js y \<Longrightarrow> x = y" for x y by (cases x; cases y) simp_all
qed

lemma strs_inj: "inj (map JStr)"
  by (simp add: inj_def inj_map_eq_map)

lemma agents_inject: "agents_request x = agents_request y \<longleftrightarrow> x = y"
  by (cases x; cases y) (auto simp: api_def inj_eq [OF decision_inj] inj_eq [OF strs_inj])

lemma api_keys_inject: "api_keys_request x = api_keys_request y \<longleftrightarrow> x = y"
  by (cases x; cases y) (auto simp: api_def inj_eq [OF decision_inj] inj_eq [OF strs_inj])

lemma audit_inject: "audit_request x = audit_request y \<longleftrightarrow> x = y"
  by (cases x; cases y) (auto simp: api_def inj_eq [OF decision_inj] inj_eq [OF strs_inj])

lemma catalog_inject: "catalog_request x = catalog_request y \<longleftrightarrow> x = y"
  by (cases x; cases y) (auto simp: api_def inj_eq [OF decision_inj] inj_eq [OF strs_inj])

lemma conversations_inject: "conversations_request x = conversations_request y \<longleftrightarrow> x = y"
  by (cases x; cases y) (auto simp: api_def inj_eq [OF decision_inj] inj_eq [OF strs_inj])

lemma credentials_inject: "credentials_request x = credentials_request y \<longleftrightarrow> x = y"
  by (cases x; cases y) (auto simp: api_def inj_eq [OF decision_inj] inj_eq [OF strs_inj])

lemma custom_domains_inject: "custom_domains_request x = custom_domains_request y \<longleftrightarrow> x = y"
  by (cases x; cases y) (auto simp: api_def inj_eq [OF decision_inj] inj_eq [OF strs_inj])

lemma generations_inject: "generations_request x = generations_request y \<longleftrightarrow> x = y"
  by (cases x; cases y) (auto simp: api_def inj_eq [OF decision_inj] inj_eq [OF strs_inj])

lemma org_inject: "org_request x = org_request y \<longleftrightarrow> x = y"
  by (cases x; cases y) (auto simp: api_def inj_eq [OF decision_inj] inj_eq [OF strs_inj])

lemma providers_inject: "providers_request x = providers_request y \<longleftrightarrow> x = y"
  by (cases x; cases y) (auto simp: api_def inj_eq [OF decision_inj] inj_eq [OF strs_inj])

lemma reporting_inject: "reporting_request x = reporting_request y \<longleftrightarrow> x = y"
  by (cases x; cases y) (auto simp: api_def inj_eq [OF decision_inj] inj_eq [OF strs_inj])

lemma sandboxes_inject: "sandboxes_request x = sandboxes_request y \<longleftrightarrow> x = y"
  by (cases x; cases y) (auto simp: api_def inj_eq [OF decision_inj] inj_eq [OF strs_inj])

lemma sandbox_templates_inject: "sandbox_templates_request x = sandbox_templates_request y \<longleftrightarrow> x = y"
  by (cases x; cases y) (auto simp: api_def inj_eq [OF decision_inj] inj_eq [OF strs_inj])

lemma tokens_inject: "tokens_request x = tokens_request y \<longleftrightarrow> x = y"
  by (cases x; cases y) (auto simp: api_def inj_eq [OF decision_inj] inj_eq [OF strs_inj])

lemma usage_inject: "usage_request x = usage_request y \<longleftrightarrow> x = y"
  by (cases x; cases y) (auto simp: api_def inj_eq [OF decision_inj] inj_eq [OF strs_inj])

text \<open>The resource a request belongs to, read off its template.\<close>

named_theorems resource_simps \<open>the resource of each request\<close>

definition resource_name :: "api_request \<Rightarrow> string" where
  "resource_name r = (if ends_with ''/conversations'' (rq_template r) then ''conversations''
     else takeWhile (\<lambda>c. c \<noteq> CHR ''/'') (drop 4 (rq_template r)))"

lemma agents_resource [resource_simps]: "resource_name (agents_request x) = ''agents''"
  by (cases x) (simp_all add: resource_name_def ends_with_def starts_with_def api_def)

lemma api_keys_resource [resource_simps]: "resource_name (api_keys_request x) = ''api-keys''"
  by (cases x) (simp_all add: resource_name_def ends_with_def starts_with_def api_def)

lemma audit_resource [resource_simps]: "resource_name (audit_request x) = ''audit''"
  by (cases x) (simp_all add: resource_name_def ends_with_def starts_with_def api_def)

lemma catalog_resource [resource_simps]: "resource_name (catalog_request x) = ''catalog''"
  by (cases x) (simp_all add: resource_name_def ends_with_def starts_with_def api_def)

lemma conversations_resource [resource_simps]: "resource_name (conversations_request x) = ''conversations''"
  by (cases x) (simp_all add: resource_name_def ends_with_def starts_with_def api_def)

lemma credentials_resource [resource_simps]: "resource_name (credentials_request x) = ''credentials''"
  by (cases x) (simp_all add: resource_name_def ends_with_def starts_with_def api_def)

lemma custom_domains_resource [resource_simps]: "resource_name (custom_domains_request x) = ''custom-domains''"
  by (cases x) (simp_all add: resource_name_def ends_with_def starts_with_def api_def)

lemma generations_resource [resource_simps]: "resource_name (generations_request x) = ''generations''"
  by (cases x) (simp_all add: resource_name_def ends_with_def starts_with_def api_def)

lemma org_resource [resource_simps]: "resource_name (org_request x) = ''orgs''"
  by (cases x) (simp_all add: resource_name_def ends_with_def starts_with_def api_def)

lemma providers_resource [resource_simps]: "resource_name (providers_request x) = ''providers''"
  by (cases x) (simp_all add: resource_name_def ends_with_def starts_with_def api_def)

lemma reporting_resource [resource_simps]: "resource_name (reporting_request x) = ''reporting''"
  by (cases x) (simp_all add: resource_name_def ends_with_def starts_with_def api_def)

lemma sandboxes_resource [resource_simps]: "resource_name (sandboxes_request x) = ''sandboxes''"
  by (cases x) (simp_all add: resource_name_def ends_with_def starts_with_def api_def)

lemma sandbox_templates_resource [resource_simps]: "resource_name (sandbox_templates_request x) = ''sandbox-templates''"
  by (cases x) (simp_all add: resource_name_def ends_with_def starts_with_def api_def)

lemma tokens_resource [resource_simps]: "resource_name (tokens_request x) = ''tokens''"
  by (cases x) (simp_all add: resource_name_def ends_with_def starts_with_def api_def)

lemma usage_resource [resource_simps]: "resource_name (usage_request x) = ''usage''"
  by (cases x) (simp_all add: resource_name_def ends_with_def starts_with_def api_def)

lemmas request_inject = agents_inject api_keys_inject audit_inject catalog_inject conversations_inject credentials_inject custom_domains_inject generations_inject org_inject providers_inject reporting_inject sandboxes_inject sandbox_templates_inject tokens_inject usage_inject

text \<open>
  No two methods of the SDK are wired to the same endpoint, and no argument is dropped
  or mixed up: calls that send the same request are the same method of the same resource
  with the same arguments.
\<close>

theorem sdk_request_injective: "sdk_request c = sdk_request d \<longleftrightarrow> c = d"
proof -
  have "c = d" if eq: "sdk_request c = sdk_request d"
  proof -
    have "resource_name (sdk_request c) = resource_name (sdk_request d)" using eq by simp
    then show ?thesis using eq by (cases c; cases d; simp only: sdk_request.simps resource_simps request_inject) simp_all
  qed
  then show ?thesis by blast
qed

text \<open>
  The stream of a conversation is asked for at that conversation: the id is one segment
  of the path, whatever characters it has, it can be read back from the URL, and the base
  URL and the key are those every other request of the client uses.
\<close>

theorem stream_url_segment:
  "\<exists>seg. stream_url (new_client cfg) conv = client_base (new_client cfg) @ ''/v1/conversations/'' @ seg @ ''/stream''
     \<and> decode_uri seg = Some conv \<and> set seg \<inter> {CHR ''/'', CHR ''?'', CHR ''#''} = {}
     \<and> hd (snd (stream_request (new_client cfg) conv)) = hd (client_headers (new_client cfg))"
proof (intro exI conjI)
  have "c \<notin> {CHR ''/'', CHR ''?'', CHR ''#''}" if "c \<in> set (encode_uri conv)" for c
    using encode_uri_chars [OF that] by (auto simp: uri_plain_def)
  then show "set (encode_uri conv) \<inter> {CHR ''/'', CHR ''?'', CHR ''#''} = {}" by blast
qed (simp_all add: stream_url_def new_client_def Let_def decode_encode_uri stream_request_def)

end
