(* ===== verification/SitePages.thy ===== *)
theory SitePages
  imports JsonText Complex_Main "HOL-Library.Multiset"
begin

text \<open>
  Pages outside the workspace: the blog helpers of \<open>lib/source.tsx\<close> with the pages that use
  them, the progress bar of an article (\<open>blog/[slug]/reading-progress.tsx\<close>), the loading
  screen (\<open>components/loader.tsx\<close>) and the page an OAuth provider returns to
  (\<open>oauth/[provider]/callback/page.tsx\<close>). The collection of posts, their dates as times and
  the random number are parameters.
\<close>

section \<open>Posts\<close>

record raw_post =
  po_path :: string
  po_title :: string
  po_description :: string
  po_date :: string
  po_author :: string
  po_avatar :: string
  po_category :: string
  po_read_time :: string
  po_body :: string

record post_data =
  pd_title :: string
  pd_description :: string
  pd_date :: string
  pd_author :: string
  pd_avatar :: string
  pd_category :: string
  pd_read_time :: string

record post =
  ps_slug :: string
  ps_data :: post_data
  ps_body :: string

text \<open>\<open>filename.replace(/\.mdx$/i, '')\<close>\<close>

definition strip_mdx :: "string \<Rightarrow> string" where
  "strip_mdx f = (if 4 \<le> length f \<and> to_lower (drop (length f - 4) f) = ''.mdx'' then take (length f - 4) f else f)"

definition derive_slug :: "string \<Rightarrow> string" where
  "derive_slug path = strip_mdx (last (js_split (CHR ''/'') path))"

definition to_post :: "raw_post \<Rightarrow> post" where
  "to_post e = \<lparr>ps_slug = derive_slug (po_path e),
     ps_data = \<lparr>pd_title = po_title e, pd_description = po_description e, pd_date = po_date e, pd_author = po_author e,
       pd_avatar = po_avatar e, pd_category = po_category e, pd_read_time = po_read_time e\<rparr>,
     ps_body = po_body e\<rparr>"

definition get_all_posts :: "(string \<Rightarrow> int) \<Rightarrow> raw_post list \<Rightarrow> post list" where
  "get_all_posts time raws = sort_key (\<lambda>p. - time (pd_date (ps_data p))) (map to_post raws)"

fun find_post_by_slug :: "raw_post list \<Rightarrow> string \<Rightarrow> post option" where
  "find_post_by_slug [] slug = None"
| "find_post_by_slug (e # es) slug = (if derive_slug (po_path e) = slug then Some (to_post e) else find_post_by_slug es slug)"

definition static_params :: "(string \<Rightarrow> int) \<Rightarrow> raw_post list \<Rightarrow> string list" where
  "static_params time raws = map ps_slug (get_all_posts time raws)"

text \<open>The index: the newest post is featured, the others follow, each with its address.\<close>

definition blog_index :: "(string \<Rightarrow> int) \<Rightarrow> raw_post list \<Rightarrow> (string \<times> post) option \<times> (string \<times> post) list" where
  "blog_index time raws = (let rows = map (\<lambda>p. (''/blog/'' @ ps_slug p, p)) (get_all_posts time raws) in
     (case rows of [] \<Rightarrow> (None, []) | r # rest \<Rightarrow> (Some r, rest)))"

datatype blog_page = NotFound | Article post

definition blog_post_page :: "raw_post list \<Rightarrow> string \<Rightarrow> blog_page" where
  "blog_post_page raws slug = (case find_post_by_slug raws slug of None \<Rightarrow> NotFound | Some p \<Rightarrow> Article p)"

lemma ps_slug_to_post [simp]: "ps_slug (to_post e) = derive_slug (po_path e)"
  by (simp add: to_post_def)

lemma find_post_None: "find_post_by_slug es slug = None \<longleftrightarrow> slug \<notin> (\<lambda>e. derive_slug (po_path e)) ` set es"
  by (induction es) auto

lemma find_post_distinct:
  "distinct (map (\<lambda>e. derive_slug (po_path e)) es) \<Longrightarrow> e \<in> set es \<Longrightarrow>
   find_post_by_slug es (derive_slug (po_path e)) = Some (to_post e)"
proof (induction es)
  case (Cons x xs)
  then show ?case by (auto simp: image_iff)
qed simp

lemma set_all_posts: "set (get_all_posts time raws) = to_post ` set raws"
  by (simp add: get_all_posts_def)

text \<open>
  C40. The blog: the index lists every file once, newest first, and when the file names differ
  each listed address opens exactly the post it was listed for; the pages rendered at build time are
  those addresses; and an address that is not listed is answered with not found.\<close>

theorem blog_links_resolve:
  assumes "distinct (map (\<lambda>e. derive_slug (po_path e)) raws)"
  shows "sorted (map (\<lambda>p. - time (pd_date (ps_data p))) (get_all_posts time raws))
    \<and> mset (get_all_posts time raws) = image_mset to_post (mset raws)
    \<and> map (blog_post_page raws) (static_params time raws) = map Article (get_all_posts time raws)
    \<and> (blog_post_page raws slug = NotFound \<longleftrightarrow> slug \<notin> set (static_params time raws))"
proof -
  have opens: "blog_post_page raws (ps_slug p) = Article p" if "p \<in> set (get_all_posts time raws)" for p
    using that find_post_distinct [OF assms] by (auto simp: set_all_posts blog_post_page_def)
  have missing: "blog_post_page raws slug = NotFound \<longleftrightarrow> slug \<notin> set (static_params time raws)"
    using find_post_None [of raws slug]
    by (cases "find_post_by_slug raws slug") (simp_all add: blog_post_page_def static_params_def set_all_posts image_image)
  have "map (blog_post_page raws) (static_params time raws) = map Article (get_all_posts time raws)"
    unfolding static_params_def map_map by (rule map_cong) (simp_all add: opens)
  with missing show ?thesis by (simp add: get_all_posts_def)
qed

definition demo_post :: "string \<Rightarrow> string \<Rightarrow> raw_post" where
  "demo_post path date = \<lparr>po_path = path, po_title = [], po_description = [], po_date = date, po_author = [], po_avatar = [],
     po_category = [], po_read_time = [], po_body = path\<rparr>"

definition demo_posts :: "raw_post list" where
  "demo_posts = [demo_post ''a.mdx'' ''1'', demo_post ''b.MDX'' ''22'']"

lemma demo_slugs: "map (\<lambda>e. derive_slug (po_path e)) demo_posts = [''a'', ''b'']"
  by code_simp

lemma blog_links_resolve_witness:
  "map (blog_post_page demo_posts) (static_params (\<lambda>d. int (length d)) demo_posts)
     = map Article (get_all_posts (\<lambda>d. int (length d)) demo_posts) \<and> static_params (\<lambda>d. int (length d)) demo_posts = [''b'', ''a'']"
proof -
  have "distinct (map (\<lambda>e. derive_slug (po_path e)) demo_posts)" by (simp add: demo_slugs)
  from blog_links_resolve [OF this] have "map (blog_post_page demo_posts) (static_params (\<lambda>d. int (length d)) demo_posts)
     = map Article (get_all_posts (\<lambda>d. int (length d)) demo_posts)" by blast
  moreover have "static_params (\<lambda>d. int (length d)) demo_posts = [''b'', ''a'']" by code_simp
  ultimately show ?thesis by simp
qed

text \<open>Two files of one name in different folders are both listed, but both addresses open the first.\<close>

lemma same_name_hidden:
  "let raws = [demo_post ''x/a.mdx'' ''1'', demo_post ''y/a.mdx'' ''22''] in
     length (static_params (\<lambda>d. int (length d)) raws) = 2
     \<and> map (blog_post_page raws) (static_params (\<lambda>d. int (length d)) raws) = replicate 2 (Article (to_post (hd raws)))"
  by code_simp

section \<open>The progress bar\<close>

record reading =
  rg_scroll :: int
  rg_document :: int
  rg_window :: int
  rg_width :: rat
  rg_raf :: bool
  rg_mounted :: bool
  rg_writes :: nat

definition progress_ratio :: "int \<Rightarrow> int \<Rightarrow> int \<Rightarrow> rat" where
  "progress_ratio scroll document window = (let h = document - window in
     if h \<le> 0 then 0 else min 1 (max 0 (Fract scroll h)))"

definition progress_update :: "reading \<Rightarrow> reading" where
  "progress_update st = st\<lparr>rg_width := progress_ratio (rg_scroll st) (rg_document st) (rg_window st) * 100, rg_writes := Suc (rg_writes st)\<rparr>"

definition progress_mount :: "int \<Rightarrow> int \<Rightarrow> int \<Rightarrow> reading" where
  "progress_mount scroll document window = progress_update \<lparr>rg_scroll = scroll, rg_document = document, rg_window = window,
     rg_width = 0, rg_raf = False, rg_mounted = True, rg_writes = 0\<rparr>"

text \<open>\<open>onScroll\<close>: at most one frame is requested at a time.\<close>

definition on_scroll :: "reading \<Rightarrow> reading" where
  "on_scroll st = (if rg_raf st then st else st\<lparr>rg_raf := True\<rparr>)"

datatype reading_event = Scrolled int | Resized int int | Frame | LeavePage

definition reading_step :: "reading \<Rightarrow> reading_event \<Rightarrow> reading" where
  "reading_step st e = (if \<not> rg_mounted st then st else (case e of
       Scrolled y \<Rightarrow> on_scroll (st\<lparr>rg_scroll := y\<rparr>)
     | Resized d w \<Rightarrow> on_scroll (st\<lparr>rg_document := d, rg_window := w\<rparr>)
     | Frame \<Rightarrow> if rg_raf st then progress_update (st\<lparr>rg_raf := False\<rparr>) else st
     | LeavePage \<Rightarrow> st\<lparr>rg_mounted := False, rg_raf := False\<rparr>))"

lemma progress_ratio_bounds: "0 \<le> progress_ratio s d w \<and> progress_ratio s d w \<le> 1"
  by (simp add: progress_ratio_def Let_def)

definition reading_inv :: "reading \<Rightarrow> bool" where
  "reading_inv st \<longleftrightarrow> 0 \<le> rg_width st \<and> rg_width st \<le> 100
     \<and> (rg_mounted st \<and> \<not> rg_raf st \<longrightarrow> rg_width st = progress_ratio (rg_scroll st) (rg_document st) (rg_window st) * 100)"

lemma reading_inv_update: "reading_inv (progress_update st)"
  using progress_ratio_bounds [of "rg_scroll st" "rg_document st" "rg_window st"]
  by (simp add: reading_inv_def progress_update_def)

lemma reading_inv_step: "reading_inv st \<Longrightarrow> reading_inv (reading_step st e)"
proof (cases e)
  case Frame
  assume "reading_inv st"
  then show ?thesis using Frame reading_inv_update by (simp add: reading_step_def)
qed (auto simp: reading_inv_def reading_step_def on_scroll_def)

interpretation reading: event_machine reading_step reading_inv
  by unfold_locales (rule reading_inv_step)

text \<open>
  The bar keeps up with the reader: it is always between nothing and the whole width, and
  as soon as no frame is pending it shows the current position, not an earlier one, however
  scrolling, resizing and frames interleave.\<close>

theorem progress_keeps_up:
  "let st = foldl reading_step (progress_mount s d w) es in
     0 \<le> rg_width st \<and> rg_width st \<le> 100
     \<and> (if rg_mounted st \<and> \<not> rg_raf st then rg_width st = progress_ratio (rg_scroll st) (rg_document st) (rg_window st) * 100 else True)"
  using reading.run_inv [of "progress_mount s d w" es] reading_inv_update
  by (auto simp: progress_mount_def reading_inv_def Let_def)

text \<open>A burst of scroll events between two frames costs one write.\<close>

lemma burst_one_write:
  assumes "rg_mounted st" "\<not> rg_raf st" "ys \<noteq> []"
  shows "rg_writes (foldl reading_step st (map Scrolled ys @ [Frame])) = Suc (rg_writes st)"
proof -
  have quiet: "rg_writes (foldl reading_step st (map Scrolled zs)) = rg_writes st \<and> rg_mounted (foldl reading_step st (map Scrolled zs))
      \<and> (zs \<noteq> [] \<longrightarrow> rg_raf (foldl reading_step st (map Scrolled zs)))" for zs
  proof (induction zs rule: rev_induct)
    case (snoc z zs)
    then show ?case by (auto simp: reading_step_def on_scroll_def)
  qed (use assms in simp)
  show ?thesis using quiet [of ys] assms(3) by (simp add: reading_step_def progress_update_def)
qed

section \<open>The loading screen\<close>

definition loading_words :: "string list" where
  "loading_words = [''Accomplishing'', ''Actioning'', ''Actualizing'', ''Baking'', ''Brewing'', ''Calculating'', ''Cerebrating'',
     ''Churning'', ''Clauding'', ''Coalescing'', ''Cogitating'', ''Computing'', ''Conjuring'', ''Considering'', ''Cooking'',
     ''Crafting'', ''Creating'', ''Crunching'', ''Deliberating'', ''Determining'', ''Doing'', ''Effecting'', ''Finagling'',
     ''Forging'', ''Forming'', ''Generating'', ''Hatching'', ''Herding'', ''Honking'', ''Hustling'', ''Ideating'', ''Inferring'',
     ''Manifesting'', ''Marinating'', ''Moseying'', ''Mulling'', ''Mustering'', ''Musing'', ''Noodling'', ''Percolating'',
     ''Pondering'', ''Processing'', ''Puttering'', ''Reticulating'', ''Ruminating'', ''Schlepping'', ''Shucking'', ''Simmering'',
     ''Smooshing'', ''Spinning'', ''Stewing'', ''Synthesizing'', ''Thinking'', ''Transmuting'', ''Vibing'', ''Working'']"

text \<open>\<open>Math.random()\<close> is a double: a multiple of \<open>2^-53\<close> below one. Out of range would be undefined.\<close>

definition random_word :: "nat \<Rightarrow> string option" where
  "random_word r = (let i = r * length loading_words div 2 ^ 53 in
     if i < length loading_words then Some (loading_words ! i) else None)"

lemma random_word_defined: "r < 2 ^ 53 \<Longrightarrow> random_word r \<noteq> None"
proof -
  assume "r < 2 ^ 53"
  then have "r * length loading_words < length loading_words * 2 ^ 53" by (simp add: loading_words_def)
  then have "r * length loading_words div 2 ^ 53 < length loading_words" by (rule less_mult_imp_div_less)
  then show ?thesis by (simp add: random_word_def Let_def)
qed

record loader =
  lo_title :: "string option"
  lo_word :: "string option"
  lo_timer :: bool

definition loader_effect :: "nat \<Rightarrow> loader \<Rightarrow> loader" where
  "loader_effect r st = (if lo_title st \<noteq> None \<and> lo_title st \<noteq> Some [] then st\<lparr>lo_timer := False\<rparr>
     else st\<lparr>lo_word := random_word r, lo_timer := True\<rparr>)"

definition loader_tick :: "nat \<Rightarrow> loader \<Rightarrow> loader" where
  "loader_tick r st = (if lo_timer st then st\<lparr>lo_word := random_word r\<rparr> else st)"

definition loader_text :: "loader \<Rightarrow> string option" where
  "loader_text st = (case lo_title st of
       Some t \<Rightarrow> if t \<noteq> [] then Some t else map_option (\<lambda>w. w @ ''...'') (lo_word st)
     | None \<Rightarrow> map_option (\<lambda>w. w @ ''...'') (lo_word st))"

lemma loader_shows_text: "r < 2 ^ 53 \<Longrightarrow> loader_text (loader_effect r st) \<noteq> None"
  using random_word_defined [of r] by (auto simp: loader_text_def loader_effect_def split: option.splits)

section \<open>Coming back from a provider\<close>

record callback_page =
  cp_token :: "string option"
  cp_error :: "string option"
  cp_exchanged :: bool
  cp_calls :: "string list"
  cp_failed :: bool
  cp_location :: "string option"

definition callback_init :: "string option \<Rightarrow> string option \<Rightarrow> callback_page" where
  "callback_init token error = \<lparr>cp_token = token, cp_error = error, cp_exchanged = False, cp_calls = [], cp_failed = False,
     cp_location = None\<rparr>"

definition filled :: "string option \<Rightarrow> bool" where
  "filled s \<longleftrightarrow> s \<noteq> None \<and> s \<noteq> Some []"

definition callback_effect :: "callback_page \<Rightarrow> callback_page" where
  "callback_effect st =
     (if filled (cp_error st) then st\<lparr>cp_location := Some (''/auth?error='' @ the (cp_error st))\<rparr>
      else if \<not> filled (cp_token st) \<or> cp_exchanged st then st
      else st\<lparr>cp_exchanged := True, cp_calls := cp_calls st @ [the (cp_token st)]\<rparr>)"

definition exchange_settled :: "bool \<Rightarrow> callback_page \<Rightarrow> callback_page" where
  "exchange_settled ok st = (if cp_calls st = [] then st
     else if ok then st\<lparr>cp_location := Some ''/w''\<rparr>
     else st\<lparr>cp_failed := True, cp_location := Some ''/auth?error=exchange_failed''\<rparr>)"

definition callback_text :: "callback_page \<Rightarrow> string" where
  "callback_text st = (if filled (cp_error st) \<or> cp_failed st
     then ''Something went wrong ('' @ (case cp_error st of None \<Rightarrow> ''exchange_failed'' | Some e \<Rightarrow> e) @ '')''
     else ''Signing you in...'')"

datatype callback_event = Effect | Exchanged bool

definition callback_step :: "callback_page \<Rightarrow> callback_event \<Rightarrow> callback_page" where
  "callback_step st e = (case e of Effect \<Rightarrow> callback_effect st | Exchanged ok \<Rightarrow> exchange_settled ok st)"

definition callback_inv :: "callback_page \<Rightarrow> bool" where
  "callback_inv st \<longleftrightarrow> cp_calls st = (if cp_exchanged st then [the (cp_token st)] else [])
     \<and> (filled (cp_error st) \<longrightarrow> \<not> cp_exchanged st)
     \<and> (cp_location st = Some ''/w'' \<longrightarrow> filled (cp_token st) \<and> cp_exchanged st)
     \<and> (cp_exchanged st \<longrightarrow> filled (cp_token st))"

lemma callback_fields [simp]:
  "cp_token (callback_step st e) = cp_token st" "cp_error (callback_step st e) = cp_error st"
  by (simp_all add: callback_step_def callback_effect_def exchange_settled_def split: callback_event.split)

lemma callback_run_fields [simp]:
  "cp_token (foldl callback_step st es) = cp_token st" "cp_error (foldl callback_step st es) = cp_error st"
  by (induction es arbitrary: st) simp_all

lemma callback_inv_step: "callback_inv st \<Longrightarrow> callback_inv (callback_step st e)"
  by (cases e) (auto simp: callback_inv_def callback_step_def callback_effect_def exchange_settled_def)

interpretation callback: event_machine callback_step callback_inv
  by unfold_locales (rule callback_inv_step)

text \<open>
  C39. The single-use token of a provider is exchanged at most once, however often the effect
  runs again; never when the provider reported an error; and the page leads into the workspace
  only after that exchange.\<close>

theorem token_exchanged_once:
  "let st = foldl callback_step (callback_init token error) es in
     if cp_calls st = [] then cp_location st \<noteq> Some ''/w''
     else (\<exists>t. token = Some t \<and> t \<noteq> [] \<and> \<not> filled error \<and> cp_calls st = [t])"
proof -
  let ?st = "foldl callback_step (callback_init token error) es"
  have "callback_inv (callback_init token error)" by (simp add: callback_inv_def callback_init_def)
  then have inv: "callback_inv ?st" by (rule callback.run_inv)
  have "cp_token ?st = token" "cp_error ?st = error" by (simp_all add: callback_init_def)
  then show ?thesis using inv by (auto simp: callback_inv_def filled_def Let_def)
qed

text \<open>Without a token and without an error the page says that it signs the user in, for ever.\<close>

lemma callback_without_token_hangs:
  "let st = foldl callback_step (callback_init None None) es in
     callback_text st = ''Signing you in...'' \<and> cp_location st = None \<and> cp_calls st = []"
proof -
  have step: "callback_step (callback_init None None) e = callback_init None None" for e
    by (cases e) (simp_all add: callback_step_def callback_effect_def exchange_settled_def callback_init_def filled_def)
  have "foldl callback_step (callback_init None None) es = callback_init None None"
    by (induction es) (simp_all add: step)
  then show ?thesis by (simp add: callback_init_def callback_text_def filled_def)
qed

end
