(* ===== verification/RecipeEditor.thy ===== *)
theory RecipeEditor
  imports JsPrelude
begin

text \<open>
  The completions of the recipe editor, \<open>create-agent/recipe-editor.tsx\<close>: what is suggested for
  the text before the cursor, and the registration of the provider. The text editor is a
  library; its \<open>CompletionItemKind\<close> is the datatype \<open>completion_kind\<close>, and the range of a
  suggestion, the same for all, is left out. No page uses the component at this commit.
\<close>

section \<open>Suggestions\<close>

datatype completion_kind = VariableKind | FieldKind | SnippetKind | FunctionKind | EnumKind | EnumMemberKind | KeywordKind

record suggestion =
  sg_label :: string
  sg_kind :: completion_kind
  sg_insert :: string
  sg_detail :: string
  sg_documentation :: "string option"
  sg_sort :: string

record action_key =
  ak_key :: string
  ak_display :: string
  ak_access :: string
  ak_resource :: string

type_synonym schema_paths = "(string, (string \<times> string) list) dict"

definition suggest :: "completion_kind \<Rightarrow> string \<Rightarrow> string \<Rightarrow> string \<Rightarrow> string \<Rightarrow> suggestion" where
  "suggest kind label ins detail order = \<lparr>sg_label = label, sg_kind = kind, sg_insert = ins, sg_detail = detail,
     sg_documentation = None, sg_sort = order\<rparr>"

definition ref_suggestions :: "string list \<Rightarrow> suggestion list" where
  "ref_suggestions refs = map (\<lambda>r. suggest VariableKind (''$refs.'' @ r) (''$refs.'' @ r) ''trigger ref'' (''0_'' @ r)) refs"

definition path_text :: "string \<Rightarrow> string \<times> string \<Rightarrow> string" where
  "path_text k p = ''$'' @ k @ ''.'' @ fst p"

definition path_suggestions :: "schema_paths \<Rightarrow> suggestion list" where
  "path_suggestions paths = concat (map (\<lambda>(k, ps). map (\<lambda>p.
     suggest FieldKind (path_text k p) (path_text k p) (snd p) (''1_'' @ k @ ''_'' @ fst p)) ps) paths)"

definition template_suggestions :: "string list \<Rightarrow> schema_paths \<Rightarrow> suggestion list" where
  "template_suggestions refs paths =
     map (\<lambda>r. suggest SnippetKind (''{{$refs.'' @ r @ ''}}'') (''$refs.'' @ r @ ''}}'') ''template ref'' (''2_'' @ r)) refs
     @ concat (map (\<lambda>(k, ps). map (\<lambda>p.
         suggest SnippetKind (''{{'' @ path_text k p @ ''}}'') (path_text k p @ ''}}'') (snd p) (''3_'' @ k @ ''_'' @ fst p)) ps) paths)"

definition action_suggestions :: "action_key list \<Rightarrow> suggestion list" where
  "action_suggestions keys = map (\<lambda>a. (suggest FunctionKind (ak_key a) (ak_key a) (ak_display a @ '' ('' @ ak_access a @ '')'') (''0_'' @ ak_key a))
     \<lparr>sg_documentation := (if ak_resource a = [] then None else Some (''resource: '' @ ak_resource a))\<rparr>) keys"

text \<open>A \<open>Set\<close> of the resource types that are not empty, in the order of their first occurrence.\<close>

definition resource_suggestions :: "action_key list \<Rightarrow> suggestion list" where
  "resource_suggestions keys = map (\<lambda>r. suggest EnumKind r r ''resource type'' (''0_'' @ r))
     (set_of (filter (\<lambda>r. r \<noteq> []) (map ak_resource keys)) [])"

definition recipe_operators :: "(string \<times> string) list" where
  "recipe_operators = [(''equals'', ''Exact match''), (''not_equals'', ''Not equal''), (''one_of'', ''Matches any in list''),
     (''not_one_of'', ''Matches none in list''), (''contains'', ''String contains substring''),
     (''not_contains'', ''String does not contain''), (''matches'', ''Regex match''),
     (''exists'', ''Field exists (no value needed)''), (''not_exists'', ''Field does not exist'')]"

definition operator_suggestions :: "suggestion list" where
  "operator_suggestions = map (\<lambda>(l, d). suggest EnumMemberKind l l d (''0_'' @ l)) recipe_operators"

definition match_suggestions :: "suggestion list" where
  "match_suggestions = map (\<lambda>m. suggest EnumMemberKind m m
     (if m = ''all'' then ''All conditions must match (AND)'' else ''Any condition can match (OR)'') (''0_'' @ m)) [''all'', ''any'']"

definition yaml_keywords :: "(string \<times> string) list" where
  "yaml_keywords = [(''conditions:'', ''Filter conditions section''), (''context:'', ''Context actions section''),
     (''instructions: |'', ''Instructions sent to agent when trigger fires''), (''match:'', ''Condition match mode (all/any)''),
     (''rules:'', ''Condition rules list''), (''- path:'', ''Condition payload path''), (''operator:'', ''Condition operator''),
     (''value:'', ''Condition value''), (''- as:'', ''Context action name''), (''action:'', ''Catalog action key''),
     (''ref:'', ''Resource ref for auto-params''), (''params:'', ''Custom parameters''),
     (''optional: true'', ''Continue on failure''), (''only_when:'', ''Only run for specific events'')]"

definition keyword_suggestions :: "suggestion list" where
  "keyword_suggestions = map (\<lambda>(l, d). suggest KeywordKind l l d (''9_'' @ l)) yaml_keywords"

text \<open>\<open>/token\s*$/\<close> for a token that does not end with a blank.\<close>

definition after_token :: "string \<Rightarrow> string \<Rightarrow> bool" where
  "after_token token before = ends_with token (trim_end before)"

definition provide_completions :: "string list \<Rightarrow> schema_paths \<Rightarrow> action_key list \<Rightarrow> string \<Rightarrow> suggestion list" where
  "provide_completions refs paths keys before =
     (let base = ref_suggestions refs @ path_suggestions paths
        @ (if js_includes ''{{'' before then template_suggestions refs paths else []) in
      if after_token ''action:'' before then base @ action_suggestions keys
      else if after_token ''ref:'' before then base @ resource_suggestions keys
      else if after_token ''operator:'' before then base @ operator_suggestions
      else if after_token ''match:'' before then base @ match_suggestions
      else base @ keyword_suggestions)"

section \<open>The provider\<close>

record recipe_editor =
  re_disposables :: "nat list"
  re_registered :: "nat list"
  re_next :: nat

definition recipe_init :: recipe_editor where
  "recipe_init = \<lparr>re_disposables = [], re_registered = [], re_next = 0\<rparr>"

definition dispose_all :: "recipe_editor \<Rightarrow> recipe_editor" where
  "dispose_all st = st\<lparr>re_registered := filter (\<lambda>i. i \<notin> set (re_disposables st)) (re_registered st), re_disposables := []\<rparr>"

definition handle_before_mount :: "recipe_editor \<Rightarrow> recipe_editor" where
  "handle_before_mount st = (let st1 = dispose_all st; i = re_next st1 in
     st1\<lparr>re_registered := re_registered st1 @ [i], re_disposables := [i], re_next := Suc i\<rparr>)"

definition recipe_step :: "recipe_editor \<Rightarrow> bool \<Rightarrow> recipe_editor" where
  "recipe_step st mount = (if mount then handle_before_mount st else dispose_all st)"

definition recipe_inv :: "recipe_editor \<Rightarrow> bool" where
  "recipe_inv st \<longleftrightarrow> re_registered st = re_disposables st \<and> length (re_disposables st) \<le> 1"

lemma recipe_inv_step: "recipe_inv st \<Longrightarrow> recipe_inv (recipe_step st b)"
  by (auto simp: recipe_inv_def recipe_step_def handle_before_mount_def dispose_all_def Let_def)

interpretation recipe: event_machine recipe_step recipe_inv
  by unfold_locales (rule recipe_inv_step)

text \<open>
  However often the editor is mounted, one provider is registered at most, and none after the
  component is gone: suggestions are never doubled.
\<close>

theorem one_provider:
  "length (re_registered (foldl recipe_step recipe_init es)) \<le> 1
   \<and> re_registered (recipe_step (foldl recipe_step recipe_init es) False) = []"
proof -
  have "recipe_inv recipe_init" by (simp add: recipe_inv_def recipe_init_def)
  then have "recipe_inv (foldl recipe_step recipe_init es)" by (rule recipe.run_inv)
  then show ?thesis by (simp add: recipe_inv_def recipe_step_def dispose_all_def)
qed

section \<open>What is suggested\<close>

lemma suggest_fields [simp]:
  "sg_label (suggest k l i d s) = l" "sg_kind (suggest k l i d s) = k" "sg_insert (suggest k l i d s) = i"
  by (simp_all add: suggest_def)

text \<open>
  A suggestion is inserted as it is labelled, except for a template, which is only offered once
  the braces are open: it lacks the opening braces and closes them.
\<close>

theorem completions_inserted:
  "\<forall>s \<in> set (provide_completions refs paths keys before).
     if sg_kind s = SnippetKind then js_includes ''{{'' before \<and> sg_label s = ''{{'' @ sg_insert s
     else sg_insert s = sg_label s"
proof -
  have base: "sg_insert s = sg_label s \<and> sg_kind s \<noteq> SnippetKind" if "s \<in> set (ref_suggestions refs @ path_suggestions paths)" for s
    using that by (auto simp: ref_suggestions_def path_suggestions_def)
  have template: "sg_kind s = SnippetKind \<and> sg_label s = ''{{'' @ sg_insert s" if "s \<in> set (template_suggestions refs paths)" for s
    using that by (auto simp: template_suggestions_def)
  have tail: "sg_insert s = sg_label s \<and> sg_kind s \<noteq> SnippetKind"
    if "s \<in> set (action_suggestions keys) \<union> set (resource_suggestions keys) \<union> set operator_suggestions
      \<union> set match_suggestions \<union> set keyword_suggestions" for s
    using that by (auto simp: action_suggestions_def resource_suggestions_def operator_suggestions_def match_suggestions_def
        keyword_suggestions_def)
  show ?thesis
    unfolding provide_completions_def Let_def using base template tail by auto
qed

text \<open>Only resource types that some action has are offered after \<open>ref:\<close>, each once.\<close>

lemma resources_once: "distinct (map sg_label (resource_suggestions keys)) \<and>
    set (map sg_label (resource_suggestions keys)) = ak_resource ` set keys - {[]}"
  by (auto simp: resource_suggestions_def comp_def distinct_set_of set_set_of)

end
